(* ===== verification/Prelude.thy ===== *)
theory Prelude
  imports Main "HOL-Library.Word" "HOL-Library.Multiset"
begin

text \<open>
  What every component of the development shares: the outcome of a Go call that may panic, the
  error values the code builds, Go maps (a nil map is not an empty one), 64-bit signed arithmetic
  as \<open>time.Duration\<close> has it, the documented contract of \<open>sort.Slice\<close>, and the generic lemmas on
  lists and maps behind them.
\<close>

named_theorems go_simps "unfolding rules of the small Go helpers"
named_theorems outcome_simps "facts that evaluate the outcome of a modelled operation"

section \<open>Outcomes and errors\<close>

text \<open>A Go call returns, or it panics (a failed type assertion, an index out of range, a nil
  pointer).\<close>

datatype 'a go_out = Ret 'a | Panic string

fun is_panic :: "'a go_out \<Rightarrow> bool" where
  "is_panic (Ret _) = False"
| "is_panic (Panic _) = True"

text \<open>
  The error values. The first constructor is every error made by code outside this repository (the
  API server, client-go, the cron parser); the others are the errors the repository's own code
  makes, one constructor for each message.
\<close>

datatype go_error =
    ExtErr string
  | ErrTimeParse
  | ErrScheduleParse go_error
  | ErrExpectedString
  | ErrSyncing string go_error
  | ErrInvalidKey string
  | ErrNoLongerExists string
  | ErrResourceExists string
  | ErrCacheSync
  | ErrPodType
  | ErrTombstoneType
  | ErrScheduleTimeNotFound
  | ErrTooManyMissed
  | ErrMustNotBeNil
  | ErrNameRequired
  | ErrBurst
  | ErrNoInformer
  | ErrAtoi
  | ErrAddr string

section \<open>Go maps\<close>

text \<open>\<open>None\<close> is the nil map: it can be read and ranged over, and a write to it panics.\<close>

type_synonym go_map = "(string \<rightharpoonup> string) option"

definition go_map_get :: "go_map \<Rightarrow> string \<Rightarrow> string" where
  "go_map_get m k = (case m of None \<Rightarrow> '''' | Some f \<Rightarrow> (case f k of None \<Rightarrow> '''' | Some v \<Rightarrow> v))"

text \<open>\<open>for k, v := range src { dst[k] = v }\<close> on a non-nil \<open>dst\<close>.\<close>

definition go_map_copy :: "(string \<rightharpoonup> string) \<Rightarrow> go_map \<Rightarrow> (string \<rightharpoonup> string)" where
  "go_map_copy dst src = (case src of None \<Rightarrow> dst | Some f \<Rightarrow> dst ++ f)"

fun range_assign :: "('k \<rightharpoonup> 'v) \<Rightarrow> ('k \<times> 'v) list \<Rightarrow> ('k \<rightharpoonup> 'v)" where
  "range_assign dst [] = dst"
| "range_assign dst ((k, v) # es) = range_assign (dst(k \<mapsto> v)) es"

lemma range_assign_map_of:
  "distinct (map fst es) \<Longrightarrow> range_assign dst es = dst ++ map_of es"
proof (induction es arbitrary: dst)
  case Nil
  then show ?case by simp
next
  case (Cons e es)
  obtain k v where e: "e = (k, v)" by (cases e)
  with Cons.prems have "k \<notin> dom (map_of es)" by (auto simp: dom_map_of_conv_image_fst)
  then have upd: "dst(k \<mapsto> v) ++ map_of es = (dst ++ map_of es)(k \<mapsto> v)"
    by (rule map_add_upd_left)
  have "range_assign dst (e # es) = dst(k \<mapsto> v) ++ map_of es"
    using Cons by (simp add: e)
  also have "\<dots> = dst ++ map_of (e # es)"
    unfolding upd by (simp add: e)
  finally show ?case .
qed

text \<open>The order in which Go ranges over a map does not change what the copy holds.\<close>

lemma range_assign_go_map_copy:
  assumes "distinct (map fst es)" and "map_of es = f"
  shows "range_assign dst es = go_map_copy dst (Some f)"
  using assms by (simp add: range_assign_map_of go_map_copy_def)

lemma go_map_copy_None [go_simps, simp]: "go_map_copy dst None = dst"
  by (simp add: go_map_copy_def)

lemma go_map_copy_Some [go_simps, simp]: "go_map_copy dst (Some f) = dst ++ f"
  by (simp add: go_map_copy_def)

lemma go_map_get_None [go_simps, simp]: "go_map_get None k = ''''"
  by (simp add: go_map_get_def)

lemma go_map_get_upd [go_simps, simp]: "go_map_get (Some (m(k \<mapsto> v))) k = v"
  by (simp add: go_map_get_def)

section \<open>64-bit signed arithmetic\<close>

text \<open>\<open>time.Duration\<close> is an \<open>int64\<close>: products and sums wrap around.\<close>

definition wrap64 :: "int \<Rightarrow> int" where
  "wrap64 x = (x + 2 ^ 63) mod 2 ^ 64 - 2 ^ 63"

definition min_int64 :: int where
  "min_int64 = - (2 ^ 63)"

definition max_int64 :: int where
  "max_int64 = 2 ^ 63 - 1"

lemma wrap64_sint: "wrap64 x = sint (word_of_int x :: 64 word)"
  by (simp add: wrap64_def sint_sbintrunc' signed_take_bit_eq_take_bit_shift take_bit_eq_mod)

lemma wrap64_range: "min_int64 \<le> wrap64 x \<and> wrap64 x \<le> max_int64"
proof -
  have "0 \<le> (x + 2 ^ 63) mod 2 ^ 64" and "(x + 2 ^ 63) mod 2 ^ 64 < (2 :: int) ^ 64"
    by simp_all
  then show ?thesis by (simp add: wrap64_def min_int64_def max_int64_def)
qed

lemma wrap64_id [simp]: "min_int64 \<le> x \<Longrightarrow> x \<le> max_int64 \<Longrightarrow> wrap64 x = x"
  by (simp add: wrap64_def min_int64_def max_int64_def)

lemma wrap64_fixed: "wrap64 x = x \<longleftrightarrow> min_int64 \<le> x \<and> x \<le> max_int64"
  using wrap64_range [of x] by auto

section \<open>sort.Slice\<close>

text \<open>
  \<open>sort.Slice\<close> is documented to sort the slice by \<open>less\<close> and not to be stable: all a caller may
  rely on is that the result is a permutation with no later element less than an earlier one.
\<close>

definition sorted_by :: "('a \<Rightarrow> 'a \<Rightarrow> bool) \<Rightarrow> 'a list \<Rightarrow> bool" where
  "sorted_by lt xs \<longleftrightarrow> sorted_wrt (\<lambda>x y. \<not> lt y x) xs"

definition sort_slice_spec :: "(('a \<Rightarrow> 'a \<Rightarrow> bool) \<Rightarrow> 'a list \<Rightarrow> 'a list) \<Rightarrow> ('a \<Rightarrow> 'a \<Rightarrow> bool) \<Rightarrow> bool" where
  "sort_slice_spec srt lt \<longleftrightarrow> (\<forall>xs. mset (srt lt xs) = mset xs \<and> sorted_by lt (srt lt xs))"

text \<open>One function that has the contract: insertion, as Go runs it on slices of at most 12
  elements.\<close>

fun insert_by :: "('a \<Rightarrow> 'a \<Rightarrow> bool) \<Rightarrow> 'a \<Rightarrow> 'a list \<Rightarrow> 'a list" where
  "insert_by lt x [] = [x]"
| "insert_by lt x (y # ys) = (if lt y x then y # insert_by lt x ys else x # y # ys)"

fun insertion_sort_by :: "('a \<Rightarrow> 'a \<Rightarrow> bool) \<Rightarrow> 'a list \<Rightarrow> 'a list" where
  "insertion_sort_by lt [] = []"
| "insertion_sort_by lt (x # xs) = insert_by lt x (insertion_sort_by lt xs)"

lemma mset_insert_by [simp]: "mset (insert_by lt x xs) = add_mset x (mset xs)"
  by (induction xs) auto

lemma mset_insertion_sort_by [simp]: "mset (insertion_sort_by lt xs) = mset xs"
  by (induction xs) auto

lemma set_insert_by [simp]: "set (insert_by lt x xs) = insert x (set xs)"
  by (induction xs) auto

text \<open>What \<open>less\<close> has to be for a sort by it to make sense: a strict weak order.\<close>

definition strict_weak :: "('a \<Rightarrow> 'a \<Rightarrow> bool) \<Rightarrow> bool" where
  "strict_weak lt \<longleftrightarrow>
     (\<forall>x y. lt x y \<longrightarrow> \<not> lt y x) \<and> (\<forall>x y z. \<not> lt y x \<longrightarrow> \<not> lt z y \<longrightarrow> \<not> lt z x)"

lemma strict_weakD:
  assumes "strict_weak lt"
  shows "lt x y \<Longrightarrow> \<not> lt y x" and "\<not> lt y x \<Longrightarrow> \<not> lt z y \<Longrightarrow> \<not> lt z x"
  using assms unfolding strict_weak_def by blast+

lemma sorted_by_insert_by:
  assumes sw: "strict_weak lt" and "sorted_by lt xs"
  shows "sorted_by lt (insert_by lt x xs)"
  using assms(2)
proof (induction xs)
  case Nil
  then show ?case by (simp add: sorted_by_def)
next
  case (Cons y ys)
  from Cons.prems have ys: "sorted_by lt ys" and y: "\<forall>z \<in> set ys. \<not> lt z y"
    by (simp_all add: sorted_by_def)
  show ?case
  proof (cases "lt y x")
    case True
    then have "\<not> lt x y" using strict_weakD(1) [OF sw] by blast
    with True Cons.IH [OF ys] y show ?thesis by (simp add: sorted_by_def)
  next
    case False
    then have "\<forall>z \<in> set ys. \<not> lt z x" using y strict_weakD(2) [OF sw] by blast
    with False y ys show ?thesis by (simp add: sorted_by_def)
  qed
qed

lemma insertion_sort_by_spec: "strict_weak lt \<Longrightarrow> sort_slice_spec insertion_sort_by lt"
proof -
  assume sw: "strict_weak lt"
  have "sorted_by lt (insertion_sort_by lt xs)" for xs
    by (induction xs) (simp_all add: sorted_by_insert_by [OF sw], simp add: sorted_by_def)
  then show ?thesis by (simp add: sort_slice_spec_def)
qed

lemma sort_slice_specD:
  assumes "sort_slice_spec srt lt"
  shows "mset (srt lt xs) = mset xs" and "sorted_by lt (srt lt xs)"
    and "length (srt lt xs) = length xs" and "set (srt lt xs) = set xs"
proof -
  show ms: "mset (srt lt xs) = mset xs" and "sorted_by lt (srt lt xs)"
    using assms by (simp_all add: sort_slice_spec_def)
  show "length (srt lt xs) = length xs" using ms by (rule mset_eq_length)
  show "set (srt lt xs) = set xs" using ms by (rule mset_eq_setD)
qed

end
