(* ===== verification/GoTime.thy ===== *)
theory GoTime
  imports Prelude
begin

text \<open>
  The part of Go's \<open>time\<close> package that the controllers use. A \<open>time.Time\<close> is its instant: the
  number of nanoseconds since January 1 of year 1 in UTC, so that the zero \<open>Time\<close> is 0 and
  \<open>After\<close>, \<open>Before\<close> and \<open>IsZero\<close> are comparisons; the \<open>Location\<close> only matters where a time is
  parsed in it or formatted, and is an argument there. Instants are unbounded: the \<open>int64\<close> count of
  seconds that Go keeps spans 292 thousand million years. A \<open>time.Duration\<close> is an \<open>int64\<close> count of
  nanoseconds and wraps around. The layouts are parsed and printed character by character, with the
  leniencies of \<open>time.Parse\<close> (a one-digit hour, a fraction the layout does not name, any run of
  blanks for a blank).
\<close>

section \<open>Instants and durations\<close>

type_synonym gotime = int
type_synonym duration = int

definition Second :: duration where
  "Second = 1000000000"

definition time_Add :: "gotime \<Rightarrow> duration \<Rightarrow> gotime" where
  "time_Add t d = t + d"

text \<open>\<open>Sub\<close> saturates: it adds the wrapped difference back to see whether it overflowed.\<close>

definition time_Sub :: "gotime \<Rightarrow> gotime \<Rightarrow> duration" where
  "time_Sub t u =
     (let d = wrap64 (t - u)
      in if time_Add u d = t then d else if t < u then min_int64 else max_int64)"

definition time_IsZero :: "gotime \<Rightarrow> bool" where
  "time_IsZero t \<longleftrightarrow> t = 0"

definition dur_mul :: "duration \<Rightarrow> duration \<Rightarrow> duration" where
  "dur_mul a b = wrap64 (a * b)"

lemma time_Sub_eq:
  "time_Sub t u = max min_int64 (min max_int64 (t - u))"
proof (cases "min_int64 \<le> t - u \<and> t - u \<le> max_int64")
  case True
  then show ?thesis by (simp add: time_Sub_def time_Add_def Let_def)
next
  case False
  then have "u + wrap64 (t - u) \<noteq> t"
    using wrap64_fixed [of "t - u"] by linarith
  with False show ?thesis
    by (auto simp: time_Sub_def time_Add_def Let_def min_int64_def max_int64_def)
qed

lemma time_Sub_pos: "0 < time_Sub t u \<longleftrightarrow> u < t"
  by (auto simp: time_Sub_eq min_int64_def max_int64_def)

lemma time_Sub_range: "min_int64 \<le> time_Sub t u \<and> time_Sub t u \<le> max_int64"
  by (simp add: time_Sub_eq min_int64_def max_int64_def)

section \<open>The calendar\<close>

definition is_leap :: "int \<Rightarrow> bool" where
  "is_leap y \<longleftrightarrow> y mod 4 = 0 \<and> (y mod 100 \<noteq> 0 \<or> y mod 400 = 0)"

definition days_before_month :: "int list" where
  "days_before_month = [0, 31, 59, 90, 120, 151, 181, 212, 243, 273, 304, 334, 365]"

definition days_in :: "int \<Rightarrow> int \<Rightarrow> int" where
  "days_in m y =
     (if m = 2 \<and> is_leap y then 29
      else days_before_month ! nat m - days_before_month ! nat (m - 1))"

definition days_before_year :: "int \<Rightarrow> int" where
  "days_before_year y = 365 * (y - 1) + (y - 1) div 4 - (y - 1) div 100 + (y - 1) div 400"

text \<open>\<open>time.Date\<close>: days since January 1 of year 1.\<close>

definition yday_of :: "bool \<Rightarrow> int \<Rightarrow> int \<Rightarrow> int" where
  "yday_of leap m d =
     days_before_month ! nat (m - 1) + (if leap \<and> 3 \<le> m then 1 else 0) + (d - 1)"

definition days_of_civil :: "int \<Rightarrow> int \<Rightarrow> int \<Rightarrow> int" where
  "days_of_civil y m d = days_before_year y + yday_of (is_leap y) m d"

text \<open>\<open>absDate\<close>: the year by cycles of 400, 100, 4 and 1 years, then the month by a guess of 31
  days each.\<close>

definition year_of_days :: "int \<Rightarrow> int \<times> int" where
  "year_of_days d0 =
     (let n4 = d0 div 146097; d = d0 mod 146097;
          a = d div 36524; a = a - a div 4; d = d - 36524 * a;
          b = d div 1461; d = d - 1461 * b;
          c = d div 365; c = c - c div 4; d = d - 365 * c
      in (400 * n4 + 100 * a + 4 * b + c + 1, d))"

definition month_day :: "bool \<Rightarrow> int \<Rightarrow> int \<times> int" where
  "month_day leap yd =
     (if leap \<and> yd = 59 then (2, 29)
      else
        let d = (if leap \<and> 59 < yd then yd - 1 else yd);
            m = d div 31; nxt = days_before_month ! nat (m + 1)
        in if nxt \<le> d then (m + 2, d - nxt + 1)
           else (m + 1, d - days_before_month ! nat m + 1))"

definition civil_of_days :: "int \<Rightarrow> int \<times> int \<times> int" where
  "civil_of_days d0 =
     (let (y, yd) = year_of_days d0; (m, d) = month_day (is_leap y) yd in (y, m, d))"

text \<open>A year and a day of the year, back to the days before.\<close>

lemma mod_succ_0:
  fixes y k q r :: int
  assumes "y = k * q + r + 1" and "0 \<le> r" and "r < k"
  shows "y mod k = 0 \<longleftrightarrow> r = k - 1"
proof (cases "r = k - 1")
  case True
  then have "y = k * (q + 1)" using assms(1) by (simp add: algebra_simps)
  with True show ?thesis by simp
next
  case False
  then have "y mod k = r + 1"
    using assms by (intro int_mod_pos_eq [of _ _ q]) auto
  with False assms(2) show ?thesis by simp
qed

lemma div_of_sum:
  fixes k q r :: int
  shows "0 \<le> r \<Longrightarrow> r < k \<Longrightarrow> (k * q + r) div k = q"
  by (rule int_div_pos_eq [of _ _ _ r]) auto

lemma cycle_year:
  fixes n a b c :: int
  assumes y: "y = 400 * n + 100 * a + 4 * b + c + 1"
    and a: "0 \<le> a" "a \<le> 3" and b: "0 \<le> b" "b \<le> 24" and c: "0 \<le> c" "c \<le> 3"
  shows "days_before_year y = 146097 * n + 36524 * a + 1461 * b + 365 * c"
    and "is_leap y \<longleftrightarrow> c = 3 \<and> (b \<noteq> 24 \<or> a = 3)"
proof -
  have "(y - 1) div 4 = 100 * n + 25 * a + b" and "(y - 1) div 100 = 4 * n + a"
    and "(y - 1) div 400 = n"
    using a b c div_of_sum [of c 4 "100 * n + 25 * a + b"]
      div_of_sum [of "4 * b + c" 100 "4 * n + a"] div_of_sum [of "100 * a + 4 * b + c" 400 n]
    by (simp_all add: y algebra_simps)
  then show "days_before_year y = 146097 * n + 36524 * a + 1461 * b + 365 * c"
    by (simp add: days_before_year_def y)
  have "y mod 4 = 0 \<longleftrightarrow> c = 3"
    using mod_succ_0 [of y 4 "100 * n + 25 * a + b" c] c by (simp add: y)
  moreover have "y mod 100 = 0 \<longleftrightarrow> b = 24 \<and> c = 3"
    using mod_succ_0 [of y 100 "4 * n + a" "4 * b + c"] b c by (simp add: y) linarith
  moreover have "y mod 400 = 0 \<longleftrightarrow> a = 3 \<and> b = 24 \<and> c = 3"
    using mod_succ_0 [of y 400 n "100 * a + 4 * b + c"] a b c by (simp add: y) linarith
  ultimately show "is_leap y \<longleftrightarrow> c = 3 \<and> (b \<noteq> 24 \<or> a = 3)"
    by (auto simp: is_leap_def)
qed

lemma cap_3:
  fixes q :: int
  shows "0 \<le> q \<Longrightarrow> q \<le> 4 \<Longrightarrow> q - q div 4 = min q 3"
  by (cases "q = 4") auto

lemma div_bounds:
  fixes x k :: int
  assumes "0 < k"
  shows "k * (x div k) \<le> x" and "x < k * (x div k) + k"
  using pos_mod_sign [OF assms, of x] pos_mod_bound [OF assms, of x] mult_div_mod_eq [of k x]
  by linarith+

lemma year_of_days_sound:
  assumes "year_of_days d0 = (y, yd)"
  shows "days_before_year y + yd = d0" and "0 \<le> yd" and "yd < (if is_leap y then 366 else 365)"
proof -
  define n where "n = d0 div 146097"
  define d where "d = d0 mod 146097"
  define a where "a = d div 36524 - d div 36524 div 4"
  define e where "e = d - 36524 * a"
  define b where "b = e div 1461"
  define f where "f = e - 1461 * b"
  define c where "c = f div 365 - f div 365 div 4"
  have d0: "d0 = 146097 * n + d" and d: "0 \<le> d" "d \<le> 146096"
    by (simp_all add: n_def d_def)
  have "0 \<le> d div 36524" "d div 36524 \<le> 4"
    using d div_bounds [of 36524 d] by linarith+
  then have a_min: "a = min (d div 36524) 3" unfolding a_def by (rule cap_3)
  then have a: "0 \<le> a" "a \<le> 3" and e: "0 \<le> e" "e \<le> 36524" "e = 36524 \<longrightarrow> a = 3"
    using d div_bounds [of 36524 d] unfolding e_def by linarith+
  have b: "0 \<le> b" "b \<le> 24" and f: "0 \<le> f" "f \<le> 1460" "f = 1460 \<and> b = 24 \<longrightarrow> a = 3"
    using e div_bounds [of 1461 e] unfolding f_def b_def by linarith+
  have "0 \<le> f div 365" "f div 365 \<le> 4"
    using f div_bounds [of 365 f] by linarith+
  then have c_min: "c = min (f div 365) 3" unfolding c_def by (rule cap_3)
  then have c: "0 \<le> c" "c \<le> 3" and g: "0 \<le> f - 365 * c" "f - 365 * c \<le> 365"
      "f - 365 * c = 365 \<longrightarrow> c = 3 \<and> f = 1460"
    using f div_bounds [of 365 f] by linarith+
  have y: "y = 400 * n + 100 * a + 4 * b + c + 1" and yd: "yd = f - 365 * c"
  proof -
    have "year_of_days d0 = (400 * n + 100 * a + 4 * b + c + 1, f - 365 * c)"
      unfolding year_of_days_def Let_def
      by (simp only: n_def [symmetric] d_def [symmetric] a_def [symmetric] e_def [symmetric]
          b_def [symmetric] f_def [symmetric] c_def [symmetric])
    with assms show "y = 400 * n + 100 * a + 4 * b + c + 1" and "yd = f - 365 * c" by simp_all
  qed
  note cy = cycle_year [OF y a b c]
  show "days_before_year y + yd = d0"
    unfolding cy(1) yd d0 by (simp add: e_def f_def)
  show "0 \<le> yd" using g(1) by (simp add: yd)
  show "yd < (if is_leap y then 366 else 365)"
  proof (cases "f - 365 * c = 365")
    case True
    with g(3) f(3) have "is_leap y" unfolding cy(2) by blast
    with g(2) show ?thesis by (simp add: yd)
  next
    case False
    with g(2) show ?thesis by (simp add: yd)
  qed
qed

text \<open>All days of both kinds of year, by evaluation: the month and day are in range and count back
  to the same day of the year.\<close>

definition month_day_ok :: "bool \<Rightarrow> int \<Rightarrow> bool" where
  "month_day_ok leap yd =
     (let (m, d) = month_day leap yd
      in 1 \<le> m \<and> m \<le> 12 \<and> 1 \<le> d \<and> d \<le> 31 \<and> yday_of leap m d = yd \<and>
         d \<le> (if m = 2 \<and> leap then 29
              else days_before_month ! nat m - days_before_month ! nat (m - 1)))"

lemma month_day_ok_all: "list_all (month_day_ok False) [0..364] \<and> list_all (month_day_ok True) [0..365]"
  by code_simp

lemma month_day_ok:
  assumes "0 \<le> yd" and "yd < (if leap then 366 else 365)"
  shows "month_day_ok leap yd"
proof (cases leap)
  case True
  then show ?thesis using assms month_day_ok_all by (auto simp: list_all_iff)
next
  case False
  then show ?thesis using assms month_day_ok_all by (auto simp: list_all_iff)
qed

lemma civil_of_days_sound:
  assumes "civil_of_days d0 = (y, m, d)"
  shows "days_of_civil y m d = d0" and "1 \<le> m" and "m \<le> 12" and "1 \<le> d" and "d \<le> days_in m y"
    and "d \<le> 31"
proof -
  obtain y' yd where yy: "year_of_days d0 = (y', yd)" by fastforce
  with assms have y': "y' = y" and md: "month_day (is_leap y) yd = (m, d)"
    by (auto simp: civil_of_days_def split: prod.splits)
  note ys = year_of_days_sound [OF yy [unfolded y']]
  have ok: "month_day_ok (is_leap y) yd" by (rule month_day_ok [OF ys(2,3)])
  then show "1 \<le> m" "m \<le> 12" "1 \<le> d" "d \<le> 31" and "d \<le> days_in m y"
    by (simp_all add: month_day_ok_def md days_in_def)
  from ok have "yday_of (is_leap y) m d = yd" by (simp add: month_day_ok_def md)
  with ys(1) show "days_of_civil y m d = d0" by (simp add: days_of_civil_def)
qed

section \<open>Digits\<close>

definition digit :: "nat \<Rightarrow> char" where
  "digit n = char_of (48 + n)"

definition digit_val :: "char \<Rightarrow> nat" where
  "digit_val c = of_char c - 48"

definition isDigit :: "string \<Rightarrow> nat \<Rightarrow> bool" where
  "isDigit s i \<longleftrightarrow> i < length s \<and> 48 \<le> (of_char (s ! i) :: nat) \<and> (of_char (s ! i) :: nat) \<le> 57"

fun decimal :: "nat \<Rightarrow> string" where
  "decimal n = (if n < 10 then [digit n] else decimal (n div 10) @ [digit (n mod 10)])"

declare decimal.simps [simp del]

text \<open>\<open>appendInt\<close>: the decimal form, padded with zeros to the width, after a minus sign where
  there is one.\<close>

definition appendInt :: "int \<Rightarrow> nat \<Rightarrow> string" where
  "appendInt x w =
     (let ds = decimal (nat \<bar>x\<bar>); padded = replicate (w - length ds) (CHR ''0'') @ ds
      in if x < 0 then CHR ''-'' # padded else padded)"

lemma of_char_digit [simp]: "n < 10 \<Longrightarrow> (of_char (digit n) :: nat) = 48 + n"
  by (simp add: digit_def)

lemma digit_val_digit [simp]: "n < 10 \<Longrightarrow> digit_val (digit n) = n"
  by (simp add: digit_val_def)

lemma isDigit_0 [simp]: "isDigit (c # s) 0 \<longleftrightarrow> 48 \<le> (of_char c :: nat) \<and> (of_char c :: nat) \<le> 57"
  by (simp add: isDigit_def)

lemma isDigit_Suc [simp]: "isDigit (c # s) (Suc i) \<longleftrightarrow> isDigit s i"
  by (simp add: isDigit_def)

lemma isDigit_Nil [simp]: "\<not> isDigit [] i"
  by (simp add: isDigit_def)

lemma digit_0: "digit 0 = CHR ''0''"
  by code_simp

lemma decimal_small: "n < 10 \<Longrightarrow> decimal n = [digit n]"
  by (simp add: decimal.simps [of n])

lemma decimal_big: "10 \<le> n \<Longrightarrow> decimal n = decimal (n div 10) @ [digit (n mod 10)]"
  by (simp add: decimal.simps [of n])

lemma decimal_2:
  assumes "n < 100"
  shows "replicate (2 - length (decimal n)) (CHR ''0'') @ decimal n =
    [digit (n div 10), digit (n mod 10)]"
proof (cases "n < 10")
  case True
  then show ?thesis by (simp add: decimal_small digit_0 numeral_3_eq_3)
next
  case False
  with assms have "n div 10 < 10" and "10 \<le> n" by linarith+
  then show ?thesis by (simp add: decimal_big decimal_small)
qed

lemma decimal_4:
  assumes "n < 10000"
  shows "replicate (4 - length (decimal n)) (CHR ''0'') @ decimal n =
    [digit (n div 10 div 10 div 10), digit (n div 10 div 10 mod 10), digit (n div 10 mod 10),
     digit (n mod 10)]"
proof -
  have *: "decimal m = (if m < 10 then [digit m] else decimal (m div 10) @ [digit (m mod 10)])" for m
    by (rule decimal.simps)
  consider "n < 10" | "10 \<le> n" "n div 10 < 10" | "10 \<le> n div 10" "n div 10 div 10 < 10"
    | "10 \<le> n div 10 div 10" "n div 10 div 10 div 10 < 10"
    using assms by linarith
  then show ?thesis
  proof cases
    case 1
    then show ?thesis by (simp add: decimal_small digit_0 numeral_3_eq_3)
  next
    case 2
    then have "decimal n = [digit (n div 10), digit (n mod 10)]"
      by (simp only: decimal_big [of n] decimal_small [of "n div 10"]) simp
    with 2 show ?thesis by (simp add: digit_0 numeral_2_eq_2)
  next
    case 3
    then have "10 \<le> n" by linarith
    with 3 have "decimal n = [digit (n div 10 div 10), digit (n div 10 mod 10), digit (n mod 10)]"
      by (simp only: decimal_big [of n] decimal_big [of "n div 10"] decimal_small) simp
    with 3 show ?thesis by (simp add: digit_0 del: div_mult2_eq [symmetric])
  next
    case 4
    then have "10 \<le> n" and "10 \<le> n div 10" by linarith+
    with 4 have "decimal n = [digit (n div 10 div 10 div 10), digit (n div 10 div 10 mod 10),
        digit (n div 10 mod 10), digit (n mod 10)]"
      by (simp only: decimal_big [of n] decimal_big [of "n div 10"] decimal_big [of "n div 10 div 10"]
          decimal_small) simp
    with 4 show ?thesis by simp
  qed
qed

section \<open>Layouts\<close>

text \<open>The chunks that \<open>nextStdChunk\<close> finds in the two layouts of the repository.\<close>

datatype chunk =
    Lit char
  | StdLongYear
  | StdZeroMonth
  | StdZeroDay
  | StdHour
  | StdZeroMinute
  | StdZeroSecond
  | StdISO8601ColonTZ

text \<open>\<open>"2006-01-02 15:04:05"\<close> and \<open>time.RFC3339\<close>.\<close>

definition layout_DateTime :: "chunk list" where
  "layout_DateTime =
     [StdLongYear, Lit (CHR ''-''), StdZeroMonth, Lit (CHR ''-''), StdZeroDay, Lit (CHR '' ''),
      StdHour, Lit (CHR '':''), StdZeroMinute, Lit (CHR '':''), StdZeroSecond]"

definition layout_RFC3339 :: "chunk list" where
  "layout_RFC3339 =
     [StdLongYear, Lit (CHR ''-''), StdZeroMonth, Lit (CHR ''-''), StdZeroDay, Lit (CHR ''T''),
      StdHour, Lit (CHR '':''), StdZeroMinute, Lit (CHR '':''), StdZeroSecond, StdISO8601ColonTZ]"

record time_fields =
  f_year :: int
  f_month :: int
  f_day :: int
  f_hour :: int
  f_min :: int
  f_sec :: int
  f_nsec :: int
  f_zone :: "int option"

definition no_fields :: time_fields where
  "no_fields = \<lparr>f_year = 0, f_month = -1, f_day = -1, f_hour = 0, f_min = 0, f_sec = 0,
     f_nsec = 0, f_zone = None\<rparr>"

section \<open>Parsing\<close>

text \<open>\<open>getnum\<close>: two digits, or one digit where the chunk is not a fixed one.\<close>

definition getnum :: "string \<Rightarrow> bool \<Rightarrow> (int \<times> string) option" where
  "getnum s fixed =
     (if \<not> isDigit s 0 then None
      else if \<not> isDigit s 1 then
        (if fixed then None else Some (int (digit_val (s ! 0)), drop 1 s))
      else Some (int (digit_val (s ! 0)) * 10 + int (digit_val (s ! 1)), drop 2 s))"

text \<open>\<open>skip\<close> of one layout character: a blank takes any run of blanks (and nothing at the end of the
  value), any other character takes itself.\<close>

definition skip_char :: "char \<Rightarrow> string \<Rightarrow> string option" where
  "skip_char c s =
     (if c = CHR '' '' then
        (if s \<noteq> [] \<and> hd s \<noteq> CHR '' '' then None else Some (dropWhile (\<lambda>x. x = CHR '' '') s))
      else case s of [] \<Rightarrow> None | x # xs \<Rightarrow> (if x = c then Some xs else None))"

definition digits_val :: "string \<Rightarrow> int" where
  "digits_val ds = foldl (\<lambda>n c. n * 10 + int (digit_val c)) 0 ds"

text \<open>The fraction of a second that the layout does not name, and \<open>parseNanoseconds\<close>: at most nine
  digits count.\<close>

definition take_fraction :: "string \<Rightarrow> int \<times> string" where
  "take_fraction s =
     (if 2 \<le> length s \<and> (s ! 0 = CHR ''.'' \<or> s ! 0 = CHR '','') \<and> isDigit s 1 then
        let ds = takeWhile (\<lambda>c. isDigit [c] 0) (drop 1 s); n = min 9 (length ds)
        in (digits_val (take n ds) * 10 ^ (9 - n), drop (1 + length ds) s)
      else (0, s))"

text \<open>The numeric zone: hours up to 24 and minutes up to 60 are accepted.\<close>

definition parse_zone :: "string \<Rightarrow> (int \<times> string) option" where
  "parse_zone s =
     (if s \<noteq> [] \<and> s ! 0 = CHR ''Z'' then Some (0, drop 1 s)
      else if length s < 6 then None
      else if s ! 3 \<noteq> CHR '':'' then None
      else case getnum (take 2 (drop 1 s)) True of
          None \<Rightarrow> None
        | Some (hr, _) \<Rightarrow>
            (case getnum (take 2 (drop 4 s)) True of
               None \<Rightarrow> None
             | Some (mm, _) \<Rightarrow>
                 if 24 < hr \<or> 60 < mm then None
                 else let off = (hr * 60 + mm) * 60
                      in if s ! 0 = CHR ''+'' then Some (off, drop 6 s)
                         else if s ! 0 = CHR ''-'' then Some (- off, drop 6 s)
                         else None))"

definition in_range :: "int \<Rightarrow> int \<Rightarrow> (int \<times> string) option \<Rightarrow> (int \<times> string) option" where
  "in_range lo hi r =
     (case r of None \<Rightarrow> None | Some (n, s) \<Rightarrow> if lo \<le> n \<and> n \<le> hi then Some (n, s) else None)"

definition parse_year :: "string \<Rightarrow> (int \<times> string) option" where
  "parse_year s =
     (if isDigit s 0 \<and> isDigit s 1 \<and> isDigit s 2 \<and> isDigit s 3
      then Some (digits_val (take 4 s), drop 4 s) else None)"

fun parse_chunk :: "chunk \<Rightarrow> time_fields \<Rightarrow> string \<Rightarrow> (time_fields \<times> string) option" where
  "parse_chunk (Lit c) f s = map_option (\<lambda>r. (f, r)) (skip_char c s)"
| "parse_chunk StdLongYear f s = map_option (\<lambda>(n, r). (f\<lparr>f_year := n\<rparr>, r)) (parse_year s)"
| "parse_chunk StdZeroMonth f s =
     map_option (\<lambda>(n, r). (f\<lparr>f_month := n\<rparr>, r)) (in_range 1 12 (getnum s True))"
| "parse_chunk StdZeroDay f s = map_option (\<lambda>(n, r). (f\<lparr>f_day := n\<rparr>, r)) (getnum s True)"
| "parse_chunk StdHour f s =
     map_option (\<lambda>(n, r). (f\<lparr>f_hour := n\<rparr>, r)) (in_range 0 23 (getnum s False))"
| "parse_chunk StdZeroMinute f s =
     map_option (\<lambda>(n, r). (f\<lparr>f_min := n\<rparr>, r)) (in_range 0 59 (getnum s True))"
| "parse_chunk StdZeroSecond f s =
     map_option (\<lambda>(n, r). let (ns, r') = take_fraction r in (f\<lparr>f_sec := n, f_nsec := ns\<rparr>, r'))
       (in_range 0 59 (getnum s True))"
| "parse_chunk StdISO8601ColonTZ f s =
     map_option (\<lambda>(n, r). (f\<lparr>f_zone := Some n\<rparr>, r)) (parse_zone s)"

fun parse_chunks :: "chunk list \<Rightarrow> time_fields \<Rightarrow> string \<Rightarrow> time_fields option" where
  "parse_chunks [] f s = (if s = [] then Some f else None)"
| "parse_chunks (c # cs) f s =
     (case parse_chunk c f s of None \<Rightarrow> None | Some (f', r) \<Rightarrow> parse_chunks cs f' r)"

text \<open>Seconds since year 1 of a civil date and time in UTC.\<close>

definition civil_seconds :: "time_fields \<Rightarrow> int" where
  "civil_seconds f =
     days_of_civil (f_year f) (f_month f) (f_day f) * 86400 +
     f_hour f * 3600 + f_min f * 60 + f_sec f"

definition unixToInternal :: int where
  "unixToInternal = 62135596800"

text \<open>A location answers, for a Unix second, the zone offset in force and the span of Unix seconds
  for which it is in force. \<open>time.Date\<close> guesses with the local reading and corrects once.\<close>

type_synonym location = "int \<Rightarrow> int \<times> int \<times> int"

definition utc_location :: location where
  "utc_location = (\<lambda>u. (0, u, u + 1))"

definition date_in :: "location \<Rightarrow> time_fields \<Rightarrow> gotime" where
  "date_in loc f =
     (let unix = civil_seconds f - unixToInternal; (off, st, en) = loc unix;
          unix' = (if off \<noteq> 0 then
                     let utc = unix - off
                     in unix - (if utc < st \<or> en \<le> utc then fst (loc utc) else off)
                   else unix)
      in (unix' + unixToInternal) * 1000000000 + f_nsec f)"

text \<open>\<open>parse\<close>: the chunks, the day of the month against the month, and the zone.\<close>

definition parse_in :: "chunk list \<Rightarrow> location \<Rightarrow> string \<Rightarrow> go_error + gotime" where
  "parse_in layout loc s =
     (case parse_chunks layout no_fields s of
        None \<Rightarrow> Inl ErrTimeParse
      | Some f \<Rightarrow>
          if f_day f < 1 \<or> days_in (f_month f) (f_year f) < f_day f then Inl ErrTimeParse
          else Inr (case f_zone f of
              None \<Rightarrow> date_in loc f
            | Some off \<Rightarrow> (civil_seconds f - off) * 1000000000 + f_nsec f))"

definition time_Parse_RFC3339 :: "string \<Rightarrow> go_error + gotime" where
  "time_Parse_RFC3339 s = parse_in layout_RFC3339 utc_location s"

section \<open>Printing\<close>

text \<open>\<open>Format(time.RFC3339)\<close> of an instant in a location whose offset at that instant is \<open>off\<close>
  seconds; the offset prints in whole minutes.\<close>

definition format_zone :: "int \<Rightarrow> string" where
  "format_zone off =
     (if off = 0 then ''Z''
      else let zone = \<bar>off\<bar> div 60
           in (if off \<le> -60 then CHR ''-'' else CHR ''+'') #
              appendInt (zone div 60) 2 @ CHR '':'' # appendInt (zone mod 60) 2)"

definition time_Format_RFC3339 :: "int \<Rightarrow> gotime \<Rightarrow> string" where
  "time_Format_RFC3339 off t =
     (let local = t div 1000000000 + off; (y, m, d) = civil_of_days (local div 86400);
          s = local mod 86400
      in appendInt y 4 @ CHR ''-'' # appendInt m 2 @ CHR ''-'' # appendInt d 2 @ CHR ''T'' #
         appendInt (s div 3600) 2 @ CHR '':'' # appendInt (s mod 3600 div 60) 2 @
         CHR '':'' # appendInt (s mod 60) 2 @ format_zone off)"

section \<open>Printing and parsing back\<close>

lemma appendInt_2: "0 \<le> x \<Longrightarrow> x < 100 \<Longrightarrow>
    appendInt x 2 = [digit (nat x div 10), digit (nat x mod 10)]"
  using decimal_2 [of "nat x"] by (simp add: appendInt_def Let_def)

lemma appendInt_4: "0 \<le> x \<Longrightarrow> x < 10000 \<Longrightarrow>
    appendInt x 4 = [digit (nat x div 10 div 10 div 10), digit (nat x div 10 div 10 mod 10),
      digit (nat x div 10 mod 10), digit (nat x mod 10)]"
  using decimal_4 [of "nat x"] by (simp add: appendInt_def Let_def)

lemma getnum_digits:
  "a < 10 \<Longrightarrow> b < 10 \<Longrightarrow> getnum (digit a # digit b # r) fixed = Some (int (10 * a + b), r)"
  by (simp add: getnum_def)

lemma getnum_appendInt:
  assumes "0 \<le> x" and "x < 100"
  shows "getnum (appendInt x 2 @ r) fixed = Some (x, r)"
proof -
  have "nat x div 10 < 10" using assms by linarith
  moreover have "int (10 * (nat x div 10) + nat x mod 10) = x"
    using assms by (simp only: mult_div_mod_eq)
  ultimately show ?thesis
    using assms by (simp only: appendInt_2 append_Cons append_Nil) (simp add: getnum_digits)
qed

lemma parse_year_digits:
  "a < 10 \<Longrightarrow> b < 10 \<Longrightarrow> c < 10 \<Longrightarrow> d < 10 \<Longrightarrow>
   parse_year (digit a # digit b # digit c # digit d # r) =
     Some (int (((a * 10 + b) * 10 + c) * 10 + d), r)"
  by (simp add: parse_year_def digits_val_def numeral_2_eq_2 numeral_3_eq_3)

lemma parse_year_appendInt:
  assumes "0 \<le> x" and "x < 10000"
  shows "parse_year (appendInt x 4 @ r) = Some (x, r)"
proof -
  let ?n = "nat x"
  have n: "?n div 10 div 10 div 10 < 10" using assms by linarith
  have "((?n div 10 div 10 div 10 * 10 + ?n div 10 div 10 mod 10) * 10 + ?n div 10 mod 10) * 10
      + ?n mod 10 = ?n"
    by (simp only: div_mult_mod_eq)
  with n assms show ?thesis
    using parse_year_digits [OF n, of "?n div 10 div 10 mod 10" "?n div 10 mod 10" "?n mod 10" r]
    by (simp only: appendInt_4 append_Cons append_Nil mod_less_divisor zero_less_numeral int_nat_eq
        if_True)
qed

lemma skip_char_same: "c \<noteq> CHR '' '' \<Longrightarrow> skip_char c (c # r) = Some r"
  by (simp add: skip_char_def)

lemma parse_zone_format_zone:
  assumes "off mod 60 = 0" and "\<bar>off\<bar> < 90000"
  shows "parse_zone (format_zone off) = Some (off, [])"
proof (cases "off = 0")
  case True
  then show ?thesis by (simp add: format_zone_def parse_zone_def)
next
  case False
  define z where "z = \<bar>off\<bar> div 60"
  have z: "0 \<le> z" "z < 1500" and off: "\<bar>off\<bar> = 60 * z"
    using assms by (auto simp: z_def)
  have h: "0 \<le> z div 60" "z div 60 \<le> 24" "z div 60 < 100"
    and m: "0 \<le> z mod 60" "z mod 60 \<le> 60" "z mod 60 < 100"
    using z by (auto simp: order.strict_implies_order)
  obtain a b where hs: "appendInt (z div 60) 2 = [a, b]" using appendInt_2 [OF h(1,3)] by blast
  obtain c d where ms: "appendInt (z mod 60) 2 = [c, d]" using appendInt_2 [OF m(1,3)] by blast
  have gh: "getnum [a, b] True = Some (z div 60, [])"
    using getnum_appendInt [OF h(1,3), of "[]" True] by (simp add: hs)
  have gm: "getnum [c, d] True = Some (z mod 60, [])"
    using getnum_appendInt [OF m(1,3), of "[]" True] by (simp add: ms)
  have total: "(z div 60 * 60 + z mod 60) * 60 = \<bar>off\<bar>" by (simp add: off)
  have "1 \<le> z" using off False z(1) by arith
  then have "off \<le> -60 \<longleftrightarrow> off < 0" using off by arith
  then have "format_zone off = [if off < 0 then CHR ''-'' else CHR ''+'', a, b, CHR '':'', c, d]"
    using False by (simp add: format_zone_def Let_def hs ms flip: z_def)
  then show ?thesis
    using h(2) m(2) total by (auto simp: parse_zone_def Let_def gh gm)
qed

lemma take_fraction_zone: "take_fraction (format_zone off) = (0, format_zone off)"
  by (simp add: take_fraction_def format_zone_def Let_def)

definition year_in :: "int \<Rightarrow> gotime \<Rightarrow> int" where
  "year_in off t = fst (civil_of_days ((t div 1000000000 + off) div 86400))"

text \<open>The clock reading of an instant at a zone offset.\<close>

definition fields_at :: "int \<Rightarrow> gotime \<Rightarrow> int option \<Rightarrow> time_fields" where
  "fields_at off t zone =
     (let local = t div 1000000000 + off; (y, m, d) = civil_of_days (local div 86400);
          s = local mod 86400
      in \<lparr>f_year = y, f_month = m, f_day = d, f_hour = s div 3600, f_min = s mod 3600 div 60,
          f_sec = s mod 60, f_nsec = 0, f_zone = zone\<rparr>)"

lemma fields_at_ranges:
  fixes off t z
  defines "f \<equiv> fields_at off t z"
  shows "f_year f = year_in off t" and "1 \<le> f_month f" "f_month f \<le> 12"
    and "1 \<le> f_day f" "f_day f \<le> 31" "f_day f \<le> days_in (f_month f) (f_year f)"
    and "0 \<le> f_hour f" "f_hour f \<le> 23" "0 \<le> f_min f" "f_min f \<le> 59" "0 \<le> f_sec f" "f_sec f \<le> 59"
    and "f_nsec f = 0" and "f_zone f = z"
    and "civil_seconds f = t div 1000000000 + off"
proof -
  define l where "l = t div 1000000000 + off"
  define s where "s = l mod 86400"
  obtain y m d where ymd: "civil_of_days (l div 86400) = (y, m, d)" by (metis prod_cases3)
  have f: "f = \<lparr>f_year = y, f_month = m, f_day = d, f_hour = s div 3600,
      f_min = s mod 3600 div 60, f_sec = s mod 60, f_nsec = 0, f_zone = z\<rparr>"
    unfolding f_def fields_at_def Let_def
    by (simp only: ymd prod.case l_def [symmetric] s_def [symmetric])
  note c = civil_of_days_sound [OF ymd]
  have s: "0 \<le> s" "s < 86400" by (simp_all add: s_def)
  have r: "0 \<le> s mod 3600" "s mod 3600 < 3600" "0 \<le> s mod 60" "s mod 60 < 60" by simp_all
  show "f_year f = year_in off t" by (simp add: f year_in_def ymd flip: l_def)
  show "1 \<le> f_month f" "f_month f \<le> 12" "1 \<le> f_day f" "f_day f \<le> 31"
    "f_day f \<le> days_in (f_month f) (f_year f)"
    using c by (simp_all add: f)
  show "0 \<le> f_hour f" "f_hour f \<le> 23" "0 \<le> f_min f" "f_min f \<le> 59" "0 \<le> f_sec f" "f_sec f \<le> 59"
    unfolding f time_fields.simps using s r by linarith+
  show "f_nsec f = 0" "f_zone f = z" by (simp_all add: f)
  have "s mod 3600 mod 60 = s mod 60" by (simp add: mod_mod_cancel)
  then have "s div 3600 * 3600 + s mod 3600 div 60 * 60 + s mod 60 = s"
    using div_mult_mod_eq [of s 3600] div_mult_mod_eq [of "s mod 3600" 60] by linarith
  moreover have "l div 86400 * 86400 + s = l" by (simp add: s_def)
  ultimately have "civil_seconds f = l" by (simp add: civil_seconds_def f c(1))
  then show "civil_seconds f = t div 1000000000 + off" by (simp add: l_def)
qed

definition print_date_time :: "char \<Rightarrow> time_fields \<Rightarrow> string" where
  "print_date_time sep f =
     appendInt (f_year f) 4 @ CHR ''-'' # appendInt (f_month f) 2 @ CHR ''-'' #
     appendInt (f_day f) 2 @ sep # appendInt (f_hour f) 2 @ CHR '':'' # appendInt (f_min f) 2 @
     CHR '':'' # appendInt (f_sec f) 2"

lemma time_Format_RFC3339_print:
  "time_Format_RFC3339 off t = print_date_time (CHR ''T'') (fields_at off t z) @ format_zone off"
  by (simp add: time_Format_RFC3339_def print_date_time_def fields_at_def Let_def
      split: prod.splits)

text \<open>The layout of a Greeter's schedule, printed at a zone offset.\<close>

definition time_Format_DateTime :: "int \<Rightarrow> gotime \<Rightarrow> string" where
  "time_Format_DateTime off t = print_date_time (CHR '' '') (fields_at off t None)"

lemma skip_blank: "c \<noteq> CHR '' '' \<Longrightarrow> skip_char (CHR '' '') (CHR '' '' # c # r) = Some (c # r)"
  by (simp add: skip_char_def)

lemma digit_not_blank: "n < 10 \<Longrightarrow> digit n \<noteq> CHR '' ''"
proof
  assume "n < 10" and "digit n = CHR '' ''"
  then have "48 + n = (of_char (CHR '' '') :: nat)" by (metis of_char_digit)
  then show False by simp
qed

lemma skip_blank_appendInt:
  assumes "0 \<le> x" and "x < 100"
  shows "skip_char (CHR '' '') (CHR '' '' # appendInt x 2 @ r) = Some (appendInt x 2 @ r)"
proof -
  have "nat x div 10 < 10" using assms by linarith
  then show ?thesis
    using assms by (simp add: appendInt_2 skip_blank digit_not_blank)
qed

lemma parse_chunks_RFC3339:
  assumes "0 \<le> f_year f" "f_year f < 10000" "1 \<le> f_month f" "f_month f \<le> 12"
    "1 \<le> f_day f" "f_day f \<le> 31" "0 \<le> f_hour f" "f_hour f \<le> 23" "0 \<le> f_min f" "f_min f \<le> 59"
    "0 \<le> f_sec f" "f_sec f \<le> 59" "f_nsec f = 0" "f_zone f = Some off"
    "off mod 60 = 0" "\<bar>off\<bar> < 90000"
  shows "parse_chunks layout_RFC3339 no_fields (print_date_time (CHR ''T'') f @ format_zone off) =
    Some f"
  using assms
  by (simp add: layout_RFC3339_def print_date_time_def no_fields_def parse_year_appendInt
      getnum_appendInt skip_char_same in_range_def take_fraction_zone parse_zone_format_zone)

lemma parse_chunks_DateTime:
  assumes "0 \<le> f_year f" "f_year f < 10000" "1 \<le> f_month f" "f_month f \<le> 12"
    "1 \<le> f_day f" "f_day f \<le> 31" "0 \<le> f_hour f" "f_hour f \<le> 23" "0 \<le> f_min f" "f_min f \<le> 59"
    "0 \<le> f_sec f" "f_sec f \<le> 59" "f_nsec f = 0" "f_zone f = None"
  shows "parse_chunks layout_DateTime no_fields (print_date_time (CHR '' '') f) = Some f"
proof -
  have "take_fraction [] = (0, [])" by (simp add: take_fraction_def)
  moreover have "getnum (appendInt (f_sec f) 2) True = Some (f_sec f, [])"
    using getnum_appendInt [of "f_sec f" "[]"] assms by simp
  ultimately show ?thesis
    using assms
    by (simp add: layout_DateTime_def print_date_time_def no_fields_def parse_year_appendInt
        getnum_appendInt skip_char_same skip_blank_appendInt in_range_def)
qed

theorem parse_format_RFC3339:
  assumes off: "off mod 60 = 0" "\<bar>off\<bar> < 90000"
    and year: "0 \<le> year_in off t" "year_in off t < 10000"
  shows "time_Parse_RFC3339 (time_Format_RFC3339 off t) = Inr (t div 1000000000 * 1000000000)"
proof -
  note f = fields_at_ranges [of off t "Some off"]
  have "parse_chunks layout_RFC3339 no_fields (time_Format_RFC3339 off t) =
      Some (fields_at off t (Some off))"
    unfolding time_Format_RFC3339_print [of off t "Some off"]
    using f year off by (intro parse_chunks_RFC3339) auto
  then show ?thesis
    using f by (simp add: time_Parse_RFC3339_def parse_in_def)
qed

text \<open>A zone with one offset for all time.\<close>

definition fixed_zone :: "int \<Rightarrow> location" where
  "fixed_zone off = (\<lambda>_. (off, min_int64, max_int64))"

lemma days_before_year_bounds:
  assumes "0 \<le> y" "y < 10000"
  shows "-600 \<le> days_before_year y" and "days_before_year y \<le> 3652100"
proof -
  have bounds: "-600 \<le> 365 * (y - 1) + a - b + c \<and> 365 * (y - 1) + a - b + c \<le> 3652100"
    if "-1 \<le> a" "a \<le> 2499" "-1 \<le> b" "b \<le> 100" "-1 \<le> c" "c \<le> 24" for a b c :: int
    unfolding right_diff_distrib using that assms by (intro conjI) linarith+
  have "-1 \<le> (y - 1) div 4" "(y - 1) div 4 \<le> 2499" "-1 \<le> (y - 1) div 100"
      "(y - 1) div 100 \<le> 100" "-1 \<le> (y - 1) div 400" "(y - 1) div 400 \<le> 24"
    using assms by linarith+
  then show "-600 \<le> days_before_year y" and "days_before_year y \<le> 3652100"
    unfolding days_before_year_def using bounds by blast+
qed

lemma fields_at_bound:
  assumes "0 \<le> year_in off t" "year_in off t < 10000"
  shows "- 32000000000 \<le> t div 1000000000 + off" and "t div 1000000000 + off \<le> 316000000000"
proof -
  define l where "l = t div 1000000000 + off"
  obtain y yd where yy: "year_of_days (l div 86400) = (y, yd)" by fastforce
  note s = year_of_days_sound [OF yy]
  have "year_in off t = y" by (simp add: year_in_def civil_of_days_def yy case_prod_beta flip: l_def)
  with assms have y: "0 \<le> y" "y < 10000" by simp_all
  have "yd < 366" using s(3) by (simp split: if_splits)
  then have "-600 \<le> l div 86400" and "l div 86400 \<le> 3652500"
    using days_before_year_bounds [OF y] s(1,2) by linarith+
  then show "- 32000000000 \<le> t div 1000000000 + off" and "t div 1000000000 + off \<le> 316000000000"
    unfolding l_def [symmetric] by linarith+
qed

theorem parse_format_DateTime:
  assumes off: "\<bar>off\<bar> < 90000"
    and year: "0 \<le> year_in off t" "year_in off t < 10000"
  shows "parse_in layout_DateTime (fixed_zone off) (time_Format_DateTime off t) =
    Inr (t div 1000000000 * 1000000000)"
proof -
  note f = fields_at_ranges [of off t None]
  have p: "parse_chunks layout_DateTime no_fields (time_Format_DateTime off t) =
      Some (fields_at off t None)"
    unfolding time_Format_DateTime_def
    using f year by (intro parse_chunks_DateTime) auto
  have "date_in (fixed_zone off) (fields_at off t None) = t div 1000000000 * 1000000000"
    using fields_at_bound [OF year] off
    by (simp add: date_in_def fixed_zone_def f unixToInternal_def min_int64_def max_int64_def Let_def)
  with p f show ?thesis by (simp add: parse_in_def)
qed

end
