(* ===== verification/KubeMeta.thy ===== *)
theory KubeMeta
  imports GoTime
begin

text \<open>
  The Kubernetes API types the controllers handle, with the fields they read or write, and the
  apimachinery functions they call. Those functions are not part of this repository: they are the
  fields of the record \<open>kube_lib\<close>, an argument of every definition that calls them, and what the
  code relies on is stated as named predicates on that record, from their documentation.
\<close>

section \<open>Objects\<close>

record owner_ref =
  or_apiVersion :: string
  or_kind :: string
  or_name :: string
  or_uid :: string
  or_controller :: "bool option"

record object_meta =
  om_name :: string
  om_generateName :: string
  om_namespace :: string
  om_uid :: string
  om_resourceVersion :: string
  om_creationTimestamp :: gotime
  om_labels :: go_map
  om_annotations :: go_map
  om_ownerReferences :: "owner_ref list"

definition zero_meta :: object_meta where
  "zero_meta = \<lparr>om_name = '''', om_generateName = '''', om_namespace = '''', om_uid = '''',
     om_resourceVersion = '''', om_creationTimestamp = 0, om_labels = None, om_annotations = None,
     om_ownerReferences = []\<rparr>"

record type_meta =
  tm_kind :: string
  tm_apiVersion :: string

definition zero_type :: type_meta where
  "zero_type = \<lparr>tm_kind = '''', tm_apiVersion = ''''\<rparr>"

record container =
  ct_name :: string
  ct_image :: string
  ct_command :: "string list"
  ct_args :: "string list"

record pod_spec =
  ps_containers :: "container list"
  ps_restartPolicy :: string

record pod_status =
  pst_phase :: string
  pst_startTime :: "gotime option"

record pod =
  p_meta :: object_meta
  p_spec :: pod_spec
  p_status :: pod_status

text \<open>The documented values of the core/v1 constants.\<close>

definition PodSucceeded :: string where
  "PodSucceeded = ''Succeeded''"

definition PodFailed :: string where
  "PodFailed = ''Failed''"

definition RestartPolicyNever :: string where
  "RestartPolicyNever = ''Never''"

definition EventTypeNormal :: string where
  "EventTypeNormal = ''Normal''"

definition EventTypeWarning :: string where
  "EventTypeWarning = ''Warning''"

lemmas corev1_consts = PodSucceeded_def PodFailed_def RestartPolicyNever_def EventTypeNormal_def
  EventTypeWarning_def

section \<open>apimachinery\<close>

type_synonym gvk = "string \<times> string \<times> string"

text \<open>\<open>errors.IsNotFound\<close>, \<open>errors.NewNotFound\<close> (of a resource and a name),
  \<open>cache.SplitMetaNamespaceKey\<close>, \<open>metav1.NewControllerRef\<close>, \<open>metav1.IsControlledBy\<close>,
  \<open>metav1.GetControllerOf\<close>.\<close>

record kube_lib =
  kl_isNotFound :: "go_error \<Rightarrow> bool"
  kl_newNotFound :: "string \<times> string \<Rightarrow> string \<Rightarrow> go_error"
  kl_splitKey :: "string \<Rightarrow> go_error + string \<times> string"
  kl_newControllerRef :: "object_meta \<Rightarrow> gvk \<Rightarrow> owner_ref"
  kl_isControlledBy :: "object_meta \<Rightarrow> object_meta \<Rightarrow> bool"
  kl_getControllerOf :: "object_meta \<Rightarrow> owner_ref option"

definition not_found_ok :: "kube_lib \<Rightarrow> bool" where
  "not_found_ok L \<longleftrightarrow> (\<forall>r n. kl_isNotFound L (kl_newNotFound L r n))"

text \<open>An object whose only owner is the reference made for \<open>owner\<close> is controlled by it.\<close>

definition controller_ref_ok :: "kube_lib \<Rightarrow> bool" where
  "controller_ref_ok L \<longleftrightarrow>
     (\<forall>m owner k. kl_isControlledBy L
        (m\<lparr>om_ownerReferences := [kl_newControllerRef L owner k]\<rparr>) owner)"

text \<open>The controller of an object whose only owner is the reference made for \<open>owner\<close> is that
  reference, with the owner's name and the kind it was made with.\<close>

definition controller_of_ok :: "kube_lib \<Rightarrow> bool" where
  "controller_of_ok L \<longleftrightarrow>
     (\<forall>m owner g v k. \<exists>r. kl_getControllerOf L
        (m\<lparr>om_ownerReferences := [kl_newControllerRef L owner (g, v, k)]\<rparr>) = Some r \<and>
        or_kind r = k \<and> or_name r = om_name owner)"

text \<open>\<open>namespace/name\<close> splits into its parts when neither holds a slash.\<close>

definition split_key_ok :: "kube_lib \<Rightarrow> bool" where
  "split_key_ok L \<longleftrightarrow>
     (\<forall>ns n. CHR ''/'' \<notin> set ns \<longrightarrow> CHR ''/'' \<notin> set n \<longrightarrow>
        kl_splitKey L (ns @ ''/'' @ n) = Inr (ns, n))"

text \<open>What registration asks of a scheme: the group version, with the kinds of it, or the client types
  of the group version.\<close>

datatype scheme_call =
    AddKnownTypes "string \<times> string" "string list"
  | AddToGroupVersion "string \<times> string"

text \<open>\<open>schema.GroupVersion.WithKind\<close>.\<close>

fun with_kind :: "string \<times> string \<Rightarrow> string \<Rightarrow> gvk" where
  "with_kind (g, v) k = (g, v, k)"

text \<open>Functions that have these contracts, for concrete runs.\<close>

fun find_controller :: "owner_ref list \<Rightarrow> owner_ref option" where
  "find_controller [] = None"
| "find_controller (r # rs) = (if or_controller r = Some True then Some r else find_controller rs)"

definition split_at_slash :: "string \<Rightarrow> go_error + string \<times> string" where
  "split_at_slash k =
     (let a = takeWhile (\<lambda>c. c \<noteq> CHR ''/'') k; b = drop (length a) k
      in case b of
           [] \<Rightarrow> Inr ('''', a)
         | _ # n \<Rightarrow> if CHR ''/'' \<in> set n then Inl (ExtErr ''unexpected key format'')
                    else Inr (a, n))"

definition std_lib :: kube_lib where
  "std_lib = \<lparr>
     kl_isNotFound = (\<lambda>e. e = ExtErr ''NotFound''),
     kl_newNotFound = (\<lambda>_ _. ExtErr ''NotFound''),
     kl_splitKey = split_at_slash,
     kl_newControllerRef = (\<lambda>m (g, v, k). \<lparr>or_apiVersion = g @ ''/'' @ v, or_kind = k,
        or_name = om_name m, or_uid = om_uid m, or_controller = Some True\<rparr>),
     kl_isControlledBy = (\<lambda>m owner. case find_controller (om_ownerReferences m) of
        None \<Rightarrow> False | Some r \<Rightarrow> or_uid r = om_uid owner),
     kl_getControllerOf = (\<lambda>m. find_controller (om_ownerReferences m))\<rparr>"

lemma std_lib_not_found [simp]: "not_found_ok std_lib"
  by (simp add: not_found_ok_def std_lib_def)

lemma std_lib_controller_ref [simp]: "controller_ref_ok std_lib"
  by (simp add: controller_ref_ok_def std_lib_def split: prod.splits)

lemma std_lib_controller_of [simp]: "controller_of_ok std_lib"
  by (simp add: controller_of_ok_def std_lib_def)

lemma takeWhile_slash: "CHR ''/'' \<notin> set ns \<Longrightarrow> takeWhile (\<lambda>c. c \<noteq> CHR ''/'') (ns @ CHR ''/'' # n) = ns"
  by (induction ns) auto

lemma std_lib_split_key [simp]: "split_key_ok std_lib"
  by (auto simp: split_key_ok_def std_lib_def split_at_slash_def takeWhile_slash)

end
