(* ===== verification/GreeterAPI.thy ===== *)
theory GreeterAPI
  imports KubeMeta
begin

text \<open>
  The Greeter API group, version v1alpha1 (\<open>greeter/pkg/apis/greeter\<close>): its types and phases, what
  its registration puts into a scheme, and the objects an informer can deliver.
\<close>

section \<open>Phases and types\<close>

definition PhasePending :: string where
  "PhasePending = ''Pending''"

definition PhaseRunning :: string where
  "PhaseRunning = ''Running''"

definition PhaseSucceeded :: string where
  "PhaseSucceeded = ''Succeeded''"

definition PhaseFailed :: string where
  "PhaseFailed = ''Failed''"

lemmas phase_defs = PhasePending_def PhaseRunning_def PhaseSucceeded_def PhaseFailed_def

record greeter_spec =
  gs_schedule :: string
  gs_message :: string

record greeter_status =
  gst_phase :: string

record greeter =
  g_type :: type_meta
  g_meta :: object_meta
  g_spec :: greeter_spec
  g_status :: greeter_status

record greeter_list =
  gl_type :: type_meta
  gl_resourceVersion :: string
  gl_items :: "greeter list option"

abbreviation g_phase :: "greeter \<Rightarrow> string" where
  "g_phase g \<equiv> gst_phase (g_status g)"

definition set_phase :: "string \<Rightarrow> greeter \<Rightarrow> greeter" where
  "set_phase p g = g\<lparr>g_status := \<lparr>gst_phase = p\<rparr>\<rparr>"

lemma set_phase_simps [simp]:
  "g_phase (set_phase p g) = p"
  "g_meta (set_phase p g) = g_meta g"
  "g_spec (set_phase p g) = g_spec g"
  "g_type (set_phase p g) = g_type g"
  "set_phase q (set_phase p g) = set_phase q g"
  by (simp_all add: set_phase_def)

lemma set_phase_eq [simp]: "g = set_phase p g \<longleftrightarrow> g_phase g = p"
  by (cases g; cases "g_status g") (auto simp: set_phase_def)

lemma set_phase_eq' [simp]: "set_phase p g = g \<longleftrightarrow> g_phase g = p"
  by (metis set_phase_eq)

lemma set_phase_same: "g_phase g = p \<Longrightarrow> set_phase p g = g"
  by simp

section \<open>Registration\<close>

definition GroupName :: string where
  "GroupName = ''example.org''"

definition SchemeGroupVersion :: "string \<times> string" where
  "SchemeGroupVersion = (GroupName, ''v1alpha1'')"

text \<open>\<open>Resource\<close>: the group resource of an unqualified resource.\<close>

definition Resource :: "string \<Rightarrow> string \<times> string" where
  "Resource resource = (fst SchemeGroupVersion, resource)"

text \<open>The calls of \<open>addKnownTypes\<close> in order.\<close>

definition addKnownTypes :: "scheme_call list \<Rightarrow> scheme_call list \<times> go_error option" where
  "addKnownTypes scheme =
     (scheme @ [AddKnownTypes SchemeGroupVersion [''Greeter'', ''GreeterList''],
        AddToGroupVersion SchemeGroupVersion], None)"

section \<open>What informers deliver\<close>

datatype informer_obj =
    OGreeter greeter
  | OPod pod
  | OTombstone string informer_obj
  | OOther string

datatype informer_event =
    Added informer_obj
  | Updated informer_obj informer_obj
  | Deleted informer_obj

end
