(* ===== verification/GreeterLister.thy ===== *)
theory GreeterLister
  imports GreeterAPI
begin

text \<open>
  The generated lister (\<open>greeter/pkg/generated/listers/greeter/v1alpha1/greeter.go\<close>) over a
  \<open>cache.Indexer\<close>. The indexer is client-go's: its \<open>GetByKey\<close> and the objects that \<open>cache.ListAll\<close>
  and \<open>cache.ListAllByNamespace\<close> hand to the callback, with the error they end with, are the fields
  of a record. It holds values of any type, so each read asserts the type, and the assertion can
  panic.
\<close>

type_synonym selector = string

record indexer =
  ix_getByKey :: "string \<Rightarrow> go_error + informer_obj option"
  ix_listAll :: "selector \<Rightarrow> informer_obj list \<times> go_error option"
  ix_listByNamespace :: "string \<Rightarrow> selector \<Rightarrow> informer_obj list \<times> go_error option"

fun assert_greeter :: "informer_obj \<Rightarrow> greeter go_out" where
  "assert_greeter (OGreeter g) = Ret g"
| "assert_greeter _ = Panic ''interface conversion''"

text \<open>The callback \<open>ret = append(ret, m.(*v1alpha1.Greeter))\<close> over what it is called with.\<close>

fun append_greeters :: "informer_obj list \<Rightarrow> greeter list \<Rightarrow> greeter list go_out" where
  "append_greeters [] ret = Ret ret"
| "append_greeters (m # ms) ret =
     (case assert_greeter m of Panic p \<Rightarrow> Panic p | Ret g \<Rightarrow> append_greeters ms (ret @ [g]))"

record greeter_lister =
  gl_indexer :: indexer

record greeter_namespace_lister =
  gnl_indexer :: indexer
  gnl_namespace :: string

definition NewGreeterLister :: "indexer \<Rightarrow> greeter_lister" where
  "NewGreeterLister indexer = \<lparr>gl_indexer = indexer\<rparr>"

definition greeterLister_List ::
    "greeter_lister \<Rightarrow> selector \<Rightarrow> (greeter list \<times> go_error option) go_out" where
  "greeterLister_List s sel =
     (let (ms, err) = ix_listAll (gl_indexer s) sel
      in case append_greeters ms [] of Panic p \<Rightarrow> Panic p | Ret ret \<Rightarrow> Ret (ret, err))"

definition greeterLister_Greeters :: "greeter_lister \<Rightarrow> string \<Rightarrow> greeter_namespace_lister" where
  "greeterLister_Greeters s namespace = \<lparr>gnl_indexer = gl_indexer s, gnl_namespace = namespace\<rparr>"

definition greeterNamespaceLister_List ::
    "greeter_namespace_lister \<Rightarrow> selector \<Rightarrow> (greeter list \<times> go_error option) go_out" where
  "greeterNamespaceLister_List s sel =
     (let (ms, err) = ix_listByNamespace (gnl_indexer s) (gnl_namespace s) sel
      in case append_greeters ms [] of Panic p \<Rightarrow> Panic p | Ret ret \<Rightarrow> Ret (ret, err))"

definition greeterNamespaceLister_Get ::
    "kube_lib \<Rightarrow> greeter_namespace_lister \<Rightarrow> string \<Rightarrow> (go_error + greeter) go_out" where
  "greeterNamespaceLister_Get L s name =
     (case ix_getByKey (gnl_indexer s) (gnl_namespace s @ ''/'' @ name) of
        Inl err \<Rightarrow> Ret (Inl err)
      | Inr None \<Rightarrow> Ret (Inl (kl_newNotFound L (Resource ''greeter'') name))
      | Inr (Some obj) \<Rightarrow>
          (case assert_greeter obj of Panic p \<Rightarrow> Panic p | Ret g \<Rightarrow> Ret (Inr g)))"

section \<open>What the lister promises\<close>

lemma append_greeters_map [simp]: "append_greeters (map OGreeter gs) ret = Ret (ret @ gs)"
  by (induction gs arbitrary: ret) auto

lemma append_greeters_Ret:
  "append_greeters ms ret = Ret gs \<Longrightarrow> \<exists>hs. ms = map OGreeter hs \<and> gs = ret @ hs"
proof (induction ms arbitrary: ret)
  case Nil
  then show ?case by simp
next
  case (Cons m ms)
  then obtain g where m: "m = OGreeter g" and "append_greeters ms (ret @ [g]) = Ret gs"
    by (cases m) auto
  with Cons.IH obtain hs where "ms = map OGreeter hs" and "gs = (ret @ [g]) @ hs" by blast
  with m show ?case by (intro exI [of _ "g # hs"]) simp
qed

text \<open>An indexer fed by the Greeter informer: a store of Greeters by key.\<close>

definition holds_store :: "indexer \<Rightarrow> (string \<rightharpoonup> greeter) \<Rightarrow> bool" where
  "holds_store ix store \<longleftrightarrow> (\<forall>k. ix_getByKey ix k = Inr (map_option OGreeter (store k)))"

definition store_indexer :: "(string \<rightharpoonup> greeter) \<Rightarrow> indexer" where
  "store_indexer store = \<lparr>ix_getByKey = (\<lambda>k. Inr (map_option OGreeter (store k))),
     ix_listAll = (\<lambda>_. ([], None)), ix_listByNamespace = (\<lambda>_ _. ([], None))\<rparr>"

lemma store_indexer_holds [simp]: "holds_store (store_indexer store) store"
  by (simp add: holds_store_def store_indexer_def)

lemma Get_store:
  assumes "holds_store ix store"
  shows "greeterNamespaceLister_Get L (greeterLister_Greeters (NewGreeterLister ix) ns) n =
    Ret (case store (ns @ ''/'' @ n) of
           None \<Rightarrow> Inl (kl_newNotFound L (Resource ''greeter'') n)
         | Some g \<Rightarrow> Inr g)"
  using assms
  by (simp add: holds_store_def greeterNamespaceLister_Get_def greeterLister_Greeters_def NewGreeterLister_def
      split: option.splits)

end
