(* ===== verification/GreeterController.thy ===== *)
theory GreeterController
  imports GreeterLister
begin

text \<open>
  The Greeter controller (\<open>greeter/internal/greeter/controller.go\<close>). Every handler is a function of
  what its calls answer, the record \<open>greeter_env\<close>, and returns its result with the effects it has
  on the outside, in their order: API requests, events, errors handed to the runtime, operations on
  the work queue. A handler calls each of these at most once in a run, so the answers are fields
  and functions of the request. Objects are values here: the copy that \<open>DeepCopy\<close> makes is the
  object itself, and the object from the cache is never changed. Log lines are left out.
\<close>

section \<open>Environment and effects\<close>

record greeter_env =
  ge_lib :: kube_lib
  ge_now :: gotime
  ge_local :: location
  ge_metaKey :: "informer_obj \<Rightarrow> go_error + string"
  ge_indexer :: indexer
  ge_getPod :: "string \<Rightarrow> string \<Rightarrow> go_error + pod"
  ge_createPod :: "string \<Rightarrow> pod \<Rightarrow> go_error + pod"
  ge_updateStatus :: "string \<Rightarrow> greeter \<Rightarrow> go_error + greeter"

text \<open>The messages and reasons of events, and what comes off the work queue.\<close>

datatype event_message = MessageResourceExists string | MessageResourceSynced

definition ErrResourceExistsReason :: string where
  "ErrResourceExistsReason = ''ErrResourceExists''"

definition SuccessSynced :: string where
  "SuccessSynced = ''Synced''"

datatype queue_item = QKey string | QOther string

datatype action =
    CreatePod string pod
  | UpdateStatus string greeter
  | RecordEvent greeter string string event_message
  | HandleError go_error
  | QueueAdd string
  | QueueAddAfter string duration
  | QueueAddRateLimited string
  | QueueForget queue_item
  | QueueDone queue_item

section \<open>syncGreeter\<close>

text \<open>\<open>timeUntilSchedule\<close>: the schedule is read in the local zone; the difference saturates.\<close>

definition timeUntilSchedule :: "greeter_env \<Rightarrow> string \<Rightarrow> go_error + duration" where
  "timeUntilSchedule E schedule =
     (case parse_in layout_DateTime (ge_local E) schedule of
        Inl err \<Rightarrow> Inl err
      | Inr expected \<Rightarrow> Inr (time_Sub expected (ge_now E)))"

definition newPodForGreeter :: "greeter \<Rightarrow> pod" where
  "newPodForGreeter g = \<lparr>
     p_meta = zero_meta\<lparr>
       om_name := om_name (g_meta g) @ ''-runner'',
       om_namespace := om_namespace (g_meta g),
       om_labels := Some [''app.k8s.io/name'' \<mapsto> om_name (g_meta g)]\<rparr>,
     p_spec = \<lparr>
       ps_containers = [\<lparr>ct_name = ''greeter'', ct_image = ''busybox'', ct_command = [''sh''],
         ct_args = [''-c'', ''echo '' @ gs_message (g_spec g)]\<rparr>],
       ps_restartPolicy = RestartPolicyNever\<rparr>,
     p_status = \<lparr>pst_phase = '''', pst_startTime = None\<rparr>\<rparr>"

text \<open>The pod with the Greeter appended as its controller.\<close>

definition ownedPod :: "kube_lib \<Rightarrow> greeter \<Rightarrow> pod" where
  "ownedPod L g =
     (let p = newPodForGreeter g;
          owner = kl_newControllerRef L (g_meta g)
            (fst SchemeGroupVersion, snd SchemeGroupVersion, ''Greeter'')
      in p\<lparr>p_meta := (p_meta p)\<lparr>om_ownerReferences := om_ownerReferences (p_meta p) @ [owner]\<rparr>\<rparr>)"

text \<open>The end of \<open>syncGreeter\<close>: write the status when the copy differs from the original.\<close>

definition finishSync ::
    "greeter_env \<Rightarrow> greeter \<Rightarrow> greeter \<Rightarrow> action list \<Rightarrow> (duration \<times> go_error option) \<times> action list" where
  "finishSync E g instance acts =
     (if g \<noteq> instance then
        let ns = om_namespace (g_meta instance); acts = acts @ [UpdateStatus ns instance]
        in case ge_updateStatus E ns instance of
             Inl err \<Rightarrow> ((0, Some err), acts)
           | Inr _ \<Rightarrow>
               ((0, None),
                acts @ [RecordEvent instance EventTypeNormal SuccessSynced MessageResourceSynced])
      else ((0, None), acts))"

text \<open>The pod of a running Greeter: from the cache, or created when the cache has none.\<close>

definition findOrCreatePod :: "greeter_env \<Rightarrow> greeter \<Rightarrow> (go_error + pod) \<times> action list" where
  "findOrCreatePod E instance =
     (let p = ownedPod (ge_lib E) instance; ns = om_namespace (p_meta p)
      in case ge_getPod E ns (om_name (p_meta p)) of
           Inr found \<Rightarrow> (Inr found, [])
         | Inl err \<Rightarrow>
             if kl_isNotFound (ge_lib E) err then (ge_createPod E ns p, [CreatePod ns p])
             else (Inl err, []))"

text \<open>The two cases of the switch that do something.\<close>

definition syncPending ::
    "greeter_env \<Rightarrow> greeter \<Rightarrow> greeter \<Rightarrow> (duration \<times> go_error option) \<times> action list" where
  "syncPending E g instance =
     (case timeUntilSchedule E (gs_schedule (g_spec instance)) of
        Inl err \<Rightarrow> ((0, Some err), [HandleError (ErrScheduleParse err)])
      | Inr when \<Rightarrow>
          if 0 < when then ((when, None), [])
          else finishSync E g (set_phase PhaseRunning instance) [])"

definition syncRunning ::
    "greeter_env \<Rightarrow> greeter \<Rightarrow> greeter \<Rightarrow> (duration \<times> go_error option) \<times> action list" where
  "syncRunning E g instance =
     (case findOrCreatePod E instance of
        (Inl err, acts) \<Rightarrow> ((0, Some err), acts)
      | (Inr found, acts) \<Rightarrow>
          let name = om_name (p_meta (ownedPod (ge_lib E) instance))
          in if \<not> kl_isControlledBy (ge_lib E) (p_meta found) (g_meta instance) then
               ((0, Some (ErrResourceExists name)),
                acts @ [RecordEvent instance EventTypeWarning ErrResourceExistsReason
                  (MessageResourceExists name)])
             else if pst_phase (p_status found) = PodFailed \<or> pst_phase (p_status found) = PodSucceeded
             then finishSync E g (set_phase (pst_phase (p_status found)) instance) acts
             else finishSync E g instance acts)"

definition syncGreeter ::
    "greeter_env \<Rightarrow> greeter \<Rightarrow> (duration \<times> go_error option) \<times> action list" where
  "syncGreeter E g =
     (case ge_metaKey E (OGreeter g) of
        Inl err \<Rightarrow> ((0, Some err), [])
      | Inr key \<Rightarrow>
          let instance = (if g_phase g = '''' then set_phase PhasePending g else g);
              phase = g_phase instance
          in if phase = PhasePending then syncPending E g instance
             else if phase = PhaseRunning then syncRunning E g instance
             else if phase = PhaseSucceeded then finishSync E g instance []
             else if phase = PhaseFailed then finishSync E g instance []
             else finishSync E g instance [])"

section \<open>The work queue\<close>

definition syncHandler ::
    "greeter_env \<Rightarrow> string \<Rightarrow> (duration \<times> go_error option) go_out \<times> action list" where
  "syncHandler E key =
     (case kl_splitKey (ge_lib E) key of
        Inl _ \<Rightarrow> (Ret (0, None), [HandleError (ErrInvalidKey key)])
      | Inr (namespace, name) \<Rightarrow>
          (case greeterNamespaceLister_Get (ge_lib E)
              (greeterLister_Greeters (NewGreeterLister (ge_indexer E)) namespace) name of
             Panic p \<Rightarrow> (Panic p, [])
           | Ret (Inl err) \<Rightarrow>
               if kl_isNotFound (ge_lib E) err
               then (Ret (0, None), [HandleError (ErrNoLongerExists key)])
               else (Ret (0, Some err), [])
           | Ret (Inr g) \<Rightarrow> (let (r, acts) = syncGreeter E g in (Ret r, acts))))"

text \<open>
  \<open>processNextWorkItem\<close>, given what \<open>workQueue.Get\<close> returned. \<open>Done\<close> is deferred by the inner
  function: it comes after everything the inner function does, also when that panics, and before
  the error is handled.
\<close>

definition processNextWorkItem ::
    "greeter_env \<Rightarrow> queue_item \<Rightarrow> bool \<Rightarrow> bool go_out \<times> action list" where
  "processNextWorkItem E object shutdown =
     (if shutdown then (Ret False, [])
      else case object of
          QOther _ \<Rightarrow>
            (Ret True, [QueueForget object, HandleError ErrExpectedString, QueueDone object])
        | QKey key \<Rightarrow>
            (case syncHandler E key of
               (Panic p, acts) \<Rightarrow> (Panic p, acts @ [QueueDone object])
             | (Ret (when, Some err), acts) \<Rightarrow>
                 (Ret True, acts @ [QueueAddRateLimited key, QueueDone object,
                    HandleError (ErrSyncing key err)])
             | (Ret (when, None), acts) \<Rightarrow>
                 if when \<noteq> 0
                 then (Ret True, acts @ [QueueAddAfter key when, QueueDone object])
                 else (Ret True, acts @ [QueueForget object, QueueDone object])))"

text \<open>\<open>runWorker\<close> over the successive answers of \<open>Get\<close>, each with the environment it runs in. It
  ends at the first shutdown or panic; past the last answer it is blocked in \<open>Get\<close> (\<open>None\<close>).\<close>

fun runWorker ::
    "(greeter_env \<times> queue_item \<times> bool) list \<Rightarrow> unit go_out option \<times> action list" where
  "runWorker [] = (None, [])"
| "runWorker ((E, object, shutdown) # gets) =
     (case processNextWorkItem E object shutdown of
        (Panic p, acts) \<Rightarrow> (Some (Panic p), acts)
      | (Ret False, acts) \<Rightarrow> (Some (Ret ()), acts)
      | (Ret True, acts) \<Rightarrow> (let (r, acts') = runWorker gets in (r, acts @ acts')))"

section \<open>Event handlers\<close>

definition enqueueGreeter :: "greeter_env \<Rightarrow> informer_obj \<Rightarrow> action list" where
  "enqueueGreeter E object =
     (case ge_metaKey E object of Inl err \<Rightarrow> [HandleError err] | Inr key \<Rightarrow> [QueueAdd key])"

fun decodePod :: "informer_obj \<Rightarrow> go_error + pod" where
  "decodePod (OPod p) = Inr p"
| "decodePod (OTombstone _ (OPod p)) = Inr p"
| "decodePod (OTombstone _ _) = Inl ErrTombstoneType"
| "decodePod _ = Inl ErrPodType"

definition enqueuePod :: "greeter_env \<Rightarrow> informer_obj \<Rightarrow> unit go_out \<times> action list" where
  "enqueuePod E object =
     (case decodePod object of
        Inl err \<Rightarrow> (Ret (), [HandleError err])
      | Inr p \<Rightarrow>
          (case kl_getControllerOf (ge_lib E) (p_meta p) of
             None \<Rightarrow> (Ret (), [])
           | Some ownerRef \<Rightarrow>
               if or_kind ownerRef \<noteq> ''Greeter'' then (Ret (), [])
               else case greeterNamespaceLister_Get (ge_lib E)
                   (greeterLister_Greeters (NewGreeterLister (ge_indexer E)) (om_namespace (p_meta p))) (or_name ownerRef) of
                 Panic s \<Rightarrow> (Panic s, [])
               | Ret (Inl _) \<Rightarrow> (Ret (), [])
               | Ret (Inr g) \<Rightarrow>
                   if kl_isControlledBy (ge_lib E) (p_meta p) (g_meta g)
                   then (Ret (), enqueueGreeter E (OGreeter g))
                   else (Ret (), [])))"

text \<open>The handlers that \<open>NewController\<close> registers with the two informers: nothing is registered for
  deletions.\<close>

fun greeterEventHandler :: "greeter_env \<Rightarrow> informer_event \<Rightarrow> unit go_out \<times> action list" where
  "greeterEventHandler E (Added obj) = (Ret (), enqueueGreeter E obj)"
| "greeterEventHandler E (Updated oldObj newObj) = (Ret (), enqueueGreeter E newObj)"
| "greeterEventHandler E (Deleted obj) = (Ret (), [])"

fun podEventHandler :: "greeter_env \<Rightarrow> informer_event \<Rightarrow> unit go_out \<times> action list" where
  "podEventHandler E (Added obj) = enqueuePod E obj"
| "podEventHandler E (Updated oldObj newObj) = enqueuePod E newObj"
| "podEventHandler E (Deleted obj) = (Ret (), [])"

end
