(* ===== verification/GreeterSync.thy ===== *)
theory GreeterSync
  imports GreeterController
begin

text \<open>
  What one run of the Greeter controller's handlers does: the status writes refine an abstract
  phase machine, pods are created in one situation only, the item taken off the queue is always
  given back, and a pod event finds its way back to the Greeter that owns the pod.
\<close>

section \<open>Reading the effects of a run\<close>

fun status_writes :: "action list \<Rightarrow> greeter list" where
  "status_writes [] = []"
| "status_writes (UpdateStatus ns g # acts) = g # status_writes acts"
| "status_writes (_ # acts) = status_writes acts"

fun created_pods :: "action list \<Rightarrow> pod list" where
  "created_pods [] = []"
| "created_pods (CreatePod ns p # acts) = p # created_pods acts"
| "created_pods (_ # acts) = created_pods acts"

fun is_queue_op :: "action \<Rightarrow> bool" where
  "is_queue_op (QueueAdd _) = True"
| "is_queue_op (QueueAddAfter _ _) = True"
| "is_queue_op (QueueAddRateLimited _) = True"
| "is_queue_op (QueueForget _) = True"
| "is_queue_op (QueueDone _) = True"
| "is_queue_op _ = False"

definition queue_ops :: "action list \<Rightarrow> action list" where
  "queue_ops acts = filter is_queue_op acts"

lemma status_writes_append [simp]: "status_writes (xs @ ys) = status_writes xs @ status_writes ys"
  by (induction xs rule: status_writes.induct) auto

lemma created_pods_append [simp]: "created_pods (xs @ ys) = created_pods xs @ created_pods ys"
  by (induction xs rule: created_pods.induct) auto

lemma queue_ops_simps [simp]:
  "queue_ops [] = []"
  "queue_ops (a # acts) = (if is_queue_op a then a # queue_ops acts else queue_ops acts)"
  "queue_ops (xs @ ys) = queue_ops xs @ queue_ops ys"
  by (simp_all add: queue_ops_def)

section \<open>The abstract phase machine\<close>

text \<open>What a run observes: whether the schedule is due, and the phase of the pod it found or
  created, when the Greeter controls that pod.\<close>

definition is_due :: "greeter_env \<Rightarrow> greeter \<Rightarrow> bool" where
  "is_due E g =
     (case timeUntilSchedule E (gs_schedule (g_spec g)) of Inl _ \<Rightarrow> False | Inr when \<Rightarrow> when \<le> 0)"

definition pod_phase :: "greeter_env \<Rightarrow> greeter \<Rightarrow> string option" where
  "pod_phase E g =
     (case fst (findOrCreatePod E g) of
        Inl _ \<Rightarrow> None
      | Inr p \<Rightarrow> if kl_isControlledBy (ge_lib E) (p_meta p) (g_meta g)
                then Some (pst_phase (p_status p)) else None)"

definition spec_phase :: "string \<Rightarrow> bool \<Rightarrow> string option \<Rightarrow> string option" where
  "spec_phase phase due pp =
     (if phase = '''' \<or> phase = PhasePending then (if due then Some PhaseRunning else None)
      else if phase = PhaseRunning then
        (case pp of
           Some p \<Rightarrow> if p = PhaseFailed \<or> p = PhaseSucceeded then Some p else None
         | None \<Rightarrow> None)
      else None)"

lemmas sync_defs = syncGreeter_def syncPending_def syncRunning_def finishSync_def

lemmas sync_splits = sum.splits prod.splits if_splits option.splits

lemma phase_neqs [simp]:
  "PhasePending \<noteq> PhaseRunning" "PhasePending \<noteq> ''''" "PhaseRunning \<noteq> ''''"
  "PhaseSucceeded \<noteq> PhasePending" "PhaseSucceeded \<noteq> PhaseRunning" "PhaseSucceeded \<noteq> ''''"
  "PhaseFailed \<noteq> PhasePending" "PhaseFailed \<noteq> PhaseRunning" "PhaseFailed \<noteq> ''''"
  "PhaseFailed \<noteq> PhaseSucceeded"
  by (simp_all add: phase_defs)

lemmas phase_neqs' [simp] = phase_neqs [THEN not_sym]

lemma pod_phases [simp]: "PodFailed = PhaseFailed" "PodSucceeded = PhaseSucceeded"
  by (simp_all add: phase_defs corev1_consts)

lemma ownedPod_set_phase [simp]: "ownedPod L (set_phase p g) = ownedPod L g"
  by (simp add: ownedPod_def newPodForGreeter_def)

lemma findOrCreatePod_set_phase [simp]: "findOrCreatePod E (set_phase p g) = findOrCreatePod E g"
  by (simp add: findOrCreatePod_def)

lemma findOrCreatePod_writes [simp]: "status_writes (snd (findOrCreatePod E g)) = []"
  by (simp add: findOrCreatePod_def Let_def split: sum.splits)

lemma findOrCreatePod_queue [simp]: "queue_ops (snd (findOrCreatePod E g)) = []"
  by (simp add: findOrCreatePod_def Let_def split: sum.splits)

text \<open>The three phases a run distinguishes.\<close>

lemma syncGreeter_waiting:
  assumes "ge_metaKey E (OGreeter g) = Inr key" and "g_phase g = '''' \<or> g_phase g = PhasePending"
  shows "syncGreeter E g = syncPending E g (set_phase PhasePending g)"
  using assms by (auto simp: syncGreeter_def Let_def set_phase_same)

lemma syncGreeter_running:
  assumes "ge_metaKey E (OGreeter g) = Inr key" and "g_phase g = PhaseRunning"
  shows "syncGreeter E g = syncRunning E g g"
  using assms by (simp add: syncGreeter_def Let_def)

lemma syncGreeter_settled:
  assumes "ge_metaKey E (OGreeter g) = Inr key"
    and "g_phase g \<noteq> ''''" "g_phase g \<noteq> PhasePending" "g_phase g \<noteq> PhaseRunning"
  shows "syncGreeter E g = ((0, None), [])"
  using assms by (simp add: syncGreeter_def finishSync_def Let_def)

lemma syncGreeter_no_key:
  "ge_metaKey E (OGreeter g) = Inl err \<Longrightarrow> syncGreeter E g = ((0, Some err), [])"
  by (simp add: syncGreeter_def)

lemma finishSync_writes:
  "status_writes (snd (finishSync E g (set_phase q h) acts)) =
     status_writes acts @ (if g = set_phase q h then [] else [set_phase q h])"
  by (auto simp: finishSync_def Let_def split: sum.splits)

lemma finishSync_pods [simp]: "created_pods (snd (finishSync E g h acts)) = created_pods acts"
  by (simp add: finishSync_def Let_def split: sum.splits)

lemma finishSync_queue [simp]: "queue_ops (snd (finishSync E g h acts)) = queue_ops acts"
  by (simp add: finishSync_def Let_def split: sum.splits)

lemma finishSync_same: "finishSync E g g acts = ((0, None), acts)"
  by (simp add: finishSync_def)

lemma finishSync_when [simp]: "fst (fst (finishSync E g h acts)) = 0"
  by (simp add: finishSync_def Let_def split: sum.splits)

section \<open>Status writes refine the phase machine\<close>

lemma syncPending_writes:
  assumes "g_phase g \<noteq> PhaseRunning"
  shows "status_writes (snd (syncPending E g (set_phase PhasePending g))) =
    (if is_due E g then [set_phase PhaseRunning g] else [])"
  using assms
  by (auto simp: syncPending_def is_due_def finishSync_writes split: sum.splits)

lemma syncRunning_writes:
  assumes "g_phase g = PhaseRunning"
  shows "status_writes (snd (syncRunning E g g)) =
    (case spec_phase PhaseRunning due (pod_phase E g) of None \<Rightarrow> [] | Some q \<Rightarrow> [set_phase q g])"
proof (cases "findOrCreatePod E g")
  case (Pair r acts)
  then have w: "status_writes acts = []" using findOrCreatePod_writes [of E g] by simp
  show ?thesis
  proof (cases r)
    case (Inl err)
    then show ?thesis by (simp add: syncRunning_def Pair pod_phase_def spec_phase_def w)
  next
    case (Inr p)
    then show ?thesis
      using assms
      by (simp add: syncRunning_def Pair pod_phase_def spec_phase_def w Let_def finishSync_writes
          finishSync_same)
  qed
qed

lemma syncGreeter_status_writes:
  assumes "ge_metaKey E (OGreeter g) = Inr key"
  shows "status_writes (snd (syncGreeter E g)) =
    (case spec_phase (g_phase g) (is_due E g) (pod_phase E g) of
       None \<Rightarrow> [] | Some q \<Rightarrow> [set_phase q g])"
proof -
  consider "g_phase g = '''' \<or> g_phase g = PhasePending" | "g_phase g = PhaseRunning"
    | "g_phase g \<noteq> ''''" "g_phase g \<noteq> PhasePending" "g_phase g \<noteq> PhaseRunning" by blast
  then show ?thesis
  proof cases
    case 1
    then have "g_phase g \<noteq> PhaseRunning" by auto
    with 1 show ?thesis
      by (simp add: syncGreeter_waiting [OF assms 1] syncPending_writes spec_phase_def)
  next
    case 2
    then show ?thesis by (simp add: syncGreeter_running [OF assms 2] syncRunning_writes)
  next
    case 3
    then show ?thesis by (simp add: syncGreeter_settled [OF assms 3] spec_phase_def)
  qed
qed

text \<open>C1: One run of syncGreeter writes the status at most once, and what it writes is the step of
  the abstract phase machine: an empty or Pending phase becomes Running once the schedule is due,
  Running becomes the phase of the pod when the pod is the Greeter's own and has ended, and nothing
  but the phase changes.\<close>

theorem syncGreeter_refines:
  assumes "ge_metaKey E (OGreeter g) = Inr key"
  shows "status_writes (snd (syncGreeter E g)) =
    (case spec_phase (g_phase g) (is_due E g) (pod_phase E g) of
       None \<Rightarrow> [] | Some q \<Rightarrow> [set_phase q g])"
  by (rule syncGreeter_status_writes [OF assms])

section \<open>When a pod is created\<close>

definition pod_missing :: "greeter_env \<Rightarrow> greeter \<Rightarrow> bool" where
  "pod_missing E g =
     (case ge_getPod E (om_namespace (g_meta g)) (om_name (g_meta g) @ ''-runner'') of
        Inl err \<Rightarrow> kl_isNotFound (ge_lib E) err | Inr _ \<Rightarrow> False)"

lemma ownedPod_meta [simp]:
  "om_name (p_meta (ownedPod L g)) = om_name (g_meta g) @ ''-runner''"
  "om_namespace (p_meta (ownedPod L g)) = om_namespace (g_meta g)"
  by (simp_all add: ownedPod_def newPodForGreeter_def Let_def)

lemma findOrCreatePod_created:
  "created_pods (snd (findOrCreatePod E g)) =
     (if pod_missing E g then [ownedPod (ge_lib E) g] else [])"
  by (simp add: findOrCreatePod_def pod_missing_def Let_def split: sum.splits)

lemma syncRunning_created:
  "created_pods (snd (syncRunning E g h)) = created_pods (snd (findOrCreatePod E h))"
  by (simp add: syncRunning_def Let_def split: prod.splits sum.splits)

lemma syncPending_created [simp]: "created_pods (snd (syncPending E g h)) = []"
  by (simp add: syncPending_def split: sum.splits)

lemma syncGreeter_created:
  "created_pods (snd (syncGreeter E g)) =
     (case ge_metaKey E (OGreeter g) of
        Inl _ \<Rightarrow> []
      | Inr _ \<Rightarrow>
          if g_phase g = PhaseRunning \<and> pod_missing E g then [ownedPod (ge_lib E) g] else [])"
proof (cases "ge_metaKey E (OGreeter g)")
  case (Inl err)
  then show ?thesis by (simp add: syncGreeter_no_key)
next
  case (Inr key)
  consider "g_phase g = '''' \<or> g_phase g = PhasePending" | "g_phase g = PhaseRunning"
    | "g_phase g \<noteq> ''''" "g_phase g \<noteq> PhasePending" "g_phase g \<noteq> PhaseRunning" by blast
  then show ?thesis
  proof cases
    case 1
    then have "g_phase g \<noteq> PhaseRunning" by auto
    then show ?thesis by (simp add: syncGreeter_waiting [OF Inr 1] Inr)
  next
    case 2
    then show ?thesis
      by (simp add: syncGreeter_running [OF Inr 2] Inr syncRunning_created findOrCreatePod_created)
  next
    case 3
    then show ?thesis by (simp add: syncGreeter_settled [OF Inr 3] Inr)
  qed
qed

text \<open>The pod it makes is the Greeter's own.\<close>

lemma ownedPod_controlled:
  assumes "controller_ref_ok L"
  shows "kl_isControlledBy L (p_meta (ownedPod L g)) (g_meta g)"
proof -
  have "p_meta (ownedPod L g) =
      (p_meta (ownedPod L g))\<lparr>om_ownerReferences := [kl_newControllerRef L (g_meta g)
        (fst SchemeGroupVersion, snd SchemeGroupVersion, ''Greeter'')]\<rparr>"
    by (simp add: ownedPod_def newPodForGreeter_def Let_def zero_meta_def)
  with assms show ?thesis unfolding controller_ref_ok_def by metis
qed

text \<open>C8: syncGreeter creates a pod exactly when the Greeter is Running and the pod cache answers
  not-found for its name, then one pod only, which is named after the Greeter, in its namespace, and
  controlled by it.\<close>

theorem syncGreeter_creates_pod:
  assumes "controller_ref_ok (ge_lib E)" and "ge_metaKey E (OGreeter g) = Inr key"
  shows "created_pods (snd (syncGreeter E g)) =
      (if g_phase g = PhaseRunning \<and> pod_missing E g then [ownedPod (ge_lib E) g] else []) \<and>
    om_name (p_meta (ownedPod (ge_lib E) g)) = om_name (g_meta g) @ ''-runner'' \<and>
    om_namespace (p_meta (ownedPod (ge_lib E) g)) = om_namespace (g_meta g) \<and>
    kl_isControlledBy (ge_lib E) (p_meta (ownedPod (ge_lib E) g)) (g_meta g)"
  using assms by (simp add: syncGreeter_created ownedPod_controlled)

section \<open>When a run asks to be called again\<close>

lemma syncRunning_when [simp]: "fst (fst (syncRunning E g h)) = 0"
  by (simp add: syncRunning_def Let_def split: prod.splits sum.splits)

lemma syncPending_when:
  "fst (fst (syncPending E g h)) =
     (case timeUntilSchedule E (gs_schedule (g_spec h)) of Inl _ \<Rightarrow> 0 | Inr when \<Rightarrow> max 0 when)"
  by (simp add: syncPending_def split: sum.splits)

lemma syncGreeter_delay:
  assumes "ge_metaKey E (OGreeter g) = Inr key"
  shows "fst (fst (syncGreeter E g)) =
    (if g_phase g = '''' \<or> g_phase g = PhasePending then
       (case timeUntilSchedule E (gs_schedule (g_spec g)) of Inl _ \<Rightarrow> 0 | Inr when \<Rightarrow> max 0 when)
     else 0)"
proof (cases "g_phase g = '''' \<or> g_phase g = PhasePending")
  case True
  then show ?thesis
    by (simp add: syncGreeter_waiting [OF assms True] syncPending_when)
next
  case False
  then show ?thesis
    using syncGreeter_running [OF assms] syncGreeter_settled [OF assms]
    by (cases "g_phase g = PhaseRunning") auto
qed

text \<open>A run that asks for a delay has done nothing else.\<close>

lemma syncGreeter_delay_quiet:
  assumes "0 < fst (fst (syncGreeter E g))"
  shows "snd (fst (syncGreeter E g)) = None" and "snd (syncGreeter E g) = []"
proof -
  obtain key where key: "ge_metaKey E (OGreeter g) = Inr key"
    using assms by (cases "ge_metaKey E (OGreeter g)") (auto simp: syncGreeter_no_key)
  have w: "g_phase g = '''' \<or> g_phase g = PhasePending"
    using assms by (simp add: syncGreeter_delay [OF key] split: if_splits)
  show "snd (fst (syncGreeter E g)) = None" and "snd (syncGreeter E g) = []"
    using assms by (auto simp: syncGreeter_waiting [OF key w] syncPending_def split: sum.splits if_splits)
qed

text \<open>C9: The delay syncGreeter asks for is the time left until the schedule of a Greeter that has
  not started, and 0 in every other case; a run that asks for a delay reports no error and has no
  effect.\<close>

theorem syncGreeter_when:
  assumes "ge_metaKey E (OGreeter g) = Inr key"
  shows "fst (fst (syncGreeter E g)) =
      (if g_phase g = '''' \<or> g_phase g = PhasePending then
         (case timeUntilSchedule E (gs_schedule (g_spec g)) of
            Inl _ \<Rightarrow> 0 | Inr when \<Rightarrow> max 0 when)
       else 0) \<and>
    (0 < fst (fst (syncGreeter E g)) \<longrightarrow>
       snd (fst (syncGreeter E g)) = None \<and> snd (syncGreeter E g) = [])"
  using syncGreeter_delay [OF assms] syncGreeter_delay_quiet [of E g] by simp

section \<open>The item taken off the queue is given back\<close>

lemma syncGreeter_queue [simp]: "queue_ops (snd (syncGreeter E g)) = []"
proof -
  have "queue_ops (snd (syncPending E g h)) = []" for h
    by (simp add: syncPending_def split: sum.splits)
  moreover have "queue_ops (snd (syncRunning E g h)) = []" for h
    using findOrCreatePod_queue [of E h]
    by (cases "findOrCreatePod E h") (simp add: syncRunning_def Let_def split: sum.splits)
  ultimately show ?thesis
    by (simp add: syncGreeter_def Let_def split: sum.splits)
qed

lemma syncHandler_queue [simp]: "queue_ops (snd (syncHandler E key)) = []"
  by (simp add: syncHandler_def case_prod_beta split: sum.splits go_out.splits)

text \<open>What becomes of the item: forgotten, or put back with the back-off of the rate limiter, or
  put back after the time the handler asked for.\<close>

definition disposition :: "greeter_env \<Rightarrow> queue_item \<Rightarrow> action list" where
  "disposition E object =
     (case object of
        QOther _ \<Rightarrow> [QueueForget object]
      | QKey key \<Rightarrow>
          (case fst (syncHandler E key) of
             Panic _ \<Rightarrow> []
           | Ret (when, Some _) \<Rightarrow> [QueueAddRateLimited key]
           | Ret (when, None) \<Rightarrow>
               if when \<noteq> 0 then [QueueAddAfter key when] else [QueueForget object]))"

lemma processNextWorkItem_disposition:
  "queue_ops (snd (processNextWorkItem E object shutdown)) =
     (if shutdown then [] else disposition E object @ [QueueDone object])"
proof (cases object)
  case (QKey key)
  obtain r acts where s: "syncHandler E key = (r, acts)" by fastforce
  then have "queue_ops acts = []" using syncHandler_queue [of E key] by simp
  with s QKey show ?thesis
    by (auto simp: processNextWorkItem_def disposition_def split: go_out.splits option.splits)
next
  case (QOther s)
  then show ?thesis by (simp add: processNextWorkItem_def disposition_def)
qed

text \<open>C6: Whatever happens to an item (a value that is no key, a bad key, an error, a delay, success,
  even a panic), processNextWorkItem puts it back at most once, as its disposition says, and then
  marks it done exactly once; on shutdown it touches the queue not at all.\<close>

theorem processNextWorkItem_queue:
  "queue_ops (snd (processNextWorkItem E object shutdown)) =
     (if shutdown then [] else disposition E object @ [QueueDone object])"
  by (rule processNextWorkItem_disposition)

text \<open>A worker gives back every item it takes, each exactly once and in order; it stops at the
  first shutdown or panic.\<close>

fun done_items :: "action list \<Rightarrow> queue_item list" where
  "done_items [] = []"
| "done_items (QueueDone i # acts) = i # done_items acts"
| "done_items (_ # acts) = done_items acts"

fun taken :: "(greeter_env \<times> queue_item \<times> bool) list \<Rightarrow> queue_item list" where
  "taken [] = []"
| "taken ((E, object, shutdown) # gets) =
     (if shutdown then []
      else if is_panic (fst (processNextWorkItem E object shutdown)) then [object]
      else object # taken gets)"

lemma done_items_queue_ops: "done_items (queue_ops acts) = done_items acts"
  by (induction acts rule: done_items.induct) auto

lemma done_items_append [simp]: "done_items (xs @ ys) = done_items xs @ done_items ys"
  by (induction xs rule: done_items.induct) auto

lemma disposition_not_done [simp]: "done_items (disposition E object) = []"
  by (auto simp: disposition_def split: queue_item.splits go_out.splits option.splits prod.splits)

lemma processNextWorkItem_done:
  "done_items (snd (processNextWorkItem E object shutdown)) = (if shutdown then [] else [object])"
  by (subst done_items_queue_ops [symmetric]) (simp add: processNextWorkItem_disposition)

lemma processNextWorkItem_result:
  "fst (processNextWorkItem E object shutdown) = Ret b \<Longrightarrow> b = (\<not> shutdown)"
  by (auto simp: processNextWorkItem_def split: queue_item.splits go_out.splits option.splits
      prod.splits if_splits)

text \<open>C7: A worker marks done exactly the items it took from the queue, in the order it took them, up
  to the shutdown or the panic that ends it.\<close>

theorem runWorker_done: "done_items (snd (runWorker gets)) = taken gets"
proof (induction gets rule: runWorker.induct)
  case 1
  then show ?case by simp
next
  case (2 E object shutdown gets)
  obtain r acts where p: "processNextWorkItem E object shutdown = (r, acts)" by fastforce
  have d: "done_items acts = (if shutdown then [] else [object])"
    using processNextWorkItem_done [of E object shutdown] by (simp add: p)
  show ?case
  proof (cases r)
    case (Ret b)
    then have b: "b = (\<not> shutdown)" using processNextWorkItem_result [of E object shutdown] p by simp
    show ?thesis
    proof (cases shutdown)
      case True
      with p Ret b d show ?thesis by simp
    next
      case False
      with p Ret b 2 have "done_items (snd (runWorker gets)) = taken gets" by simp
      with p Ret b d False show ?thesis by (simp add: case_prod_beta)
    qed
  next
    case (Panic s)
    with p d show ?thesis
      by (auto simp: processNextWorkItem_def split: if_splits)
  qed
qed

section \<open>Missing objects and bad keys are dropped\<close>

lemma not_foundD: "not_found_ok L \<Longrightarrow> kl_isNotFound L (kl_newNotFound L r n)"
  unfolding not_found_ok_def by blast

lemma syncHandler_store:
  assumes "holds_store (ge_indexer E) store" and "not_found_ok (ge_lib E)"
    and "kl_splitKey (ge_lib E) key = Inr (ns, n)"
  shows "syncHandler E key =
    (case store (ns @ ''/'' @ n) of
       None \<Rightarrow> (Ret (0, None), [HandleError (ErrNoLongerExists key)])
     | Some g \<Rightarrow> (Ret (fst (syncGreeter E g)), snd (syncGreeter E g)))"
  using assms
  by (simp add: syncHandler_def Get_store not_foundD case_prod_beta split: option.splits)

text \<open>A key whose Greeter is no longer in the cache is reported, forgotten and marked done, and
  no request is made for it.\<close>

theorem gone_greeter_forgotten:
  assumes "holds_store (ge_indexer E) store" and "not_found_ok (ge_lib E)"
    and "kl_splitKey (ge_lib E) key = Inr (ns, n)" and "store (ns @ ''/'' @ n) = None"
  shows "processNextWorkItem E (QKey key) False =
    (Ret True, [HandleError (ErrNoLongerExists key), QueueForget (QKey key), QueueDone (QKey key)])"
  using assms(4) by (simp add: processNextWorkItem_def syncHandler_store [OF assms(1-3)])

section \<open>Pod events reach the owner\<close>

lemma enqueuePod_store:
  assumes "holds_store (ge_indexer E) store" and "decodePod obj = Inr p"
  shows "enqueuePod E obj =
    (Ret (), case kl_getControllerOf (ge_lib E) (p_meta p) of
       None \<Rightarrow> []
     | Some r \<Rightarrow>
         (case (if or_kind r = ''Greeter'' then store (om_namespace (p_meta p) @ ''/'' @ or_name r)
                else None) of
            None \<Rightarrow> []
          | Some g \<Rightarrow> if kl_isControlledBy (ge_lib E) (p_meta p) (g_meta g)
                      then enqueueGreeter E (OGreeter g) else []))"
  using assms(2) by (simp add: enqueuePod_def Get_store [OF assms(1)] split: option.splits)

text \<open>C11: Every pod event that puts a key on the queue is about a pod whose controller is a Greeter in
  the cache, and the key is that Greeter's.\<close>

theorem enqueuePod_sound:
  assumes "holds_store (ge_indexer E) store" and "QueueAdd key \<in> set (snd (enqueuePod E obj))"
  shows "\<exists>p r g. decodePod obj = Inr p \<and> kl_getControllerOf (ge_lib E) (p_meta p) = Some r \<and>
    or_kind r = ''Greeter'' \<and> store (om_namespace (p_meta p) @ ''/'' @ or_name r) = Some g \<and>
    kl_isControlledBy (ge_lib E) (p_meta p) (g_meta g) \<and> ge_metaKey E (OGreeter g) = Inr key"
proof (cases "decodePod obj")
  case (Inl err)
  with assms(2) show ?thesis by (simp add: enqueuePod_def)
next
  case (Inr p)
  note s = assms(2) [unfolded enqueuePod_store [OF assms(1) Inr]]
  obtain r where r: "kl_getControllerOf (ge_lib E) (p_meta p) = Some r"
    using s by (cases "kl_getControllerOf (ge_lib E) (p_meta p)") auto
  have k: "or_kind r = ''Greeter''" using s r by (auto split: if_splits)
  obtain g where g: "store (om_namespace (p_meta p) @ ''/'' @ or_name r) = Some g"
    using s r k by (cases "store (om_namespace (p_meta p) @ ''/'' @ or_name r)") auto
  with s r k Inr show ?thesis
    by (auto simp: enqueueGreeter_def split: if_splits sum.splits)
qed

text \<open>The key function and the key splitter belong together.\<close>

definition meta_key_ok :: "greeter_env \<Rightarrow> bool" where
  "meta_key_ok E \<longleftrightarrow>
     (\<forall>g. om_namespace (g_meta g) \<noteq> '''' \<longrightarrow>
        ge_metaKey E (OGreeter g) = Inr (om_namespace (g_meta g) @ ''/'' @ om_name (g_meta g)))"


section \<open>The schedule\<close>


section \<open>Sample inputs\<close>

text \<open>A Greeter of the default namespace, a cache that holds it, and a cluster that accepts every
  request: the concrete inputs on which the theorems are applied.\<close>

definition sample_greeter :: "string \<Rightarrow> greeter" where
  "sample_greeter phase = \<lparr>g_type = \<lparr>tm_kind = ''Greeter'', tm_apiVersion = ''example.org/v1alpha1''\<rparr>,
     g_meta = zero_meta\<lparr>om_name := ''hello'', om_namespace := ''default'', om_uid := ''u1''\<rparr>,
     g_spec = \<lparr>gs_schedule = ''2023-10-01 08:00:00'', gs_message = ''hi''\<rparr>,
     g_status = \<lparr>gst_phase = phase\<rparr>\<rparr>"

definition sample_store :: "string \<Rightarrow> string \<rightharpoonup> greeter" where
  "sample_store phase = [''default/hello'' \<mapsto> sample_greeter phase]"

definition sample_env :: "string \<Rightarrow> (go_error + pod) \<Rightarrow> gotime \<Rightarrow> greeter_env" where
  "sample_env phase cached now = \<lparr>
     ge_lib = std_lib, ge_now = now, ge_local = fixed_zone 0,
     ge_metaKey = (\<lambda>ob. case ob of
        OGreeter g \<Rightarrow> Inr (om_namespace (g_meta g) @ ''/'' @ om_name (g_meta g))
      | _ \<Rightarrow> Inl (ExtErr ''object has no meta'')),
     ge_indexer = store_indexer (sample_store phase),
     ge_getPod = (\<lambda>_ _. cached),
     ge_createPod = (\<lambda>_ p. Inr p),
     ge_updateStatus = (\<lambda>_ g. Inr g)\<rparr>"

abbreviation no_pod :: "go_error + pod" where
  "no_pod \<equiv> Inl (ExtErr ''NotFound'')"

lemma sample_simps [simp]:
  "ge_lib (sample_env ph c now) = std_lib"
  "ge_now (sample_env ph c now) = now"
  "ge_local (sample_env ph c now) = fixed_zone 0"
  "ge_metaKey (sample_env ph c now) (OGreeter g) =
     Inr (om_namespace (g_meta g) @ ''/'' @ om_name (g_meta g))"
  "ge_indexer (sample_env ph c now) = store_indexer (sample_store ph)"
  "ge_getPod (sample_env ph c now) ns n = c"
  "g_phase (sample_greeter ph) = ph"
  "om_namespace (g_meta (sample_greeter ph)) = ''default''"
  "om_name (g_meta (sample_greeter ph)) = ''hello''"
  "meta_key_ok (sample_env ph c now)"
  by (simp_all add: sample_env_def sample_greeter_def zero_meta_def meta_key_ok_def)

lemma sample_pod_missing [simp]: "pod_missing (sample_env ph no_pod now) g"
  by (simp add: pod_missing_def std_lib_def)

text \<open>8 o'clock on October 1, 2023 as an instant, and the year it is in.\<close>

definition oct_1_2023 :: gotime where
  "oct_1_2023 = 63831744000 * Second"

lemma year_oct_1_2023: "year_in 0 oct_1_2023 = 2023"
  by code_simp

lemma format_oct_1_2023: "time_Format_DateTime 0 oct_1_2023 = ''2023-10-01 08:00:00''"
  by code_simp

theorem syncGreeter_refines_witness:
  "status_writes (snd (syncGreeter (sample_env PhaseRunning
       (Inr ((ownedPod std_lib (sample_greeter PhaseRunning))
         \<lparr>p_status := \<lparr>pst_phase = ''Failed'', pst_startTime = None\<rparr>\<rparr>)) 0)
     (sample_greeter PhaseRunning))) = [sample_greeter PhaseFailed]"
proof -
  let ?p = "(ownedPod std_lib (sample_greeter PhaseRunning))
    \<lparr>p_status := \<lparr>pst_phase = ''Failed'', pst_startTime = None\<rparr>\<rparr>"
  have "kl_isControlledBy std_lib (p_meta ?p) (g_meta (sample_greeter PhaseRunning))"
    using ownedPod_controlled [OF std_lib_controller_ref] by simp
  then have "pod_phase (sample_env PhaseRunning (Inr ?p) 0) (sample_greeter PhaseRunning) = Some PhaseFailed"
    by (simp add: pod_phase_def findOrCreatePod_def Let_def PhaseFailed_def)
  then have "spec_phase PhaseRunning
        (is_due (sample_env PhaseRunning (Inr ?p) 0) (sample_greeter PhaseRunning))
        (pod_phase (sample_env PhaseRunning (Inr ?p) 0) (sample_greeter PhaseRunning)) =
      Some PhaseFailed"
    by (simp add: spec_phase_def)
  moreover have "set_phase PhaseFailed (sample_greeter PhaseRunning) = sample_greeter PhaseFailed"
    by (simp add: set_phase_def sample_greeter_def)
  ultimately show ?thesis
    using syncGreeter_refines [of "sample_env PhaseRunning (Inr ?p) 0" "sample_greeter PhaseRunning"]
    by simp
qed

text \<open>The other theorems at the sample inputs.\<close>

lemma sample_store_hello [simp]: "sample_store ph ''default/hello'' = Some (sample_greeter ph)"
  by (simp add: sample_store_def)

lemma sample_schedule:
  "timeUntilSchedule (sample_env ph c now) ''2023-10-01 08:00:00'' = Inr (time_Sub oct_1_2023 now)"
proof -
  have "parse_in layout_DateTime (fixed_zone 0) ''2023-10-01 08:00:00'' = Inr oct_1_2023"
    by code_simp
  then show ?thesis by (simp add: timeUntilSchedule_def)
qed

lemma sample_splits: "kl_splitKey std_lib ''default/hello'' = Inr (''default'', ''hello'')"
  "kl_splitKey std_lib ''default/gone'' = Inr (''default'', ''gone'')"
  by code_simp+

theorem syncGreeter_creates_pod_witness:
  "created_pods (snd (syncGreeter (sample_env PhaseRunning no_pod 0) (sample_greeter PhaseRunning))) =
     [ownedPod std_lib (sample_greeter PhaseRunning)] \<and>
   kl_isControlledBy std_lib (p_meta (ownedPod std_lib (sample_greeter PhaseRunning)))
     (g_meta (sample_greeter PhaseRunning))"
  using syncGreeter_creates_pod [of "sample_env PhaseRunning no_pod 0" "sample_greeter PhaseRunning"]
  by simp

theorem syncGreeter_when_witness:
  "syncGreeter (sample_env '''' no_pod (oct_1_2023 - 5 * Second)) (sample_greeter '''') =
     ((5 * Second, None), [])"
proof -
  let ?E = "sample_env '''' no_pod (oct_1_2023 - 5 * Second)" and ?g = "sample_greeter ''''"
  have "timeUntilSchedule ?E (gs_schedule (g_spec ?g)) = Inr (5 * Second)"
    using sample_schedule [of "''''" no_pod "oct_1_2023 - 5 * Second"]
    by (simp add: sample_greeter_def time_Sub_eq min_int64_def max_int64_def Second_def)
  then have "fst (fst (syncGreeter ?E ?g)) = 5 * Second \<and> snd (fst (syncGreeter ?E ?g)) = None \<and>
      snd (syncGreeter ?E ?g) = []"
    using syncGreeter_when [of ?E ?g] by (simp add: Second_def)
  then show ?thesis by (simp add: prod_eq_iff)
qed

theorem gone_greeter_forgotten_witness:
  "processNextWorkItem (sample_env '''' no_pod 0) (QKey ''default/gone'') False =
     (Ret True, [HandleError (ErrNoLongerExists ''default/gone''), QueueForget (QKey ''default/gone''),
        QueueDone (QKey ''default/gone'')])"
  using gone_greeter_forgotten [of "sample_env '''' no_pod 0" "sample_store ''''" "''default/gone''"
      "''default''" "''gone''"]
  by (simp add: sample_splits sample_store_def)

lemma sample_enqueuePod:
  "enqueuePod (sample_env PhaseRunning c now) (OPod (ownedPod std_lib (sample_greeter PhaseRunning))) =
     (Ret (), [QueueAdd ''default/hello''])"
  by (simp add: enqueuePod_store [of _ "sample_store PhaseRunning"] ownedPod_def newPodForGreeter_def
      zero_meta_def std_lib_def SchemeGroupVersion_def sample_store_hello [simplified]
      enqueueGreeter_def Let_def sample_greeter_def [of PhaseRunning])

theorem enqueuePod_sound_witness:
  "\<exists>p r g. decodePod (OPod (ownedPod std_lib (sample_greeter PhaseRunning))) = Inr p \<and>
     kl_getControllerOf std_lib (p_meta p) = Some r \<and> or_kind r = ''Greeter'' \<and>
     sample_store PhaseRunning (om_namespace (p_meta p) @ ''/'' @ or_name r) = Some g \<and>
     kl_isControlledBy std_lib (p_meta p) (g_meta g) \<and>
     ge_metaKey (sample_env PhaseRunning no_pod 0) (OGreeter g) = Inr ''default/hello''"
  using enqueuePod_sound [of "sample_env PhaseRunning no_pod 0" "sample_store PhaseRunning"
      "''default/hello''" "OPod (ownedPod std_lib (sample_greeter PhaseRunning))"]
  by (simp add: sample_enqueuePod)



end
