(* ===== verification/Transitions.thy ===== *)
theory Transitions
  imports Prelude
begin

text \<open>
  Transition systems: what is reachable from the initial states, and the contracts that a step
  relation can have. The components that are state machines (the life of a Greeter, the informer
  factories, the health counter) interpret these locales on their own step relations.
\<close>

inductive reachable :: "('s \<Rightarrow> bool) \<Rightarrow> ('s \<Rightarrow> 's \<Rightarrow> bool) \<Rightarrow> 's \<Rightarrow> bool"
  for init :: "'s \<Rightarrow> bool" and step :: "'s \<Rightarrow> 's \<Rightarrow> bool" where
  reach_init: "init s \<Longrightarrow> reachable init step s"
| reach_step: "reachable init step s \<Longrightarrow> step s t \<Longrightarrow> reachable init step t"

lemma reachable_steps:
  assumes "step\<^sup>*\<^sup>* s t" and "reachable init step s"
  shows "reachable init step t"
  using assms by (induction rule: rtranclp_induct) (auto intro: reach_step)

text \<open>An invariant of a system.\<close>

locale inv_system =
  fixes init :: "'s \<Rightarrow> bool" and step :: "'s \<Rightarrow> 's \<Rightarrow> bool" and inv :: "'s \<Rightarrow> bool"
  assumes inv_init: "init s \<Longrightarrow> inv s"
    and inv_step: "inv s \<Longrightarrow> step s t \<Longrightarrow> inv t"
begin

lemma reachable_inv: "reachable init step s \<Longrightarrow> inv s"
  by (induction rule: reachable.induct) (auto intro: inv_init inv_step)

lemma inv_steps: "step\<^sup>*\<^sup>* s t \<Longrightarrow> inv s \<Longrightarrow> inv t"
  by (induction rule: rtranclp_induct) (auto intro: inv_step)

end

text \<open>A relation on states that every step of a reachable state is in, reflexive and transitive,
  holds between a reachable state and all its futures.\<close>

locale monotone_system = inv_system init step inv
  for init :: "'s \<Rightarrow> bool" and step :: "'s \<Rightarrow> 's \<Rightarrow> bool" and inv :: "'s \<Rightarrow> bool" +
  fixes ord :: "'s \<Rightarrow> 's \<Rightarrow> bool"
  assumes ord_refl: "ord s s"
    and ord_trans: "ord s t \<Longrightarrow> ord t u \<Longrightarrow> ord s u"
    and ord_step: "inv s \<Longrightarrow> step s t \<Longrightarrow> ord s t"
begin

lemma future_ord:
  assumes "step\<^sup>*\<^sup>* s t" and "reachable init step s"
  shows "ord s t"
  using assms
proof (induction rule: rtranclp_induct)
  case base
  show ?case by (rule ord_refl)
next
  case (step t u)
  then have "inv t" using inv_steps reachable_inv by blast
  with step show ?case using ord_step ord_trans by blast
qed

end

end
