(* ===== verification/GreeterLifecycle.thy ===== *)
theory GreeterLifecycle
  imports GreeterSync Transitions
begin

text \<open>
  The Greeter controller in a cluster: the API server holds one Greeter and at most one pod of the
  runner's name; the informers deliver every version of both to the controller's caches, each in
  order and as late as they like; the worker runs \<open>processNextWorkItem\<close> on what the caches hold and
  the API server answers its requests, refusing a status written over another version than the
  newest and a pod whose name is taken. The steps of the others (the kubelet, users that edit the
  Greeter, delete the pod or put a pod of their own there, the clock) come in any order.
\<close>

section \<open>The state and its steps\<close>

text \<open>\<open>cl_watch\<close> and \<open>cl_podWatch\<close> are the versions that the caches have not received yet. The last
  three fields only record the past: the pods that the API server has created for the controller
  and those that were deleted, and the phases in which pods of the Greeter have ended.\<close>

record cluster =
  cl_cached :: greeter
  cl_watch :: "greeter list"
  cl_podCache :: "pod option"
  cl_podWatch :: "pod option list"
  cl_now :: gotime
  cl_created :: nat
  cl_deleted :: nat
  cl_ended :: "string set"

definition cl_stored :: "cluster \<Rightarrow> greeter" where
  "cl_stored s = last (cl_cached s # cl_watch s)"

definition cl_pod :: "cluster \<Rightarrow> pod option" where
  "cl_pod s = last (cl_podCache s # cl_podWatch s)"

abbreviation g_version :: "greeter \<Rightarrow> string" where
  "g_version g \<equiv> om_resourceVersion (g_meta g)"

text \<open>A new version of an object; versions are opaque and only compared.\<close>

definition with_version :: "string \<Rightarrow> greeter \<Rightarrow> greeter" where
  "with_version v g = g\<lparr>g_meta := (g_meta g)\<lparr>om_resourceVersion := v\<rparr>\<rparr>"

definition next_version :: "string \<Rightarrow> string" where
  "next_version v = CHR ''i'' # v"

definition greeter_key :: "greeter \<Rightarrow> string" where
  "greeter_key g = om_namespace (g_meta g) @ ''/'' @ om_name (g_meta g)"

definition put_greeter :: "greeter \<Rightarrow> cluster \<Rightarrow> cluster" where
  "put_greeter g s = s\<lparr>cl_watch := cl_watch s @ [with_version (next_version (g_version g)) g]\<rparr>"

definition put_pod :: "pod option \<Rightarrow> cluster \<Rightarrow> cluster" where
  "put_pod p s = s\<lparr>cl_podWatch := cl_podWatch s @ [p]\<rparr>"

text \<open>What the API server does with the two requests of the controller.\<close>

definition serve_status :: "cluster \<Rightarrow> greeter \<Rightarrow> cluster" where
  "serve_status s g =
     (if g_version g = g_version (cl_stored s)
      then put_greeter ((cl_stored s)\<lparr>g_status := g_status g\<rparr>) s else s)"

definition serve_create :: "cluster \<Rightarrow> pod \<Rightarrow> cluster" where
  "serve_create s p =
     (if cl_pod s = None then (put_pod (Some p) s)\<lparr>cl_created := Suc (cl_created s)\<rparr> else s)"

fun serve :: "cluster \<Rightarrow> action \<Rightarrow> cluster" where
  "serve s (CreatePod _ p) = serve_create s p"
| "serve s (UpdateStatus _ g) = serve_status s g"
| "serve s _ = s"

text \<open>What the controller sees of the cluster.\<close>

definition cluster_env :: "kube_lib \<Rightarrow> location \<Rightarrow> cluster \<Rightarrow> greeter_env" where
  "cluster_env L loc s = \<lparr>
     ge_lib = L, ge_now = cl_now s, ge_local = loc,
     ge_metaKey = (\<lambda>ob. case ob of OGreeter g \<Rightarrow> Inr (greeter_key g)
       | _ \<Rightarrow> Inl (ExtErr ''object has no meta'')),
     ge_indexer = store_indexer [greeter_key (cl_cached s) \<mapsto> cl_cached s],
     ge_getPod = (\<lambda>_ n. case cl_podCache s of
        None \<Rightarrow> Inl (kl_newNotFound L ('''', ''pods'') n) | Some p \<Rightarrow> Inr p),
     ge_createPod = (\<lambda>_ p. if cl_pod s = None then Inr p else Inl (ExtErr ''AlreadyExists'')),
     ge_updateStatus = (\<lambda>_ g. if g_version g = g_version (cl_stored s)
        then Inr (with_version (next_version (g_version g)) g) else Inl (ExtErr ''Conflict''))\<rparr>"

definition worker_run :: "kube_lib \<Rightarrow> location \<Rightarrow> cluster \<Rightarrow> cluster" where
  "worker_run L loc s = foldl serve s
     (snd (processNextWorkItem (cluster_env L loc s) (QKey (greeter_key (cl_cached s))) False))"

definition pod_ended :: "string \<Rightarrow> bool" where
  "pod_ended ph \<longleftrightarrow> ph = PodSucceeded \<or> ph = PodFailed"

definition with_pod_phase :: "string \<Rightarrow> pod \<Rightarrow> pod" where
  "with_pod_phase ph p = p\<lparr>p_status := (p_status p)\<lparr>pst_phase := ph\<rparr>\<rparr>"

text \<open>The kubelet moves the pod to a phase; a pod that has ended stays as it is.\<close>

definition kubelet :: "kube_lib \<Rightarrow> string \<Rightarrow> pod \<Rightarrow> cluster \<Rightarrow> cluster" where
  "kubelet L ph p s = (put_pod (Some (with_pod_phase ph p)) s)
     \<lparr>cl_ended := (if kl_isControlledBy L (p_meta p) (g_meta (cl_stored s)) \<and> pod_ended ph
        then insert ph (cl_ended s) else cl_ended s)\<rparr>"

inductive gstep :: "kube_lib \<Rightarrow> location \<Rightarrow> cluster \<Rightarrow> cluster \<Rightarrow> bool" for L loc where
  worker: "gstep L loc s (worker_run L loc s)"
| deliver: "cl_watch s = g # gs \<Longrightarrow> gstep L loc s (s\<lparr>cl_cached := g, cl_watch := gs\<rparr>)"
| deliver_pod: "cl_podWatch s = p # ps \<Longrightarrow> gstep L loc s (s\<lparr>cl_podCache := p, cl_podWatch := ps\<rparr>)"
| pod_runs: "cl_pod s = Some p \<Longrightarrow> \<not> pod_ended (pst_phase (p_status p)) \<Longrightarrow>
    gstep L loc s (kubelet L ph p s)"
| pod_deleted: "cl_pod s = Some p \<Longrightarrow>
    gstep L loc s ((put_pod None s)\<lparr>cl_deleted := Suc (cl_deleted s)\<rparr>)"
| foreign_pod: "cl_pod s = None \<Longrightarrow> \<not> kl_isControlledBy L (p_meta p) (g_meta (cl_stored s)) \<Longrightarrow>
    gstep L loc s (put_pod (Some p) s)"
| edit: "gstep L loc s (put_greeter ((cl_stored s)\<lparr>g_spec := sp\<rparr>) s)"
| tick: "cl_now s \<le> now \<Longrightarrow> gstep L loc s (s\<lparr>cl_now := now\<rparr>)"

text \<open>What the proofs need of the library: the controller of an object is found by its UID, and
  the contracts of the key splitter and of not-found errors.\<close>

definition controller_uid_ok :: "kube_lib \<Rightarrow> bool" where
  "controller_uid_ok L \<longleftrightarrow> (\<forall>m a b. om_uid a = om_uid b \<longrightarrow>
     kl_isControlledBy L m a = kl_isControlledBy L m b)"

definition lib_ok :: "kube_lib \<Rightarrow> bool" where
  "lib_ok L \<longleftrightarrow> not_found_ok L \<and> split_key_ok L \<and> controller_ref_ok L \<and> controller_uid_ok L"

text \<open>A cluster in which the Greeter has just been created: nothing has happened to it yet.\<close>

definition ginit :: "kube_lib \<Rightarrow> cluster \<Rightarrow> bool" where
  "ginit L s \<longleftrightarrow> lib_ok L \<and> cl_watch s = [] \<and> cl_podCache s = None \<and> cl_podWatch s = [] \<and>
     cl_created s = 0 \<and> cl_deleted s = 0 \<and> cl_ended s = {} \<and> g_phase (cl_cached s) = '''' \<and>
     CHR ''/'' \<notin> set (om_namespace (g_meta (cl_cached s))) \<and>
     CHR ''/'' \<notin> set (om_name (g_meta (cl_cached s)))"

section \<open>What one run of the worker does\<close>

lemma serve_commute:
  "serve_status (serve_create s p) g = serve_create (serve_status s g) p"
  by (simp add: serve_status_def serve_create_def put_greeter_def put_pod_def cl_stored_def
      cl_pod_def)

lemma serve_creates_commute:
  "foldl serve_create (serve_status s g) ps = serve_status (foldl serve_create s ps) g"
  by (induction ps arbitrary: s) (simp_all add: serve_commute [symmetric])

lemma foldl_serve:
  "foldl serve s acts = foldl serve_status (foldl serve_create s (created_pods acts)) (status_writes acts)"
proof (induction acts arbitrary: s)
  case Nil
  then show ?case by simp
next
  case (Cons a acts)
  then show ?case by (cases a) (simp_all add: serve_creates_commute)
qed

lemma env_simps [simp]:
  "ge_lib (cluster_env L loc s) = L"
  "ge_metaKey (cluster_env L loc s) (OGreeter g) = Inr (greeter_key g)"
  "ge_getPod (cluster_env L loc s) ns n = (case cl_podCache s of
     None \<Rightarrow> Inl (kl_newNotFound L ('''', ''pods'') n) | Some p \<Rightarrow> Inr p)"
  "ge_createPod (cluster_env L loc s) ns p =
     (if cl_pod s = None then Inr p else Inl (ExtErr ''AlreadyExists''))"
  "ge_indexer (cluster_env L loc s) = store_indexer [greeter_key (cl_cached s) \<mapsto> cl_cached s]"
  by (simp_all add: cluster_env_def)

text \<open>The order in which phases follow one another.\<close>

definition phase_ord :: "string \<Rightarrow> string \<Rightarrow> bool" where
  "phase_ord p q \<longleftrightarrow> p = q \<or>
     (p = '''' \<or> p = PhasePending) \<and> (q = PhaseRunning \<or> pod_ended q) \<or>
     p = PhaseRunning \<and> pod_ended q"

lemma phase_ord_refl [simp]: "phase_ord p p"
  by (simp add: phase_ord_def)

lemma phase_ord_trans: "phase_ord p q \<Longrightarrow> phase_ord q r \<Longrightarrow> phase_ord p r"
  by (auto simp: phase_ord_def pod_ended_def)

lemma phase_ord_ended: "phase_ord p q \<Longrightarrow> pod_ended p \<Longrightarrow> q = p"
  by (auto simp: phase_ord_def pod_ended_def)

lemma spec_phase_ord: "spec_phase p due pp = Some q \<Longrightarrow> phase_ord p q"
  by (auto simp: spec_phase_def phase_ord_def pod_ended_def split: if_splits option.splits)

lemma spec_phase_ended: "spec_phase p due pp = Some q \<Longrightarrow> pod_ended q \<Longrightarrow> pp = Some q"
  by (auto simp: spec_phase_def pod_ended_def split: if_splits option.splits)

section \<open>The invariant\<close>

abbreviation versions :: "cluster \<Rightarrow> greeter list" where
  "versions s \<equiv> cl_cached s # cl_watch s"

abbreviation pods :: "cluster \<Rightarrow> pod option list" where
  "pods s \<equiv> cl_podCache s # cl_podWatch s"

definition same_object :: "greeter \<Rightarrow> greeter \<Rightarrow> bool" where
  "same_object a b \<longleftrightarrow> om_uid (g_meta a) = om_uid (g_meta b) \<and>
     om_namespace (g_meta a) = om_namespace (g_meta b) \<and> om_name (g_meta a) = om_name (g_meta b)"

definition older :: "greeter \<Rightarrow> greeter \<Rightarrow> bool" where
  "older a b \<longleftrightarrow> length (g_version a) < length (g_version b) \<and> phase_ord (g_phase a) (g_phase b)"

text \<open>A pod of the Greeter that has ended, in the eyes of one of its versions.\<close>

definition own_ended :: "kube_lib \<Rightarrow> greeter \<Rightarrow> pod \<Rightarrow> bool" where
  "own_ended L g p \<longleftrightarrow> kl_isControlledBy L (p_meta p) (g_meta g) \<and> pod_ended (pst_phase (p_status p))"

definition gsafe :: "kube_lib \<Rightarrow> cluster \<Rightarrow> bool" where
  "gsafe L s \<longleftrightarrow> lib_ok L \<and>
     CHR ''/'' \<notin> set (om_namespace (g_meta (cl_cached s))) \<and>
     CHR ''/'' \<notin> set (om_name (g_meta (cl_cached s))) \<and>
     (\<forall>v \<in> set (versions s). same_object v (cl_cached s)) \<and>
     sorted_wrt older (versions s) \<and>
     (\<forall>v \<in> set (versions s). pod_ended (g_phase v) \<longrightarrow> g_phase v \<in> cl_ended s) \<and>
     (\<forall>p. Some p \<in> set (pods s) \<longrightarrow> own_ended L (cl_cached s) p \<longrightarrow>
        pst_phase (p_status p) \<in> cl_ended s)"

definition balanced :: "cluster \<Rightarrow> bool" where
  "balanced s \<longleftrightarrow> cl_created s + (if cl_pod s = None then 1 else 0) \<le> cl_deleted s + 1"

definition ginv :: "kube_lib \<Rightarrow> cluster \<Rightarrow> bool" where
  "ginv L s \<longleftrightarrow> gsafe L s \<and> balanced s"

lemma gsafeD:
  assumes "gsafe L s"
  shows "lib_ok L" and "v \<in> set (versions s) \<Longrightarrow> same_object v (cl_cached s)"
    and "sorted_wrt older (versions s)"
    and "v \<in> set (versions s) \<Longrightarrow> pod_ended (g_phase v) \<Longrightarrow> g_phase v \<in> cl_ended s"
    and "Some p \<in> set (pods s) \<Longrightarrow> own_ended L (cl_cached s) p \<Longrightarrow> pst_phase (p_status p) \<in> cl_ended s"
    and "CHR ''/'' \<notin> set (om_namespace (g_meta (cl_cached s)))"
    and "CHR ''/'' \<notin> set (om_name (g_meta (cl_cached s)))"
  using assms unfolding gsafe_def by blast+

lemma cl_stored_in: "cl_stored s \<in> set (versions s)"
  unfolding cl_stored_def by (rule last_in_set) simp

lemma cl_pod_in: "cl_pod s \<in> set (pods s)"
  unfolding cl_pod_def by (rule last_in_set) simp

text \<open>Versions that are equal are the same: a status written over the cached object is accepted
  only when nothing is under way.\<close>

lemma newest_version:
  assumes "gsafe L s" and "g_version (cl_cached s) = g_version (cl_stored s)"
  shows "cl_watch s = []"
proof (rule ccontr)
  assume "cl_watch s \<noteq> []"
  then have "cl_stored s \<in> set (cl_watch s)" by (simp add: cl_stored_def)
  with gsafeD(3) [OF assms(1)] have "older (cl_cached s) (cl_stored s)" by simp
  with assms(2) show False by (simp add: older_def)
qed

lemma cached_stored_ord: "gsafe L s \<Longrightarrow> phase_ord (g_phase (cl_cached s)) (g_phase (cl_stored s))"
  using gsafeD(3) [of L s] cl_stored_in [of s] by (auto simp: older_def)

lemma gsafe_put_greeter:
  assumes s: "gsafe L s" and g: "same_object g (cl_stored s)" "g_version g = g_version (cl_stored s)"
    and ord: "phase_ord (g_phase (cl_stored s)) (g_phase g)"
    and ended: "pod_ended (g_phase g) \<Longrightarrow> g_phase g \<in> cl_ended s"
  shows "gsafe L (put_greeter g s)"
proof -
  let ?v = "with_version (next_version (g_version g)) g"
  have so: "same_object (cl_stored s) (cl_cached s)"
    using gsafeD(2) [OF s cl_stored_in] .
  have same: "same_object ?v (cl_cached s)"
    using g(1) so by (simp add: same_object_def with_version_def)
  have "older v ?v" if "v \<in> set (versions s)" for v
  proof -
    have "v = cl_stored s \<or> older v (cl_stored s)"
    proof -
      obtain vs where vs: "versions s = vs @ [cl_stored s]"
        unfolding cl_stored_def by (metis append_butlast_last_id list.distinct(1))
      with gsafeD(3) [OF s] that show ?thesis by (auto simp: sorted_wrt_append)
    qed
    then show ?thesis
      using g(2) ord phase_ord_trans
      by (auto simp: older_def with_version_def next_version_def)
  qed
  then have "sorted_wrt older (versions s @ [?v])"
    using gsafeD(3) [OF s] by (simp add: sorted_wrt_append)
  moreover have "g_phase ?v = g_phase g" by (simp add: with_version_def)
  ultimately show ?thesis
    using s same ended unfolding gsafe_def put_greeter_def by auto
qed

lemma gsafe_put_pod:
  assumes "gsafe L s" and "\<And>q. p = Some q \<Longrightarrow> own_ended L (cl_cached s) q \<Longrightarrow> pst_phase (p_status q) \<in> cl_ended s"
  shows "gsafe L (put_pod p s)"
  using assms unfolding gsafe_def put_pod_def by auto

lemma gsafe_fields [simp]:
  "gsafe L (s\<lparr>cl_created := n\<rparr>) = gsafe L s"
  "gsafe L (s\<lparr>cl_deleted := n\<rparr>) = gsafe L s"
  "gsafe L (s\<lparr>cl_now := now\<rparr>) = gsafe L s"
  by (simp_all add: gsafe_def)

lemma put_simps [simp]:
  "cl_stored (put_greeter g s) = with_version (next_version (g_version g)) g"
  "cl_pod (put_greeter g s) = cl_pod s"
  "cl_pod (put_pod p s) = p"
  "cl_stored (put_pod p s) = cl_stored s"
  "cl_pod (s\<lparr>cl_created := n\<rparr>) = cl_pod s" "cl_pod (s\<lparr>cl_deleted := n\<rparr>) = cl_pod s"
  "cl_pod (s\<lparr>cl_ended := x\<rparr>) = cl_pod s" "cl_pod (s\<lparr>cl_now := now\<rparr>) = cl_pod s"
  "cl_stored (s\<lparr>cl_created := n\<rparr>) = cl_stored s" "cl_stored (s\<lparr>cl_deleted := n\<rparr>) = cl_stored s"
  "cl_stored (s\<lparr>cl_ended := x\<rparr>) = cl_stored s" "cl_stored (s\<lparr>cl_now := now\<rparr>) = cl_stored s"
  "cl_created (put_pod p s) = cl_created s" "cl_deleted (put_pod p s) = cl_deleted s"
  "cl_created (put_greeter g s) = cl_created s" "cl_deleted (put_greeter g s) = cl_deleted s"
  "cl_ended (put_pod p s) = cl_ended s" "cl_ended (put_greeter g s) = cl_ended s"
  "cl_cached (put_pod p s) = cl_cached s" "cl_cached (put_greeter g s) = cl_cached s"
  by (simp_all add: put_greeter_def put_pod_def cl_stored_def cl_pod_def)

section \<open>Every step keeps the invariant\<close>

lemma lib_okD:
  assumes "lib_ok L"
  shows "not_found_ok L" "split_key_ok L" "controller_ref_ok L"
    and "om_uid a = om_uid b \<Longrightarrow> kl_isControlledBy L m a = kl_isControlledBy L m b"
  using assms unfolding lib_ok_def controller_uid_ok_def by blast+

lemma same_object_owner:
  "lib_ok L \<Longrightarrow> same_object a b \<Longrightarrow> kl_isControlledBy L m (g_meta a) = kl_isControlledBy L m (g_meta b)"
  by (rule lib_okD(4)) (simp_all add: same_object_def)

lemma greeter_key_split:
  assumes "gsafe L s"
  shows "kl_splitKey L (greeter_key (cl_cached s)) =
    Inr (om_namespace (g_meta (cl_cached s)), om_name (g_meta (cl_cached s)))"
  using lib_okD(2) [OF gsafeD(1) [OF assms]] gsafeD(6,7) [OF assms]
  unfolding split_key_ok_def greeter_key_def by blast

lemma worker_syncs_cached:
  assumes "gsafe L s"
  shows "syncHandler (cluster_env L loc s) (greeter_key (cl_cached s)) =
    (Ret (fst (syncGreeter (cluster_env L loc s) (cl_cached s))),
     snd (syncGreeter (cluster_env L loc s) (cl_cached s)))"
proof -
  have "not_found_ok (ge_lib (cluster_env L loc s))" using gsafeD(1) [OF assms] lib_okD(1) by simp
  from syncHandler_store [OF _ this, of "[greeter_key (cl_cached s) \<mapsto> cl_cached s]"]
  show ?thesis using greeter_key_split [OF assms] by (simp add: greeter_key_def)
qed

lemma worker_requests:
  fixes loc :: location
  assumes "gsafe L s"
  defines "E \<equiv> cluster_env L loc s" and "g \<equiv> cl_cached s"
  shows "created_pods (snd (processNextWorkItem E (QKey (greeter_key g)) False)) =
      (if g_phase g = PhaseRunning \<and> pod_missing E g then [ownedPod L g] else [])"
    and "status_writes (snd (processNextWorkItem E (QKey (greeter_key g)) False)) =
      (case spec_phase (g_phase g) (is_due E g) (pod_phase E g) of
         None \<Rightarrow> [] | Some q \<Rightarrow> [set_phase q g])"
proof -
  obtain w e acts where r: "syncGreeter E g = ((w, e), acts)" by (metis surj_pair)
  then have h: "syncHandler E (greeter_key g) = (Ret (w, e), acts)"
    using worker_syncs_cached [OF assms(1), of loc] by (simp add: E_def g_def)
  have k: "ge_metaKey E (OGreeter g) = Inr (greeter_key g)" by (simp add: E_def)
  have c: "created_pods acts =
      (if g_phase g = PhaseRunning \<and> pod_missing E g then [ownedPod L g] else [])"
    using syncGreeter_created [of E g] k r by (simp add: E_def)
  have w: "status_writes acts = (case spec_phase (g_phase g) (is_due E g) (pod_phase E g) of
         None \<Rightarrow> [] | Some q \<Rightarrow> [set_phase q g])"
    using syncGreeter_status_writes [OF k] r by simp
  from h have "created_pods (snd (processNextWorkItem E (QKey (greeter_key g)) False)) = created_pods acts"
    by (cases e) (simp_all add: processNextWorkItem_def)
  with c show "created_pods (snd (processNextWorkItem E (QKey (greeter_key g)) False)) =
      (if g_phase g = PhaseRunning \<and> pod_missing E g then [ownedPod L g] else [])" by simp
  from h have "status_writes (snd (processNextWorkItem E (QKey (greeter_key g)) False)) = status_writes acts"
    by (cases e) (simp_all add: processNextWorkItem_def)
  with w show "status_writes (snd (processNextWorkItem E (QKey (greeter_key g)) False)) =
      (case spec_phase (g_phase g) (is_due E g) (pod_phase E g) of
         None \<Rightarrow> [] | Some q \<Rightarrow> [set_phase q g])" by simp
qed

text \<open>The phase that a run reads off a pod has really been reached by a pod of the Greeter.\<close>

lemma ownedPod_phase [simp]: "pst_phase (p_status (ownedPod L g)) = ''''"
  by (simp add: ownedPod_def newPodForGreeter_def Let_def)

lemma not_ended_empty [simp]: "\<not> pod_ended ''''"
  by (simp add: pod_ended_def corev1_consts)

lemma pod_phase_ended:
  assumes "gsafe L s" and "pod_phase (cluster_env L loc s) (cl_cached s) = Some q" and "pod_ended q"
  shows "q \<in> cl_ended s"
proof (cases "cl_podCache s")
  case None
  with assms(2,3) show ?thesis
    by (auto simp: pod_phase_def findOrCreatePod_def Let_def split: if_splits)
next
  case (Some p)
  with assms(2) have "kl_isControlledBy L (p_meta p) (g_meta (cl_cached s))"
      and "pst_phase (p_status p) = q"
    by (simp_all add: pod_phase_def findOrCreatePod_def Let_def split: if_splits)
  with assms(3) have "own_ended L (cl_cached s) p" and "pst_phase (p_status p) = q"
    by (simp_all add: own_ended_def)
  then show ?thesis using gsafeD(5) [OF assms(1), of p] Some by simp
qed

lemma gsafe_serve_create:
  assumes "gsafe L s" shows "gsafe L (serve_create s (ownedPod L g))"
  using gsafe_put_pod [OF assms, of "Some (ownedPod L g)"] assms
  by (simp add: serve_create_def own_ended_def)

lemma gsafe_serve_status:
  assumes s: "gsafe L s" and ord: "phase_ord (g_phase (cl_cached s)) q"
    and ended: "pod_ended q \<Longrightarrow> q \<in> cl_ended s"
  shows "gsafe L (serve_status s (set_phase q (cl_cached s)))"
proof (cases "g_version (cl_cached s) = g_version (cl_stored s)")
  case True
  then have "cl_watch s = []" by (rule newest_version [OF s])
  then have st: "cl_stored s = cl_cached s" by (simp add: cl_stored_def)
  let ?g = "set_phase q (cl_cached s)"
  have "gsafe L (put_greeter ?g s)"
  proof (rule gsafe_put_greeter [OF s])
    show "same_object ?g (cl_stored s)" by (simp only: st same_object_def set_phase_simps)
    show "g_version ?g = g_version (cl_stored s)" by (simp only: st set_phase_simps)
    show "phase_ord (g_phase (cl_stored s)) (g_phase ?g)" using ord by (simp only: st set_phase_simps)
    show "pod_ended (g_phase ?g) \<Longrightarrow> g_phase ?g \<in> cl_ended s" using ended by (simp only: set_phase_simps)
  qed
  moreover have "serve_status s ?g = put_greeter ?g s"
    unfolding serve_status_def st by (simp add: set_phase_def)
  ultimately show ?thesis by (simp only:)
next
  case False
  with s show ?thesis by (simp add: serve_status_def)
qed

lemma serve_create_simps [simp]:
  "cl_cached (serve_create s p) = cl_cached s" "cl_ended (serve_create s p) = cl_ended s"
  "cl_stored (serve_create s p) = cl_stored s"
  by (simp_all add: serve_create_def)

lemma balanced_serve:
  "balanced s \<Longrightarrow> balanced (serve_create s p)"
  "balanced s \<Longrightarrow> balanced (serve_status s g)"
  by (auto simp: balanced_def serve_create_def serve_status_def)

text \<open>The effect of one run on the cluster: the pod it creates, then the status it writes.\<close>

definition worker_created :: "kube_lib \<Rightarrow> location \<Rightarrow> cluster \<Rightarrow> cluster" where
  "worker_created L loc s = foldl serve_create s
     (if g_phase (cl_cached s) = PhaseRunning \<and> pod_missing (cluster_env L loc s) (cl_cached s)
      then [ownedPod L (cl_cached s)] else [])"

definition worker_phase :: "kube_lib \<Rightarrow> location \<Rightarrow> cluster \<Rightarrow> string option" where
  "worker_phase L loc s = spec_phase (g_phase (cl_cached s))
     (is_due (cluster_env L loc s) (cl_cached s)) (pod_phase (cluster_env L loc s) (cl_cached s))"

lemma worker_run_effect:
  assumes "gsafe L s"
  shows "worker_run L loc s = (case worker_phase L loc s of
     None \<Rightarrow> worker_created L loc s
   | Some q \<Rightarrow> serve_status (worker_created L loc s) (set_phase q (cl_cached s)))"
  unfolding worker_run_def foldl_serve worker_requests [OF assms] worker_phase_def worker_created_def
  by (simp split: option.splits)

lemma worker_created_simps:
  assumes "gsafe L s"
  shows "gsafe L (worker_created L loc s)" and "cl_cached (worker_created L loc s) = cl_cached s"
    and "cl_ended (worker_created L loc s) = cl_ended s"
    and "cl_stored (worker_created L loc s) = cl_stored s"
    and "balanced s \<Longrightarrow> balanced (worker_created L loc s)"
  using assms gsafe_serve_create balanced_serve(1) by (simp_all add: worker_created_def)

lemma ginv_worker:
  assumes "ginv L s" shows "ginv L (worker_run L loc s)"
proof -
  let ?s1 = "worker_created L loc s"
  have s: "gsafe L s" and b: "balanced s" using assms by (simp_all add: ginv_def)
  note s1 = worker_created_simps [OF s]
  show ?thesis
  proof (cases "worker_phase L loc s")
    case None
    then show ?thesis using s1 b by (simp add: worker_run_effect [OF s] ginv_def)
  next
    case (Some q)
    have ended: "pod_ended q \<Longrightarrow> q \<in> cl_ended ?s1"
      using spec_phase_ended [OF Some [unfolded worker_phase_def]] pod_phase_ended [OF s] s1(3) by metis
    have "phase_ord (g_phase (cl_cached ?s1)) q"
      using spec_phase_ord [OF Some [unfolded worker_phase_def]] s1(2) by simp
    from gsafe_serve_status [OF s1(1) this ended] balanced_serve(2) [OF s1(5) [OF b]]
    have "ginv L (serve_status ?s1 (set_phase q (cl_cached ?s1)))" unfolding ginv_def by blast
    then show ?thesis by (simp add: worker_run_effect [OF s] Some s1(2))
  qed
qed

lemma ginv_deliver:
  assumes "ginv L s" and w: "cl_watch s = g # gs"
  shows "ginv L (s\<lparr>cl_cached := g, cl_watch := gs\<rparr>)"
proof -
  let ?t = "s\<lparr>cl_cached := g, cl_watch := gs\<rparr>"
  have s: "gsafe L s" and b: "balanced s" using assms(1) by (simp_all add: ginv_def)
  have g: "same_object g (cl_cached s)" using gsafeD(2) [OF s, of g] w by simp
  have v: "set (versions ?t) \<subseteq> set (versions s)" using w by auto
  have own: "own_ended L g p = own_ended L (cl_cached s) p" for p
    using same_object_owner [OF gsafeD(1) [OF s] g] by (simp add: own_ended_def)
  have same: "same_object v g" if "v \<in> set (versions s)" for v
    using gsafeD(2) [OF s that] g unfolding same_object_def by metis
  have names: "om_namespace (g_meta g) = om_namespace (g_meta (cl_cached s))"
      "om_name (g_meta g) = om_name (g_meta (cl_cached s))"
    using g unfolding same_object_def by blast+
  have "gsafe L ?t"
    unfolding gsafe_def
  proof (intro conjI)
    show "lib_ok L" by (rule gsafeD(1) [OF s])
    show "CHR ''/'' \<notin> set (om_namespace (g_meta (cl_cached ?t)))"
      using gsafeD(6) [OF s] names by simp
    show "CHR ''/'' \<notin> set (om_name (g_meta (cl_cached ?t)))"
      using gsafeD(7) [OF s] names by simp
    show "\<forall>v \<in> set (versions ?t). same_object v (cl_cached ?t)" using v same by auto
    show "sorted_wrt older (versions ?t)" using gsafeD(3) [OF s] w by simp
    show "\<forall>v \<in> set (versions ?t). pod_ended (g_phase v) \<longrightarrow> g_phase v \<in> cl_ended ?t"
      using v gsafeD(4) [OF s] by auto
    show "\<forall>p. Some p \<in> set (pods ?t) \<longrightarrow> own_ended L (cl_cached ?t) p \<longrightarrow>
        pst_phase (p_status p) \<in> cl_ended ?t"
      using gsafeD(5) [OF s] own by simp
  qed
  moreover have "balanced ?t" using b by (simp add: balanced_def cl_pod_def)
  ultimately show ?thesis by (simp add: ginv_def)
qed

lemma ginv_deliver_pod:
  assumes "ginv L s" and w: "cl_podWatch s = p # ps"
  shows "ginv L (s\<lparr>cl_podCache := p, cl_podWatch := ps\<rparr>)"
  using assms by (auto simp: ginv_def gsafe_def balanced_def cl_pod_def)

lemma ginv_kubelet:
  assumes "ginv L s" and p: "cl_pod s = Some p"
  shows "ginv L (kubelet L ph p s)"
proof -
  have s: "gsafe L s" and b: "balanced s" using assms(1) by (simp_all add: ginv_def)
  let ?t = "s\<lparr>cl_ended := (if kl_isControlledBy L (p_meta p) (g_meta (cl_stored s)) \<and> pod_ended ph
      then insert ph (cl_ended s) else cl_ended s)\<rparr>"
  let ?p = "with_pod_phase ph p"
  have c: "kl_isControlledBy L m (g_meta (cl_stored s)) = kl_isControlledBy L m (g_meta (cl_cached s))" for m
    by (rule same_object_owner [OF gsafeD(1) [OF s] gsafeD(2) [OF s cl_stored_in]])
  have t: "gsafe L ?t" using s unfolding gsafe_def by auto
  have k: "kubelet L ph p s = put_pod (Some ?p) ?t" by (simp add: kubelet_def put_pod_def)
  have "own_ended L (cl_cached ?t) ?p \<Longrightarrow> pst_phase (p_status ?p) \<in> cl_ended ?t"
    by (simp add: own_ended_def with_pod_phase_def c)
  then have "gsafe L (kubelet L ph p s)" unfolding k by (intro gsafe_put_pod [OF t]) auto
  moreover have "balanced (kubelet L ph p s)" using b p by (simp add: k balanced_def)
  ultimately show ?thesis by (simp add: ginv_def)
qed

lemma ginv_put_pod:
  assumes "ginv L s" and "\<And>q. p = Some q \<Longrightarrow> \<not> kl_isControlledBy L (p_meta q) (g_meta (cl_stored s))"
  shows "gsafe L (put_pod p s)"
proof -
  have s: "gsafe L s" using assms(1) by (simp add: ginv_def)
  have "\<not> kl_isControlledBy L (p_meta q) (g_meta (cl_cached s))" if "p = Some q" for q
    using assms(2) [OF that] same_object_owner [OF gsafeD(1) [OF s] gsafeD(2) [OF s cl_stored_in]]
    by simp
  then show ?thesis by (intro gsafe_put_pod [OF s]) (auto simp: own_ended_def)
qed

lemma ginv_edit:
  assumes "ginv L s" shows "ginv L (put_greeter ((cl_stored s)\<lparr>g_spec := sp\<rparr>) s)"
proof -
  have s: "gsafe L s" and b: "balanced s" using assms(1) by (simp_all add: ginv_def)
  have "gsafe L (put_greeter ((cl_stored s)\<lparr>g_spec := sp\<rparr>) s)"
    by (rule gsafe_put_greeter [OF s]) (use gsafeD(4) [OF s cl_stored_in] in \<open>auto simp: same_object_def\<close>)
  then show ?thesis using b by (simp add: ginv_def balanced_def)
qed

lemma ginv_gstep:
  assumes "ginv L s" and "gstep L loc s t" shows "ginv L t"
  using assms(2)
proof cases
  case worker
  then show ?thesis using ginv_worker [OF assms(1)] by simp
next
  case (deliver g gs)
  then show ?thesis using ginv_deliver [OF assms(1)] by simp
next
  case (deliver_pod p ps)
  then show ?thesis using ginv_deliver_pod [OF assms(1)] by simp
next
  case (pod_runs p ph)
  then show ?thesis using ginv_kubelet [OF assms(1)] by simp
next
  case (pod_deleted p)
  then show ?thesis
    using ginv_put_pod [OF assms(1), of None] assms(1) by (simp add: ginv_def balanced_def)
next
  case (foreign_pod p)
  then show ?thesis
    using ginv_put_pod [OF assms(1), of "Some p"] assms(1) by (simp add: ginv_def balanced_def)
next
  case (edit sp)
  then show ?thesis using ginv_edit [OF assms(1)] by simp
next
  case (tick now)
  then show ?thesis using assms(1) by (simp add: ginv_def balanced_def)
qed

lemma ginv_ginit: "ginit L s \<Longrightarrow> ginv L s"
  by (simp add: ginit_def ginv_def gsafe_def balanced_def same_object_def cl_pod_def)

section \<open>The phase only moves forward\<close>

text \<open>The order of the stored phases that every step keeps.\<close>

definition stored_ord :: "cluster \<Rightarrow> cluster \<Rightarrow> bool" where
  "stored_ord s t \<longleftrightarrow> phase_ord (g_phase (cl_stored s)) (g_phase (cl_stored t))"

lemma serve_status_ord:
  assumes "gsafe L s" and "phase_ord (g_phase (cl_cached s)) q"
  shows "stored_ord s (serve_status s (set_phase q (cl_cached s)))"
proof (cases "g_version (cl_cached s) = g_version (cl_stored s)")
  case True
  then have "cl_watch s = []" by (rule newest_version [OF assms(1)])
  then have "cl_stored s = cl_cached s" by (simp add: cl_stored_def)
  with True assms(2) show ?thesis
    by (simp add: serve_status_def stored_ord_def with_version_def)
next
  case False
  then show ?thesis by (simp add: serve_status_def stored_ord_def)
qed

lemma worker_ord:
  assumes "ginv L s" shows "stored_ord s (worker_run L loc s)"
proof -
  have s: "gsafe L s" using assms by (simp add: ginv_def)
  note s1 = worker_created_simps [OF s, of loc]
  show ?thesis
  proof (cases "worker_phase L loc s")
    case None
    then show ?thesis using s1 by (simp add: worker_run_effect [OF s] stored_ord_def)
  next
    case (Some q)
    have "phase_ord (g_phase (cl_cached s)) q"
      using spec_phase_ord [OF Some [unfolded worker_phase_def]] .
    with serve_status_ord [OF s1(1), of q] Some s1(2,4) show ?thesis
      by (simp add: worker_run_effect [OF s] stored_ord_def)
  qed
qed

lemma gstep_ord:
  assumes "ginv L s" and "gstep L loc s t" shows "stored_ord s t"
  using assms(2)
  by cases (use worker_ord [OF assms(1)] in \<open>auto simp: stored_ord_def kubelet_def cl_stored_def with_version_def
    put_pod_def put_greeter_def\<close>)

interpretation life: monotone_system "ginit L" "gstep L loc" "ginv L" stored_ord for L loc
proof
  show "ginit L s \<Longrightarrow> ginv L s" for s by (rule ginv_ginit)
  show "ginv L s \<Longrightarrow> gstep L loc s t \<Longrightarrow> ginv L t" for s t by (rule ginv_gstep)
  show "stored_ord s s" for s by (simp add: stored_ord_def)
  show "stored_ord s t \<Longrightarrow> stored_ord t u \<Longrightarrow> stored_ord s u" for s t u
    unfolding stored_ord_def by (rule phase_ord_trans)
  show "ginv L s \<Longrightarrow> gstep L loc s t \<Longrightarrow> stored_ord s t" for s t by (rule gstep_ord)
qed

text \<open>C2: In every reachable cluster, with caches as stale as they like and any interleaving with the
  kubelet and with users, the stored phase of a Greeter only ever moves from new or Pending to
  Running or an end, and from Running to an end; an ended Greeter keeps its phase for ever.\<close>

theorem greeter_phase_forward:
  assumes "reachable (ginit L) (gstep L loc) s" and "(gstep L loc)\<^sup>*\<^sup>* s t"
  shows "phase_ord (g_phase (cl_stored s)) (g_phase (cl_stored t)) \<and>
    (pod_ended (g_phase (cl_stored s)) \<longrightarrow> g_phase (cl_stored t) = g_phase (cl_stored s))"
proof -
  have "phase_ord (g_phase (cl_stored s)) (g_phase (cl_stored t))"
    using life.future_ord [OF assms(2,1)] by (simp add: stored_ord_def)
  then show ?thesis using phase_ord_ended by blast
qed

text \<open>C3: In every reachable cluster a Greeter whose stored phase is Succeeded or Failed had a pod,
  controlled by it, that ended in that phase.\<close>

theorem greeter_end_is_pod_end:
  assumes "reachable (ginit L) (gstep L loc) s" and "pod_ended (g_phase (cl_stored s))"
  shows "g_phase (cl_stored s) \<in> cl_ended s"
proof -
  have "gsafe L s" using life.reachable_inv [OF assms(1)] by (simp add: ginv_def)
  then show ?thesis using gsafeD(4) [OF _ cl_stored_in assms(2)] by blast
qed


section \<open>A due Greeter can complete\<close>

text \<open>The run of a new Greeter whose schedule is due: Running is stored and delivered, the pod is
  created, ends and is delivered, and its phase is stored.\<close>

lemma worker_starts:
  assumes "gsafe L s" and "cl_watch s = []"
    and "g_phase (cl_cached s) = ''''" and "is_due (cluster_env L loc s) (cl_cached s)"
  shows "worker_run L loc s = put_greeter (set_phase PhaseRunning (cl_cached s)) s"
proof -
  have "worker_phase L loc s = Some PhaseRunning"
    using assms(3,4) by (simp add: worker_phase_def spec_phase_def)
  moreover have "worker_created L loc s = s" using assms(3) by (simp add: worker_created_def)
  moreover have "cl_stored s = cl_cached s" using assms(2) by (simp add: cl_stored_def)
  ultimately show ?thesis
    by (simp add: worker_run_effect [OF assms(1)] serve_status_def set_phase_def)
qed

lemma worker_creates:
  assumes "gsafe L s" and "g_phase (cl_cached s) = PhaseRunning"
    and "cl_podCache s = None" and "cl_podWatch s = []"
  shows "worker_run L loc s =
    (put_pod (Some (ownedPod L (cl_cached s))) s)\<lparr>cl_created := Suc (cl_created s)\<rparr>"
proof -
  let ?E = "cluster_env L loc s" and ?g = "cl_cached s"
  have none: "cl_pod s = None" using assms(3,4) by (simp add: cl_pod_def)
  have nf: "kl_isNotFound L (kl_newNotFound L r n)" for r n
    using not_foundD [OF lib_okD(1) [OF gsafeD(1) [OF assms(1)]]] .
  then have "pod_missing ?E ?g" using assms(3) by (simp add: pod_missing_def)
  moreover have "pod_phase ?E ?g = None \<or> pod_phase ?E ?g = Some ''''"
    using assms(3) none nf by (simp add: pod_phase_def findOrCreatePod_def Let_def)
  then have "worker_phase L loc s = None"
    using assms(2) by (auto simp: worker_phase_def spec_phase_def)
  ultimately show ?thesis
    using assms(2) none by (simp add: worker_run_effect [OF assms(1)] worker_created_def serve_create_def)
qed

lemma worker_ends:
  assumes "gsafe L s" and "g_phase (cl_cached s) = PhaseRunning" and "cl_watch s = []"
    and "cl_podCache s = Some p" and "own_ended L (cl_cached s) p"
  shows "worker_run L loc s = put_greeter (set_phase (pst_phase (p_status p)) (cl_cached s)) s"
proof -
  let ?E = "cluster_env L loc s" and ?g = "cl_cached s"
  have "\<not> pod_missing ?E ?g" using assms(4) by (simp add: pod_missing_def)
  moreover have "pod_phase ?E ?g = Some (pst_phase (p_status p))"
    using assms(4,5) by (simp add: pod_phase_def findOrCreatePod_def own_ended_def Let_def)
  then have "worker_phase L loc s = Some (pst_phase (p_status p))"
    using assms(2,5) by (auto simp: worker_phase_def spec_phase_def own_ended_def pod_ended_def)
  moreover have "cl_stored s = cl_cached s" using assms(3) by (simp add: cl_stored_def)
  ultimately show ?thesis
    by (simp add: worker_run_effect [OF assms(1)] worker_created_def serve_status_def set_phase_def)
qed

lemma ginv_safe: "reachable (ginit L) (gstep L loc) s \<Longrightarrow> gsafe L s"
  using life.reachable_inv by (simp add: ginv_def)

abbreviation runs :: "kube_lib \<Rightarrow> location \<Rightarrow> cluster \<Rightarrow> bool" where
  "runs L loc \<equiv> reachable (ginit L) (gstep L loc)"

lemma runs_step: "runs L loc s \<Longrightarrow> gstep L loc s t \<Longrightarrow> runs L loc t"
  by (rule reach_step)

lemma becomes_running:
  assumes "ginit L s" and "is_due (cluster_env L loc s) (cl_cached s)"
  shows "\<exists>t. (gstep L loc)\<^sup>*\<^sup>* s t \<and> runs L loc t \<and> cl_watch t = [] \<and>
    g_phase (cl_cached t) = PhaseRunning \<and> cl_podCache t = None \<and> cl_podWatch t = [] \<and> cl_created t = 0"
proof -
  let ?g = "with_version (next_version (g_version (cl_cached s))) (set_phase PhaseRunning (cl_cached s))"
  let ?s1 = "put_greeter (set_phase PhaseRunning (cl_cached s)) s"
  let ?t = "?s1\<lparr>cl_cached := ?g, cl_watch := []\<rparr>"
  note init = assms(1) [unfolded ginit_def]
  have r: "runs L loc s" by (rule reach_init) (rule assms(1))
  have "worker_run L loc s = ?s1" by (rule worker_starts [OF ginv_safe [OF r]]) (use init assms(2) in auto)
  then have a1: "gstep L loc s ?s1" by (metis gstep.worker)
  have a2: "gstep L loc ?s1 ?t" by (rule gstep.deliver) (use init in \<open>simp add: put_greeter_def\<close>)
  have "runs L loc ?t" by (rule runs_step [OF runs_step [OF r a1] a2])
  moreover have "(gstep L loc)\<^sup>*\<^sup>* s ?t" using a1 a2 by (meson r_into_rtranclp rtranclp_trans)
  moreover have "g_phase ?g = PhaseRunning" by (simp add: with_version_def)
  ultimately show ?thesis
    by (intro exI [of _ ?t]) (use init in \<open>simp add: put_greeter_def\<close>)
qed

lemma pod_succeeds:
  assumes r: "runs L loc s" and w: "cl_watch s = []" and run: "g_phase (cl_cached s) = PhaseRunning"
    and none: "cl_podCache s = None" "cl_podWatch s = []" and c: "cl_created s = 0"
  shows "\<exists>t q. (gstep L loc)\<^sup>*\<^sup>* s t \<and> runs L loc t \<and> cl_watch t = [] \<and>
    cl_cached t = cl_cached s \<and> cl_podCache t = Some q \<and> own_ended L (cl_cached s) q \<and>
    pst_phase (p_status q) = PhaseSucceeded \<and> cl_created t = 1"
proof -
  let ?p = "ownedPod L (cl_cached s)" let ?q = "with_pod_phase PodSucceeded ?p"
  let ?s3 = "(put_pod (Some ?p) s)\<lparr>cl_created := Suc (cl_created s)\<rparr>"
  let ?s4 = "kubelet L PodSucceeded ?p ?s3"
  let ?s5 = "?s4\<lparr>cl_podCache := Some ?p, cl_podWatch := [Some ?q]\<rparr>"
  let ?t = "?s5\<lparr>cl_podCache := Some ?q, cl_podWatch := []\<rparr>"
  have "worker_run L loc s = ?s3" by (rule worker_creates [OF ginv_safe [OF r] run none])
  then have a3: "gstep L loc s ?s3" by (metis gstep.worker)
  have a4: "gstep L loc ?s3 ?s4" by (rule gstep.pod_runs) simp_all
  have a5: "gstep L loc ?s4 ?s5"
    by (rule gstep.deliver_pod) (use none in \<open>simp add: kubelet_def put_pod_def\<close>)
  have a6: "gstep L loc ?s5 ?t" by (rule gstep.deliver_pod) simp
  have "runs L loc ?t" by (rule runs_step [OF runs_step [OF runs_step [OF runs_step [OF r a3] a4] a5] a6])
  moreover have "(gstep L loc)\<^sup>*\<^sup>* s ?t" using a3 a4 a5 a6 by (meson r_into_rtranclp rtranclp_trans)
  moreover have "own_ended L (cl_cached s) ?q"
    using ownedPod_controlled [OF lib_okD(3) [OF gsafeD(1) [OF ginv_safe [OF r]]], of "cl_cached s"]
    by (simp add: own_ended_def with_pod_phase_def pod_ended_def)
  moreover have "cl_watch ?t = []" "cl_cached ?t = cl_cached s" "cl_created ?t = 1"
    using w c by (simp_all add: kubelet_def put_pod_def)
  moreover have "pst_phase (p_status ?q) = PhaseSucceeded" by (simp add: with_pod_phase_def)
  ultimately show ?thesis by (intro exI [of _ ?t] exI [of _ ?q]) simp
qed

lemma due_greeter_completes:
  assumes "ginit L s" and "is_due (cluster_env L loc s) (cl_cached s)"
  shows "\<exists>t. (gstep L loc)\<^sup>*\<^sup>* s t \<and> g_phase (cl_stored t) = PhaseSucceeded \<and> cl_created t = 1"
proof -
  obtain u where u: "(gstep L loc)\<^sup>*\<^sup>* s u" "runs L loc u" "cl_watch u = []"
      "g_phase (cl_cached u) = PhaseRunning" "cl_podCache u = None" "cl_podWatch u = []" "cl_created u = 0"
    using becomes_running [OF assms] by blast
  obtain v q where v: "(gstep L loc)\<^sup>*\<^sup>* u v" "runs L loc v" "cl_watch v = []" "cl_cached v = cl_cached u"
      "cl_podCache v = Some q" "own_ended L (cl_cached u) q" "pst_phase (p_status q) = PhaseSucceeded"
      "cl_created v = 1"
    using pod_succeeds [OF u(2-7)] by blast
  let ?t = "put_greeter (set_phase PhaseSucceeded (cl_cached v)) v"
  have "worker_run L loc v = ?t"
    using worker_ends [OF ginv_safe [OF v(2)] _ v(3,5)] u(4) v(4,6,7) by simp
  then have "gstep L loc v ?t" by (metis gstep.worker)
  then have "(gstep L loc)\<^sup>*\<^sup>* s ?t" using u(1) v(1) by (meson r_into_rtranclp rtranclp_trans)
  moreover have "g_phase (cl_stored ?t) = PhaseSucceeded" by (simp add: with_version_def)
  ultimately show ?thesis using v(8) by (intro exI [of _ ?t]) simp
qed


section \<open>A sample cluster\<close>

definition sample_cluster :: cluster where
  "sample_cluster = \<lparr>cl_cached = sample_greeter '''', cl_watch = [], cl_podCache = None,
     cl_podWatch = [], cl_now = oct_1_2023, cl_created = 0, cl_deleted = 0, cl_ended = {}\<rparr>"

lemma std_lib_ok [simp]: "lib_ok std_lib"
  unfolding lib_ok_def by (simp add: controller_uid_ok_def) (simp add: std_lib_def split: option.splits)

lemma sample_ginit: "ginit std_lib sample_cluster"
  by (simp add: ginit_def sample_cluster_def)

lemma sample_runs: "runs std_lib (fixed_zone 0) sample_cluster"
  by (rule reach_init) (rule sample_ginit)

lemma sample_due:
  "is_due (cluster_env std_lib (fixed_zone 0) sample_cluster) (cl_cached sample_cluster)"
proof -
  have "parse_in layout_DateTime (fixed_zone 0) ''2023-10-01 08:00:00'' = Inr oct_1_2023"
    by code_simp
  then show ?thesis
    by (simp add: is_due_def timeUntilSchedule_def cluster_env_def sample_cluster_def
        sample_greeter_def time_Sub_eq min_int64_def max_int64_def)
qed

lemma sample_ended:
  "\<exists>t. runs std_lib (fixed_zone 0) t \<and> g_phase (cl_stored t) = PhaseSucceeded \<and> cl_created t = 1"
  using due_greeter_completes [OF sample_ginit sample_due] reachable_steps [OF _ sample_runs] by blast

theorem greeter_phase_forward_witness:
  "phase_ord '''' (g_phase (cl_stored (worker_run std_lib (fixed_zone 0) sample_cluster)))"
proof -
  have "(gstep std_lib (fixed_zone 0))\<^sup>*\<^sup>* sample_cluster (worker_run std_lib (fixed_zone 0) sample_cluster)"
    by (rule r_into_rtranclp) (rule gstep.worker)
  from greeter_phase_forward [OF sample_runs this] show ?thesis
    by (simp add: cl_stored_def sample_cluster_def)
qed

theorem greeter_end_is_pod_end_witness:
  "\<exists>t. runs std_lib (fixed_zone 0) t \<and> g_phase (cl_stored t) = PhaseSucceeded \<and> PhaseSucceeded \<in> cl_ended t"
proof -
  obtain t where t: "runs std_lib (fixed_zone 0) t" "g_phase (cl_stored t) = PhaseSucceeded"
    using sample_ended by blast
  have "PhaseSucceeded \<in> cl_ended t"
    using greeter_end_is_pod_end [OF t(1)] t(2) by (simp add: pod_ended_def)
  with t show ?thesis by blast
qed



end
