(* ===== verification/CronTypes.thy ===== *)
theory CronTypes
  imports KubeMeta
begin

text \<open>
  The CronJob API (\<open>circle/api/v1\<close>) and the interfaces its controller calls: the cron parser,
  apimachinery and controller-runtime functions (the record \<open>cron_lib\<close>, with what the code relies on
  as named predicates), and the API server (the record \<open>cron_env\<close>).
\<close>

section \<open>The CronJob API\<close>

type_synonym concurrency_policy = string

definition AllowConcurrent :: concurrency_policy where
  "AllowConcurrent = ''Allow''"

definition ForbidConcurrent :: concurrency_policy where
  "ForbidConcurrent = ''Forbid''"

definition ReplaceConcurrent :: concurrency_policy where
  "ReplaceConcurrent = ''Replace''"

lemmas policy_defs = AllowConcurrent_def ForbidConcurrent_def ReplaceConcurrent_def

record pod_template =
  pt_meta :: object_meta
  pt_spec :: pod_spec

record object_reference =
  rf_kind :: string
  rf_namespace :: string
  rf_name :: string
  rf_uid :: string

text \<open>A pointer field is an option; the integers are \<open>int64\<close> and \<open>int32\<close>.\<close>

record cronjob_spec =
  cs_schedule :: string
  cs_startingDeadlineSeconds :: "int option"
  cs_concurrencyPolicy :: concurrency_policy
  cs_suspend :: "bool option"
  cs_jobTemplate :: pod_template
  cs_successfulJobsHistoryLimit :: "int option"
  cs_failedJobsHistoryLimit :: "int option"

record cronjob_status =
  cst_active :: "object_reference list"
  cst_lastScheduleTime :: "gotime option"

record cronjob =
  cj_type :: type_meta
  cj_meta :: object_meta
  cj_spec :: cronjob_spec
  cj_status :: cronjob_status

record cronjob_list =
  cjl_type :: type_meta
  cjl_resourceVersion :: string
  cjl_items :: "cronjob list option"

definition cron_GroupVersion :: "string \<times> string" where
  "cron_GroupVersion = (''batch.example.org'', ''v1'')"

text \<open>\<open>GroupVersion.String\<close>.\<close>

definition group_version_string :: "string \<times> string \<Rightarrow> string" where
  "group_version_string gv = (if fst gv = '''' then snd gv else fst gv @ ''/'' @ snd gv)"

section \<open>Libraries and the API server\<close>

text \<open>\<open>cron.ParseStandard\<close>, whose schedule is its \<open>Next\<close>; \<open>client.IgnoreNotFound\<close>;
  \<open>reference.GetReference\<close>; \<open>ctrl.SetControllerReference\<close>; \<open>metav1.GetControllerOf\<close>;
  \<open>metav1.Time.Before\<close> (on pointers) and \<open>sort.Slice\<close>. Every time that reaches the schedule is in
  the local zone of the process (a decoded \<open>metav1.Time\<close> is local, and so is \<open>Now\<close>), so \<open>Next\<close> is a
  function of the instant.\<close>

record cron_lib =
  cb_parseStandard :: "string \<Rightarrow> go_error + (gotime \<Rightarrow> gotime)"
  cb_ignoreNotFound :: "go_error option \<Rightarrow> go_error option"
  cb_getReference :: "pod \<Rightarrow> go_error + object_reference"
  cb_setControllerReference :: "cronjob \<Rightarrow> pod \<Rightarrow> go_error + pod"
  cb_getControllerOf :: "object_meta \<Rightarrow> owner_ref option"
  cb_timeBefore :: "gotime option \<Rightarrow> gotime option \<Rightarrow> bool"
  cb_sortSlice :: "(pod \<Rightarrow> pod \<Rightarrow> bool) \<Rightarrow> pod list \<Rightarrow> pod list"

text \<open>The writes of one run, in order.\<close>

datatype cron_action =
    CUpdateStatus cronjob
  | CDelete pod
  | CCreate pod

text \<open>The API server answers reads by their arguments and a write by what was written before it in
  the run. The clock is read up to three times: \<open>ce_now i\<close> is the answer to the \<open>i\<close>-th reading.
  \<open>ce_zone\<close> is the offset of the local zone at an instant, in seconds east of UTC.\<close>

record cron_env =
  ce_lib :: cron_lib
  ce_get :: "string \<Rightarrow> string \<Rightarrow> go_error + cronjob"
  ce_list :: "string \<Rightarrow> string \<Rightarrow> go_error + pod list"
  ce_updateStatus :: "cronjob \<Rightarrow> go_error + cronjob"
  ce_delete :: "cron_action list \<Rightarrow> pod \<Rightarrow> go_error option"
  ce_create :: "cron_action list \<Rightarrow> pod \<Rightarrow> go_error option"
  ce_now :: "nat \<Rightarrow> gotime"
  ce_zone :: "gotime \<Rightarrow> int"

record ctrl_result =
  rs_requeue :: bool
  rs_requeueAfter :: duration

definition no_result :: ctrl_result where
  "no_result = \<lparr>rs_requeue = False, rs_requeueAfter = 0\<rparr>"

section \<open>What the code relies on\<close>

text \<open>A schedule that fires at the instants \<open>F\<close>: \<open>Next\<close> is the first of them after its argument.\<close>

definition activates :: "(gotime \<Rightarrow> gotime) \<Rightarrow> gotime set \<Rightarrow> bool" where
  "activates nxt F \<longleftrightarrow> (\<forall>t. t < nxt t \<and> nxt t \<in> F \<and> (\<forall>u \<in> F. t < u \<longrightarrow> nxt t \<le> u))"

text \<open>The parser: an accepted expression fires at the instants \<open>fires s\<close>, or never, and then \<open>Next\<close> is
  the zero time.\<close>

definition parser_ok :: "cron_lib \<Rightarrow> (string \<Rightarrow> gotime set) \<Rightarrow> bool" where
  "parser_ok B fires \<longleftrightarrow> (\<forall>s nxt. cb_parseStandard B s = Inr nxt \<longrightarrow>
     activates nxt (fires s) \<or> fires s = {} \<and> nxt = (\<lambda>_. 0))"

text \<open>\<open>IgnoreNotFound\<close> passes every error on except not-found ones.\<close>

definition ignore_not_found_ok :: "cron_lib \<Rightarrow> bool" where
  "ignore_not_found_ok B \<longleftrightarrow> cb_ignoreNotFound B None = None \<and>
     (\<forall>e. cb_ignoreNotFound B (Some e) = None \<or> cb_ignoreNotFound B (Some e) = Some e)"

text \<open>\<open>SetControllerReference\<close> adds an owner and touches nothing else.\<close>

definition set_controller_ok :: "cron_lib \<Rightarrow> bool" where
  "set_controller_ok B \<longleftrightarrow> (\<forall>c p q. cb_setControllerReference B c p = Inr q \<longrightarrow>
     (\<exists>r. q = p\<lparr>p_meta := (p_meta p)\<lparr>om_ownerReferences := r\<rparr>\<rparr>))"

definition time_before_ok :: "cron_lib \<Rightarrow> bool" where
  "time_before_ok B \<longleftrightarrow> (\<forall>t u. cb_timeBefore B (Some t) u = (case u of None \<Rightarrow> False | Some v \<Rightarrow> t < v))"

text \<open>A status update that the server accepts answers with the object it was sent, under a new
  resource version.\<close>

definition status_update_ok :: "cron_env \<Rightarrow> bool" where
  "status_update_ok E \<longleftrightarrow> (\<forall>c d. ce_updateStatus E c = Inr d \<longrightarrow>
     (\<exists>v. d = c\<lparr>cj_meta := (cj_meta c)\<lparr>om_resourceVersion := v\<rparr>\<rparr>))"

end
