(* ===== verification/CronSchedule.thy ===== *)
theory CronSchedule
  imports CronTypes
begin

text \<open>
  When a CronJob has to run (\<open>circle/internal/controller/cronjob_controller.go\<close>): the scheduled time
  of a pod, and the latest run that was missed with the next one. The loop over the missed runs ends
  after at most 101 of them whatever the schedule does.
\<close>

section \<open>The code\<close>

definition scheduledTimeAnnotation :: string where
  "scheduledTimeAnnotation = ''batch.example.org/scheduled-at''"

definition getScheduleTimeForPod :: "pod \<Rightarrow> go_error + gotime" where
  "getScheduleTimeForPod p =
     (let scheduledTime = go_map_get (om_annotations (p_meta p)) scheduledTimeAnnotation
      in if length scheduledTime \<noteq> 0 then time_Parse_RFC3339 scheduledTime
         else Inl ErrScheduleTimeNotFound)"

text \<open>The loop: \<open>t\<close> is the run looked at, \<open>lastMissed\<close> and \<open>missingJobs\<close> what came before it.\<close>

function missed_loop ::
    "(gotime \<Rightarrow> gotime) \<Rightarrow> gotime \<Rightarrow> gotime \<Rightarrow> gotime \<Rightarrow> nat \<Rightarrow> go_error + gotime" where
  "missed_loop nxt now t lastMissed missingJobs =
     (if now < t then Inr lastMissed
      else if 100 < missingJobs + 1 then Inl ErrTooManyMissed
      else missed_loop nxt now (nxt t) t (missingJobs + 1))"
  by pat_completeness auto
termination by (relation "measure (\<lambda>(_, _, _, _, missingJobs). 101 - missingJobs)") auto

declare missed_loop.simps [simp del]

definition earliest_time :: "cronjob \<Rightarrow> gotime \<Rightarrow> gotime" where
  "earliest_time cronJob now =
     (let earliestTime = (case cst_lastScheduleTime (cj_status cronJob) of
            Some t \<Rightarrow> t | None \<Rightarrow> om_creationTimestamp (cj_meta cronJob))
      in case cs_startingDeadlineSeconds (cj_spec cronJob) of
           None \<Rightarrow> earliestTime
         | Some secs \<Rightarrow>
             let schedulingDeadline = time_Add now (dur_mul (- Second) secs)
             in if earliestTime < schedulingDeadline then schedulingDeadline else earliestTime)"

definition getNextScheduledTime :: "cron_lib \<Rightarrow> cronjob \<Rightarrow> gotime \<Rightarrow> go_error + gotime \<times> gotime" where
  "getNextScheduledTime B cronJob now =
     (case cb_parseStandard B (cs_schedule (cj_spec cronJob)) of
        Inl err \<Rightarrow> Inl err
      | Inr nxt \<Rightarrow>
          let earliestTime = earliest_time cronJob now
          in if now < earliestTime then Inr (0, nxt now)
             else case missed_loop nxt now (nxt earliestTime) 0 0 of
                    Inl err \<Rightarrow> Inl err
                  | Inr lastMissed \<Rightarrow> Inr (lastMissed, nxt now))"

section \<open>The missed runs\<close>

text \<open>The runs of a schedule in the interval that the loop looks at.\<close>

definition runs_between :: "gotime set \<Rightarrow> gotime \<Rightarrow> gotime \<Rightarrow> gotime set" where
  "runs_between F earliest now = F \<inter> {earliest<..now}"

lemma finite_runs_between [simp]: "finite (runs_between F e now)"
  unfolding runs_between_def by simp

lemma activatesD:
  assumes "activates nxt F"
  shows "t < nxt t" and "nxt t \<in> F" and "u \<in> F \<Longrightarrow> t < u \<Longrightarrow> nxt t \<le> u"
  using assms unfolding activates_def by blast+

lemma runs_between_step:
  assumes "activates nxt F"
  shows "runs_between F e now =
    (if now < nxt e then {} else insert (nxt e) (runs_between F (nxt e) now))"
  using activatesD [OF assms, of e] activatesD(3) [OF assms, of _ e]
  by (force simp: runs_between_def)

text \<open>The latest of a set of runs, or \<open>d\<close> when there is none.\<close>

definition latest_or :: "gotime \<Rightarrow> gotime set \<Rightarrow> gotime" where
  "latest_or d S = (if S = {} then d else Max S)"

lemma latest_or_insert:
  assumes "finite S" and "\<forall>u \<in> S. t < u"
  shows "latest_or d (insert t S) = latest_or t S"
proof (cases "S = {}")
  case True
  then show ?thesis by (simp add: latest_or_def)
next
  case False
  with assms have "t < Max S" by simp
  with False assms(1) show ?thesis by (auto simp: latest_or_def max_def)
qed

text \<open>The loop counts the missed runs and returns the latest, unless there are more than 100.\<close>

lemma missed_loop_correct:
  assumes "activates nxt F" and "k \<le> 100"
  shows "missed_loop nxt now (nxt e) lastMissed k =
    (if 100 < k + card (runs_between F e now) then Inl ErrTooManyMissed
     else Inr (latest_or lastMissed (runs_between F e now)))"
  using assms(2)
proof (induction "100 - k" arbitrary: k e lastMissed rule: less_induct)
  case less
  show ?case
  proof (cases "now < nxt e")
    case True
    then show ?thesis
      using less.prems runs_between_step [OF assms(1), of e now]
      by (simp add: missed_loop.simps latest_or_def)
  next
    case False
    let ?S = "runs_between F (nxt e) now"
    have S: "runs_between F e now = insert (nxt e) ?S"
      using runs_between_step [OF assms(1), of e now] False by simp
    have notin: "nxt e \<notin> ?S" and above: "\<forall>u \<in> ?S. nxt e < u" by (auto simp: runs_between_def)
    show ?thesis
    proof (cases "k = 100")
      case True
      with False S notin show ?thesis by (simp add: missed_loop.simps)
    next
      case k: False
      with less.prems have "missed_loop nxt now (nxt (nxt e)) (nxt e) (k + 1) =
          (if 100 < k + 1 + card ?S then Inl ErrTooManyMissed else Inr (latest_or (nxt e) ?S))"
        by (intro less.hyps) auto
      with k False less.prems S notin show ?thesis
        by (simp add: missed_loop.simps [of nxt now "nxt e"] latest_or_insert [OF _ above])
    qed
  qed
qed

text \<open>The first run after an instant.\<close>

definition first_after :: "gotime set \<Rightarrow> gotime \<Rightarrow> gotime \<Rightarrow> bool" where
  "first_after F now t \<longleftrightarrow> t \<in> F \<and> now < t \<and> (\<forall>u \<in> F. now < u \<longrightarrow> t \<le> u)"

lemma getNextScheduledTime_activates:
  assumes "cb_parseStandard B (cs_schedule (cj_spec c)) = Inr nxt" and "activates nxt F"
  shows "getNextScheduledTime B c now =
    (let missed = runs_between F (earliest_time c now) now
     in if 100 < card missed then Inl ErrTooManyMissed else Inr (latest_or 0 missed, nxt now))"
proof -
  have "runs_between F e now = {}" if "now < e" for e using that by (auto simp: runs_between_def)
  then show ?thesis
    using missed_loop_correct [OF assms(2), of 0 now "earliest_time c now" 0]
    by (simp add: getNextScheduledTime_def assms(1) Let_def latest_or_def)
qed

text \<open>C20: For a schedule that fires at the instants \<open>F\<close>, getNextScheduledTime returns the latest run
  between the earliest time (the last run or the creation, moved up to the starting deadline) and
  now, 0 when there is none, with the first run after now; and it fails exactly when more than 100
  runs lie in between.\<close>

theorem getNextScheduledTime_correct:
  assumes "cb_parseStandard B (cs_schedule (cj_spec c)) = Inr nxt" and "activates nxt F"
  shows "first_after F now (nxt now) \<and>
    getNextScheduledTime B c now =
      (let missed = runs_between F (earliest_time c now) now
       in if 100 < card missed then Inl ErrTooManyMissed else Inr (latest_or 0 missed, nxt now))"
  using getNextScheduledTime_activates [OF assms] activatesD [OF assms(2)]
  by (simp add: first_after_def)

text \<open>Where the earliest time lies: never below the deadline, and at the last run unless the deadline
  has moved it.\<close>

lemma earliest_time_ge:
  "cst_lastScheduleTime (cj_status c) = Some t \<Longrightarrow> t \<le> earliest_time c now"
  by (simp add: earliest_time_def Let_def split: option.splits)

text \<open>A run that the loop returns lies after the earliest time and not after now.\<close>

lemma missed_in:
  assumes "getNextScheduledTime B c now = Inr (missed, next_run)"
    and "cb_parseStandard B (cs_schedule (cj_spec c)) = Inr nxt" and "activates nxt F" and "missed \<noteq> 0"
  shows "missed \<in> F" and "earliest_time c now < missed" and "missed \<le> now"
proof -
  let ?S = "runs_between F (earliest_time c now) now"
  have m: "missed = latest_or 0 ?S"
    using assms(1) getNextScheduledTime_activates [OF assms(2,3), of now]
    by (simp add: Let_def split: if_splits)
  with assms(4) have "?S \<noteq> {}" by (auto simp: latest_or_def)
  then have "missed \<in> ?S" using m by (simp add: latest_or_def)
  then show "missed \<in> F" and "earliest_time c now < missed" and "missed \<le> now"
    by (simp_all add: runs_between_def)
qed

section \<open>Schedules that do not fire\<close>

text \<open>For a schedule that never fires \<open>Next\<close> is the zero time, which is not after now.\<close>

lemma missed_loop_zero:
  assumes "k \<le> 100" and "0 \<le> now"
  shows "missed_loop (\<lambda>_. 0) now 0 lastMissed k = Inl ErrTooManyMissed"
  using assms(1)
proof (induction "100 - k" arbitrary: k lastMissed rule: less_induct)
  case less
  then show ?case
    using assms(2) missed_loop.simps [of "\<lambda>_. 0" now 0 lastMissed k] by (cases "k = 100") simp_all
qed

text \<open>A schedule that is well-formed but never fires (the parser accepts February 30, and Next is
  then the zero time) is reported as too many missed runs, unless the earliest time is in the
  future.\<close>

lemma never_firing_schedule:
  assumes "cb_parseStandard B (cs_schedule (cj_spec c)) = Inr (\<lambda>_. 0)"
    and "earliest_time c now \<le> now" and "0 \<le> now"
  shows "getNextScheduledTime B c now = Inl ErrTooManyMissed"
  using assms missed_loop_zero [of 0 now 0] by (simp add: getNextScheduledTime_def Let_def)

text \<open>A missed run is always one of the schedule, and the latest that is due.\<close>

lemma missed_latest:
  assumes g: "getNextScheduledTime B c now = Inr (missed, nextRun)" and "missed \<noteq> 0"
    and ok: "parser_ok B fires" and "0 \<le> now"
  shows "missed \<in> runs_between (fires (cs_schedule (cj_spec c))) (earliest_time c now) now"
    and "runs_between (fires (cs_schedule (cj_spec c))) missed now = {}"
proof -
  let ?F = "fires (cs_schedule (cj_spec c))" and ?S = "runs_between (fires (cs_schedule (cj_spec c)))
    (earliest_time c now) now"
  obtain nxt where nxt: "cb_parseStandard B (cs_schedule (cj_spec c)) = Inr nxt"
    using g by (auto simp: getNextScheduledTime_def split: sum.splits)
  have "nxt \<noteq> (\<lambda>_. 0)"
  proof
    assume z: "nxt = (\<lambda>_. 0)"
    show False
    proof (cases "earliest_time c now \<le> now")
      case True
      with never_firing_schedule [of B c now] nxt z g \<open>0 \<le> now\<close> show ?thesis by simp
    next
      case False
      with g nxt \<open>missed \<noteq> 0\<close> show ?thesis by (simp add: getNextScheduledTime_def Let_def)
    qed
  qed
  then have act: "activates nxt ?F" using ok nxt unfolding parser_ok_def by blast
  show S: "missed \<in> ?S" using missed_in [OF g nxt act \<open>missed \<noteq> 0\<close>] by (simp add: runs_between_def)
  have "missed = Max ?S"
    using g getNextScheduledTime_activates [OF nxt act, of now] S
    by (auto simp: Let_def latest_or_def split: if_splits)
  then have "u \<le> missed" if "u \<in> ?S" for u using that by simp
  with S show "runs_between ?F missed now = {}" by (force simp: runs_between_def)
qed

section \<open>The scheduled time of a pod\<close>

lemma getScheduleTimeForPod_annotation:
  assumes "om_annotations (p_meta p) = Some m" and "m scheduledTimeAnnotation = Some (time_Format_RFC3339 off t)"
    and "off mod 60 = 0" "\<bar>off\<bar> < 90000" and "0 \<le> year_in off t" "year_in off t < 10000"
  shows "getScheduleTimeForPod p = Inr (t div Second * Second)"
proof -
  have "time_Parse_RFC3339 [] = Inl ErrTimeParse" by code_simp
  then have "time_Format_RFC3339 off t \<noteq> []"
    using parse_format_RFC3339 [OF assms(3-6)] by auto
  then show ?thesis
    using assms(1,2) parse_format_RFC3339 [OF assms(3-6)]
    by (simp add: getScheduleTimeForPod_def go_map_get_def Second_def)
qed
end
