(* ===== verification/CronReconcile.thy ===== *)
theory CronReconcile
  imports CronSchedule
begin

text \<open>
  The CronJob reconciler (\<open>circle/internal/controller/cronjob_controller.go\<close>). \<open>Reconcile\<close> is a
  function of what the API server and the clock answer, the record \<open>cron_env\<close>; it returns its result
  with the writes it has made, in order. Its stages are definitions of their own, in the order of
  the code, each given the writes made before it. Log lines are left out.
\<close>

section \<open>The child pods\<close>

record child_pods =
  ch_active :: "pod list"
  ch_failed :: "pod list"
  ch_successful :: "pod list"
  ch_lastScheduled :: gotime

text \<open>One round of the loop over the listed pods: the switch on the phase, then the scheduled time.\<close>

definition sort_pod :: "pod \<Rightarrow> child_pods \<Rightarrow> child_pods" where
  "sort_pod p ch =
     (if pst_phase (p_status p) = PodSucceeded
      then ch\<lparr>ch_successful := ch_successful ch @ [p]\<rparr>
      else if pst_phase (p_status p) = PodFailed
      then ch\<lparr>ch_failed := ch_failed ch @ [p]\<rparr>
      else ch\<lparr>ch_active := ch_active ch @ [p]\<rparr>)"

definition note_schedule :: "pod \<Rightarrow> child_pods \<Rightarrow> child_pods" where
  "note_schedule p ch =
     (case getScheduleTimeForPod p of
        Inl err \<Rightarrow> ch
      | Inr podLastScheduledTime \<Rightarrow>
          if ch_lastScheduled ch < podLastScheduledTime
          then ch\<lparr>ch_lastScheduled := podLastScheduledTime\<rparr> else ch)"

fun classify_pods :: "pod list \<Rightarrow> child_pods \<Rightarrow> child_pods" where
  "classify_pods [] ch = ch"
| "classify_pods (p # ps) ch = classify_pods ps (note_schedule p (sort_pod p ch))"

definition children :: "cronjob \<Rightarrow> pod list \<Rightarrow> child_pods" where
  "children cronJob ps = classify_pods ps
     \<lparr>ch_active = [], ch_failed = [], ch_successful = [],
      ch_lastScheduled = om_creationTimestamp (cj_meta cronJob)\<rparr>"

fun active_refs :: "cron_lib \<Rightarrow> pod list \<Rightarrow> object_reference list \<Rightarrow> object_reference list" where
  "active_refs B [] refs = refs"
| "active_refs B (p # ps) refs =
     (case cb_getReference B p of
        Inl err \<Rightarrow> active_refs B ps refs
      | Inr r \<Rightarrow> active_refs B ps (refs @ [r]))"

definition with_status :: "cron_lib \<Rightarrow> child_pods \<Rightarrow> cronjob \<Rightarrow> cronjob" where
  "with_status B ch cronJob = cronJob\<lparr>cj_status :=
     \<lparr>cst_active = active_refs B (ch_active ch) [], cst_lastScheduleTime = Some (ch_lastScheduled ch)\<rparr>\<rparr>"

section \<open>History limits\<close>

text \<open>The order that both histories are sorted by: pods without a start time first.\<close>

definition start_less :: "cron_lib \<Rightarrow> pod \<Rightarrow> pod \<Rightarrow> bool" where
  "start_less B p q =
     (case pst_startTime (p_status p) of
        None \<Rightarrow> pst_startTime (p_status q) \<noteq> None
      | Some t \<Rightarrow> cb_timeBefore B (Some t) (pst_startTime (p_status q)))"

text \<open>The deletion loop; whether a deletion succeeds only changes what is logged. Indexing past the
  end of the slice panics.\<close>

function delete_old :: "pod list \<Rightarrow> int \<Rightarrow> nat \<Rightarrow> cron_action list \<Rightarrow> unit go_out \<times> cron_action list" where
  "delete_old ps limit i acts =
     (if int (length ps) - limit < int i then (Ret (), acts)
      else if length ps \<le> i then (Panic ''index out of range'', acts)
      else delete_old ps limit (Suc i) (acts @ [CDelete (ps ! i)]))"
  by pat_completeness auto
termination by (relation "measure (\<lambda>(ps, _, i, _). Suc (length ps) - i)") auto

declare delete_old.simps [simp del]

definition clean_failed ::
    "cron_lib \<Rightarrow> cronjob \<Rightarrow> pod list \<Rightarrow> cron_action list \<Rightarrow> unit go_out \<times> cron_action list" where
  "clean_failed B cronJob failedPods acts =
     (case cs_failedJobsHistoryLimit (cj_spec cronJob) of
        None \<Rightarrow> (Ret (), acts)
      | Some limit \<Rightarrow> delete_old (cb_sortSlice B (start_less B) failedPods) limit 0 acts)"

definition clean_successful ::
    "cron_lib \<Rightarrow> cronjob \<Rightarrow> pod list \<Rightarrow> cron_action list \<Rightarrow> unit go_out \<times> cron_action list" where
  "clean_successful B cronJob successfulPods acts =
     (case cs_successfulJobsHistoryLimit (cj_spec cronJob) of
        None \<Rightarrow> (Ret (), acts)
      | Some limit \<Rightarrow> delete_old (cb_sortSlice B (start_less B) successfulPods) limit 0 acts)"

section \<open>A new run\<close>

definition newPodForCronJob :: "cron_env \<Rightarrow> cronjob \<Rightarrow> gotime \<Rightarrow> go_error + pod" where
  "newPodForCronJob E cronJob scheduledTime =
     (let template = cs_jobTemplate (cj_spec cronJob);
          labels = go_map_copy Map.empty (om_labels (pt_meta template));
          annotations = go_map_copy Map.empty (om_annotations (pt_meta template));
          annotations = annotations(scheduledTimeAnnotation \<mapsto>
            time_Format_RFC3339 (ce_zone E scheduledTime) scheduledTime);
          p = \<lparr>p_meta = zero_meta\<lparr>
                 om_labels := Some labels, om_annotations := Some annotations,
                 om_generateName := om_name (cj_meta cronJob) @ ''-'',
                 om_namespace := om_namespace (cj_meta cronJob)\<rparr>,
               p_spec = pt_spec template,
               p_status = \<lparr>pst_phase = '''', pst_startTime = None\<rparr>\<rparr>
      in cb_setControllerReference (ce_lib E) cronJob p)"

text \<open>The deletions of the replace policy: the first failure ends the run.\<close>

fun delete_active ::
    "cron_env \<Rightarrow> pod list \<Rightarrow> cron_action list \<Rightarrow> go_error option \<times> cron_action list" where
  "delete_active E [] acts = (None, acts)"
| "delete_active E (p # ps) acts =
     (case cb_ignoreNotFound (ce_lib E) (ce_delete E acts p) of
        Some err \<Rightarrow> (Some err, acts @ [CDelete p])
      | None \<Rightarrow> delete_active E ps (acts @ [CDelete p]))"

text \<open>Stage 6, once a run is missed: create the pod.\<close>

definition create_run ::
    "cron_env \<Rightarrow> cronjob \<Rightarrow> gotime \<Rightarrow> ctrl_result \<Rightarrow> cron_action list \<Rightarrow>
     (ctrl_result \<times> go_error option) \<times> cron_action list" where
  "create_run E cronJob missedRun waiting acts =
     (case newPodForCronJob E cronJob missedRun of
        Inl err \<Rightarrow> ((waiting, None), acts)
      | Inr p \<Rightarrow>
          (case ce_create E acts p of
             Some err \<Rightarrow> ((no_result, Some err), acts @ [CCreate p])
           | None \<Rightarrow> ((waiting, None), acts @ [CCreate p])))"

definition past_deadline :: "cron_env \<Rightarrow> cronjob \<Rightarrow> gotime \<Rightarrow> bool" where
  "past_deadline E cronJob missedRun =
     (case cs_startingDeadlineSeconds (cj_spec cronJob) of
        None \<Rightarrow> False
      | Some secs \<Rightarrow> time_Add missedRun (dur_mul Second secs) < ce_now E 2)"

definition start_run ::
    "cron_env \<Rightarrow> cronjob \<Rightarrow> pod list \<Rightarrow> gotime \<Rightarrow> gotime \<Rightarrow> cron_action list \<Rightarrow>
     (ctrl_result \<times> go_error option) \<times> cron_action list" where
  "start_run E cronJob activePods missedRun nextRun acts =
     (let waiting = \<lparr>rs_requeue = False, rs_requeueAfter = time_Sub nextRun (ce_now E 1)\<rparr>;
          policy = cs_concurrencyPolicy (cj_spec cronJob)
      in if time_IsZero missedRun then ((waiting, None), acts)
         else if past_deadline E cronJob missedRun then ((waiting, None), acts)
         else if policy = ForbidConcurrent \<and> 0 < length activePods then ((waiting, None), acts)
         else case (if policy = ReplaceConcurrent then delete_active E activePods acts
                    else (None, acts)) of
                (Some err, acts) \<Rightarrow> ((no_result, Some err), acts)
              | (None, acts) \<Rightarrow> create_run E cronJob missedRun waiting acts)"

text \<open>Stages 4 to 7.\<close>

definition schedule_run ::
    "cron_env \<Rightarrow> cronjob \<Rightarrow> pod list \<Rightarrow> cron_action list \<Rightarrow>
     (ctrl_result \<times> go_error option) \<times> cron_action list" where
  "schedule_run E cronJob activePods acts =
     (if cs_suspend (cj_spec cronJob) = Some True then ((no_result, None), acts)
      else case getNextScheduledTime (ce_lib E) cronJob (ce_now E 0) of
             Inl err \<Rightarrow> ((no_result, None), acts)
           | Inr (missedRun, nextRun) \<Rightarrow> start_run E cronJob activePods missedRun nextRun acts)"

section \<open>Reconcile\<close>

definition Reconcile ::
    "cron_env \<Rightarrow> string \<Rightarrow> string \<Rightarrow>
     (ctrl_result \<times> go_error option) go_out \<times> cron_action list" where
  "Reconcile E namespace name =
     (case ce_get E namespace name of
        Inl err \<Rightarrow> (Ret (no_result, cb_ignoreNotFound (ce_lib E) (Some err)), [])
      | Inr cronJob \<Rightarrow>
     (case ce_list E namespace name of
        Inl err \<Rightarrow> (Ret (no_result, Some err), [])
      | Inr childPods \<Rightarrow>
     (let ch = children cronJob childPods;
          cronJob = with_status (ce_lib E) ch cronJob;
          acts = [CUpdateStatus cronJob]
      in case ce_updateStatus E cronJob of
           Inl err \<Rightarrow> (Ret (no_result, Some err), acts)
         | Inr cronJob \<Rightarrow>
        (case clean_failed (ce_lib E) cronJob (ch_failed ch) acts of
           (Panic s, acts) \<Rightarrow> (Panic s, acts)
         | (Ret _, acts) \<Rightarrow>
        (case clean_successful (ce_lib E) cronJob (ch_successful ch) acts of
           (Panic s, acts) \<Rightarrow> (Panic s, acts)
         | (Ret _, acts) \<Rightarrow>
             (let (r, acts) = schedule_run E cronJob (ch_active ch) acts in (Ret r, acts)))))))"

section \<open>Set-up\<close>

text \<open>The values under which the index of the manager files an object: the name of the CronJob that
  controls a pod.\<close>

datatype client_object = CPod pod | COther string

definition podOwnerIndex :: "cron_lib \<Rightarrow> client_object \<Rightarrow> string list" where
  "podOwnerIndex B object =
     (case object of
        COther _ \<Rightarrow> []
      | CPod p \<Rightarrow>
          (case cb_getControllerOf B (p_meta p) of
             None \<Rightarrow> []
           | Some ownerRef \<Rightarrow>
               if or_apiVersion ownerRef = group_version_string cron_GroupVersion \<and>
                  or_kind ownerRef = ''CronJob''
               then [or_name ownerRef] else []))"

datatype clock = RealClock | FakeClock string

datatype setup_call = IndexField string | WatchFor string

text \<open>\<open>SetupWithManager\<close>: the clock it leaves, its calls and its error; \<open>indexErr\<close> and \<open>completeErr\<close>
  are what the manager answers.\<close>

definition jobOwnerKey :: string where
  "jobOwnerKey = ''.metadata.controlled-by''"

definition SetupWithManager ::
    "clock option \<Rightarrow> go_error option \<Rightarrow> go_error option \<Rightarrow>
     clock option \<times> setup_call list \<times> go_error option" where
  "SetupWithManager clk indexErr completeErr =
     (let clk = (case clk of None \<Rightarrow> Some RealClock | Some c \<Rightarrow> Some c)
      in case indexErr of
           Some err \<Rightarrow> (clk, [IndexField jobOwnerKey], Some err)
         | None \<Rightarrow> (clk, [IndexField jobOwnerKey, WatchFor ''CronJob''], completeErr))"

end
