(* ===== verification/CronHistory.thy ===== *)
theory CronHistory
  imports CronReconcile
begin

text \<open>
  The child pods of a CronJob and their histories: the pods are partitioned by phase, the last
  scheduled time is the latest that the pods carry, and what the two history limits delete. Both
  histories are cleaned by the same rule, stated once as a locale and interpreted on each.
\<close>

section \<open>The pods are partitioned\<close>

lemma note_schedule_lists [simp]:
  "ch_active (note_schedule p ch) = ch_active ch" "ch_failed (note_schedule p ch) = ch_failed ch"
  "ch_successful (note_schedule p ch) = ch_successful ch"
  by (simp_all add: note_schedule_def split: sum.splits)

lemma sort_pod_last [simp]: "ch_lastScheduled (sort_pod p ch) = ch_lastScheduled ch"
  by (simp add: sort_pod_def)

lemma classify_lists:
  "ch_active (classify_pods ps ch) = ch_active ch @
     filter (\<lambda>p. pst_phase (p_status p) \<noteq> PodSucceeded \<and> pst_phase (p_status p) \<noteq> PodFailed) ps"
  "ch_failed (classify_pods ps ch) = ch_failed ch @ filter (\<lambda>p. pst_phase (p_status p) = PodFailed) ps"
  "ch_successful (classify_pods ps ch) = ch_successful ch @
     filter (\<lambda>p. pst_phase (p_status p) = PodSucceeded) ps"
  by (induction ps arbitrary: ch) (auto simp: sort_pod_def corev1_consts)

lemma phases_partition:
  "mset (filter (\<lambda>p. pst_phase (p_status p) \<noteq> PodSucceeded \<and> pst_phase (p_status p) \<noteq> PodFailed) ps) +
     mset (filter (\<lambda>p. pst_phase (p_status p) = PodFailed) ps) +
     mset (filter (\<lambda>p. pst_phase (p_status p) = PodSucceeded) ps) = mset ps"
  by (induction ps) (auto simp: corev1_consts)

text \<open>The scheduled times that the pods carry; a pod without a readable one is passed over.\<close>

definition scheduled_times :: "pod list \<Rightarrow> gotime list" where
  "scheduled_times ps = List.map_filter
     (\<lambda>p. case getScheduleTimeForPod p of Inl _ \<Rightarrow> None | Inr t \<Rightarrow> Some t) ps"

lemma scheduled_times_simps [simp]:
  "scheduled_times [] = []"
  "scheduled_times (p # ps) =
     (case getScheduleTimeForPod p of Inl _ \<Rightarrow> scheduled_times ps | Inr t \<Rightarrow> t # scheduled_times ps)"
  by (simp_all add: scheduled_times_def map_filter_simps split: sum.splits)

lemma in_scheduled_times:
  "p \<in> set ps \<Longrightarrow> getScheduleTimeForPod p = Inr t \<Longrightarrow> t \<in> set (scheduled_times ps)"
  by (induction ps) (auto split: sum.splits)

lemma classify_last:
  "ch_lastScheduled (classify_pods ps ch) = foldl max (ch_lastScheduled ch) (scheduled_times ps)"
  by (induction ps arbitrary: ch) (auto simp: note_schedule_def max_def split: sum.splits)

lemma foldl_max: "foldl max (a :: int) ts = Max (insert a (set ts))"
proof (induction ts arbitrary: a)
  case Nil
  then show ?case by simp
next
  case (Cons t ts)
  then show ?case by (cases "ts = []") (simp_all add: max.assoc max.left_commute)
qed

text \<open>Reconcile sorts the child pods by phase and loses none, each list in the order of the list
  call, and the last scheduled time it reports is the latest of the creation of the CronJob and the
  scheduled times the pods carry, wherever they stand in the list.\<close>

lemma children_correct:
  "ch_active (children c ps) =
      filter (\<lambda>p. pst_phase (p_status p) \<noteq> PodSucceeded \<and> pst_phase (p_status p) \<noteq> PodFailed) ps \<and>
   ch_failed (children c ps) = filter (\<lambda>p. pst_phase (p_status p) = PodFailed) ps \<and>
   ch_successful (children c ps) = filter (\<lambda>p. pst_phase (p_status p) = PodSucceeded) ps \<and>
   mset (ch_active (children c ps)) + mset (ch_failed (children c ps)) +
     mset (ch_successful (children c ps)) = mset ps \<and>
   ch_lastScheduled (children c ps) =
     Max (insert (om_creationTimestamp (cj_meta c)) (set (scheduled_times ps)))"
  using phases_partition [of ps]
  unfolding children_def by (simp add: classify_lists classify_last foldl_max)

lemma lastScheduled_ge:
  assumes "p \<in> set ps" and "getScheduleTimeForPod p = Inr t"
  shows "t \<le> ch_lastScheduled (children c ps)"
  using in_scheduled_times [OF assms] by (simp add: children_def classify_last foldl_max)

lemma children_subset:
  "set (ch_active (children c ps)) \<subseteq> set ps" "set (ch_failed (children c ps)) \<subseteq> set ps"
  "set (ch_successful (children c ps)) \<subseteq> set ps"
  by (auto simp: children_def classify_lists)

section \<open>What a history limit deletes\<close>

lemma delete_old_eq:
  assumes "i \<le> length ps"
  shows "delete_old ps limit i acts =
    (if limit \<le> 0 then (Panic ''index out of range'', acts @ map CDelete (drop i ps))
     else (Ret (), acts @ map CDelete (drop i (take (nat (int (length ps) - limit + 1)) ps))))"
  using assms
proof (induction "length ps - i" arbitrary: i acts)
  case 0
  then have "i = length ps" by simp
  then show ?case by (simp add: delete_old.simps)
next
  case (Suc n)
  then have i: "i < length ps" by simp
  have IH: "delete_old ps limit (Suc i) (acts @ [CDelete (ps ! i)]) =
      (if limit \<le> 0
       then (Panic ''index out of range'', acts @ map CDelete (ps ! i # drop (Suc i) ps))
       else (Ret (), acts @ CDelete (ps ! i) #
         map CDelete (drop (Suc i) (take (nat (int (length ps) - limit + 1)) ps))))"
    using Suc.hyps(1) [of "Suc i" "acts @ [CDelete (ps ! i)]"] Suc.hyps(2) i by simp
  show ?case
  proof (cases "int (length ps) - limit < int i")
    case True
    with i show ?thesis by (simp add: delete_old.simps)
  next
    case False
    then have t: "drop i (take (nat (int (length ps) - limit + 1)) ps) =
        ps ! i # drop (Suc i) (take (nat (int (length ps) - limit + 1)) ps)"
      if "0 < limit" using that i by (simp add: Cons_nth_drop_Suc [symmetric])
    from False i IH t Cons_nth_drop_Suc [OF i] show ?thesis
      by (simp add: delete_old.simps [of ps limit i])
  qed
qed

text \<open>The pods that a limit of at least one deletes and keeps.\<close>

definition doomed :: "cron_lib \<Rightarrow> int \<Rightarrow> pod list \<Rightarrow> pod list" where
  "doomed B limit ps = take (nat (int (length ps) - limit + 1)) (cb_sortSlice B (start_less B) ps)"

definition kept :: "cron_lib \<Rightarrow> int \<Rightarrow> pod list \<Rightarrow> pod list" where
  "kept B limit ps = drop (nat (int (length ps) - limit + 1)) (cb_sortSlice B (start_less B) ps)"

text \<open>What the clean-up of a history with a limit comes to: nothing without one; with a limit of at least
  one, the pods that started no later than the limit - 1 that are kept are deleted (all are kept when
  there are fewer); with a limit of 0 or less all are deleted before a panic.\<close>

definition history_cleaned ::
    "cron_lib \<Rightarrow> int option \<Rightarrow> pod list \<Rightarrow> cron_action list \<Rightarrow> unit go_out \<times> cron_action list \<Rightarrow> bool" where
  "history_cleaned B limit ps acts res \<longleftrightarrow>
     (case limit of
        None \<Rightarrow> res = (Ret (), acts)
      | Some limit \<Rightarrow>
          if 0 < limit
          then \<exists>old new. res = (Ret (), acts @ map CDelete old) \<and>
            mset old + mset new = mset ps \<and> length new = min (length ps) (nat (limit - 1)) \<and>
            (\<forall>d \<in> set old. \<forall>k \<in> set new. \<not> start_less B k d)
          else \<exists>all_pods. mset all_pods = mset ps \<and>
            res = (Panic ''index out of range'', acts @ map CDelete all_pods))"

text \<open>The contract of a history: sorted by start time, then cut by the deletion loop.\<close>

locale history =
  fixes clean :: "cron_lib \<Rightarrow> cronjob \<Rightarrow> pod list \<Rightarrow> cron_action list \<Rightarrow> unit go_out \<times> cron_action list"
    and limit_of :: "cronjob_spec \<Rightarrow> int option"
  assumes clean_eq: "clean B c ps acts =
    (case limit_of (cj_spec c) of
       None \<Rightarrow> (Ret (), acts)
     | Some limit \<Rightarrow> delete_old (cb_sortSlice B (start_less B) ps) limit 0 acts)"
begin

lemma clean_unlimited: "limit_of (cj_spec c) = None \<Longrightarrow> clean B c ps acts = (Ret (), acts)"
  by (simp add: clean_eq)

lemma clean_limited:
  assumes "limit_of (cj_spec c) = Some limit" and "0 < limit"
    and "sort_slice_spec (cb_sortSlice B) (start_less B)"
  shows "clean B c ps acts = (Ret (), acts @ map CDelete (doomed B limit ps))"
  using assms sort_slice_specD(3) [OF assms(3), of ps]
  by (simp add: clean_eq delete_old_eq doomed_def)

lemma clean_zero:
  assumes "limit_of (cj_spec c) = Some limit" and "limit \<le> 0"
  shows "clean B c ps acts =
    (Panic ''index out of range'', acts @ map CDelete (cb_sortSlice B (start_less B) ps))"
  using assms by (simp add: clean_eq delete_old_eq)

lemma doomed_and_kept:
  assumes "0 < limit" and "sort_slice_spec (cb_sortSlice B) (start_less B)"
  shows "mset (doomed B limit ps) + mset (kept B limit ps) = mset ps"
    and "length (kept B limit ps) = min (length ps) (nat (limit - 1))"
    and "\<forall>d \<in> set (doomed B limit ps). \<forall>k \<in> set (kept B limit ps). \<not> start_less B k d"
proof -
  let ?s = "cb_sortSlice B (start_less B) ps" and ?n = "nat (int (length ps) - limit + 1)"
  note srt = sort_slice_specD [OF assms(2), of ps]
  have "mset (take ?n ?s) + mset (drop ?n ?s) = mset (take ?n ?s @ drop ?n ?s)" by (simp only: mset_append)
  then show "mset (doomed B limit ps) + mset (kept B limit ps) = mset ps"
    by (simp add: doomed_def kept_def srt(1))
  show "length (kept B limit ps) = min (length ps) (nat (limit - 1))"
    using assms(1) srt(3) by (simp add: kept_def)
  have "sorted_by (start_less B) (take ?n ?s @ drop ?n ?s)" using srt(2) by simp
  then show "\<forall>d \<in> set (doomed B limit ps). \<forall>k \<in> set (kept B limit ps). \<not> start_less B k d"
    unfolding sorted_by_def sorted_wrt_append by (simp add: doomed_def kept_def)
qed

lemma clean_cleans:
  assumes "sort_slice_spec (cb_sortSlice B) (start_less B)"
  shows "history_cleaned B (limit_of (cj_spec c)) ps acts (clean B c ps acts)"
proof (cases "limit_of (cj_spec c)")
  case None
  then show ?thesis by (simp add: history_cleaned_def clean_unlimited)
next
  case (Some limit)
  show ?thesis
  proof (cases "0 < limit")
    case True
    have "history_cleaned B (Some limit) ps acts (Ret (), acts @ map CDelete (doomed B limit ps))"
      unfolding history_cleaned_def option.case if_P [OF True]
      using doomed_and_kept [OF True assms] by blast
    with clean_limited [OF Some True assms] Some show ?thesis by simp
  next
    case False
    then have "clean B c ps acts =
        (Panic ''index out of range'', acts @ map CDelete (cb_sortSlice B (start_less B) ps))"
      using clean_zero [OF Some] by simp
    moreover have "history_cleaned B (Some limit) ps acts
        (Panic ''index out of range'', acts @ map CDelete (cb_sortSlice B (start_less B) ps))"
      unfolding history_cleaned_def option.case if_not_P [OF False]
      using sort_slice_specD(1) [OF assms, of ps] by blast
    ultimately show ?thesis using Some by simp
  qed
qed

text \<open>With a limit of at least two a pod that started after all others of its history is kept.\<close>

lemma keeps_latest:
  assumes "sort_slice_spec (cb_sortSlice B) (start_less B)" and "distinct ps"
    and lim: "\<And>l. limit_of (cj_spec c) = Some l \<Longrightarrow> 2 \<le> l"
    and latest: "\<And>q. p \<in> set ps \<Longrightarrow> q \<in> set ps \<Longrightarrow> q \<noteq> p \<Longrightarrow> start_less B q p"
  obtains ds where "clean B c ps acts = (Ret (), acts @ map CDelete ds)" and "p \<notin> set ds" and "set ds \<subseteq> set ps"
proof (cases "limit_of (cj_spec c)")
  case None
  show ?thesis by (rule that [of "[]"]) (simp_all add: clean_unlimited [OF None])
next
  case (Some l)
  have l: "0 < l" "2 \<le> l" using lim [OF Some] by auto
  let ?d = "doomed B l ps" and ?k = "kept B l ps"
  note dk = doomed_and_kept [OF l(1) assms(1), of ps]
  have subset: "set ?d \<subseteq> set ps" using dk(1) by (metis mset_subset_eq_add_left set_mset_mono set_mset_mset)
  have "p \<notin> set ?d"
  proof
    assume p: "p \<in> set ?d"
    then have "0 < length ps" using subset by auto
    then have "0 < length ?k" using dk(2) l(2) by simp
    then obtain k where k: "k \<in> set ?k" by (cases ?k) auto
    have d: "distinct (?d @ ?k)" using dk(1) assms(2) by (metis mset_append mset_eq_imp_distinct_iff)
    have "k \<in> set ps" using k dk(1) by (metis Un_iff set_append mset_append set_mset_mset)
    moreover have "k \<noteq> p" using d p k by auto
    ultimately show False using latest dk(3) p k subset by blast
  qed
  then show ?thesis using that [of ?d] clean_limited [OF Some l(1) assms(1)] subset by blast
qed

lemma clean_appends: "\<exists>ds. snd (clean B c ps acts) = acts @ map CDelete ds \<and> set ds \<subseteq> set (cb_sortSlice B (start_less B) ps)"
proof (cases "limit_of (cj_spec c)")
  case None
  then show ?thesis by (simp add: clean_eq)
next
  case (Some l)
  let ?s = "cb_sortSlice B (start_less B) ps"
  show ?thesis
    using Some set_take_subset [of "nat (int (length ?s) - l + 1)" ?s]
    by (cases "l \<le> 0") (auto simp: clean_eq delete_old_eq)
qed

end

interpretation failed: history clean_failed cs_failedJobsHistoryLimit
  by unfold_locales (simp add: clean_failed_def)

interpretation successful: history clean_successful cs_successfulJobsHistoryLimit
  by unfold_locales (simp add: clean_successful_def)

text \<open>C22: Both histories are cleaned up alike: without a limit nothing is deleted; with a limit of at
  least one the clean-up deletes pods that started no later than those it keeps, and it keeps
  limit - 1 of them, one fewer than the limit says (or all, when there are fewer); with a limit of 0
  it deletes every pod and then panics.\<close>

theorem histories_cleaned:
  assumes "sort_slice_spec (cb_sortSlice B) (start_less B)"
  shows "history_cleaned B (cs_failedJobsHistoryLimit (cj_spec c)) ps acts (clean_failed B c ps acts) \<and>
    history_cleaned B (cs_successfulJobsHistoryLimit (cj_spec c)) ps acts (clean_successful B c ps acts)"
  using failed.clean_cleans [OF assms] successful.clean_cleans [OF assms] by blast

end
