(* ===== verification/CronProps.thy ===== *)
theory CronProps
  imports CronHistory
begin

text \<open>
  What a run of the CronJob reconciler does: when it creates a pod and which, that it never creates
  a run that its pods already carry, what it deletes, when it asks to be called again, and what its
  errors mean.
\<close>

section \<open>Reading the writes of a run\<close>

fun run_pods :: "cron_action list \<Rightarrow> pod list" where
  "run_pods [] = []"
| "run_pods (CCreate p # acts) = p # run_pods acts"
| "run_pods (_ # acts) = run_pods acts"

fun deleted_pods :: "cron_action list \<Rightarrow> pod list" where
  "deleted_pods [] = []"
| "deleted_pods (CDelete p # acts) = p # deleted_pods acts"
| "deleted_pods (_ # acts) = deleted_pods acts"

lemma run_pods_append [simp]: "run_pods (xs @ ys) = run_pods xs @ run_pods ys"
  by (induction xs rule: run_pods.induct) auto

lemma deleted_pods_append [simp]: "deleted_pods (xs @ ys) = deleted_pods xs @ deleted_pods ys"
  by (induction xs rule: deleted_pods.induct) auto

lemma run_pods_deletes [simp]: "run_pods (map CDelete ps) = []"
  by (induction ps) auto

lemma deleted_pods_deletes [simp]: "deleted_pods (map CDelete ps) = ps"
  by (induction ps) auto

section \<open>The stages\<close>

text \<open>The first reads and the status update, when all of them are accepted: \<open>c'\<close> is the CronJob
  the rest of the run works on.\<close>

definition fetched :: "cron_env \<Rightarrow> string \<Rightarrow> string \<Rightarrow> cronjob \<Rightarrow> pod list \<Rightarrow> cronjob \<Rightarrow> bool" where
  "fetched E ns n c ps c' \<longleftrightarrow> ce_get E ns n = Inr c \<and> ce_list E ns n = Inr ps \<and>
     ce_updateStatus E (with_status (ce_lib E) (children c ps) c) = Inr c'"

abbreviation status_write :: "cron_env \<Rightarrow> cronjob \<Rightarrow> pod list \<Rightarrow> cron_action" where
  "status_write E c ps \<equiv> CUpdateStatus (with_status (ce_lib E) (children c ps) c)"

text \<open>The two clean-ups, and what a run does after them.\<close>

definition clean_histories :: "cron_env \<Rightarrow> cronjob \<Rightarrow> pod list \<Rightarrow> cronjob \<Rightarrow> unit go_out \<times> cron_action list" where
  "clean_histories E c ps c' =
     (case clean_failed (ce_lib E) c' (ch_failed (children c ps)) [status_write E c ps] of
        (Panic s, acts) \<Rightarrow> (Panic s, acts)
      | (Ret _, acts) \<Rightarrow> clean_successful (ce_lib E) c' (ch_successful (children c ps)) acts)"

lemma Reconcile_fetched:
  assumes "fetched E ns n c ps c'"
  shows "Reconcile E ns n =
    (case clean_histories E c ps c' of
       (Panic s, acts) \<Rightarrow> (Panic s, acts)
     | (Ret _, acts) \<Rightarrow>
         (Ret (fst (schedule_run E c' (ch_active (children c ps)) acts)),
          snd (schedule_run E c' (ch_active (children c ps)) acts)))"
  using assms
  by (simp add: fetched_def Reconcile_def clean_histories_def Let_def case_prod_beta split: go_out.splits)

lemma Reconcile_unfetched:
  assumes "\<nexists>c ps c'. fetched E ns n c ps c'"
  shows "run_pods (snd (Reconcile E ns n)) = [] \<and> deleted_pods (snd (Reconcile E ns n)) = []"
  using assms by (auto simp: fetched_def Reconcile_def Let_def split: sum.splits)

lemma clean_histories_appends:
  assumes "sort_slice_spec (cb_sortSlice (ce_lib E)) (start_less (ce_lib E))"
  shows "\<exists>ds. snd (clean_histories E c ps c') = status_write E c ps # map CDelete ds \<and>
    set ds \<subseteq> set (ch_failed (children c ps)) \<union> set (ch_successful (children c ps))"
proof -
  let ?B = "ce_lib E" and ?f = "ch_failed (children c ps)" and ?s = "ch_successful (children c ps)"
  obtain ds where ds: "snd (clean_failed ?B c' ?f [status_write E c ps]) = status_write E c ps # map CDelete ds"
      "set ds \<subseteq> set ?f"
    using failed.clean_appends [of ?B c' ?f "[status_write E c ps]"] sort_slice_specD(4) [OF assms, of ?f]
    by auto
  obtain es where es: "snd (clean_successful ?B c' ?s (status_write E c ps # map CDelete ds)) =
        status_write E c ps # map CDelete ds @ map CDelete es" "set es \<subseteq> set ?s"
    using successful.clean_appends [of ?B c' ?s "status_write E c ps # map CDelete ds"]
      sort_slice_specD(4) [OF assms, of ?s] by auto
  show ?thesis
  proof (cases "clean_failed ?B c' ?f [status_write E c ps]")
    case (Pair r acts)
    show ?thesis
    proof (cases r)
      case (Panic s)
      with Pair ds show ?thesis by (intro exI [of _ ds]) (auto simp: clean_histories_def)
    next
      case (Ret u)
      with Pair ds es show ?thesis by (intro exI [of _ "ds @ es"]) (auto simp: clean_histories_def)
    qed
  qed
qed

section \<open>The last stages\<close>

lemma delete_active_eq:
  "delete_active E ps acts = (None, acts') \<Longrightarrow> acts' = acts @ map CDelete ps"
  by (induction E ps acts rule: delete_active.induct) (auto split: option.splits)

lemma delete_active_prefix:
  "\<exists>k. snd (delete_active E ps acts) = acts @ map CDelete (take k ps)"
proof (induction ps arbitrary: acts)
  case Nil
  then show ?case by simp
next
  case (Cons p ps)
  show ?case
  proof (cases "cb_ignoreNotFound (ce_lib E) (ce_delete E acts p)")
    case None
    obtain k where "snd (delete_active E ps (acts @ [CDelete p])) = acts @ [CDelete p] @ map CDelete (take k ps)"
      using Cons.IH [of "acts @ [CDelete p]"] by auto
    with None show ?thesis by (intro exI [of _ "Suc k"]) simp
  next
    case (Some err)
    then show ?thesis by (intro exI [of _ 1]) simp
  qed
qed

text \<open>The deletions that the concurrency policy asks for before a run.\<close>

definition replaced :: "cronjob \<Rightarrow> pod list \<Rightarrow> pod list" where
  "replaced c active = (if cs_concurrencyPolicy (cj_spec c) = ReplaceConcurrent then active else [])"

text \<open>The conditions under which a missed run is started.\<close>

definition may_start :: "cron_env \<Rightarrow> cronjob \<Rightarrow> pod list \<Rightarrow> gotime \<Rightarrow> bool" where
  "may_start E c active missed \<longleftrightarrow> missed \<noteq> 0 \<and> \<not> past_deadline E c missed \<and>
     (cs_concurrencyPolicy (cj_spec c) = ForbidConcurrent \<longrightarrow> active = [])"

lemma start_run_not:
  "\<not> may_start E c active missed \<Longrightarrow> start_run E c active missed nextRun acts =
    ((\<lparr>rs_requeue = False, rs_requeueAfter = time_Sub nextRun (ce_now E 1)\<rparr>, None), acts)"
  by (auto simp: may_start_def start_run_def Let_def time_IsZero_def)

text \<open>The replacement of the active pods, as far as it gets.\<close>

definition replace_active ::
    "cron_env \<Rightarrow> cronjob \<Rightarrow> pod list \<Rightarrow> cron_action list \<Rightarrow> go_error option \<times> cron_action list" where
  "replace_active E c active acts =
     (if cs_concurrencyPolicy (cj_spec c) = ReplaceConcurrent then delete_active E active acts
      else (None, acts))"

lemma start_run_may:
  "may_start E c active missed \<Longrightarrow> start_run E c active missed nextRun acts =
    (case replace_active E c active acts of
       (Some err, acts') \<Rightarrow> ((no_result, Some err), acts')
     | (None, acts') \<Rightarrow> create_run E c missed
         \<lparr>rs_requeue = False, rs_requeueAfter = time_Sub nextRun (ce_now E 1)\<rparr> acts')"
  unfolding start_run_def replace_active_def may_start_def
  by (auto simp: Let_def time_IsZero_def simp del: One_nat_def)

lemma replace_active_prefix:
  "\<exists>k. snd (replace_active E c active acts) = acts @ map CDelete (take k (replaced c active))"
  using delete_active_prefix [of E active acts] by (auto simp: replace_active_def replaced_def)

lemma replace_active_done:
  assumes "fst (replace_active E c active acts) = None"
  shows "replace_active E c active acts = (None, acts @ map CDelete (replaced c active))"
  using assms delete_active_eq [of E active acts "snd (replace_active E c active acts)"]
  by (auto simp: replace_active_def replaced_def prod_eq_iff)

text \<open>A run of the last stages either leaves the pods alone, or fails to replace the active ones or
  to build the pod, or starts the missed run.\<close>

lemma start_run_cases:
  assumes may: "may_start E c active missed"
  obtains (tried) k where
      "snd (start_run E c active missed nextRun acts) = acts @ map CDelete (take k (replaced c active))"
  | (started) p where "newPodForCronJob E c missed = Inr p"
      "snd (start_run E c active missed nextRun acts) = acts @ map CDelete (replaced c active) @ [CCreate p]"
      "snd (fst (start_run E c active missed nextRun acts)) =
         ce_create E (acts @ map CDelete (replaced c active)) p"
proof (cases "fst (replace_active E c active acts)")
  case (Some err)
  then show ?thesis
    using tried replace_active_prefix [of E c active acts]
    by (auto simp: start_run_may [OF may] case_prod_beta)
next
  case None
  note dl = replace_active_done [OF None]
  show ?thesis
  proof (cases "newPodForCronJob E c missed")
    case (Inl err)
    with dl have "snd (start_run E c active missed nextRun acts) =
        acts @ map CDelete (take (length (replaced c active)) (replaced c active))"
      by (simp add: start_run_may [OF may] create_run_def)
    then show ?thesis by (rule tried)
  next
    case (Inr p)
    then show ?thesis
      using dl started [OF Inr] by (simp add: start_run_may [OF may] create_run_def split: option.splits)
  qed
qed

lemma schedule_run_cases:
  obtains (quiet) "snd (schedule_run E c active acts) = acts" "snd (fst (schedule_run E c active acts)) = None"
  | (tried) missed nextRun k where
      "cs_suspend (cj_spec c) \<noteq> Some True"
      "getNextScheduledTime (ce_lib E) c (ce_now E 0) = Inr (missed, nextRun)" "may_start E c active missed"
      "snd (schedule_run E c active acts) = acts @ map CDelete (take k (replaced c active))"
  | (started) missed nextRun p where
      "cs_suspend (cj_spec c) \<noteq> Some True"
      "getNextScheduledTime (ce_lib E) c (ce_now E 0) = Inr (missed, nextRun)" "may_start E c active missed"
      "newPodForCronJob E c missed = Inr p"
      "snd (schedule_run E c active acts) = acts @ map CDelete (replaced c active) @ [CCreate p]"
      "snd (fst (schedule_run E c active acts)) = ce_create E (acts @ map CDelete (replaced c active)) p"
proof (cases "cs_suspend (cj_spec c) = Some True \<or>
    (\<exists>err. getNextScheduledTime (ce_lib E) c (ce_now E 0) = Inl err)")
  case True
  then show ?thesis using quiet by (auto simp: schedule_run_def)
next
  case False
  then obtain missed nextRun where un: "cs_suspend (cj_spec c) \<noteq> Some True"
      and mn: "getNextScheduledTime (ce_lib E) c (ce_now E 0) = Inr (missed, nextRun)"
    by (metis old.sum.exhaust surj_pair)
  then have run: "schedule_run E c active acts = start_run E c active missed nextRun acts"
    by (simp add: schedule_run_def)
  show ?thesis
  proof (cases "may_start E c active missed")
    case False
    then show ?thesis using quiet by (simp add: run start_run_not)
  next
    case True
    then show ?thesis
      by (rule start_run_cases [of E c active missed nextRun acts])
         (use tried [OF un mn True] started [OF un mn True] run in \<open>simp_all\<close>)
  qed
qed

section \<open>When a pod is created\<close>

text \<open>The writes of a run that creates a pod.\<close>

lemma Reconcile_created:
  assumes srt: "sort_slice_spec (cb_sortSlice (ce_lib E)) (start_less (ce_lib E))"
    and p: "p \<in> set (run_pods (snd (Reconcile E ns n)))"
  obtains c ps c' missed nextRun ds where
    "fetched E ns n c ps c'" "cs_suspend (cj_spec c') \<noteq> Some True"
    "getNextScheduledTime (ce_lib E) c' (ce_now E 0) = Inr (missed, nextRun)"
    "may_start E c' (ch_active (children c ps)) missed" "newPodForCronJob E c' missed = Inr p"
    "snd (Reconcile E ns n) = (status_write E c ps # map CDelete ds) @
       map CDelete (replaced c' (ch_active (children c ps))) @ [CCreate p]"
    "set ds \<subseteq> set (ch_failed (children c ps)) \<union> set (ch_successful (children c ps))"
proof -
  have "\<exists>c ps c'. fetched E ns n c ps c'"
    using Reconcile_unfetched [of E ns n] p by (cases "\<exists>c ps c'. fetched E ns n c ps c'") auto
  then obtain c ps c' where f: "fetched E ns n c ps c'" by blast
  note R = Reconcile_fetched [OF f]
  let ?a = "ch_active (children c ps)"
  obtain ds where ds: "snd (clean_histories E c ps c') = status_write E c ps # map CDelete ds"
      "set ds \<subseteq> set (ch_failed (children c ps)) \<union> set (ch_successful (children c ps))"
    using clean_histories_appends [OF srt] by blast
  have none: "run_pods (snd (clean_histories E c ps c')) = []" by (simp add: ds(1))
  have ok: "fst (clean_histories E c ps c') = Ret ()"
    using p none R by (cases "clean_histories E c ps c'"; cases "fst (clean_histories E c ps c')") auto
  then have snd: "snd (Reconcile E ns n) = snd (schedule_run E c' ?a (snd (clean_histories E c ps c')))"
    using R by (simp add: case_prod_beta)
  show ?thesis
  proof (rule schedule_run_cases [of E c' ?a "snd (clean_histories E c ps c')"])
    assume "snd (schedule_run E c' ?a (snd (clean_histories E c ps c'))) = snd (clean_histories E c ps c')"
    with p snd none show ?thesis by simp
  next
    fix k assume "snd (schedule_run E c' ?a (snd (clean_histories E c ps c'))) =
      snd (clean_histories E c ps c') @ map CDelete (take k (replaced c' ?a))"
    with p snd none show ?thesis by simp
  next
    fix missed nextRun q
    assume s: "cs_suspend (cj_spec c') \<noteq> Some True"
      "getNextScheduledTime (ce_lib E) c' (ce_now E 0) = Inr (missed, nextRun)" "may_start E c' ?a missed"
      "newPodForCronJob E c' missed = Inr q"
      "snd (schedule_run E c' ?a (snd (clean_histories E c ps c'))) =
         snd (clean_histories E c ps c') @ map CDelete (replaced c' ?a) @ [CCreate q]"
    have "q = p" using p none unfolding snd s(5) by simp
    with s snd ds show ?thesis by (intro that [OF f]) simp_all
  qed
qed


section \<open>No run is created twice\<close>

text \<open>The runs up to now lie on whole seconds, in years that RFC 3339 can print, and the local zone
  has whole minutes.\<close>

definition printable_runs :: "cron_env \<Rightarrow> (string \<Rightarrow> gotime set) \<Rightarrow> bool" where
  "printable_runs E fires \<longleftrightarrow> (\<forall>s. \<forall>t \<in> fires s. t \<le> ce_now E 0 \<longrightarrow>
     t mod Second = 0 \<and> 0 \<le> year_in (ce_zone E t) t \<and> year_in (ce_zone E t) t < 10000 \<and>
     ce_zone E t mod 60 = 0 \<and> \<bar>ce_zone E t\<bar> < 90000)"

lemma newPod_annotation:
  assumes "newPodForCronJob E c t = Inr p" and "set_controller_ok (ce_lib E)"
  shows "\<exists>m. om_annotations (p_meta p) = Some m \<and>
    m scheduledTimeAnnotation = Some (time_Format_RFC3339 (ce_zone E t) t)"
  using assms unfolding newPodForCronJob_def set_controller_ok_def Let_def by fastforce

lemma newPod_schedule:
  assumes "newPodForCronJob E c t = Inr p" and "set_controller_ok (ce_lib E)"
    and "printable_runs E fires" and "t \<in> fires s" and "t \<le> ce_now E 0"
  shows "getScheduleTimeForPod p = Inr t"
proof -
  obtain m where m: "om_annotations (p_meta p) = Some m"
      "m scheduledTimeAnnotation = Some (time_Format_RFC3339 (ce_zone E t) t)"
    using newPod_annotation [OF assms(1,2)] by blast
  have t: "t mod Second = 0" "0 \<le> year_in (ce_zone E t) t" "year_in (ce_zone E t) t < 10000"
      "ce_zone E t mod 60 = 0" "\<bar>ce_zone E t\<bar> < 90000"
    using assms(3-5) unfolding printable_runs_def by blast+
  have "t div Second * Second = t" using t(1) div_mult_mod_eq [of t Second] by simp
  then show ?thesis using getScheduleTimeForPod_annotation [OF m t(4,5,2,3)] by simp
qed

lemma fetched_last:
  assumes "fetched E ns n c ps c'" and "status_update_ok E"
  shows "cst_lastScheduleTime (cj_status c') = Some (ch_lastScheduled (children c ps))"
  using assms unfolding fetched_def status_update_ok_def with_status_def by force


section \<open>When a run is started\<close>

text \<open>Every deletion of the replace policy is accepted, or its pod is gone already.\<close>

definition deletes_ok :: "cron_env \<Rightarrow> bool" where
  "deletes_ok E \<longleftrightarrow> (\<forall>acts p. cb_ignoreNotFound (ce_lib E) (ce_delete E acts p) = None)"

lemma delete_active_ok: "deletes_ok E \<Longrightarrow> fst (delete_active E ps acts) = None"
  by (induction E ps acts rule: delete_active.induct) (simp_all add: deletes_ok_def)

lemma replace_active_ok: "deletes_ok E \<Longrightarrow> fst (replace_active E c active acts) = None"
  by (simp add: replace_active_def delete_active_ok)

lemma Reconcile_creates:
  assumes "fetched E ns n c ps c'" and "cs_suspend (cj_spec c') \<noteq> Some True"
    and lims: "\<forall>l. cs_failedJobsHistoryLimit (cj_spec c') = Some l \<longrightarrow> 0 < l"
      "\<forall>l. cs_successfulJobsHistoryLimit (cj_spec c') = Some l \<longrightarrow> 0 < l"
    and srt: "sort_slice_spec (cb_sortSlice (ce_lib E)) (start_less (ce_lib E))"
    and nxt: "cb_parseStandard (ce_lib E) (cs_schedule (cj_spec c')) = Inr nxt" "activates nxt F"
    and S: "S = runs_between F (earliest_time c' (ce_now E 0)) (ce_now E 0)" "S \<noteq> {}" "card S \<le> 100"
    and may: "may_start E c' (ch_active (children c ps)) (Max S)"
    and del: "deletes_ok E" and p: "newPodForCronJob E c' (Max S) = Inr p"
  shows "\<exists>acts. snd (Reconcile E ns n) = acts @ [CCreate p] \<and> run_pods acts = [] \<and>
    fst (Reconcile E ns n) = Ret (case ce_create E acts p of
       None \<Rightarrow> (\<lparr>rs_requeue = False, rs_requeueAfter = time_Sub (nxt (ce_now E 0)) (ce_now E 1)\<rparr>, None)
     | Some err \<Rightarrow> (no_result, Some err))"
proof -
  let ?a = "ch_active (children c ps)"
  obtain acts where f: "clean_failed (ce_lib E) c' (ch_failed (children c ps)) [status_write E c ps] =
      (Ret (), acts)" "run_pods acts = []"
    using failed.clean_unlimited failed.clean_limited [OF _ _ srt] lims(1)
    by (cases "cs_failedJobsHistoryLimit (cj_spec c')") auto
  obtain acts' where s: "clean_successful (ce_lib E) c' (ch_successful (children c ps)) acts =
      (Ret (), acts')" "run_pods acts' = []"
    using successful.clean_unlimited successful.clean_limited [OF _ _ srt] lims(2) f(2)
    by (cases "cs_successfulJobsHistoryLimit (cj_spec c')") auto
  have R: "Reconcile E ns n = (Ret (fst (schedule_run E c' ?a acts')), snd (schedule_run E c' ?a acts'))"
    using f s by (simp add: Reconcile_fetched [OF assms(1)] clean_histories_def)
  have "getNextScheduledTime (ce_lib E) c' (ce_now E 0) = Inr (Max S, nxt (ce_now E 0))"
    using getNextScheduledTime_activates [OF nxt] S by (simp add: latest_or_def)
  then have "schedule_run E c' ?a acts' = create_run E c' (Max S)
      \<lparr>rs_requeue = False, rs_requeueAfter = time_Sub (nxt (ce_now E 0)) (ce_now E 1)\<rparr>
      (acts' @ map CDelete (replaced c' ?a))"
    using assms(2) start_run_may [OF may] replace_active_done [OF replace_active_ok [OF del]]
    by (simp add: schedule_run_def)
  with R s(2) p show ?thesis
    by (intro exI [of _ "acts' @ map CDelete (replaced c' ?a)"])
       (simp add: create_run_def split: option.splits)
qed

text \<open>C19: Reconcile does start the missed run: when the reads and the status update succeed, both
  history limits are absent or positive, the CronJob is not suspended, between 1 and 100 runs of its
  schedule were missed, and the latest of them is within the deadline and allowed by the concurrency
  policy, exactly one pod is created, the pod of that run.\<close>

theorem Reconcile_create_complete:
  assumes "fetched E ns n c ps c'" and "cs_suspend (cj_spec c') \<noteq> Some True"
    and lims: "\<forall>l. cs_failedJobsHistoryLimit (cj_spec c') = Some l \<longrightarrow> 0 < l"
      "\<forall>l. cs_successfulJobsHistoryLimit (cj_spec c') = Some l \<longrightarrow> 0 < l"
    and srt: "sort_slice_spec (cb_sortSlice (ce_lib E)) (start_less (ce_lib E))"
    and nxt: "cb_parseStandard (ce_lib E) (cs_schedule (cj_spec c')) = Inr nxt" "activates nxt F"
    and S: "S = runs_between F (earliest_time c' (ce_now E 0)) (ce_now E 0)" "S \<noteq> {}" "card S \<le> 100"
    and may: "may_start E c' (ch_active (children c ps)) (Max S)"
    and del: "deletes_ok E" and p: "newPodForCronJob E c' (Max S) = Inr p"
  shows "run_pods (snd (Reconcile E ns n)) = [p]"
  using Reconcile_creates [OF assms] by auto

section \<open>Deletions, errors and the next call\<close>

text \<open>C23: Reconcile deletes only pods that the list returned; an active one only under the Replace
  policy.\<close>

theorem Reconcile_deletes_children:
  assumes srt: "sort_slice_spec (cb_sortSlice (ce_lib E)) (start_less (ce_lib E))"
    and "p \<in> set (deleted_pods (snd (Reconcile E ns n)))"
  shows "\<exists>c ps c'. fetched E ns n c ps c' \<and> p \<in> set ps \<and>
    (p \<in> set (ch_failed (children c ps)) \<or> p \<in> set (ch_successful (children c ps)) \<or>
     p \<in> set (ch_active (children c ps)) \<and> cs_concurrencyPolicy (cj_spec c') = ReplaceConcurrent)"
proof -
  have "\<exists>c ps c'. fetched E ns n c ps c'"
    using Reconcile_unfetched [of E ns n] assms(2) by (cases "\<exists>c ps c'. fetched E ns n c ps c'") auto
  then obtain c ps c' where f: "fetched E ns n c ps c'" by blast
  let ?a = "ch_active (children c ps)" and ?w = "snd (clean_histories E c ps c')"
  have fs: "set (deleted_pods ?w) \<subseteq> set (ch_failed (children c ps)) \<union> set (ch_successful (children c ps))"
    using clean_histories_appends [OF srt, of c ps c'] by auto
  have rp: "set (replaced c' ?a) \<subseteq> (if cs_concurrencyPolicy (cj_spec c') = ReplaceConcurrent then set ?a else {})"
    by (simp add: replaced_def)
  have "set (deleted_pods (snd (schedule_run E c' ?a ?w))) \<subseteq> set (deleted_pods ?w) \<union> set (replaced c' ?a)"
    by (rule schedule_run_cases [of E c' ?a ?w]) (auto dest: in_set_takeD)
  moreover have "snd (Reconcile E ns n) = ?w \<or> snd (Reconcile E ns n) = snd (schedule_run E c' ?a ?w)"
    by (simp add: Reconcile_fetched [OF f] case_prod_beta split: go_out.splits)
  ultimately have p: "p \<in> set (deleted_pods ?w) \<union> set (replaced c' ?a)" using assms(2) by auto
  then have "p \<in> set ps" using fs rp children_subset [of c ps] by (auto split: if_splits)
  with p f fs rp show ?thesis
    by (intro exI [of _ c] exI [of _ ps] exI [of _ c']) (auto split: if_splits)
qed

text \<open>C24: When Reconcile reports an error, no run was started: the API server had refused the pod if
  its creation was tried at all. Retrying the run cannot repeat one that is under way.\<close>

theorem Reconcile_error_no_run:
  assumes srt: "sort_slice_spec (cb_sortSlice (ce_lib E)) (start_less (ce_lib E))"
    and "fst (Reconcile E ns n) = Ret (r, Some err)" and "p \<in> set (run_pods (snd (Reconcile E ns n)))"
  shows "\<exists>acts. snd (Reconcile E ns n) = acts @ [CCreate p] \<and> ce_create E acts p = Some err"
proof -
  have "\<exists>c ps c'. fetched E ns n c ps c'"
    using Reconcile_unfetched [of E ns n] assms(3) by (cases "\<exists>c ps c'. fetched E ns n c ps c'") auto
  then obtain c ps c' where f: "fetched E ns n c ps c'" by blast
  let ?a = "ch_active (children c ps)" and ?w = "snd (clean_histories E c ps c')"
  have none: "run_pods ?w = []" using clean_histories_appends [OF srt, of c ps c'] by auto
  from assms(2) have R: "snd (Reconcile E ns n) = snd (schedule_run E c' ?a ?w)"
      "snd (fst (schedule_run E c' ?a ?w)) = Some err"
    by (simp_all add: Reconcile_fetched [OF f] case_prod_beta split: go_out.splits)
  show ?thesis
  proof (rule schedule_run_cases [of E c' ?a ?w])
    assume "snd (fst (schedule_run E c' ?a ?w)) = None"
    with R(2) show ?thesis by simp
  next
    fix k assume "snd (schedule_run E c' ?a ?w) = ?w @ map CDelete (take k (replaced c' ?a))"
    with assms(3) R(1) none show ?thesis by simp
  next
    fix q assume q: "snd (schedule_run E c' ?a ?w) = ?w @ map CDelete (replaced c' ?a) @ [CCreate q]"
      "snd (fst (schedule_run E c' ?a ?w)) = ce_create E (?w @ map CDelete (replaced c' ?a)) q"
    with assms(3) R(1) none have "q = p" by simp
    with q R show ?thesis by (intro exI [of _ "?w @ map CDelete (replaced c' ?a)"]) simp
  qed
qed


text \<open>A failed-jobs limit of 0, which the API accepts, makes every run of Reconcile panic: it
  deletes all failed pods and then indexes past the end of the slice, so no run is started.\<close>

lemma Reconcile_zero_limit_panics:
  assumes "fetched E ns n c ps c'" and "cs_failedJobsHistoryLimit (cj_spec c') = Some 0"
    and "sort_slice_spec (cb_sortSlice (ce_lib E)) (start_less (ce_lib E))"
  shows "is_panic (fst (Reconcile E ns n)) \<and>
    mset (deleted_pods (snd (Reconcile E ns n))) =
      mset (filter (\<lambda>p. pst_phase (p_status p) = PodFailed) ps) \<and>
    run_pods (snd (Reconcile E ns n)) = []"
  using failed.clean_zero [OF assms(2)] sort_slice_specD(1) [OF assms(3)]
  by (simp add: Reconcile_fetched [OF assms(1)] clean_histories_def children_def classify_lists)

section \<open>The pods are found again\<close>

text \<open>\<open>SetControllerReference\<close> makes the CronJob the controller of an object without owners, under
  the group, version and kind of its type.\<close>

definition set_controller_finds :: "cron_lib \<Rightarrow> bool" where
  "set_controller_finds B \<longleftrightarrow> (\<forall>c p q. om_ownerReferences (p_meta p) = [] \<longrightarrow>
     cb_setControllerReference B c p = Inr q \<longrightarrow>
     (\<exists>r. cb_getControllerOf B (p_meta q) = Some r \<and> or_kind r = ''CronJob'' \<and>
        or_apiVersion r = group_version_string cron_GroupVersion \<and> or_name r = om_name (cj_meta c)))"

text \<open>A pod that the controller makes for a CronJob is filed by the index of the manager under
  exactly the name of that CronJob, in its namespace, so the list call of its next run returns it.\<close>

theorem newPod_indexed:
  assumes "newPodForCronJob E c t = Inr p" and "set_controller_ok (ce_lib E)"
    and "set_controller_finds (ce_lib E)"
  shows "podOwnerIndex (ce_lib E) (CPod p) = [om_name (cj_meta c)] \<and>
    om_namespace (p_meta p) = om_namespace (cj_meta c) \<and>
    om_generateName (p_meta p) = om_name (cj_meta c) @ ''-''"
proof -
  obtain b where b: "cb_setControllerReference (ce_lib E) c b = Inr p" "om_ownerReferences (p_meta b) = []"
      "om_namespace (p_meta b) = om_namespace (cj_meta c)" "om_generateName (p_meta b) = om_name (cj_meta c) @ ''-''"
    using assms(1) by (force simp: newPodForCronJob_def zero_meta_def Let_def)
  obtain r where r: "p = b\<lparr>p_meta := (p_meta b)\<lparr>om_ownerReferences := r\<rparr>\<rparr>"
    using assms(2) b(1) unfolding set_controller_ok_def by blast
  obtain o' where "cb_getControllerOf (ce_lib E) (p_meta p) = Some o'" "or_kind o' = ''CronJob''"
      "or_apiVersion o' = group_version_string cron_GroupVersion" "or_name o' = om_name (cj_meta c)"
    using assms(3) b(1,2) unfolding set_controller_finds_def by blast
  then show ?thesis using b r by (simp add: podOwnerIndex_def)
qed

end
