(* ===== verification/CronSamples.thy ===== *)
theory CronSamples
  imports CronProps
begin

text \<open>
  Concrete inputs on which the theorems about the CronJob controller are applied: libraries that
  have every contract, an hourly schedule, a CronJob with one finished pod, and a cluster that
  accepts every request.
\<close>

section \<open>Libraries with the contracts\<close>

definition t0 :: gotime where
  "t0 = 63831744000 * Second"

definition Hour :: duration where
  "Hour = 3600 * Second"

definition hours :: "gotime set" where
  "hours = {t. t0 \<le> t \<and> (t - t0) mod Hour = 0}"

definition hourly_next :: "gotime \<Rightarrow> gotime" where
  "hourly_next t = (if t < t0 then t0 else t0 + ((t - t0) div Hour + 1) * Hour)"

lemma Hour_pos [simp]: "0 < Hour"
  by (simp add: Hour_def Second_def)

lemma next_multiple:
  fixes x h :: int
  assumes "0 < h"
  shows "x < (x div h + 1) * h" and "\<And>u. u mod h = 0 \<Longrightarrow> x < u \<Longrightarrow> (x div h + 1) * h \<le> u"
proof -
  have "x = x div h * h + x mod h" by simp
  moreover have "x mod h < h" using assms by simp
  ultimately show "x < (x div h + 1) * h" by (metis add.commute distrib_right mult_1 add_less_cancel_left)
  fix u :: int
  assume u: "u mod h = 0" "x < u"
  then obtain k where k: "u = k * h" by (metis mod_0_imp_dvd dvd_def mult.commute)
  have "x div h < k"
  proof (rule ccontr)
    assume "\<not> x div h < k"
    then have "k * h \<le> x div h * h" using assms by (intro mult_right_mono) auto
    also have "\<dots> \<le> x" using \<open>x = x div h * h + x mod h\<close> assms
      by (metis le_add_same_cancel1 pos_mod_sign)
    finally show False using u(2) k by simp
  qed
  then show "(x div h + 1) * h \<le> u" using assms unfolding k by (intro mult_right_mono) auto
qed

lemma hourly_activates: "activates hourly_next hours"
  unfolding activates_def
proof (intro allI conjI ballI impI)
  fix t
  show "t < hourly_next t"
    using next_multiple(1) [OF Hour_pos, of "t - t0"] by (simp add: hourly_next_def)
  show "hourly_next t \<in> hours"
    using mult_nonneg_nonneg [of "(t - t0) div Hour + 1" Hour] less_imp_le [OF Hour_pos]
    by (auto simp: hourly_next_def hours_def pos_imp_zdiv_nonneg_iff add_nonneg_nonneg)
  fix u assume "u \<in> hours" "t < u"
  then show "hourly_next t \<le> u"
    using next_multiple(2) [OF Hour_pos, of "u - t0" "t - t0"] by (auto simp: hourly_next_def hours_def)
qed

definition owned_by :: "cronjob \<Rightarrow> owner_ref" where
  "owned_by c = \<lparr>or_apiVersion = ''batch.example.org/v1'', or_kind = ''CronJob'',
     or_name = om_name (cj_meta c), or_uid = om_uid (cj_meta c), or_controller = Some True\<rparr>"

definition sample_lib :: cron_lib where
  "sample_lib = \<lparr>
     cb_parseStandard = (\<lambda>s. if s = ''@hourly'' then Inr hourly_next
        else if s = ''0 0 30 2 *'' then Inr (\<lambda>_. 0) else Inl (ExtErr ''failed to parse'')),
     cb_ignoreNotFound = (\<lambda>e. if e = Some (ExtErr ''NotFound'') then None else e),
     cb_getReference = (\<lambda>p. Inr \<lparr>rf_kind = ''Pod'', rf_namespace = om_namespace (p_meta p),
        rf_name = om_name (p_meta p), rf_uid = om_uid (p_meta p)\<rparr>),
     cb_setControllerReference = (\<lambda>c p. Inr (p\<lparr>p_meta := (p_meta p)\<lparr>om_ownerReferences := [owned_by c]\<rparr>\<rparr>)),
     cb_getControllerOf = (\<lambda>m. find_controller (om_ownerReferences m)),
     cb_timeBefore = (\<lambda>t u. case (t, u) of (Some a, Some b) \<Rightarrow> a < b | _ \<Rightarrow> False),
     cb_sortSlice = insertion_sort_by\<rparr>"

definition sample_fires :: "string \<Rightarrow> gotime set" where
  "sample_fires s = (if s = ''@hourly'' then hours else {})"

lemma sample_lib_simps [simp]:
  "cb_parseStandard sample_lib ''@hourly'' = Inr hourly_next"
  "cb_parseStandard sample_lib ''0 0 30 2 *'' = Inr (\<lambda>_. 0)"
  "cb_setControllerReference sample_lib c p =
     Inr (p\<lparr>p_meta := (p_meta p)\<lparr>om_ownerReferences := [owned_by c]\<rparr>\<rparr>)"
  by (simp_all add: sample_lib_def)

lemma sample_contracts [simp]:
  "parser_ok sample_lib sample_fires" "set_controller_ok sample_lib" "set_controller_finds sample_lib"
  "time_before_ok sample_lib" "ignore_not_found_ok sample_lib"
proof -
  show "parser_ok sample_lib sample_fires"
    using hourly_activates by (simp add: parser_ok_def sample_lib_def sample_fires_def)
  show "set_controller_ok sample_lib" unfolding set_controller_ok_def sample_lib_simps by blast
  show "set_controller_finds sample_lib"
    by (simp add: set_controller_finds_def sample_lib_def owned_by_def cron_GroupVersion_def
        group_version_string_def)
  show "time_before_ok sample_lib" by (simp add: time_before_ok_def sample_lib_def split: option.splits)
  show "ignore_not_found_ok sample_lib" by (simp add: ignore_not_found_ok_def sample_lib_def)
qed

text \<open>The order of start times is a strict weak order, so sorting by it makes sense.\<close>

lemma start_less_weak: "time_before_ok B \<Longrightarrow> strict_weak (start_less B)"
  unfolding strict_weak_def start_less_def time_before_ok_def
  by (auto split: option.splits)

lemma sample_sort [simp]: "sort_slice_spec (cb_sortSlice sample_lib) (start_less sample_lib)"
proof -
  have "cb_sortSlice sample_lib = insertion_sort_by" by (simp add: sample_lib_def)
  then show ?thesis
    using insertion_sort_by_spec [OF start_less_weak [OF sample_contracts(4)]] by simp
qed

section \<open>A CronJob and its cluster\<close>

text \<open>Created at 8 o'clock, looked at one and a half hours later.\<close>

definition half_past_nine :: gotime where
  "half_past_nine = t0 + 5400 * Second"

definition sample_cronjob :: "concurrency_policy \<Rightarrow> int option \<Rightarrow> cronjob" where
  "sample_cronjob policy limit = \<lparr>
     cj_type = \<lparr>tm_kind = ''CronJob'', tm_apiVersion = ''batch.example.org/v1''\<rparr>,
     cj_meta = zero_meta\<lparr>om_name := ''hello'', om_namespace := ''default'', om_uid := ''c1'',
       om_creationTimestamp := t0\<rparr>,
     cj_spec = \<lparr>cs_schedule = ''@hourly'', cs_startingDeadlineSeconds = None,
       cs_concurrencyPolicy = policy, cs_suspend = None,
       cs_jobTemplate = \<lparr>pt_meta = zero_meta, pt_spec = \<lparr>ps_containers = [], ps_restartPolicy = ''Never''\<rparr>\<rparr>,
       cs_successfulJobsHistoryLimit = Some 3, cs_failedJobsHistoryLimit = limit\<rparr>,
     cj_status = \<lparr>cst_active = [], cst_lastScheduleTime = None\<rparr>\<rparr>"

text \<open>A pod of the run of 8 o'clock.\<close>

definition sample_pod :: "string \<Rightarrow> pod" where
  "sample_pod phase = \<lparr>
     p_meta = zero_meta\<lparr>om_name := ''hello-x'', om_namespace := ''default'',
       om_annotations := Some [scheduledTimeAnnotation \<mapsto> ''2023-10-01T08:00:00Z'']\<rparr>,
     p_spec = \<lparr>ps_containers = [], ps_restartPolicy = ''Never''\<rparr>,
     p_status = \<lparr>pst_phase = phase, pst_startTime = Some t0\<rparr>\<rparr>"

definition sample_cron_env :: "cronjob \<Rightarrow> pod list \<Rightarrow> go_error option \<Rightarrow> cron_env" where
  "sample_cron_env c ps refused = \<lparr>
     ce_lib = sample_lib, ce_get = (\<lambda>_ _. Inr c), ce_list = (\<lambda>_ _. Inr ps),
     ce_updateStatus = (\<lambda>c. Inr c), ce_delete = (\<lambda>_ _. None), ce_create = (\<lambda>_ _. refused),
     ce_now = (\<lambda>_. half_past_nine), ce_zone = (\<lambda>_. 0)\<rparr>"

lemma sample_env_simps [simp]:
  "ce_lib (sample_cron_env c ps e) = sample_lib"
  "ce_list (sample_cron_env c ps e) ns n = Inr ps"
  "ce_create (sample_cron_env c ps e) acts p = e"
  "ce_now (sample_cron_env c ps e) i = half_past_nine"
  "ce_zone (sample_cron_env c ps e) t = 0"
  "status_update_ok (sample_cron_env c ps e)" "deletes_ok (sample_cron_env c ps e)"
  by (simp_all add: sample_cron_env_def status_update_ok_def deletes_ok_def sample_lib_def)
     (metis object_meta.surjective object_meta.update_convs(5) cronjob.surjective cronjob.update_convs(2))

lemma now_nonneg [simp]: "0 \<le> half_past_nine"
  by (simp add: half_past_nine_def t0_def Second_def)

lemma sample_pod_schedule [simp]: "getScheduleTimeForPod (sample_pod ph) = Inr t0"
proof -
  have "time_Parse_RFC3339 ''2023-10-01T08:00:00Z'' = Inr t0" by code_simp
  then show ?thesis by (simp add: getScheduleTimeForPod_def sample_pod_def)
qed

lemma sample_pod_phase [simp]: "pst_phase (p_status (sample_pod ph)) = ph"
  by (simp add: sample_pod_def)

lemma hourly_steps: "hourly_next t0 = t0 + Hour" "hourly_next (t0 + Hour) = t0 + 2 * Hour"
    "hourly_next half_past_nine = t0 + 2 * Hour"
  by (simp_all add: hourly_next_def half_past_nine_def Hour_def Second_def)

lemma sample_missed: "runs_between hours t0 half_past_nine = {t0 + Hour}"
proof -
  have n: "\<not> half_past_nine < t0 + Hour" "half_past_nine < t0 + 2 * Hour"
    by (simp_all add: half_past_nine_def Hour_def Second_def)
  have "runs_between hours t0 half_past_nine = insert (t0 + Hour) (runs_between hours (t0 + Hour) half_past_nine)"
    using runs_between_step [OF hourly_activates, of t0 half_past_nine] n by (simp add: hourly_steps)
  also have "runs_between hours (t0 + Hour) half_past_nine = {}"
    using runs_between_step [OF hourly_activates, of "t0 + Hour" half_past_nine] n by (simp add: hourly_steps)
  finally show ?thesis .
qed

lemma sample_printable: "printable_runs (sample_cron_env c ps e) sample_fires"
proof -
  have "t = t0 \<or> t \<in> runs_between hours t0 half_past_nine" if "t \<in> hours" "t \<le> half_past_nine" for t
    using that by (auto simp: runs_between_def hours_def)
  then have two: "t = t0 \<or> t = t0 + Hour" if "t \<in> hours" "t \<le> half_past_nine" for t
    using that by (simp add: sample_missed)
  have y: "t0 mod Second = 0 \<and> year_in 0 t0 = 2023" "(t0 + Hour) mod Second = 0 \<and> year_in 0 (t0 + Hour) = 2023"
    by code_simp+
  have "t mod Second = 0 \<and> year_in 0 t = 2023" if "t \<in> hours" "t \<le> half_past_nine" for t
    using two [OF that] y by metis
  then show ?thesis unfolding printable_runs_def sample_fires_def by simp
qed

text \<open>The CronJob after the status update of a run that lists the pod of 8 o'clock.\<close>

abbreviation updated :: "cronjob \<Rightarrow> pod list \<Rightarrow> cronjob" where
  "updated c ps \<equiv> with_status sample_lib (children c ps) c"

lemma sample_fetched: "fetched (sample_cron_env c ps e) ''default'' ''hello'' c ps (updated c ps)"
  by (simp add: fetched_def sample_cron_env_def)

lemma sample_children:
  "ch_active (children c [sample_pod PodSucceeded]) = []"
  "ch_lastScheduled (children (sample_cronjob pol l) [sample_pod ph]) = t0"
  by (simp_all add: children_def classify_lists classify_last sample_cronjob_def
      del: classify_pods.simps)

lemma sample_earliest: "earliest_time (updated (sample_cronjob pol l) [sample_pod ph]) now = t0"
  by (simp add: earliest_time_def with_status_def sample_children) (simp add: sample_cronjob_def)

lemma sample_spec:
  "cj_spec (updated (sample_cronjob pol l) ps) = cj_spec (sample_cronjob pol l)"
  "cj_meta (updated (sample_cronjob pol l) ps) = cj_meta (sample_cronjob pol l)"
  "cs_schedule (cj_spec (sample_cronjob pol l)) = ''@hourly''"
  "cs_suspend (cj_spec (sample_cronjob pol l)) = None"
  "cs_startingDeadlineSeconds (cj_spec (sample_cronjob pol l)) = None"
  "cs_successfulJobsHistoryLimit (cj_spec (sample_cronjob pol l)) = Some 3"
  "cs_failedJobsHistoryLimit (cj_spec (sample_cronjob pol l)) = l"
  by (simp_all add: with_status_def sample_cronjob_def)

lemma sample_may_start:
  "may_start (sample_cron_env c ps e) (updated (sample_cronjob pol l) ps) [] (t0 + Hour)"
  by (simp add: may_start_def past_deadline_def sample_spec t0_def Hour_def Second_def)

lemma sample_newPod: "\<exists>p. newPodForCronJob (sample_cron_env c ps e) c' t = Inr p"
  by (simp add: newPodForCronJob_def Let_def)

text \<open>The run of 9 o'clock is created when the pod of 8 o'clock is done.\<close>

lemma sample_run:
  defines "c \<equiv> sample_cronjob ForbidConcurrent (Some 2)" and "ps \<equiv> [sample_pod PodSucceeded]"
  obtains p acts where "newPodForCronJob (sample_cron_env c ps e) (updated c ps) (t0 + Hour) = Inr p"
    "snd (Reconcile (sample_cron_env c ps e) ''default'' ''hello'') = acts @ [CCreate p]"
    "run_pods acts = []"
    "fst (Reconcile (sample_cron_env c ps e) ''default'' ''hello'') = Ret (case e of
       None \<Rightarrow> (\<lparr>rs_requeue = False, rs_requeueAfter = 1800 * Second\<rparr>, None)
     | Some err \<Rightarrow> (no_result, Some err))"
proof -
  let ?E = "sample_cron_env c ps e" and ?c = "updated c ps"
  obtain p where p: "newPodForCronJob ?E ?c (t0 + Hour) = Inr p" using sample_newPod by blast
  have S: "{t0 + Hour} = runs_between hours (earliest_time ?c (ce_now ?E 0)) (ce_now ?E 0)"
    by (simp add: c_def ps_def sample_earliest sample_missed)
  have d: "time_Sub (hourly_next (ce_now ?E 0)) (ce_now ?E 1) = 1800 * Second"
    unfolding sample_env_simps hourly_steps
    by (simp add: time_Sub_eq half_past_nine_def Hour_def Second_def min_int64_def max_int64_def)
  have "\<exists>acts. snd (Reconcile ?E ''default'' ''hello'') = acts @ [CCreate p] \<and> run_pods acts = [] \<and>
    fst (Reconcile ?E ''default'' ''hello'') = Ret (case ce_create ?E acts p of
       None \<Rightarrow> (\<lparr>rs_requeue = False, rs_requeueAfter = time_Sub (hourly_next (ce_now ?E 0)) (ce_now ?E 1)\<rparr>, None)
     | Some err \<Rightarrow> (no_result, Some err))"
    by (rule Reconcile_creates [OF sample_fetched _ _ _ _ _ hourly_activates S])
       (use p sample_may_start in \<open>simp_all add: c_def ps_def sample_spec sample_children\<close>)
  then obtain acts where a: "snd (Reconcile ?E ''default'' ''hello'') = acts @ [CCreate p]" "run_pods acts = []"
    "fst (Reconcile ?E ''default'' ''hello'') = Ret (case ce_create ?E acts p of
       None \<Rightarrow> (\<lparr>rs_requeue = False, rs_requeueAfter = time_Sub (hourly_next (ce_now ?E 0)) (ce_now ?E 1)\<rparr>, None)
     | Some err \<Rightarrow> (no_result, Some err))"
    by blast
  show ?thesis by (rule that [OF p a(1,2)]) (simp only: a(3) d sample_env_simps(3))
qed

section \<open>The theorems at these inputs\<close>

theorem getNextScheduledTime_correct_witness:
  "getNextScheduledTime sample_lib (updated (sample_cronjob AllowConcurrent None) [sample_pod PodFailed])
     half_past_nine = Inr (t0 + Hour, t0 + 2 * Hour)"
  using getNextScheduledTime_correct [of sample_lib
      "updated (sample_cronjob AllowConcurrent None) [sample_pod PodFailed]" hourly_next hours half_past_nine]
  by (simp add: sample_spec hourly_activates sample_earliest sample_missed hourly_steps latest_or_def)

definition february_30 :: cronjob where
  "february_30 = (sample_cronjob AllowConcurrent None)
     \<lparr>cj_spec := (cj_spec (sample_cronjob AllowConcurrent None))\<lparr>cs_schedule := ''0 0 30 2 *''\<rparr>\<rparr>"

theorem never_firing_schedule_witness:
  "getNextScheduledTime sample_lib february_30 half_past_nine = Inl ErrTooManyMissed"
proof (rule never_firing_schedule)
  show "cb_parseStandard sample_lib (cs_schedule (cj_spec february_30)) = Inr (\<lambda>_. 0)"
    by (simp add: february_30_def)
  show "earliest_time february_30 half_past_nine \<le> half_past_nine"
    by (simp add: february_30_def earliest_time_def sample_cronjob_def half_past_nine_def Second_def)
qed simp

theorem histories_cleaned_witness:
  "\<exists>old new. clean_failed sample_lib (sample_cronjob AllowConcurrent (Some 2)) (replicate 4 (sample_pod PodFailed)) [] =
      (Ret (), map CDelete old) \<and>
    mset old + mset new = mset (replicate 4 (sample_pod PodFailed)) \<and> length new = 1"
  using histories_cleaned [of sample_lib "sample_cronjob AllowConcurrent (Some 2)"
      "replicate 4 (sample_pod PodFailed)" "[]", THEN conjunct1]
  by (simp add: sample_spec history_cleaned_def) blast

abbreviation done_env :: "go_error option \<Rightarrow> cron_env" where
  "done_env e \<equiv> sample_cron_env (sample_cronjob ForbidConcurrent (Some 2)) [sample_pod PodSucceeded] e"



theorem Reconcile_create_complete_witness:
  "\<exists>p. run_pods (snd (Reconcile (done_env None) ''default'' ''hello'')) = [p]"
proof -
  let ?E = "done_env None" let ?c = "updated (sample_cronjob ForbidConcurrent (Some 2)) [sample_pod PodSucceeded]"
  obtain p where p: "newPodForCronJob ?E ?c (Max {t0 + Hour}) = Inr p" using sample_newPod by blast
  have S: "{t0 + Hour} = runs_between hours (earliest_time ?c (ce_now ?E 0)) (ce_now ?E 0)"
    by (simp add: sample_earliest sample_missed)
  have "run_pods (snd (Reconcile ?E ''default'' ''hello'')) = [p]"
    by (rule Reconcile_create_complete [OF sample_fetched _ _ _ _ _ hourly_activates S _ _ _ _ p])
       (use sample_may_start in \<open>simp_all add: sample_spec sample_children\<close>)
  then show ?thesis by blast
qed

theorem Reconcile_error_no_run_witness:
  "\<exists>p acts. snd (Reconcile (done_env (Some (ExtErr ''quota''))) ''default'' ''hello'') = acts @ [CCreate p] \<and>
     ce_create (done_env (Some (ExtErr ''quota''))) acts p = Some (ExtErr ''quota'')"
proof -
  obtain p acts where r: "snd (Reconcile (done_env (Some (ExtErr ''quota''))) ''default'' ''hello'') = acts @ [CCreate p]"
    "fst (Reconcile (done_env (Some (ExtErr ''quota''))) ''default'' ''hello'') = Ret (no_result, Some (ExtErr ''quota''))"
    by (rule sample_run [of "Some (ExtErr ''quota'')"]) simp
  then have "p \<in> set (run_pods (snd (Reconcile (done_env (Some (ExtErr ''quota''))) ''default'' ''hello'')))" by simp
  from Reconcile_error_no_run [OF _ r(2) this] show ?thesis by auto
qed


theorem Reconcile_zero_limit_panics_witness:
  "is_panic (fst (Reconcile (sample_cron_env (sample_cronjob AllowConcurrent (Some 0)) [sample_pod PodFailed] None)
     ''default'' ''hello''))"
  using Reconcile_zero_limit_panics [OF sample_fetched, of "sample_cronjob AllowConcurrent (Some 0)"]
  by (simp add: sample_spec)

theorem Reconcile_deletes_children_witness:
  "\<exists>c ps c'. fetched (sample_cron_env (sample_cronjob AllowConcurrent (Some 0)) [sample_pod PodFailed] None)
     ''default'' ''hello'' c ps c' \<and> sample_pod PodFailed \<in> set ps"
proof -
  let ?E = "sample_cron_env (sample_cronjob AllowConcurrent (Some 0)) [sample_pod PodFailed] None"
  have "mset (deleted_pods (snd (Reconcile ?E ''default'' ''hello''))) = mset [sample_pod PodFailed]"
    using Reconcile_zero_limit_panics [OF sample_fetched, of "sample_cronjob AllowConcurrent (Some 0)" "[sample_pod PodFailed]" None]
    by (simp add: sample_spec)
  then have "sample_pod PodFailed \<in> set (deleted_pods (snd (Reconcile ?E ''default'' ''hello'')))"
    by (metis mset_eq_setD list.set_intros(1))
  from Reconcile_deletes_children [OF _ this] show ?thesis by auto
qed

theorem newPod_indexed_witness:
  "\<exists>p. newPodForCronJob (done_env None) (sample_cronjob ForbidConcurrent None) t0 = Inr p \<and>
     podOwnerIndex sample_lib (CPod p) = [''hello'']"
proof -
  obtain p where p: "newPodForCronJob (done_env None) (sample_cronjob ForbidConcurrent None) t0 = Inr p"
    using sample_newPod by blast
  from newPod_indexed [OF p] have "podOwnerIndex sample_lib (CPod p) = [''hello'']"
    by (simp add: sample_cronjob_def)
  with p show ?thesis by blast
qed

end
