(* ===== verification/CronLifecycle.thy ===== *)
theory CronLifecycle
  imports CronSamples Transitions
begin

text \<open>
  The CronJob controller over time: the API server holds one CronJob and its child pods, the list
  call of the controller answers from a cache that is refreshed whenever it likes, and the runs of
  \<open>Reconcile\<close> interleave with the kubelet, with edits of the CronJob and with the clock. A parameter
  says which specifications the CronJob may get, another whether the cache is fresh when the
  controller runs.
\<close>

section \<open>The cluster\<close>

text \<open>\<open>cw_created\<close> only records the past: the pods that the API server has admitted, in order.\<close>

record cron_world =
  cw_job :: cronjob
  cw_pods :: "pod list"
  cw_cache :: "pod list"
  cw_now :: gotime
  cw_uids :: nat
  cw_created :: "pod list"

definition pod_uid :: "pod \<Rightarrow> string" where
  "pod_uid p = om_uid (p_meta p)"

definition admitted :: "nat \<Rightarrow> pod \<Rightarrow> pod" where
  "admitted k p = p\<lparr>p_meta := (p_meta p)\<lparr>om_uid := replicate k (CHR ''u'')\<rparr>\<rparr>"

text \<open>What the API server does with a write: \<open>took\<close> says which of them take effect.\<close>

fun cron_serve :: "(cron_action \<Rightarrow> bool) \<Rightarrow> cron_world \<Rightarrow> cron_action \<Rightarrow> cron_world" where
  "cron_serve took w (CUpdateStatus c) =
     (if took (CUpdateStatus c) then w\<lparr>cw_job := (cw_job w)\<lparr>cj_status := cj_status c\<rparr>\<rparr> else w)"
| "cron_serve took w (CDelete p) =
     (if took (CDelete p) then w\<lparr>cw_pods := filter (\<lambda>q. pod_uid q \<noteq> pod_uid p) (cw_pods w)\<rparr> else w)"
| "cron_serve took w (CCreate p) =
     (if took (CCreate p)
      then w\<lparr>cw_pods := cw_pods w @ [admitted (cw_uids w) p], cw_uids := Suc (cw_uids w),
        cw_created := cw_created w @ [admitted (cw_uids w) p]\<rparr> else w)"

text \<open>What the controller sees: reads may fail, but what they return is the CronJob and the cached
  pods. An accepted write takes effect; of a refused one the answer may have been lost.\<close>

definition cron_sees :: "cron_lib \<Rightarrow> (string \<Rightarrow> gotime set) \<Rightarrow> cron_world \<Rightarrow> cron_env \<Rightarrow> bool" where
  "cron_sees B fires w E \<longleftrightarrow> ce_lib E = B \<and> ce_now E 0 = cw_now w \<and>
     (\<forall>ns n c. ce_get E ns n = Inr c \<longrightarrow> c = cw_job w) \<and>
     (\<forall>ns n ps. ce_list E ns n = Inr ps \<longrightarrow> ps = cw_cache w) \<and>
     status_update_ok E \<and> printable_runs E fires"

definition takes_accepted :: "cron_env \<Rightarrow> (cron_action \<Rightarrow> bool) \<Rightarrow> bool" where
  "takes_accepted E took \<longleftrightarrow>
     (\<forall>c. \<not> isl (ce_updateStatus E c) \<longrightarrow> took (CUpdateStatus c)) \<and>
     (\<forall>acts p. ce_delete E acts p = None \<longrightarrow> took (CDelete p)) \<and>
     (\<forall>acts p. ce_create E acts p = None \<longrightarrow> took (CCreate p))"

definition cron_run :: "cron_env \<Rightarrow> (cron_action \<Rightarrow> bool) \<Rightarrow> cron_world \<Rightarrow> cron_world" where
  "cron_run E took w = foldl (cron_serve took) w
     (snd (Reconcile E (om_namespace (cj_meta (cw_job w))) (om_name (cj_meta (cw_job w)))))"

text \<open>The kubelet moves a pod to a phase and notes when it started; a pod that ends has started
  before, and a pod that has ended stays as it is.\<close>

definition active :: "pod \<Rightarrow> bool" where
  "active p \<longleftrightarrow> pst_phase (p_status p) \<noteq> PodSucceeded \<and> pst_phase (p_status p) \<noteq> PodFailed"

definition moved_to :: "gotime \<Rightarrow> string \<Rightarrow> pod \<Rightarrow> pod" where
  "moved_to now ph p = p\<lparr>p_status := \<lparr>pst_phase = ph,
     pst_startTime = (case pst_startTime (p_status p) of None \<Rightarrow> Some now | Some t \<Rightarrow> Some t)\<rparr>\<rparr>"

inductive cstep :: "cron_lib \<Rightarrow> (string \<Rightarrow> gotime set) \<Rightarrow> (cronjob_spec \<Rightarrow> bool) \<Rightarrow> bool \<Rightarrow>
    cron_world \<Rightarrow> cron_world \<Rightarrow> bool" for B fires ok fresh where
  cs_reconcile: "cron_sees B fires w E \<Longrightarrow> (fresh \<Longrightarrow> cw_cache w = cw_pods w) \<Longrightarrow> takes_accepted E took \<Longrightarrow>
    cstep B fires ok fresh w (cron_run E took w)"
| cs_refresh: "cstep B fires ok fresh w (w\<lparr>cw_cache := cw_pods w\<rparr>)"
| cs_pod: "i < length (cw_pods w) \<Longrightarrow> active (cw_pods w ! i) \<Longrightarrow>
    (\<not> active (moved_to (cw_now w) ph (cw_pods w ! i)) \<Longrightarrow>
       \<exists>t. pst_startTime (p_status (cw_pods w ! i)) = Some t \<and> t < cw_now w) \<Longrightarrow>
    cstep B fires ok fresh w (w\<lparr>cw_pods := (cw_pods w)[i := moved_to (cw_now w) ph (cw_pods w ! i)]\<rparr>)"
| cs_edit: "ok sp \<Longrightarrow> cstep B fires ok fresh w (w\<lparr>cw_job := (cw_job w)\<lparr>cj_spec := sp\<rparr>\<rparr>)"
| cs_tick: "cw_now w \<le> now \<Longrightarrow> cstep B fires ok fresh w (w\<lparr>cw_now := now\<rparr>)"

text \<open>The contracts of the libraries, and a new CronJob.\<close>

definition cron_lib_ok :: "cron_lib \<Rightarrow> (string \<Rightarrow> gotime set) \<Rightarrow> bool" where
  "cron_lib_ok B fires \<longleftrightarrow> sort_slice_spec (cb_sortSlice B) (start_less B) \<and> time_before_ok B \<and>
     parser_ok B fires \<and> set_controller_ok B"

definition cron_init ::
    "cron_lib \<Rightarrow> (string \<Rightarrow> gotime set) \<Rightarrow> (cronjob_spec \<Rightarrow> bool) \<Rightarrow> cron_world \<Rightarrow> bool" where
  "cron_init B fires ok w \<longleftrightarrow> cron_lib_ok B fires \<and> ok (cj_spec (cw_job w)) \<and> cw_pods w = [] \<and> cw_cache w = [] \<and> cw_created w = [] \<and>
     0 \<le> cw_now w \<and> om_creationTimestamp (cj_meta (cw_job w)) \<le> cw_now w"

text \<open>The scheduled time of a run.\<close>

definition run_of :: "pod \<Rightarrow> gotime" where
  "run_of p = (case getScheduleTimeForPod p of Inr t \<Rightarrow> t | Inl _ \<Rightarrow> 0)"

section \<open>What a run of the controller does to the cluster\<close>

lemma schedule_kept [simp]:
  "getScheduleTimeForPod (admitted k p) = getScheduleTimeForPod p"
  "getScheduleTimeForPod (moved_to now ph p) = getScheduleTimeForPod p"
  "run_of (admitted k p) = run_of p" "run_of (moved_to now ph p) = run_of p"
  "pod_uid (moved_to now ph p) = pod_uid p" "pod_uid (admitted k p) = replicate k (CHR ''u'')"
  "p_status (admitted k p) = p_status p" "active (admitted k p) = active p"
  by (simp_all add: getScheduleTimeForPod_def admitted_def moved_to_def run_of_def pod_uid_def active_def)

lemma serve_status:
  assumes "run_pods acts = []" and "deleted_pods acts = []"
  shows "\<exists>st. foldl (cron_serve took) w acts = w\<lparr>cw_job := (cw_job w)\<lparr>cj_status := st\<rparr>\<rparr>"
  using assms
proof (induction acts arbitrary: w)
  case Nil
  then show ?case by (intro exI [of _ "cj_status (cw_job w)"]) simp
next
  case (Cons a acts)
  obtain c where a: "a = CUpdateStatus c" using Cons.prems by (cases a) auto
  have "run_pods acts = []" "deleted_pods acts = []" using Cons.prems by (simp_all add: a)
  from Cons.IH [OF this, of "cron_serve took w a"] obtain st where
    "foldl (cron_serve took) w (a # acts) =
       (cron_serve took w a)\<lparr>cw_job := (cw_job (cron_serve took w a))\<lparr>cj_status := st\<rparr>\<rparr>" by auto
  then show ?case by (auto simp: a)
qed

lemma serve_deletes:
  "foldl (cron_serve took) w (map CDelete ds) =
    w\<lparr>cw_pods := filter (\<lambda>q. \<forall>d \<in> set ds. took (CDelete d) \<longrightarrow> pod_uid q \<noteq> pod_uid d) (cw_pods w)\<rparr>"
proof (induction ds arbitrary: w)
  case (Cons d ds)
  have "filter (\<lambda>q. \<forall>e \<in> set ds. took (CDelete e) \<longrightarrow> pod_uid q \<noteq> pod_uid e) (cw_pods (cron_serve took w (CDelete d))) =
      filter (\<lambda>q. \<forall>e \<in> set (d # ds). took (CDelete e) \<longrightarrow> pod_uid q \<noteq> pod_uid e) (cw_pods w)"
    by (auto intro!: filter_cong)
  then show ?case using Cons.IH [of "cron_serve took w (CDelete d)"] by simp
qed simp

section \<open>Careful CronJobs\<close>

text \<open>A CronJob that forbids concurrent runs and keeps at least one ended pod of each kind: since the
  clean-up keeps one pod fewer than a limit says, a limit has to be two at least.\<close>

definition careful :: "cronjob_spec \<Rightarrow> bool" where
  "careful sp \<longleftrightarrow> cs_concurrencyPolicy sp = ForbidConcurrent \<and>
     (\<forall>l. cs_failedJobsHistoryLimit sp = Some l \<longrightarrow> 2 \<le> l) \<and>
     (\<forall>l. cs_successfulJobsHistoryLimit sp = Some l \<longrightarrow> 2 \<le> l)"

text \<open>No ended pod of a list started as late as \<open>p\<close> did.\<close>

definition started_last :: "cron_lib \<Rightarrow> pod list \<Rightarrow> pod \<Rightarrow> bool" where
  "started_last B ps p \<longleftrightarrow> distinct ps \<and>
     (\<not> active p \<longrightarrow> (\<forall>q \<in> set ps. \<not> active q \<longrightarrow> q \<noteq> p \<longrightarrow> start_less B q p))"

lemma ended_lists:
  "q \<in> set (ch_failed (children c ps)) \<or> q \<in> set (ch_successful (children c ps)) \<Longrightarrow> q \<in> set ps \<and> \<not> active q"
  by (auto simp: children_def classify_lists active_def)

lemma histories_keep:
  assumes srt: "sort_slice_spec (cb_sortSlice (ce_lib E)) (start_less (ce_lib E))"
    and "careful (cj_spec c')" and last: "started_last (ce_lib E) ps p"
  obtains ds where "clean_histories E c ps c' = (Ret (), status_write E c ps # map CDelete ds)"
    and "p \<notin> set ds" and "\<And>d. d \<in> set ds \<Longrightarrow> d \<in> set ps \<and> \<not> active d"
proof -
  let ?B = "ce_lib E" and ?f = "ch_failed (children c ps)" and ?s = "ch_successful (children c ps)"
  have d: "distinct ?f" "distinct ?s"
    using last by (simp_all add: started_last_def children_def classify_lists)
  have latest: "start_less ?B q p" if "p \<in> set ps" "\<not> active p" "q \<in> set ps" "\<not> active q" "q \<noteq> p" for q
    using last that by (simp add: started_last_def)
  have "start_less ?B q p" if "p \<in> set ?f" "q \<in> set ?f" "q \<noteq> p" for q
    using latest [of q] ended_lists [of p c ps] ended_lists [of q c ps] that by blast
  moreover have "\<And>l. cs_failedJobsHistoryLimit (cj_spec c') = Some l \<Longrightarrow> 2 \<le> l"
    using assms(2) by (simp add: careful_def)
  ultimately obtain ds where ds:
      "clean_failed ?B c' ?f [status_write E c ps] = (Ret (), [status_write E c ps] @ map CDelete ds)"
      "p \<notin> set ds" "set ds \<subseteq> set ?f"
    using failed.keeps_latest [OF srt d(1), of c' p] by metis
  have "start_less ?B q p" if "p \<in> set ?s" "q \<in> set ?s" "q \<noteq> p" for q
    using latest [of q] ended_lists [of p c ps] ended_lists [of q c ps] that by blast
  moreover have "\<And>l. cs_successfulJobsHistoryLimit (cj_spec c') = Some l \<Longrightarrow> 2 \<le> l"
    using assms(2) by (simp add: careful_def)
  ultimately obtain es where es:
      "clean_successful ?B c' ?s ([status_write E c ps] @ map CDelete ds) =
        (Ret (), ([status_write E c ps] @ map CDelete ds) @ map CDelete es)"
      "p \<notin> set es" "set es \<subseteq> set ?s"
    using successful.keeps_latest [OF srt d(2), of c' p] by metis
  show ?thesis
  proof (rule that [of "ds @ es"])
    show "clean_histories E c ps c' = (Ret (), status_write E c ps # map CDelete (ds @ es))"
      using ds(1) es(1) by (simp add: clean_histories_def)
    show "d \<in> set ps \<and> \<not> active d" if "d \<in> set (ds @ es)" for d
      using that ds(3) es(3) ended_lists [of d c ps] by auto
  qed (use ds(2) es(2) in simp)
qed

text \<open>So a run either leaves the pods alone, or cleans up and perhaps starts a run after it.\<close>

lemma careful_writes:
  assumes srt: "sort_slice_spec (cb_sortSlice (ce_lib E)) (start_less (ce_lib E))"
    and st: "status_update_ok E"
    and care: "\<forall>c. ce_get E ns n = Inr c \<longrightarrow> careful (cj_spec c)"
    and last: "\<forall>ps. ce_list E ns n = Inr ps \<longrightarrow> started_last (ce_lib E) ps p"
  obtains (quiet) "run_pods (snd (Reconcile E ns n)) = []" "deleted_pods (snd (Reconcile E ns n)) = []"
  | (cleaned) c ps c' ds where "fetched E ns n c ps c'"
      "snd (Reconcile E ns n) = status_write E c ps # map CDelete ds"
      "p \<notin> set ds" "\<And>d. d \<in> set ds \<Longrightarrow> d \<in> set ps \<and> \<not> active d"
  | (started) c ps c' ds missed nextRun q where "fetched E ns n c ps c'"
      "snd (Reconcile E ns n) = (status_write E c ps # map CDelete ds) @ [CCreate q]"
      "p \<notin> set ds" "\<And>d. d \<in> set ds \<Longrightarrow> d \<in> set ps \<and> \<not> active d"
      "getNextScheduledTime (ce_lib E) c' (ce_now E 0) = Inr (missed, nextRun)" "missed \<noteq> 0"
      "ch_active (children c ps) = []" "newPodForCronJob E c' missed = Inr q"
proof (cases "\<exists>c ps c'. fetched E ns n c ps c'")
  case False
  then show ?thesis using quiet Reconcile_unfetched by blast
next
  case True
  then obtain c ps c' where f: "fetched E ns n c ps c'" by blast
  have spec: "cj_spec c' = cj_spec c"
    using f st unfolding fetched_def status_update_ok_def with_status_def by force
  have care': "careful (cj_spec c')" using f care spec by (simp add: fetched_def)
  have last': "started_last (ce_lib E) ps p" using f last by (simp add: fetched_def)
  obtain ds where ds: "clean_histories E c ps c' = (Ret (), status_write E c ps # map CDelete ds)"
      "p \<notin> set ds" "\<And>d. d \<in> set ds \<Longrightarrow> d \<in> set ps \<and> \<not> active d"
    using histories_keep [OF srt care' last', where c = c] by blast
  let ?a = "ch_active (children c ps)" and ?w = "status_write E c ps # map CDelete ds"
  have R: "snd (Reconcile E ns n) = snd (schedule_run E c' ?a ?w)"
    by (simp add: Reconcile_fetched [OF f] ds(1))
  have rep: "replaced c' ?a = []"
    using care' by (simp add: careful_def replaced_def policy_defs)
  show ?thesis
  proof (rule schedule_run_cases [of E c' ?a ?w])
    assume "snd (schedule_run E c' ?a ?w) = ?w"
    with R ds show ?thesis by (intro cleaned [OF f]) auto
  next
    fix k assume "snd (schedule_run E c' ?a ?w) = ?w @ map CDelete (take k (replaced c' ?a))"
    with R rep ds show ?thesis by (intro cleaned [OF f]) auto
  next
    fix missed nextRun q
    assume g: "getNextScheduledTime (ce_lib E) c' (ce_now E 0) = Inr (missed, nextRun)"
      and m: "may_start E c' ?a missed" and q: "newPodForCronJob E c' missed = Inr q"
      and w: "snd (schedule_run E c' ?a ?w) = ?w @ map CDelete (replaced c' ?a) @ [CCreate q]"
    have "snd (Reconcile E ns n) = ?w @ [CCreate q]" using w by (simp add: R rep)
    moreover have "missed \<noteq> 0" "?a = []" using m care' by (simp_all add: may_start_def careful_def)
    ultimately show ?thesis using started [OF f] ds(2,3) g q by blast
  qed
qed

section \<open>Runs one after the other\<close>

abbreviation start_of :: "pod \<Rightarrow> gotime option" where
  "start_of p \<equiv> pst_startTime (p_status p)"

text \<open>What holds of the stored pods: each is of a run of its own, only the pod of the last run can be
  active, and the pods started in the order of their runs.\<close>

definition pod_ok :: "gotime \<Rightarrow> nat \<Rightarrow> gotime list \<Rightarrow> pod \<Rightarrow> bool" where
  "pod_ok now uids runs p \<longleftrightarrow> (\<exists>t. getScheduleTimeForPod p = Inr t) \<and> length (pod_uid p) < uids \<and>
     run_of p \<in> set runs \<and> (active p \<longrightarrow> run_of p = last runs) \<and>
     (\<forall>t. start_of p = Some t \<longrightarrow> t \<le> now) \<and> (\<not> active p \<longrightarrow> (\<exists>t. start_of p = Some t \<and> t < now))"

definition serial :: "gotime \<Rightarrow> nat \<Rightarrow> gotime list \<Rightarrow> pod list \<Rightarrow> bool" where
  "serial now uids runs ps \<longleftrightarrow> distinct (map run_of ps) \<and> distinct (map pod_uid ps) \<and>
     (\<forall>p \<in> set ps. pod_ok now uids runs p) \<and>
     (\<forall>p \<in> set ps. \<forall>q \<in> set ps. \<forall>s t. run_of p < run_of q \<longrightarrow> start_of p = Some s \<longrightarrow> start_of q = Some t \<longrightarrow> s < t)"

lemma serialD:
  assumes "serial now uids runs ps"
  shows "distinct (map run_of ps)" and "distinct (map pod_uid ps)"
    and "p \<in> set ps \<Longrightarrow> pod_ok now uids runs p"
    and "p \<in> set ps \<Longrightarrow> q \<in> set ps \<Longrightarrow> run_of p < run_of q \<Longrightarrow> start_of p = Some s \<Longrightarrow> start_of q = Some t \<Longrightarrow> s < t"
  using assms unfolding serial_def by blast+

lemma serial_filter: "serial now uids runs ps \<Longrightarrow> serial now uids runs (filter P ps)"
  unfolding serial_def set_filter by (simp add: distinct_map_filter) blast

lemma serial_later: "serial now uids runs ps \<Longrightarrow> now \<le> later \<Longrightarrow> serial later uids runs ps"
  unfolding serial_def pod_ok_def by (meson order.strict_trans2 order_trans)

lemma run_below_last: "sorted_wrt (<) runs \<Longrightarrow> t \<in> set runs \<Longrightarrow> t \<le> last runs" for t :: gotime
  by (induction runs) (auto intro: less_imp_le)

lemma serial_moved:
  assumes ser: "serial now uids runs ps" and srt: "sorted_wrt (<) runs" and i: "i < length ps" "active (ps ! i)"
    and fin: "\<not> active (moved_to now ph (ps ! i)) \<Longrightarrow> \<exists>t. start_of (ps ! i) = Some t \<and> t < now"
  shows "serial now uids runs (ps[i := moved_to now ph (ps ! i)])"
proof -
  let ?p = "ps ! i" and ?p' = "moved_to now ph (ps ! i)"
  have p: "?p \<in> set ps" using i(1) by simp
  note ok = serialD(3) [OF ser p, unfolded pod_ok_def]
  have last: "run_of ?p = last runs" using ok i(2) by blast
  have start: "start_of ?p' = Some (case start_of ?p of None \<Rightarrow> now | Some t \<Rightarrow> t)"
    by (simp add: moved_to_def split: option.splits)
  have same: "map f (ps[i := ?p']) = map f ps" if "f ?p' = f ?p" for f :: "pod \<Rightarrow> 'b"
    using i(1) that by (simp add: map_update list_update_same_conv)
  have sub: "set (ps[i := ?p']) \<subseteq> insert ?p' (set ps)" by (rule set_update_subset_insert)
  have p'_ok: "pod_ok now uids runs ?p'"
    using ok last start fin by (auto simp: pod_ok_def split: option.splits)
  have before: "s < t" if q: "q \<in> set ps" "run_of q < run_of ?p" "start_of q = Some s" "start_of ?p' = Some t" for q s t
  proof (cases "start_of ?p")
    case None
    have "\<not> active q" using serialD(3) [OF ser q(1)] q(2) last by (auto simp: pod_ok_def)
    then have "s < now" using serialD(3) [OF ser q(1)] q(3) by (auto simp: pod_ok_def)
    then show ?thesis using q(4) start None by simp
  next
    case (Some u)
    then show ?thesis using serialD(4) [OF ser q(1) p q(2,3)] q(4) start by simp
  qed
  have after: False if "q \<in> set ps" "run_of ?p < run_of q" for q
  proof -
    have "run_of q \<in> set runs" using serialD(3) [OF ser that(1)] by (simp add: pod_ok_def)
    from run_below_last [OF srt this] that(2) last show False by simp
  qed
  show ?thesis
    unfolding serial_def
  proof (intro conjI ballI allI impI)
    show "distinct (map run_of (ps[i := ?p']))" "distinct (map pod_uid (ps[i := ?p']))"
      using serialD(1,2) [OF ser] by (simp_all add: same)
  next
    fix q assume "q \<in> set (ps[i := ?p'])"
    then show "pod_ok now uids runs q" using sub p'_ok serialD(3) [OF ser] by blast
  next
    fix q r s t
    assume q: "q \<in> set (ps[i := ?p'])" and r: "r \<in> set (ps[i := ?p'])" and lt: "run_of q < run_of r"
      and s: "start_of q = Some s" and t: "start_of r = Some t"
    from q r sub have "q = ?p' \<or> q \<in> set ps" "r = ?p' \<or> r \<in> set ps" by blast+
    then show "s < t"
      using lt s t before [of q s t] after [of r] serialD(4) [OF ser, of q r s t] by auto
  qed
qed

lemma serial_created:
  assumes ser: "serial now uids runs ps" and idle: "\<And>p. p \<in> set ps \<Longrightarrow> \<not> active p"
    and new: "\<And>t. t \<in> set runs \<Longrightarrow> t < m" and q: "getScheduleTimeForPod q = Inr m" "active q" "start_of q = None"
  shows "serial now (Suc uids) (runs @ [m]) (ps @ [admitted uids q])"
proof -
  let ?q = "admitted uids q"
  have rq: "run_of ?q = m" using q(1) by (simp add: run_of_def)
  have old: "run_of p < m" "length (pod_uid p) < uids" if "p \<in> set ps" for p
    using serialD(3) [OF ser that] new by (simp_all add: pod_ok_def)
  have uid: "pod_uid p \<noteq> pod_uid ?q" if "p \<in> set ps" for p using old(2) [OF that] by auto
  show ?thesis
    unfolding serial_def
  proof (intro conjI ballI allI impI)
    show "distinct (map run_of (ps @ [?q]))" using serialD(1) [OF ser] old(1) rq by force
    show "distinct (map pod_uid (ps @ [?q]))" using serialD(2) [OF ser] uid by force
  next
    fix p assume "p \<in> set (ps @ [?q])"
    then show "pod_ok now (Suc uids) (runs @ [m]) p"
      using serialD(3) [OF ser, of p] idle [of p] q rq by (auto simp: pod_ok_def)
  next
    fix p r s t
    assume p: "p \<in> set (ps @ [?q])" and r: "r \<in> set (ps @ [?q])" and lt: "run_of p < run_of r"
      and s: "start_of p = Some s" and t: "start_of r = Some t"
    have none: "start_of ?q = None" using q(3) by simp
    from p r s t none have "p \<in> set ps" "r \<in> set ps" by auto
    then show "s < t" using serialD(4) [OF ser] lt s t by blast
  qed
qed

section \<open>The invariant\<close>

definition cinv :: "cron_lib \<Rightarrow> (string \<Rightarrow> gotime set) \<Rightarrow> cron_world \<Rightarrow> bool" where
  "cinv B fires w \<longleftrightarrow> cron_lib_ok B fires \<and> careful (cj_spec (cw_job w)) \<and> 0 \<le> cw_now w \<and>
     (\<forall>p \<in> set (cw_created w). \<exists>t. getScheduleTimeForPod p = Inr t) \<and>
     sorted_wrt (<) (map run_of (cw_created w)) \<and>
     serial (cw_now w) (cw_uids w) (map run_of (cw_created w)) (cw_pods w) \<and>
     (cw_created w \<noteq> [] \<longrightarrow> (\<exists>p \<in> set (cw_pods w). run_of p = last (map run_of (cw_created w))))"

lemma cinv_init: "cron_init B fires careful w \<Longrightarrow> cinv B fires w"
  by (simp add: cron_init_def cinv_def serial_def)

text \<open>A clean-up that keeps the pod of the last run, and a run that is newer than all others.\<close>

lemma cinv_clean:
  assumes "cinv B fires w" and "\<And>q. q \<in> set (cw_pods w) \<Longrightarrow> run_of q = last (map run_of (cw_created w)) \<Longrightarrow> P q"
  shows "cinv B fires (w\<lparr>cw_job := (cw_job w)\<lparr>cj_status := st\<rparr>, cw_pods := filter P (cw_pods w)\<rparr>)"
  using assms serial_filter unfolding cinv_def by auto

lemma cinv_created:
  assumes inv: "cinv B fires w" and idle: "\<And>p. p \<in> set (cw_pods w) \<Longrightarrow> \<not> active p"
    and new: "\<And>p. p \<in> set (cw_created w) \<Longrightarrow> run_of p < m"
    and q: "getScheduleTimeForPod q = Inr m" "active q" "start_of q = None"
  shows "cinv B fires (cron_serve (\<lambda>_. True) w (CCreate q))"
proof -
  have rq: "run_of q = m" using q(1) by (simp add: run_of_def)
  have "serial (cw_now w) (Suc (cw_uids w)) (map run_of (cw_created w) @ [m]) (cw_pods w @ [admitted (cw_uids w) q])"
    by (rule serial_created) (use inv idle new q in \<open>auto simp: cinv_def\<close>)
  moreover have "sorted_wrt (<) (map run_of (cw_created w) @ [m])"
    using inv new by (auto simp: cinv_def sorted_wrt_append)
  ultimately show ?thesis using inv q(1) rq by (auto simp: cinv_def)
qed

text \<open>The pod of the last run is the one that started last.\<close>

lemma latest_pod:
  assumes "cinv B fires w"
  obtains p where "started_last B (cw_pods w) p"
    and "\<And>q. q \<in> set (cw_pods w) \<Longrightarrow> run_of q = last (map run_of (cw_created w)) \<Longrightarrow> q = p"
    and "cw_created w \<noteq> [] \<Longrightarrow> p \<in> set (cw_pods w) \<and> run_of p = last (map run_of (cw_created w))"
proof (cases "cw_created w = []")
  case True
  have "cw_pods w = []"
    using assms True by (cases "cw_pods w") (auto simp: cinv_def serial_def pod_ok_def)
  with True show ?thesis using that by (simp add: started_last_def)
next
  case False
  let ?runs = "map run_of (cw_created w)"
  have ser: "serial (cw_now w) (cw_uids w) ?runs (cw_pods w)" and srt: "sorted_wrt (<) ?runs"
    and tb: "time_before_ok B"
    using assms by (simp_all add: cinv_def cron_lib_ok_def)
  obtain p where p: "p \<in> set (cw_pods w)" "run_of p = last ?runs" using assms False by (auto simp: cinv_def)
  have inj: "inj_on run_of (set (cw_pods w))" and d: "distinct (cw_pods w)"
    using serialD(1) [OF ser] by (simp_all add: distinct_map)
  show ?thesis
  proof (rule that [of p])
    show "started_last B (cw_pods w) p"
      unfolding started_last_def
    proof (intro conjI impI ballI)
      fix q assume np: "\<not> active p" and q: "q \<in> set (cw_pods w)" "\<not> active q" "q \<noteq> p"
      obtain s t where st: "start_of q = Some s" "start_of p = Some t"
        using serialD(3) [OF ser q(1)] serialD(3) [OF ser p(1)] np q(2) by (auto simp: pod_ok_def)
      have "run_of q \<in> set ?runs" using serialD(3) [OF ser q(1)] by (simp add: pod_ok_def)
      then have "run_of q \<le> run_of p" using run_below_last [OF srt] p(2) by simp
      moreover have "run_of q \<noteq> run_of p" using inj q(1,3) p(1) by (auto dest: inj_onD)
      ultimately have "s < t" using serialD(4) [OF ser q(1) p(1) _ st] by simp
      then show "start_less B q p" using st tb by (simp add: start_less_def time_before_ok_def)
    qed (rule d)
    show "q = p" if "q \<in> set (cw_pods w)" "run_of q = last ?runs" for q
      using inj_onD [OF inj, of q p] that p by simp
  qed (use p in simp)
qed

lemma cinv_run:
  assumes inv: "cinv B fires w" and sees: "cron_sees B fires w E" and fresh: "cw_cache w = cw_pods w"
  shows "cinv B fires (cron_run E took w)"
proof -
  let ?ns = "om_namespace (cj_meta (cw_job w))" and ?n = "om_name (cj_meta (cw_job w))"
  let ?runs = "map run_of (cw_created w)"
  note see = sees [unfolded cron_sees_def]
  have B: "ce_lib E = B" and now: "ce_now E 0 = cw_now w" and st: "status_update_ok E"
    and pr: "printable_runs E fires" using see by auto
  have lib: "sort_slice_spec (cb_sortSlice B) (start_less B)" "parser_ok B fires" "set_controller_ok B" "0 \<le> cw_now w"
    using inv by (simp_all add: cinv_def cron_lib_ok_def)
  have ser: "serial (cw_now w) (cw_uids w) ?runs (cw_pods w)" using inv by (simp add: cinv_def)
  obtain p where p: "started_last B (cw_pods w) p"
      "\<And>q. q \<in> set (cw_pods w) \<Longrightarrow> run_of q = last ?runs \<Longrightarrow> q = p"
      "cw_created w \<noteq> [] \<Longrightarrow> p \<in> set (cw_pods w) \<and> run_of p = last ?runs"
    using latest_pod [OF inv] by blast
  have care: "\<forall>c. ce_get E ?ns ?n = Inr c \<longrightarrow> careful (cj_spec c)" using see inv by (auto simp: cinv_def)
  have last: "\<forall>ps. ce_list E ?ns ?n = Inr ps \<longrightarrow> started_last (ce_lib E) ps p" using see p(1) fresh B by auto
  have srt: "sort_slice_spec (cb_sortSlice (ce_lib E)) (start_less (ce_lib E))" using lib(1) B by simp
  define survives where "survives ds q \<longleftrightarrow> (\<forall>d \<in> set ds. took (CDelete d) \<longrightarrow> pod_uid q \<noteq> pod_uid d)" for ds q
  have cleaned: "foldl (cron_serve took) w (CUpdateStatus c # map CDelete ds) =
      w\<lparr>cw_job := (cw_job w)\<lparr>cj_status := (if took (CUpdateStatus c) then cj_status c else cj_status (cw_job w))\<rparr>,
        cw_pods := filter (survives ds) (cw_pods w)\<rparr>" for c ds
    by (simp add: serve_deletes survives_def [abs_def])
  have keep: "survives ds q" if "p \<notin> set ds" "\<And>d. d \<in> set ds \<Longrightarrow> d \<in> set (cw_pods w)"
      "q \<in> set (cw_pods w)" "run_of q = last ?runs" for ds q
  proof -
    have "q = p" using p(2) that(3,4) by blast
    moreover have "inj_on pod_uid (set (cw_pods w))" using serialD(2) [OF ser] by (simp add: distinct_map)
    ultimately show ?thesis using that by (auto simp: survives_def dest: inj_onD)
  qed
  show ?thesis
  proof (rule careful_writes [where E = E and ns = ?ns and n = ?n and p = p, OF srt st care last], goal_cases quiet cleaned started)
    case quiet
    obtain s where "cron_run E took w = w\<lparr>cw_job := (cw_job w)\<lparr>cj_status := s\<rparr>\<rparr>"
      using serve_status [OF quiet, of took w] unfolding cron_run_def by blast
    then show ?thesis using cinv_clean [OF inv, of "\<lambda>_. True" s] by simp
  next
    case (cleaned c ps c' ds)
    have "ps = cw_pods w" using cleaned(1) see fresh by (auto simp: fetched_def)
    then show ?thesis
      unfolding cron_run_def cleaned(2) \<open>\<And>c ds. foldl (cron_serve took) w (CUpdateStatus c # map CDelete ds) = _\<close>
      by (intro cinv_clean [OF inv] keep [OF cleaned(3)]) (use cleaned(4) in auto)
  next
    case (started c ps c' ds missed nextRun q)
    have ps: "ps = cw_pods w" and c: "c = cw_job w" using started(1) see fresh by (auto simp: fetched_def)
    let ?w = "foldl (cron_serve took) w (status_write E c ps # map CDelete ds)"
    have w: "cinv B fires ?w"
      unfolding cleaned by (intro cinv_clean [OF inv] keep [OF started(3)]) (use started(4) ps in auto)
    have in_w: "cw_created ?w = cw_created w" "set (cw_pods ?w) \<subseteq> set (cw_pods w)" "cw_uids ?w = cw_uids w"
      unfolding cleaned by auto
    have idle: "\<not> active a" if "a \<in> set (cw_pods ?w)" for a
      using started(7) in_w(2) that ps by (auto simp: children_def classify_lists active_def filter_empty_conv)
    have m: "missed \<in> runs_between (fires (cs_schedule (cj_spec c'))) (earliest_time c' (cw_now w)) (cw_now w)"
      using missed_latest(1) [OF _ started(6) lib(2,4), of c' nextRun] started(5) B now by simp
    have "cst_lastScheduleTime (cj_status c') = Some (ch_lastScheduled (children c ps))"
      by (rule fetched_last [OF started(1) st])
    then have lastSched: "ch_lastScheduled (children c ps) < missed"
      using earliest_time_ge [of c' _ "cw_now w"] m by (fastforce simp: runs_between_def)
    have new: "run_of a < missed" if a: "a \<in> set (cw_created w)" for a
    proof -
      have "cw_created w \<noteq> []" using a by auto
      with p(3) have pp: "p \<in> set (cw_pods w)" "run_of p = last ?runs" by auto
      obtain t where t: "getScheduleTimeForPod p = Inr t"
        using serialD(3) [OF ser pp(1)] by (auto simp: pod_ok_def)
      have "run_of a \<le> last ?runs" using run_below_last [of ?runs "run_of a"] inv a by (simp add: cinv_def)
      also have "\<dots> = t" using pp(2) t by (simp add: run_of_def)
      also have "t \<le> ch_lastScheduled (children c ps)"
        using lastScheduled_ge [of p ps t c] pp(1) ps t by simp
      finally show ?thesis using lastSched by simp
    qed
    have q: "getScheduleTimeForPod q = Inr missed"
      using newPod_schedule [OF started(8) _ pr, of "cs_schedule (cj_spec c')"] lib(3) m B now
      by (simp add: runs_between_def)
    have "p_status q = \<lparr>pst_phase = '''', pst_startTime = None\<rparr>"
      using started(8) lib(3) B unfolding newPodForCronJob_def set_controller_ok_def Let_def by fastforce
    then have "active q" "start_of q = None" by (simp_all add: active_def corev1_consts)
    then have "cinv B fires (cron_serve (\<lambda>_. True) ?w (CCreate q))"
      using cinv_created [OF w idle _ q] new unfolding in_w(1) by blast
    then show ?thesis
      using w unfolding cron_run_def started(2) foldl_append by simp
  qed
qed

lemma cinv_pods:
  assumes "cinv B fires w" and "serial (cw_now w) (cw_uids w) (map run_of (cw_created w)) ps"
    and "run_of ` set ps = run_of ` set (cw_pods w)"
  shows "cinv B fires (w\<lparr>cw_pods := ps\<rparr>)"
proof -
  have "(\<exists>p \<in> set ps. run_of p = t) \<longleftrightarrow> (\<exists>p \<in> set (cw_pods w). run_of p = t)" for t
    using assms(3) by (metis imageE image_eqI)
  with assms(1,2) show ?thesis by (simp add: cinv_def)
qed

lemma cinv_step:
  assumes "cinv B fires w" and "cstep B fires careful True w w'"
  shows "cinv B fires w'"
  using assms(2)
proof (cases rule: cstep.cases)
  case (cs_reconcile E took)
  then show ?thesis using cinv_run [OF assms(1)] by simp
next
  case cs_refresh
  with assms(1) show ?thesis by (simp add: cinv_def)
next
  case (cs_pod i ph)
  let ?p = "moved_to (cw_now w) ph (cw_pods w ! i)"
  have ser: "serial (cw_now w) (cw_uids w) (map run_of (cw_created w)) ((cw_pods w)[i := ?p])"
    by (rule serial_moved) (use assms(1) cs_pod in \<open>auto simp: cinv_def\<close>)
  have "map run_of ((cw_pods w)[i := ?p]) = map run_of (cw_pods w)"
    using cs_pod(2) by (simp add: map_update list_update_same_conv)
  then have "run_of ` set ((cw_pods w)[i := ?p]) = run_of ` set (cw_pods w)" by (metis set_map)
  then show ?thesis unfolding cs_pod(1) by (rule cinv_pods [OF assms(1) ser])
next
  case (cs_edit sp)
  with assms(1) show ?thesis by (simp add: cinv_def)
next
  case (cs_tick now)
  with assms(1) show ?thesis using serial_later by (auto simp: cinv_def)
qed

interpretation cron: inv_system "cron_init B fires careful" "cstep B fires careful True" "cinv B fires" for B fires
  by unfold_locales (auto intro: cinv_init cinv_step)

section \<open>Concrete clusters\<close>

text \<open>A cluster that answers every request.\<close>

definition accepting_env :: "cron_lib \<Rightarrow> cron_world \<Rightarrow> cron_env" where
  "accepting_env B w = \<lparr>ce_lib = B, ce_get = (\<lambda>_ _. Inr (cw_job w)), ce_list = (\<lambda>_ _. Inr (cw_cache w)),
     ce_updateStatus = (\<lambda>c. Inr c), ce_delete = (\<lambda>_ _. None), ce_create = (\<lambda>_ _. None),
     ce_now = (\<lambda>_. cw_now w), ce_zone = (\<lambda>_. 0)\<rparr>"

text \<open>The scheduled times up to \<open>t\<close> can be written down in an annotation.\<close>

definition printable_until :: "(string \<Rightarrow> gotime set) \<Rightarrow> gotime \<Rightarrow> bool" where
  "printable_until fires t \<longleftrightarrow> (\<forall>s. \<forall>u \<in> fires s. u \<le> t \<longrightarrow>
     u mod Second = 0 \<and> 0 \<le> year_in 0 u \<and> year_in 0 u < 10000)"

lemma accepting_sees:
  assumes "printable_until fires (cw_now w)"
  shows "cron_sees B fires w (accepting_env B w)"
proof -
  have "status_update_ok (accepting_env B w)"
    unfolding status_update_ok_def
  proof (intro allI impI)
    fix c d assume "ce_updateStatus (accepting_env B w) c = Inr d"
    then have "d = c\<lparr>cj_meta := (cj_meta c)\<lparr>om_resourceVersion := om_resourceVersion (cj_meta c)\<rparr>\<rparr>"
      by (simp add: accepting_env_def)
    then show "\<exists>v. d = c\<lparr>cj_meta := (cj_meta c)\<lparr>om_resourceVersion := v\<rparr>\<rparr>" ..
  qed
  then show ?thesis
    using assms by (auto simp: cron_sees_def printable_runs_def printable_until_def accepting_env_def)
qed

text \<open>The runs of the CronJob of the samples are hourly.\<close>

abbreviation day_env :: "cron_world \<Rightarrow> cron_env" where
  "day_env \<equiv> accepting_env sample_lib"

definition day_run :: "cron_world \<Rightarrow> cron_world" where
  "day_run w = cron_run (day_env w) (\<lambda>_. True) w"

definition day_refresh :: "cron_world \<Rightarrow> cron_world" where
  "day_refresh w = w\<lparr>cw_cache := cw_pods w\<rparr>"

definition day_tick :: "cron_world \<Rightarrow> cron_world" where
  "day_tick w = w\<lparr>cw_now := cw_now w + Second\<rparr>"

definition day_start :: "concurrency_policy \<Rightarrow> int option \<Rightarrow> cron_world" where
  "day_start policy limit = \<lparr>cw_job = sample_cronjob policy limit, cw_pods = [], cw_cache = [],
     cw_now = half_past_nine, cw_uids = 0, cw_created = []\<rparr>"


text \<open>The first hours of the samples are in 2023.\<close>

lemma october_hours: "\<forall>k\<in>set [0..102]. (t0 + k * Hour) mod Second = 0 \<and> year_in 0 (t0 + k * Hour) = 2023"
  by code_simp

lemma sample_printable_until:
  assumes "t < t0 + 103 * Hour"
  shows "printable_until sample_fires t"
proof -
  have "u mod Second = 0 \<and> year_in 0 u = 2023" if u: "u \<in> hours" "u \<le> t" for u
  proof -
    define k where "k = (u - t0) div Hour"
    have "u = t0 + k * Hour" "0 \<le> k"
      using u(1) Hour_pos by (simp_all add: hours_def k_def pos_imp_zdiv_nonneg_iff minus_mod_eq_div_mult [symmetric])
    moreover have "k * Hour < 103 * Hour" using u(2) assms calculation(1) by linarith
    then have "k < 103" using Hour_pos by simp
    ultimately show ?thesis using october_hours by simp
  qed
  then show ?thesis by (simp add: printable_until_def sample_fires_def)
qed

lemma day_sees:
  assumes "cw_now w < t0 + 103 * Hour"
  shows "cron_sees sample_lib sample_fires w (day_env w)"
  by (rule accepting_sees [OF sample_printable_until [OF assms]])

text \<open>A day of the CronJob as a list of events: the controller is called, after its list was refreshed or
  with a stale one, the kubelet moves a pod, time passes. \<open>day\<close> gives the cluster at its end, if each of
  them is possible.\<close>

datatype day_event = Call | StaleCall | Pod_Moves nat string | Until gotime

fun day_may :: "bool \<Rightarrow> day_event \<Rightarrow> cron_world \<Rightarrow> bool" where
  "day_may fresh Call w = (cw_now w < t0 + 103 * Hour)"
| "day_may fresh StaleCall w = (cw_now w < t0 + 103 * Hour \<and> \<not> fresh)"
| "day_may fresh (Pod_Moves i ph) w =
     (i < length (cw_pods w) \<and> active (cw_pods w ! i) \<and>
      (active (moved_to (cw_now w) ph (cw_pods w ! i)) \<or>
       (case pst_startTime (p_status (cw_pods w ! i)) of None \<Rightarrow> False | Some t \<Rightarrow> t < cw_now w)))"
| "day_may fresh (Until t) w = (cw_now w \<le> t)"

fun day_do :: "day_event \<Rightarrow> cron_world \<Rightarrow> cron_world" where
  "day_do Call w = day_run (day_refresh w)"
| "day_do StaleCall w = day_run w"
| "day_do (Pod_Moves i ph) w = w\<lparr>cw_pods := (cw_pods w)[i := moved_to (cw_now w) ph (cw_pods w ! i)]\<rparr>"
| "day_do (Until t) w = w\<lparr>cw_now := t\<rparr>"

fun day :: "bool \<Rightarrow> day_event list \<Rightarrow> cron_world \<Rightarrow> cron_world option" where
  "day fresh [] w = Some w"
| "day fresh (e # es) w = (if day_may fresh e w then day fresh es (day_do e w) else None)"

abbreviation day_reach :: "(cronjob_spec \<Rightarrow> bool) \<Rightarrow> bool \<Rightarrow> cron_world \<Rightarrow> bool" where
  "day_reach ok fresh \<equiv> reachable (cron_init sample_lib sample_fires ok) (cstep sample_lib sample_fires ok fresh)"

lemma day_run_reach:
  assumes "day_reach ok fresh w" and "cw_now w < t0 + 103 * Hour" and "fresh \<Longrightarrow> cw_cache w = cw_pods w"
  shows "day_reach ok fresh (day_run w)"
  unfolding day_run_def
  by (rule reach_step [OF assms(1)], rule cs_reconcile [OF day_sees [OF assms(2)] assms(3)])
     (simp_all add: takes_accepted_def)

lemma day_do_reach:
  assumes "day_reach ok fresh w" and "day_may fresh e w"
  shows "day_reach ok fresh (day_do e w)"
  using assms(2)
proof (cases e)
  case Call
  have "day_reach ok fresh (day_refresh w)"
    unfolding day_refresh_def by (rule reach_step [OF assms(1)]) (rule cs_refresh)
  then show ?thesis using assms(2) day_run_reach [of ok fresh "day_refresh w"] by (simp add: Call day_refresh_def)
next
  case StaleCall
  then show ?thesis using assms day_run_reach by simp
next
  case (Pod_Moves i ph)
  then show ?thesis
    using assms(2) by (auto intro!: reach_step [OF assms(1)] cs_pod split: option.splits)
next
  case (Until t)
  then show ?thesis using assms(2) by (auto intro: reach_step [OF assms(1)] cs_tick)
qed

lemma day_reaches: "day_reach ok fresh w \<Longrightarrow> day fresh es w = Some w' \<Longrightarrow> day_reach ok fresh w'"
  by (induction es arbitrary: w) (auto intro: day_do_reach split: if_splits)

lemma day_starts:
  assumes "ok (cj_spec (sample_cronjob policy limit))"
  shows "day_reach ok fresh (day_start policy limit)"
proof (rule reach_init)
  have "om_creationTimestamp (cj_meta (sample_cronjob policy limit)) \<le> half_past_nine"
    by (simp add: sample_cronjob_def half_past_nine_def Second_def)
  then show "cron_init sample_lib sample_fires ok (day_start policy limit)"
    using assms by (simp add: cron_init_def cron_lib_ok_def day_start_def)
qed

text \<open>The run of 9 o'clock is started, its pod fails, and the controller is called twice; it is called
  twice with the list it has; and two runs are started, of which the second starts and fails first.\<close>

definition failing_day :: "day_event list" where
  "failing_day = [Call, Pod_Moves 0 ''Running'', Until (half_past_nine + Second), Pod_Moves 0 PodFailed, Call, Call]"

definition stale_day :: "day_event list" where
  "stale_day = [Call, StaleCall]"

definition overtaking_day :: "day_event list" where
  "overtaking_day =
     [Call, Until (t0 + 2 * Hour), Call,
      Pod_Moves 1 ''Running'', Until (t0 + 2 * Hour + Second), Pod_Moves 1 PodFailed,
      Pod_Moves 0 ''Running'', Until (t0 + 2 * Hour + 2 * Second), Pod_Moves 0 PodFailed, Call, Call]"

lemma days:
  "map_option (\<lambda>w. scheduled_times (cw_created w)) (day True failing_day (day_start ForbidConcurrent (Some 1))) =
     Some [t0 + Hour, t0 + Hour]"
  "map_option (\<lambda>w. scheduled_times (cw_created w)) (day False stale_day (day_start ForbidConcurrent (Some 2))) =
     Some [t0 + Hour, t0 + Hour]"
  "map_option (\<lambda>w. scheduled_times (cw_created w)) (day True overtaking_day (day_start AllowConcurrent (Some 2))) =
     Some [t0 + Hour, t0 + 2 * Hour, t0 + 2 * Hour]"
  by code_simp+

section \<open>Runs over time\<close>

lemma scheduled_times_readable:
  "(\<And>p. p \<in> set ps \<Longrightarrow> \<exists>t. getScheduleTimeForPod p = Inr t) \<Longrightarrow> scheduled_times ps = map run_of ps"
proof (induction ps)
  case (Cons p ps)
  obtain t where "getScheduleTimeForPod p = Inr t" using Cons.prems [of p] by auto
  with Cons show ?case by (simp add: run_of_def)
qed simp



text \<open>C15: None of the three conditions can be dropped. With a limit of one, which the API accepts, the
  clean-up deletes the only pod that tells of the last run, and a fresh controller starts the same run
  again; with the best limits a controller whose cache does not show the new pod yet starts it again,
  since the name of a pod is generated and does not say which run it is; and when runs may overlap, the
  pod of the last run may be the one that started first, so that the clean-up deletes it.\<close>

theorem runs_repeated:
  "(\<exists>w. reachable (cron_init sample_lib sample_fires (\<lambda>sp. sp = cj_spec (sample_cronjob ForbidConcurrent (Some 1))))
       (cstep sample_lib sample_fires (\<lambda>sp. sp = cj_spec (sample_cronjob ForbidConcurrent (Some 1))) True) w \<and>
     scheduled_times (cw_created w) = [t0 + Hour, t0 + Hour]) \<and>
   (\<exists>w. reachable (cron_init sample_lib sample_fires careful) (cstep sample_lib sample_fires careful False) w \<and>
     scheduled_times (cw_created w) = [t0 + Hour, t0 + Hour]) \<and>
   (\<exists>w. reachable (cron_init sample_lib sample_fires (\<lambda>sp. sp = cj_spec (sample_cronjob AllowConcurrent (Some 2))))
       (cstep sample_lib sample_fires (\<lambda>sp. sp = cj_spec (sample_cronjob AllowConcurrent (Some 2))) True) w \<and>
     scheduled_times (cw_created w) = [t0 + Hour, t0 + 2 * Hour, t0 + 2 * Hour])"
proof (intro conjI)
  have care: "careful (cj_spec (sample_cronjob ForbidConcurrent (Some 2)))"
    by (simp add: careful_def sample_cronjob_def)
  have ends: "\<exists>w. day_reach ok fresh w \<and> scheduled_times (cw_created w) = ts"
    if "ok (cj_spec (sample_cronjob policy limit))"
      "map_option (\<lambda>w. scheduled_times (cw_created w)) (day fresh es (day_start policy limit)) = Some ts"
    for ok fresh policy limit es ts
    using that(2) day_reaches [OF day_starts [of ok, OF that(1)]] by auto
  show "\<exists>w. day_reach (\<lambda>sp. sp = cj_spec (sample_cronjob ForbidConcurrent (Some 1))) True w \<and>
      scheduled_times (cw_created w) = [t0 + Hour, t0 + Hour]"
    by (rule ends [where ok = "\<lambda>sp. sp = cj_spec (sample_cronjob ForbidConcurrent (Some 1))", OF refl days(1)])
  show "\<exists>w. day_reach careful False w \<and> scheduled_times (cw_created w) = [t0 + Hour, t0 + Hour]"
    by (rule ends [where ok = careful, OF care days(2)])
  show "\<exists>w. day_reach (\<lambda>sp. sp = cj_spec (sample_cronjob AllowConcurrent (Some 2))) True w \<and>
      scheduled_times (cw_created w) = [t0 + Hour, t0 + 2 * Hour, t0 + 2 * Hour]"
    by (rule ends [where ok = "\<lambda>sp. sp = cj_spec (sample_cronjob AllowConcurrent (Some 2))", OF refl days(3)])
qed

section \<open>A CronJob that never runs again\<close>

text \<open>A CronJob without pods that has missed more than a hundred runs since its creation.\<close>

definition stuck :: "cronjob_spec \<Rightarrow> gotime set \<Rightarrow> gotime \<Rightarrow> pod list \<Rightarrow> cron_world \<Rightarrow> bool" where
  "stuck sp F created_at created w \<longleftrightarrow> cw_pods w = [] \<and> cw_cache w = [] \<and> cj_spec (cw_job w) = sp \<and>
     om_creationTimestamp (cj_meta (cw_job w)) = created_at \<and> cw_created w = created \<and>
     100 < card (runs_between F created_at (cw_now w))"

lemma serve_no_runs:
  assumes "run_pods acts = []" and "stuck sp F c cr w"
  shows "stuck sp F c cr (foldl (cron_serve took) w acts)"
  using assms
proof (induction acts arbitrary: w)
  case (Cons a acts)
  have "stuck sp F c cr (cron_serve took w a)"
    using Cons.prems by (cases a) (auto simp: stuck_def)
  with Cons show ?case by (cases a) auto
qed simp

lemma stuck_quiet:
  assumes st: "stuck sp F c cr w" and sees: "cron_sees B fires w E"
    and srt: "sort_slice_spec (cb_sortSlice B) (start_less B)"
    and sp: "cs_startingDeadlineSeconds sp = None" "cb_parseStandard B (cs_schedule sp) = Inr nxt" "activates nxt F"
  shows "run_pods (snd (Reconcile E ns n)) = []"
proof (rule ccontr)
  assume "run_pods (snd (Reconcile E ns n)) \<noteq> []"
  then obtain p where p: "p \<in> set (run_pods (snd (Reconcile E ns n)))" by (cases "run_pods (snd (Reconcile E ns n))") auto
  have B: "ce_lib E = B" and now: "ce_now E 0 = cw_now w" and upd: "status_update_ok E"
    using sees by (simp_all add: cron_sees_def)
  obtain j ps j' missed nextRun where f: "fetched E ns n j ps j'"
      and g: "getNextScheduledTime (ce_lib E) j' (ce_now E 0) = Inr (missed, nextRun)"
    using Reconcile_created [OF _ p] srt B by metis
  have j: "j = cw_job w" "ps = []" using f sees st by (auto simp: fetched_def cron_sees_def stuck_def)
  have j': "cj_spec j' = sp" "om_creationTimestamp (cj_meta j') = c"
    using f upd j st unfolding fetched_def status_update_ok_def with_status_def stuck_def by force+
  have "cst_lastScheduleTime (cj_status j') = Some c"
    using fetched_last [OF f upd] j st by (simp add: children_def stuck_def)
  then have "earliest_time j' (cw_now w) = c" by (simp add: earliest_time_def j' sp(1))
  then have "getNextScheduledTime B j' (cw_now w) = Inl ErrTooManyMissed"
    using getNextScheduledTime_activates [of B j' nxt F "cw_now w"] sp(2,3) j' st by (simp add: stuck_def)
  with g B now show False by simp
qed

lemma stuck_step:
  assumes st: "stuck sp F c cr w" and srt: "sort_slice_spec (cb_sortSlice B) (start_less B)"
    and sp: "cs_startingDeadlineSeconds sp = None" "cb_parseStandard B (cs_schedule sp) = Inr nxt" "activates nxt F"
    and step: "cstep B fires (\<lambda>s. s = sp) fresh w w'"
  shows "stuck sp F c cr w'"
  using step
proof (cases rule: cstep.cases)
  case (cs_reconcile E took)
  then show ?thesis
    using serve_no_runs [OF stuck_quiet [OF st cs_reconcile(2) srt sp] st] by (simp add: cron_run_def)
next
  case (cs_tick now)
  have "runs_between F c (cw_now w) \<subseteq> runs_between F c now" using cs_tick(2) by (auto simp: runs_between_def)
  then have "card (runs_between F c (cw_now w)) \<le> card (runs_between F c now)" by (intro card_mono) simp_all
  with st cs_tick(1) show ?thesis by (simp add: stuck_def)
qed (use st in \<open>auto simp: stuck_def\<close>)

text \<open>C16: A CronJob that has no child pod, no starting deadline and more than a hundred runs between its
  creation and now never runs again, whatever happens: its last run is only known from its pods, so
  every run of the controller counts the missed ones from the creation, finds too many and gives up,
  until somebody edits the CronJob.\<close>

theorem childless_never_runs:
  assumes "(cstep B fires (\<lambda>s. s = cj_spec (cw_job w)) fresh)\<^sup>*\<^sup>* w w'"
    and "sort_slice_spec (cb_sortSlice B) (start_less B)"
    and "cb_parseStandard B (cs_schedule (cj_spec (cw_job w))) = Inr nxt" and "activates nxt F"
    and "cs_startingDeadlineSeconds (cj_spec (cw_job w)) = None"
    and "cw_pods w = []" and "cw_cache w = []"
    and "100 < card (runs_between F (om_creationTimestamp (cj_meta (cw_job w))) (cw_now w))"
  shows "cw_created w' = cw_created w \<and> cw_pods w' = [] \<and>
    (\<forall>E ns n. cron_sees B fires w' E \<longrightarrow> run_pods (snd (Reconcile E ns n)) = [])"
proof -
  let ?sp = "cj_spec (cw_job w)" and ?c = "om_creationTimestamp (cj_meta (cw_job w))"
  have w: "stuck ?sp F ?c (cw_created w) w" using assms(6-8) by (simp add: stuck_def)
  have w': "stuck ?sp F ?c (cw_created w) w'"
    using assms(1)
  proof (induction rule: rtranclp_induct)
    case base
    show ?case by (rule w)
  next
    case (step u v)
    then show ?case using stuck_step [OF step.IH assms(2,5,3,4)] by blast
  qed
  then show ?thesis
    using stuck_quiet [OF w' _ assms(2,5,3,4)] w' unfolding stuck_def by blast
qed

text \<open>Four days after its creation the hourly CronJob has no pods, and then a second passes.\<close>

definition day_late :: cron_world where
  "day_late = (day_start ForbidConcurrent None)\<lparr>cw_now := t0 + 102 * Hour\<rparr>"

lemma day_late_missed: "100 < card (runs_between hours t0 (t0 + 102 * Hour))"
proof -
  have inj: "inj_on (\<lambda>k. t0 + k * Hour) {1..102}" by (auto simp: inj_on_def Hour_def Second_def)
  have "(\<lambda>k. t0 + k * Hour) ` {1..102} \<subseteq> runs_between hours t0 (t0 + 102 * Hour)"
    using Hour_pos by (auto simp: runs_between_def hours_def mult_right_mono less_imp_le)
  then have "card ((\<lambda>k. t0 + k * Hour) ` {1..102}) \<le> card (runs_between hours t0 (t0 + 102 * Hour))"
    by (intro card_mono) simp_all
  then show ?thesis by (simp add: card_image [OF inj])
qed

theorem childless_never_runs_witness:
  "cw_created (day_tick day_late) = [] \<and>
    run_pods (snd (Reconcile (day_env (day_tick day_late)) ''default'' ''batch'')) = []"
proof -
  let ?step = "cstep sample_lib sample_fires (\<lambda>s. s = cj_spec (cw_job day_late)) True"
  have "?step day_late (day_tick day_late)"
    unfolding day_tick_def by (rule cs_tick) (simp add: Second_def)
  then have steps: "?step\<^sup>*\<^sup>* day_late (day_tick day_late)" by simp
  have "cw_created (day_tick day_late) = cw_created day_late \<and> cw_pods (day_tick day_late) = [] \<and>
    (\<forall>E ns n. cron_sees sample_lib sample_fires (day_tick day_late) E \<longrightarrow> run_pods (snd (Reconcile E ns n)) = [])"
    by (rule childless_never_runs [OF steps _ _ hourly_activates])
       (use day_late_missed in \<open>simp_all add: day_late_def day_start_def sample_cronjob_def\<close>)
  moreover have "cron_sees sample_lib sample_fires (day_tick day_late) (day_env (day_tick day_late))"
    by (rule day_sees) (simp add: day_tick_def day_late_def Hour_def Second_def)
  ultimately show ?thesis by (simp add: day_late_def day_start_def)
qed


end
