(* ===== verification/CronProgress.thy ===== *)
theory CronProgress
  imports CronLifecycle
begin

text \<open>
  The CronJob controller keeps up with its schedule: in the cluster of theory \<open>CronLifecycle\<close>, a CronJob
  whose pods end before the next run gets a pod for each run of its schedule, each once and in order.
\<close>

section \<open>One round\<close>

text \<open>The clock comes to \<open>t\<close>, the cache is refreshed, and the controller is called.\<close>

definition cron_start :: "cron_lib \<Rightarrow> gotime \<Rightarrow> cron_world \<Rightarrow> cron_world" where
  "cron_start B t w =
     (let w = w\<lparr>cw_now := t, cw_cache := cw_pods w\<rparr> in cron_run (accepting_env B w) (\<lambda>_. True) w)"

text \<open>The newest pod runs, and later ends.\<close>

definition newest_moved :: "string \<Rightarrow> cron_world \<Rightarrow> cron_world" where
  "newest_moved ph w =
     (let i = length (cw_pods w) - 1
      in w\<lparr>cw_pods := (cw_pods w)[i := moved_to (cw_now w) ph (cw_pods w ! i)]\<rparr>)"

definition cron_finish :: "gotime \<Rightarrow> string \<Rightarrow> cron_world \<Rightarrow> cron_world" where
  "cron_finish t ph w = newest_moved ph ((newest_moved ''Running'' w)\<lparr>cw_now := t\<rparr>)"

text \<open>In round \<open>k\<close> the controller is called at \<open>at k\<close>, and the pod ends at \<open>fin k\<close> in phase \<open>ph k\<close>.\<close>

primrec cron_rounds ::
    "cron_lib \<Rightarrow> (nat \<Rightarrow> gotime) \<Rightarrow> (nat \<Rightarrow> gotime) \<Rightarrow> (nat \<Rightarrow> string) \<Rightarrow> cron_world \<Rightarrow> nat \<Rightarrow> cron_world" where
  "cron_rounds B at fin ph w 0 = w"
| "cron_rounds B at fin ph w (Suc k) = cron_finish (fin k) (ph k) (cron_start B (at k) (cron_rounds B at fin ph w k))"

abbreviation careful_reach :: "cron_lib \<Rightarrow> (string \<Rightarrow> gotime set) \<Rightarrow> cron_world \<Rightarrow> bool" where
  "careful_reach B fires \<equiv> reachable (cron_init B fires careful) (cstep B fires careful True)"

lemma serve_keeps:
  assumes "run_pods acts = []"
  shows "cw_created (foldl (cron_serve took) w acts) = cw_created w \<and>
    cw_uids (foldl (cron_serve took) w acts) = cw_uids w \<and> cw_now (foldl (cron_serve took) w acts) = cw_now w \<and>
    cj_spec (cw_job (foldl (cron_serve took) w acts)) = cj_spec (cw_job w) \<and>
    cj_meta (cw_job (foldl (cron_serve took) w acts)) = cj_meta (cw_job w) \<and>
    set (cw_pods (foldl (cron_serve took) w acts)) \<subseteq> set (cw_pods w)"
  using assms
proof (induction acts arbitrary: w)
  case (Cons a acts)
  have acts: "run_pods acts = []" using Cons.prems by (cases a) auto
  have a: "cw_created (cron_serve took w a) = cw_created w" "cw_uids (cron_serve took w a) = cw_uids w"
      "cw_now (cron_serve took w a) = cw_now w" "cj_spec (cw_job (cron_serve took w a)) = cj_spec (cw_job w)"
      "cj_meta (cw_job (cron_serve took w a)) = cj_meta (cw_job w)"
      "set (cw_pods (cron_serve took w a)) \<subseteq> set (cw_pods w)"
    using Cons.prems by (cases a; auto)+
  show ?case using Cons.IH [OF acts, of "cron_serve took w a"] a by auto
qed simp

text \<open>The contracts of the libraries that a start relies on, and a CronJob that may be started at all.\<close>

definition starts_accepted :: "cron_lib \<Rightarrow> bool" where
  "starts_accepted B \<longleftrightarrow> (\<forall>c p. \<not> isl (cb_setControllerReference B c p)) \<and> cb_ignoreNotFound B None = None"

definition unhindered :: "cronjob_spec \<Rightarrow> bool" where
  "unhindered sp \<longleftrightarrow> careful sp \<and> cs_suspend sp \<noteq> Some True \<and> cs_startingDeadlineSeconds sp = None"

text \<open>The last run the controller can know of: that of the newest pod, or else the creation.\<close>

definition last_run :: "cron_world \<Rightarrow> gotime" where
  "last_run w = last (om_creationTimestamp (cj_meta (cw_job w)) # map run_of (cw_created w))"

lemma lastScheduled_last_run:
  assumes inv: "cinv B fires w" and low: "\<forall>p \<in> set (cw_created w). om_creationTimestamp (cj_meta (cw_job w)) \<le> run_of p"
  shows "ch_lastScheduled (children (cw_job w) (cw_pods w)) = last_run w"
proof -
  let ?c = "om_creationTimestamp (cj_meta (cw_job w))" and ?runs = "map run_of (cw_created w)"
  have ser: "serial (cw_now w) (cw_uids w) ?runs (cw_pods w)" and srt: "sorted_wrt (<) ?runs"
    using inv by (simp_all add: cinv_def)
  have times: "set (scheduled_times (cw_pods w)) \<subseteq> set ?runs"
  proof
    fix t assume "t \<in> set (scheduled_times (cw_pods w))"
    then obtain p where p: "p \<in> set (cw_pods w)" "getScheduleTimeForPod p = Inr t"
      by (auto simp: scheduled_times_def List.map_filter_def split: sum.splits)
    then show "t \<in> set ?runs" using serialD(3) [OF ser p(1)] by (simp add: pod_ok_def run_of_def)
  qed
  have "ch_lastScheduled (children (cw_job w) (cw_pods w)) = Max (insert ?c (set (scheduled_times (cw_pods w))))"
    using children_correct by blast
  also have "\<dots> = last_run w"
  proof (rule Max_eqI)
    fix t assume "t \<in> insert ?c (set (scheduled_times (cw_pods w)))"
    then have "t = ?c \<or> t \<in> set ?runs" using times by blast
    then show "t \<le> last_run w"
      using run_below_last [OF srt, of t] low by (cases "cw_created w = []") (auto simp: last_run_def last_map)
  next
    show "last_run w \<in> insert ?c (set (scheduled_times (cw_pods w)))"
    proof (cases "cw_created w = []")
      case False
      then obtain p where p: "p \<in> set (cw_pods w)" "run_of p = last ?runs" using inv by (auto simp: cinv_def)
      obtain t where t: "getScheduleTimeForPod p = Inr t" using serialD(3) [OF ser p(1)] by (auto simp: pod_ok_def)
      then have "t = last_run w" using p(2) False by (simp add: last_run_def run_of_def)
      then show ?thesis using in_scheduled_times [OF p(1) t] by simp
    qed (simp add: last_run_def)
  qed simp
  finally show ?thesis .
qed

text \<open>A start, when no pod is active and between one and a hundred runs are due: one more pod, that of
  the latest run.\<close>

lemma cron_starts:
  fixes w :: cron_world and fires :: "string \<Rightarrow> gotime set"
  defines "sp \<equiv> cj_spec (cw_job w)"
  defines "due t \<equiv> runs_between (fires (cs_schedule sp)) (last_run w) t"
  assumes reach: "careful_reach B fires w" and sp: "unhindered sp" and lib: "starts_accepted B"
    and nxt: "cb_parseStandard B (cs_schedule sp) = Inr nxt" "activates nxt (fires (cs_schedule sp))"
    and low: "0 \<le> om_creationTimestamp (cj_meta (cw_job w))"
      "\<forall>p \<in> set (cw_created w). om_creationTimestamp (cj_meta (cw_job w)) \<le> run_of p"
    and idle: "\<And>p. p \<in> set (cw_pods w) \<Longrightarrow> \<not> active p"
    and t: "cw_now w \<le> t" "printable_until fires t" and due: "due t \<noteq> {}" "card (due t) \<le> 100"
  obtains ps p where "careful_reach B fires (cron_start B t w)"
    and "cw_created (cron_start B t w) = cw_created w @ [p]" and "run_of p = Max (due t)"
    and "cw_pods (cron_start B t w) = ps @ [p]" and "set ps \<subseteq> set (cw_pods w)"
    and "active p" and "start_of p = None" and "cw_now (cron_start B t w) = t"
    and "cj_spec (cw_job (cron_start B t w)) = sp"
    and "cj_meta (cw_job (cron_start B t w)) = cj_meta (cw_job w)"
proof -
  let ?u = "w\<lparr>cw_now := t, cw_cache := cw_pods w\<rparr>" and ?c = "cw_job w"
  let ?E = "accepting_env B ?u" and ?ns = "om_namespace (cj_meta (cw_job w))" and ?n = "om_name (cj_meta (cw_job w))"
  have inv: "cinv B fires w" by (rule cron.reachable_inv [OF reach])
  have start: "cron_start B t w = cron_run ?E (\<lambda>_. True) ?u" by (simp add: cron_start_def Let_def)
  have "careful_reach B fires (w\<lparr>cw_now := t\<rparr>)" by (rule reach_step [OF reach], rule cs_tick [OF t(1)])
  then have "careful_reach B fires (w\<lparr>cw_now := t\<rparr>\<lparr>cw_cache := cw_pods (w\<lparr>cw_now := t\<rparr>)\<rparr>)"
    by (rule reach_step) (rule cs_refresh)
  then have u: "careful_reach B fires ?u" by simp
  have "cstep B fires careful True ?u (cron_run ?E (\<lambda>_. True) ?u)"
    by (rule cs_reconcile) (use t(2) in \<open>auto intro: accepting_sees simp: takes_accepted_def\<close>)
  then have "careful_reach B fires (cron_run ?E (\<lambda>_. True) ?u)" by (rule reach_step [OF u])
  then have reached: "careful_reach B fires (cron_start B t w)" by (simp add: start)
  \<comment> \<open>what the controller reads and finds\<close>
  let ?c' = "with_status B (children ?c (cw_pods w)) ?c"
  have f: "fetched ?E ?ns ?n ?c (cw_pods w) ?c'" by (simp add: fetched_def accepting_env_def)
  have c': "cj_spec ?c' = sp" "cj_meta ?c' = cj_meta ?c" by (simp_all add: with_status_def sp_def)
  have E: "ce_lib ?E = B" "ce_now ?E k = t" for k by (simp_all add: accepting_env_def)
  have early: "earliest_time ?c' t = last_run w"
    using lastScheduled_last_run [OF inv low(2)] sp c'(1)
    by (simp add: earliest_time_def unhindered_def with_status_def)
  have S: "due t = runs_between (fires (cs_schedule sp)) (earliest_time ?c' (ce_now ?E 0)) (ce_now ?E 0)"
    by (simp add: due_def E early)
  have m: "Max (due t) \<in> due t" using due(1) by (intro Max_in) (simp_all add: due_def)
  have "0 \<le> last_run w"
    using low(1) bspec [OF low(2), of "last (cw_created w)"] by (cases "cw_created w = []") (simp_all add: last_run_def last_map)
  then have "Max (due t) \<noteq> 0" using m by (auto simp: due_def runs_between_def)
  moreover have "ch_active (children ?c (cw_pods w)) = []"
    using idle by (auto simp: children_def classify_lists active_def filter_empty_conv)
  ultimately have may: "may_start ?E ?c' (ch_active (children ?c (cw_pods w))) (Max (due t))"
    using sp c'(1) by (simp add: may_start_def past_deadline_def unhindered_def)
  have care: "careful sp" and susp: "cs_suspend sp \<noteq> Some True" using sp by (simp_all add: unhindered_def)
  have lims: "\<forall>l. cs_failedJobsHistoryLimit (cj_spec ?c') = Some l \<longrightarrow> 0 < l"
      "\<forall>l. cs_successfulJobsHistoryLimit (cj_spec ?c') = Some l \<longrightarrow> 0 < l"
    using care unfolding c'(1) careful_def by fastforce+
  have B: "sort_slice_spec (cb_sortSlice B) (start_less B)" "set_controller_ok B"
    using inv by (simp_all add: cinv_def cron_lib_ok_def)
  have del: "deletes_ok ?E" using lib by (simp add: deletes_ok_def starts_accepted_def accepting_env_def)
  have "\<not> isl (newPodForCronJob ?E ?c' (Max (due t)))"
    using lib by (simp add: newPodForCronJob_def Let_def starts_accepted_def E(1))
  then obtain q where q: "newPodForCronJob ?E ?c' (Max (due t)) = Inr q"
    by (cases "newPodForCronJob ?E ?c' (Max (due t))") simp_all
  obtain acts where acts: "snd (Reconcile ?E ?ns ?n) = acts @ [CCreate q]" "run_pods acts = []"
    using Reconcile_creates [OF f _ lims _ _ _ S due may del q, of nxt] susp B(1) nxt by (auto simp: c'(1) E(1))
  let ?v = "foldl (cron_serve (\<lambda>_. True)) ?u acts"
  have run: "cron_start B t w = cron_serve (\<lambda>_. True) ?v (CCreate q)"
    by (simp add: start cron_run_def acts(1))
  note v = serve_keeps [OF acts(2), of "\<lambda>_. True" ?u]
  \<comment> \<open>the pod it creates\<close>
  have "printable_runs ?E fires" using accepting_sees [of fires ?u B] t(2) by (simp add: cron_sees_def)
  then have "getScheduleTimeForPod q = Inr (Max (due t))"
    using newPod_schedule [OF q, of fires "cs_schedule sp"] m B(2) by (simp add: E due_def runs_between_def)
  then have r: "run_of (admitted (cw_uids w) q) = Max (due t)" by (simp add: run_of_def)
  have "p_status q = \<lparr>pst_phase = '''', pst_startTime = None\<rparr>"
    using q B(2) unfolding newPodForCronJob_def set_controller_ok_def Let_def E(1) by fastforce
  then have st: "active (admitted (cw_uids w) q)" "start_of (admitted (cw_uids w) q) = None"
    by (simp_all add: active_def corev1_consts)
  show ?thesis
    by (rule that [of "admitted (cw_uids w) q" "cw_pods ?v", OF reached _ r _ _ st])
       (use v in \<open>simp_all add: run sp_def\<close>)
qed

section \<open>The life of the newest pod\<close>

lemma newest_moved_step:
  assumes "careful_reach B fires w" and "cw_pods w = ps @ [p]" and "active p"
    and "\<not> active (moved_to (cw_now w) ph p) \<Longrightarrow> \<exists>s. start_of p = Some s \<and> s < cw_now w"
  shows "careful_reach B fires (newest_moved ph w)"
    and "cw_pods (newest_moved ph w) = ps @ [moved_to (cw_now w) ph p]"
proof -
  have "cstep B fires careful True w (w\<lparr>cw_pods := (cw_pods w)[length ps := moved_to (cw_now w) ph (cw_pods w ! length ps)]\<rparr>)"
    by (rule cs_pod) (use assms in auto)
  then have "careful_reach B fires (w\<lparr>cw_pods := (cw_pods w)[length ps := moved_to (cw_now w) ph (cw_pods w ! length ps)]\<rparr>)"
    by (rule reach_step [OF assms(1)])
  then show "careful_reach B fires (newest_moved ph w)" using assms(2) by (simp add: newest_moved_def)
  show "cw_pods (newest_moved ph w) = ps @ [moved_to (cw_now w) ph p]"
    using assms(2) by (simp add: newest_moved_def)
qed

lemma newest_moved_keeps [simp]:
  "cw_created (newest_moved ph w) = cw_created w" "cw_now (newest_moved ph w) = cw_now w"
  "cw_job (newest_moved ph w) = cw_job w"
  by (simp_all add: newest_moved_def Let_def)

lemma cron_finish_ends:
  assumes r: "careful_reach B fires w" and p: "cw_pods w = ps @ [p]" "active p" "start_of p = None"
    and t: "cw_now w < t" and ph: "ph = PodSucceeded \<or> ph = PodFailed"
  shows "careful_reach B fires (cron_finish t ph w)"
    and "\<exists>q. cw_pods (cron_finish t ph w) = ps @ [q] \<and> \<not> active q"
    and "cw_created (cron_finish t ph w) = cw_created w" "cw_now (cron_finish t ph w) = t"
    "cw_job (cron_finish t ph w) = cw_job w"
proof -
  let ?q = "moved_to (cw_now w) ''Running'' p" and ?v = "(newest_moved ''Running'' w)\<lparr>cw_now := t\<rparr>"
  have q: "active ?q" "start_of ?q = Some (cw_now w)"
    using p(3) by (simp_all add: active_def moved_to_def corev1_consts)
  note v = newest_moved_step [where ph = "''Running''", OF r p(1,2)]
  have "careful_reach B fires ?v"
    by (rule reach_step [OF v(1)], use q in simp) (rule cs_tick, use t in simp)
  moreover have v': "cw_pods ?v = ps @ [?q]" using v(2) q by simp
  ultimately have e: "careful_reach B fires (newest_moved ph ?v)"
      "cw_pods (newest_moved ph ?v) = ps @ [moved_to t ph ?q]"
    using newest_moved_step [of B fires ?v ps ?q ph] q t by auto
  have "\<not> active (moved_to t ph ?q)" using ph by (auto simp: active_def moved_to_def)
  with e show "careful_reach B fires (cron_finish t ph w)"
      "\<exists>q. cw_pods (cron_finish t ph w) = ps @ [q] \<and> \<not> active q"
    by (auto simp: cron_finish_def)
qed (simp_all add: cron_finish_def)

section \<open>All rounds\<close>

text \<open>The runs of a schedule up to an instant between two of them.\<close>

lemma runs_between_iterates:
  assumes "activates nxt F" and "(nxt ^^ k) c \<le> t" and "t < (nxt ^^ Suc k) c"
  shows "runs_between F c t = (\<lambda>i. (nxt ^^ Suc i) c) ` {..<k}"
  using assms(2,3)
proof (induction k arbitrary: c)
  case 0
  then show ?case using runs_between_step [OF assms(1), of c t] by simp
next
  case (Suc k)
  have "(nxt ^^ k) (nxt c) \<le> t" "t < (nxt ^^ Suc k) (nxt c)" using Suc.prems by (simp_all add: funpow_swap1)
  from Suc.IH [OF this] have IH: "runs_between F (nxt c) t = (\<lambda>i. (nxt ^^ Suc (Suc i)) c) ` {..<k}"
    by (simp add: funpow_swap1)
  have "nxt c \<le> (nxt ^^ Suc k) c"
  proof (induction k)
    case (Suc k)
    then show ?case using activatesD(1) [OF assms(1), of "(nxt ^^ Suc k) c"] by simp
  qed simp
  then have "\<not> t < nxt c" using Suc.prems by linarith
  then show ?case
    using runs_between_step [OF assms(1), of c t] IH by (auto simp: lessThan_Suc_eq_insert_0 image_image)
qed

text \<open>How the rounds lie: each call of the controller and the end of its pod fall between a run and the next.\<close>

definition in_time :: "(gotime \<Rightarrow> gotime) \<Rightarrow> gotime \<Rightarrow> (nat \<Rightarrow> gotime) \<Rightarrow> (nat \<Rightarrow> gotime) \<Rightarrow> nat \<Rightarrow> bool" where
  "in_time nxt c at fin n \<longleftrightarrow>
     (\<forall>k<n. (nxt ^^ Suc k) c \<le> at k \<and> at k < fin k \<and> fin k < (nxt ^^ Suc (Suc k)) c)"

lemma iterate_ge: "activates nxt F \<Longrightarrow> c \<le> (nxt ^^ k) c"
proof (induction k)
  case (Suc k)
  then show ?case using activatesD(1) [of nxt F "(nxt ^^ k) c"] by simp
qed simp

lemma iterate_mono:
  assumes "activates nxt F"
  shows "i < k \<Longrightarrow> (nxt ^^ i) c < (nxt ^^ k) c"
proof (induction k)
  case (Suc k)
  then show ?case using activatesD(1) [OF assms, of "(nxt ^^ k) c"] by (cases "i = k") auto
qed simp

lemma cron_rounds_inv:
  fixes w\<^sub>0 :: cron_world
  defines "sp \<equiv> cj_spec (cw_job w\<^sub>0)" and "c \<equiv> om_creationTimestamp (cj_meta (cw_job w\<^sub>0))"
  assumes init: "cron_init B fires careful w\<^sub>0" and sp: "unhindered sp" and lib: "starts_accepted B"
    and nxt: "cb_parseStandard B (cs_schedule sp) = Inr nxt" "activates nxt (fires (cs_schedule sp))"
    and c: "0 \<le> c" "cw_now w\<^sub>0 < nxt c" and time: "in_time nxt c at fin n"
    and pr: "\<forall>k<n. printable_until fires (at k)" and ph: "\<forall>k<n. ph k = PodSucceeded \<or> ph k = PodFailed"
  shows "m \<le> n \<Longrightarrow> careful_reach B fires (cron_rounds B at fin ph w\<^sub>0 m) \<and>
    map run_of (cw_created (cron_rounds B at fin ph w\<^sub>0 m)) = map (\<lambda>i. (nxt ^^ Suc i) c) [0..<m] \<and>
    (\<forall>p \<in> set (cw_pods (cron_rounds B at fin ph w\<^sub>0 m)). \<not> active p) \<and>
    cj_spec (cw_job (cron_rounds B at fin ph w\<^sub>0 m)) = sp \<and>
    cj_meta (cw_job (cron_rounds B at fin ph w\<^sub>0 m)) = cj_meta (cw_job w\<^sub>0) \<and>
    (nxt ^^ m) c \<le> cw_now (cron_rounds B at fin ph w\<^sub>0 m) \<and> cw_now (cron_rounds B at fin ph w\<^sub>0 m) < (nxt ^^ Suc m) c"
proof (induction m)
  case 0
  show ?case using init c by (auto intro: reach_init simp: cron_init_def sp_def c_def)
next
  case (Suc m)
  let ?w = "cron_rounds B at fin ph w\<^sub>0 m" and ?l = "(nxt ^^ m) c"
  have IH: "careful_reach B fires ?w" "map run_of (cw_created ?w) = map (\<lambda>i. (nxt ^^ Suc i) c) [0..<m]"
      "\<And>p. p \<in> set (cw_pods ?w) \<Longrightarrow> \<not> active p" "cj_spec (cw_job ?w) = sp"
      "cj_meta (cw_job ?w) = cj_meta (cw_job w\<^sub>0)" "cw_now ?w < (nxt ^^ Suc m) c"
    using Suc by auto
  have t: "(nxt ^^ Suc m) c \<le> at m" "at m < fin m" "fin m < (nxt ^^ Suc (Suc m)) c"
    using time Suc.prems by (simp_all add: in_time_def)
  have meta: "om_creationTimestamp (cj_meta (cw_job ?w)) = c" by (simp add: IH(5) c_def)
  have last: "last_run ?w = ?l" unfolding last_run_def meta IH(2) by (cases m) simp_all
  have due: "runs_between (fires (cs_schedule (cj_spec (cw_job ?w)))) (last_run ?w) (at m) = {nxt ?l}"
    using runs_between_iterates [OF nxt(2), of 1 ?l "at m"] t unfolding last IH(4) by (simp add: lessThan_Suc)
  have low: "\<forall>p \<in> set (cw_created ?w). om_creationTimestamp (cj_meta (cw_job ?w)) \<le> run_of p"
  proof
    fix p assume "p \<in> set (cw_created ?w)"
    then have "run_of p \<in> set (map run_of (cw_created ?w))" by simp
    then obtain i where "run_of p = (nxt ^^ Suc i) c" unfolding IH(2) by auto
    then show "om_creationTimestamp (cj_meta (cw_job ?w)) \<le> run_of p"
      using iterate_ge [OF nxt(2), of c "Suc i"] meta by simp
  qed
  obtain ps p where s: "careful_reach B fires (cron_start B (at m) ?w)"
      "cw_created (cron_start B (at m) ?w) = cw_created ?w @ [p]" "run_of p = nxt ?l"
      "cw_pods (cron_start B (at m) ?w) = ps @ [p]" "set ps \<subseteq> set (cw_pods ?w)" "active p" "start_of p = None"
      "cw_now (cron_start B (at m) ?w) = at m" "cj_spec (cw_job (cron_start B (at m) ?w)) = sp"
      "cj_meta (cw_job (cron_start B (at m) ?w)) = cj_meta (cw_job w\<^sub>0)"
    by (rule cron_starts [OF IH(1) _ lib _ _ _ low IH(3), of nxt "at m"])
       (use due sp nxt c(1) meta t IH(4-6) pr Suc.prems in simp_all)
  have ended: "ph m = PodSucceeded \<or> ph m = PodFailed" using ph Suc.prems by simp
  note f = cron_finish_ends [OF s(1,4,6,7) _ ended, of "fin m"]
  have lt: "cw_now (cron_start B (at m) ?w) < fin m" using t(2) s(8) by simp
  obtain q where q: "cw_pods (cron_finish (fin m) (ph m) (cron_start B (at m) ?w)) = ps @ [q]" "\<not> active q"
    using f(2) [OF lt] by blast
  show ?case
    using f(1,3-5) [OF lt] q s(2,3,5,9,10) t IH(2,3) by auto
qed


text \<open>Three hours of an hourly CronJob, called on the hour; the second of its pods fails.\<close>

lemma hourly_iterates: "(hourly_next ^^ k) t0 = t0 + int k * Hour"
proof (induction k)
  case (Suc k)
  have "(int k * Hour) div Hour = int k" by (rule nonzero_mult_div_cancel_right) (simp add: Hour_def Second_def)
  moreover have "0 \<le> int k * Hour" by (simp add: Hour_def Second_def)
  ultimately have "hourly_next (t0 + int k * Hour) = t0 + int (Suc k) * Hour" by (simp add: hourly_next_def)
  with Suc show ?case by simp
qed simp

definition on_the_hour :: "nat \<Rightarrow> gotime" where
  "on_the_hour k = t0 + int (Suc k) * Hour"

definition hour_end :: "nat \<Rightarrow> gotime" where
  "hour_end k = on_the_hour k + Second"

definition hour_phase :: "nat \<Rightarrow> string" where
  "hour_phase k = (if k = 1 then PodFailed else PodSucceeded)"

definition day_break :: cron_world where
  "day_break = (day_start ForbidConcurrent (Some 2))\<lparr>cw_now := t0\<rparr>"

lemma day_break_simps [simp]:
  "cj_spec (cw_job day_break) = cj_spec (sample_cronjob ForbidConcurrent (Some 2))"
  "om_creationTimestamp (cj_meta (cw_job day_break)) = t0" "cw_now day_break = t0"
  by (simp_all add: day_break_def day_start_def sample_cronjob_def)


end
