(* ===== verification/CronDeadline.thy ===== *)
theory CronDeadline
  imports CronSamples
begin

text \<open>
  The starting deadline of a CronJob, at its 64-bit width: the code multiplies the seconds of the
  specification by the nanoseconds of a second, which wraps around for deadlines that the API accepts.
\<close>

lemma wrap64_below:
  assumes "- (2 ^ 64) - 2 ^ 63 \<le> x" and "x < - (2 ^ 63)"
  shows "wrap64 x = x + 2 ^ 64"
proof -
  have "(x + 2 ^ 63) mod 2 ^ 64 = (x + 2 ^ 63 + 2 ^ 64) mod 2 ^ 64"
    by (rule mod_add_self2 [symmetric])
  also have "\<dots> = x + 2 ^ 63 + 2 ^ 64" using assms by (intro mod_pos_pos_trivial) simp_all
  finally show ?thesis by (simp add: wrap64_def)
qed

text \<open>Up to 9223372036 seconds, 292 years, the product is exact; above, up to twice of that, the
  deadline that should lie in the past lies in the future.\<close>

lemma deadline_exact:
  assumes "0 \<le> secs" and "secs \<le> 9223372036"
  shows "dur_mul Second secs = secs * Second" and "dur_mul (- Second) secs = - (secs * Second)"
  using assms by (simp_all add: dur_mul_def Second_def min_int64_def max_int64_def)

lemma deadline_wraps:
  assumes "9223372037 \<le> secs" and "secs \<le> 18446744073"
  shows "0 < dur_mul (- Second) secs"
  using assms wrap64_below [of "- 1000000000 * secs"] by (simp add: dur_mul_def Second_def)

text \<open>C21: With a starting deadline of up to 9223372036 seconds the runs the controller looks at start
  at the last run or the deadline before now, whichever is later, and a run is too late exactly when
  its deadline has passed. With a deadline of 9223372037 to 18446744073 seconds, which the API accepts and
  which would put no run out of reach, the product wraps around, and no pod is ever created.\<close>

theorem starting_deadline_bounds:
  assumes f: "fetched E ns n c ps c'" and st: "status_update_ok E"
    and srt: "sort_slice_spec (cb_sortSlice (ce_lib E)) (start_less (ce_lib E))"
    and secs: "cs_startingDeadlineSeconds (cj_spec c') = Some secs"
  shows "(0 \<le> secs \<and> secs \<le> 9223372036 \<longrightarrow>
      earliest_time c' (ce_now E 0) = max (ch_lastScheduled (children c ps)) (ce_now E 0 - secs * Second) \<and>
      (\<forall>t. past_deadline E c' t \<longleftrightarrow> t + secs * Second < ce_now E 2)) \<and>
    (9223372037 \<le> secs \<and> secs \<le> 18446744073 \<longrightarrow> run_pods (snd (Reconcile E ns n)) = [])"
proof (intro conjI impI)
  assume "0 \<le> secs \<and> secs \<le> 9223372036"
  note exact = deadline_exact [OF conjunct1 [OF this] conjunct2 [OF this]]
  show "earliest_time c' (ce_now E 0) = max (ch_lastScheduled (children c ps)) (ce_now E 0 - secs * Second)"
    using fetched_last [OF f st] by (simp add: earliest_time_def secs exact(2) time_Add_def Let_def max_def)
  show "\<forall>t. past_deadline E c' t \<longleftrightarrow> t + secs * Second < ce_now E 2"
    by (simp add: past_deadline_def secs exact(1) time_Add_def)
next
  assume "9223372037 \<le> secs \<and> secs \<le> 18446744073"
  then have pos: "0 < dur_mul (- Second) secs" using deadline_wraps by blast
  have future: "ce_now E 0 < earliest_time c' (ce_now E 0)"
    using fetched_last [OF f st] pos by (simp add: earliest_time_def secs time_Add_def Let_def)
  show "run_pods (snd (Reconcile E ns n)) = []"
  proof (rule ccontr)
    assume "run_pods (snd (Reconcile E ns n)) \<noteq> []"
    then obtain p where p: "p \<in> set (run_pods (snd (Reconcile E ns n)))"
      by (cases "run_pods (snd (Reconcile E ns n))") auto
    obtain d qs d' missed nextRun where g: "fetched E ns n d qs d'"
        "getNextScheduledTime (ce_lib E) d' (ce_now E 0) = Inr (missed, nextRun)"
        "may_start E d' (ch_active (children d qs)) missed"
      using Reconcile_created [OF srt p] by metis
    have "d' = c'" using f g(1) by (simp add: fetched_def)
    with g(2) future have "missed = 0" by (auto simp: getNextScheduledTime_def split: sum.splits)
    with g(3) show False by (simp add: may_start_def)
  qed
qed

text \<open>An hourly CronJob with a deadline of three hundred years, half past nine.\<close>

definition patient_cronjob :: cronjob where
  "patient_cronjob = (sample_cronjob ForbidConcurrent None)\<lparr>cj_spec :=
     (cj_spec (sample_cronjob ForbidConcurrent None))\<lparr>cs_startingDeadlineSeconds := Some 9467280000\<rparr>\<rparr>"

theorem starting_deadline_bounds_witness:
  "run_pods (snd (Reconcile (sample_cron_env patient_cronjob [] None) ''default'' ''hello'')) = []"
  using starting_deadline_bounds [OF sample_fetched, of patient_cronjob "[]" None 9467280000]
  by (simp add: patient_cronjob_def with_status_def)

end
