(* ===== verification/HeapCopy.thy ===== *)
theory HeapCopy
  imports Prelude
begin

text \<open>
  A heap of addressed cells, and the contract of a deep copy: the copy has the value of the original
  and shares no cell with it, and no cell that existed before is written. The generated
  \<open>DeepCopyInto\<close> functions are built from three ways of copying (field by field, element by element,
  through a pointer), and the contract is proved for each of them.
\<close>

section \<open>Heaps\<close>

type_synonym addr = nat

record 'c heap =
  hp_cells :: "addr \<rightharpoonup> 'c"
  hp_next :: addr

definition alloc :: "'c \<Rightarrow> 'c heap \<Rightarrow> addr \<times> 'c heap" where
  "alloc c h = (hp_next h, h\<lparr>hp_cells := (hp_cells h)(hp_next h \<mapsto> c), hp_next := Suc (hp_next h)\<rparr>)"

definition extends :: "'c heap \<Rightarrow> 'c heap \<Rightarrow> bool" where
  "extends h h' \<longleftrightarrow> hp_next h \<le> hp_next h' \<and> (\<forall>a < hp_next h. hp_cells h' a = hp_cells h a)"

lemma extends_refl [simp]: "extends h h"
  by (simp add: extends_def)

lemma extends_trans: "extends h h' \<Longrightarrow> extends h' h'' \<Longrightarrow> extends h h''"
  by (auto simp: extends_def)

lemma extendsD:
  assumes "extends h h'"
  shows "hp_next h \<le> hp_next h'" and "a < hp_next h \<Longrightarrow> hp_cells h' a = hp_cells h a"
  using assms by (simp_all add: extends_def)

lemma alloc_extends: "alloc c h = (a, h') \<Longrightarrow> extends h h'"
  by (auto simp: alloc_def extends_def)

lemma allocD:
  assumes "alloc c h = (a, h')"
  shows "a = hp_next h" and "hp_cells h' a = Some c" and "hp_next h' = Suc (hp_next h)"
  using assms by (auto simp: alloc_def)

section \<open>The contract of a copy\<close>

text \<open>\<open>q\<close> in the heap \<open>h'\<close> is an independent copy of \<open>p\<close> in \<open>h\<close>: the same value, no common cell, and
  a later write that only touches cells of the one leaves the value of the other as it was.\<close>

definition independent_copy ::
    "('c heap \<Rightarrow> 'a \<Rightarrow> 'v) \<Rightarrow> ('c heap \<Rightarrow> 'a \<Rightarrow> addr set) \<Rightarrow> 'c heap \<Rightarrow> 'a \<Rightarrow> 'c heap \<Rightarrow> 'a \<Rightarrow> bool" where
  "independent_copy view refs h p h' q \<longleftrightarrow>
     view h' q = view h p \<and> refs h' q \<inter> refs h' p = {} \<and>
     (\<forall>h''. (\<forall>r. r \<notin> refs h' q \<longrightarrow> hp_cells h'' r = hp_cells h' r) \<longrightarrow> view h'' p = view h p) \<and>
     (\<forall>h''. (\<forall>r. r \<notin> refs h' p \<longrightarrow> hp_cells h'' r = hp_cells h' r) \<longrightarrow> view h'' q = view h p)"

text \<open>\<open>view h a\<close> is the value of \<open>a\<close> with every pointer followed, \<open>refs h a\<close> the cells it reaches.\<close>

locale copier =
  fixes cp :: "'c heap \<Rightarrow> 'a \<Rightarrow> 'a \<times> 'c heap"
    and view :: "'c heap \<Rightarrow> 'a \<Rightarrow> 'v"
    and refs :: "'c heap \<Rightarrow> 'a \<Rightarrow> addr set"
  assumes frame_view: "\<forall>r \<in> refs h a. hp_cells h' r = hp_cells h r \<Longrightarrow> view h' a = view h a"
    and frame_refs: "\<forall>r \<in> refs h a. hp_cells h' r = hp_cells h r \<Longrightarrow> refs h' a = refs h a"
    and cp_extends: "refs h a \<subseteq> {..<hp_next h} \<Longrightarrow> extends h (snd (cp h a))"
    and cp_view: "refs h a \<subseteq> {..<hp_next h} \<Longrightarrow> view (snd (cp h a)) (fst (cp h a)) = view h a"
    and cp_fresh: "refs h a \<subseteq> {..<hp_next h} \<Longrightarrow>
      refs (snd (cp h a)) (fst (cp h a)) \<subseteq> {hp_next h..<hp_next (snd (cp h a))}"
begin

lemma extended:
  assumes "refs h a \<subseteq> {..<hp_next h}" and "extends h h'"
  shows "view h' a = view h a" and "refs h' a = refs h a" and "refs h' a \<subseteq> {..<hp_next h'}"
proof -
  have same: "\<forall>r \<in> refs h a. hp_cells h' r = hp_cells h r"
    using assms extendsD(2) by blast
  show "view h' a = view h a" by (rule frame_view [OF same])
  show "refs h' a = refs h a" by (rule frame_refs [OF same])
  then show "refs h' a \<subseteq> {..<hp_next h'}" using assms extendsD(1) [OF assms(2)] by fastforce
qed

text \<open>Original and copy are independent: a later write that only touches cells of the one leaves the
  value of the other as it was.\<close>

lemma disjoint:
  assumes "refs h a \<subseteq> {..<hp_next h}"
  shows "refs (snd (cp h a)) (fst (cp h a)) \<inter> refs (snd (cp h a)) a = {}"
proof -
  have "refs (snd (cp h a)) a \<subseteq> {..<hp_next h}"
    using extended(2) [OF assms cp_extends [OF assms]] assms by simp
  then show ?thesis using cp_fresh [OF assms] by fastforce
qed

lemma independent:
  assumes v: "refs h a \<subseteq> {..<hp_next h}" and c: "cp h a = (b, h')"
  shows "view h' b = view h a" and "view h' a = view h a"
    and "\<forall>r. r \<notin> refs h' b \<longrightarrow> hp_cells h'' r = hp_cells h' r \<Longrightarrow> view h'' a = view h a"
    and "\<forall>r. r \<notin> refs h' a \<longrightarrow> hp_cells h'' r = hp_cells h' r \<Longrightarrow> view h'' b = view h a"
proof -
  show b: "view h' b = view h a" using cp_view [OF v] c by simp
  have "extends h h'" using cp_extends [OF v] c by simp
  then show a: "view h' a = view h a" by (rule extended(1) [OF v])
  have d: "refs h' b \<inter> refs h' a = {}" using disjoint [OF v] c by simp
  show "view h'' a = view h a" if "\<forall>r. r \<notin> refs h' b \<longrightarrow> hp_cells h'' r = hp_cells h' r"
  proof -
    have "\<forall>r \<in> refs h' a. hp_cells h'' r = hp_cells h' r" using that d by blast
    from frame_view [OF this] a show ?thesis by simp
  qed
  show "view h'' b = view h a" if "\<forall>r. r \<notin> refs h' a \<longrightarrow> hp_cells h'' r = hp_cells h' r"
  proof -
    have "\<forall>r \<in> refs h' b. hp_cells h'' r = hp_cells h' r" using that d by blast
    from frame_view [OF this] b show ?thesis by simp
  qed
qed

lemma copies_independent:
  assumes "refs h a \<subseteq> {..<hp_next h}" and "cp h a = (b, h')"
  shows "independent_copy view refs h a h' b"
  unfolding independent_copy_def
  using independent [OF assms] disjoint [OF assms(1)] assms(2) by simp

end

text \<open>What a call returns as a \<open>runtime.Object\<close>: a nil interface, or one that holds a pointer.\<close>

datatype iface = NilIface | Iface "addr option"

section \<open>Ways of copying\<close>

text \<open>A value without pointers is copied by assignment.\<close>

definition flat_copy :: "'c heap \<Rightarrow> 'a \<Rightarrow> 'a \<times> 'c heap" where
  "flat_copy h a = (a, h)"

definition pair_copy ::
    "('c heap \<Rightarrow> 'a \<Rightarrow> 'a \<times> 'c heap) \<Rightarrow> ('c heap \<Rightarrow> 'b \<Rightarrow> 'b \<times> 'c heap) \<Rightarrow>
     'c heap \<Rightarrow> 'a \<times> 'b \<Rightarrow> ('a \<times> 'b) \<times> 'c heap" where
  "pair_copy cp dp h ab =
     (let (a, h1) = cp h (fst ab); (b, h2) = dp h1 (snd ab) in ((a, b), h2))"

text \<open>\<open>make\<close> a slice of the same length and copy it element by element.\<close>

fun items_copy :: "('c heap \<Rightarrow> 'a \<Rightarrow> 'a \<times> 'c heap) \<Rightarrow> 'c heap \<Rightarrow> 'a list \<Rightarrow> 'a list \<times> 'c heap" where
  "items_copy cp h [] = ([], h)"
| "items_copy cp h (x # xs) =
     (let (y, h1) = cp h x; (ys, h2) = items_copy cp h1 xs in (y # ys, h2))"

text \<open>A nil pointer stays nil; otherwise the cell it points to is copied into a new one. \<open>prj\<close> says
  what kind of cell is expected there.\<close>

definition ptr_copy ::
    "('c \<Rightarrow> 'a option) \<Rightarrow> ('a \<Rightarrow> 'c) \<Rightarrow> ('c heap \<Rightarrow> 'a \<Rightarrow> 'a \<times> 'c heap) \<Rightarrow>
     'c heap \<Rightarrow> addr option \<Rightarrow> addr option \<times> 'c heap" where
  "ptr_copy prj mk cp h p =
     (case p of
        None \<Rightarrow> (None, h)
      | Some a \<Rightarrow>
          (case Option.bind (hp_cells h a) prj of
             None \<Rightarrow> (None, h)
           | Some x \<Rightarrow>
               let (y, h1) = cp h x; (b, h2) = alloc (mk y) h1 in (Some b, h2)))"

definition ptr_view ::
    "('c \<Rightarrow> 'a option) \<Rightarrow> ('c heap \<Rightarrow> 'a \<Rightarrow> 'v) \<Rightarrow> 'c heap \<Rightarrow> addr option \<Rightarrow> 'v option" where
  "ptr_view prj view h p =
     map_option (view h) (Option.bind p (\<lambda>a. Option.bind (hp_cells h a) prj))"

definition ptr_refs ::
    "('c \<Rightarrow> 'a option) \<Rightarrow> ('c heap \<Rightarrow> 'a \<Rightarrow> addr set) \<Rightarrow> 'c heap \<Rightarrow> addr option \<Rightarrow> addr set" where
  "ptr_refs prj refs h p =
     (case p of
        None \<Rightarrow> {}
      | Some a \<Rightarrow> insert a (case Option.bind (hp_cells h a) prj of None \<Rightarrow> {} | Some x \<Rightarrow> refs h x))"

lemma flat_copier: "copier flat_copy (\<lambda>h a. a) (\<lambda>h a. {})"
  by unfold_locales (simp_all add: flat_copy_def)

lemma pair_copier:
  assumes "copier cp view refs" and "copier dp view' refs'"
  shows "copier (pair_copy cp dp) (\<lambda>h ab. (view h (fst ab), view' h (snd ab)))
    (\<lambda>h ab. refs h (fst ab) \<union> refs' h (snd ab))"
proof
  fix h h' :: "'a heap" and ab :: "'b \<times> 'd"
  assume same: "\<forall>r \<in> refs h (fst ab) \<union> refs' h (snd ab). hp_cells h' r = hp_cells h r"
  then show "(view h' (fst ab), view' h' (snd ab)) = (view h (fst ab), view' h (snd ab))"
    using copier.frame_view [OF assms(1)] copier.frame_view [OF assms(2)] by (metis UnCI)
  from same show "refs h' (fst ab) \<union> refs' h' (snd ab) = refs h (fst ab) \<union> refs' h (snd ab)"
    using copier.frame_refs [OF assms(1)] copier.frame_refs [OF assms(2)] by (metis UnCI)
next
  fix h :: "'a heap" and ab :: "'b \<times> 'd"
  assume v: "refs h (fst ab) \<union> refs' h (snd ab) \<subseteq> {..<hp_next h}"
  obtain a b x h1 y h2 where ab: "ab = (a, b)" and x: "cp h a = (x, h1)" and y: "dp h1 b = (y, h2)"
    by (metis surj_pair)
  have va: "refs h a \<subseteq> {..<hp_next h}" and vb: "refs' h b \<subseteq> {..<hp_next h}" using v ab by auto
  have e1: "extends h h1" using copier.cp_extends [OF assms(1) va] x by simp
  have b1: "view' h1 b = view' h b" "refs' h1 b \<subseteq> {..<hp_next h1}"
    using copier.extended [OF assms(2) vb e1] by simp_all
  have e2: "extends h1 h2" using copier.cp_extends [OF assms(2) b1(2)] y by simp
  have x1: "view h1 x = view h a" "refs h1 x \<subseteq> {hp_next h..<hp_next h1}"
    using copier.cp_view [OF assms(1) va] copier.cp_fresh [OF assms(1) va] x by simp_all
  then have x2: "view h2 x = view h a" "refs h2 x = refs h1 x"
    using copier.extended [OF assms(1) _ e2, of x] by (auto simp: subset_iff)
  have y2: "view' h2 y = view' h1 b" "refs' h2 y \<subseteq> {hp_next h1..<hp_next h2}"
    using copier.cp_view [OF assms(2) b1(2)] copier.cp_fresh [OF assms(2) b1(2)] y by simp_all
  have r: "pair_copy cp dp h ab = ((x, y), h2)" using x y by (simp add: pair_copy_def ab)
  have n: "hp_next h \<le> hp_next h1" "hp_next h1 \<le> hp_next h2" using e1 e2 extendsD(1) by blast+
  show "extends h (snd (pair_copy cp dp h ab))" using e1 e2 extends_trans r by simp
  show "(view (snd (pair_copy cp dp h ab)) (fst (fst (pair_copy cp dp h ab))),
      view' (snd (pair_copy cp dp h ab)) (snd (fst (pair_copy cp dp h ab)))) = (view h (fst ab), view' h (snd ab))"
    unfolding r fst_conv snd_conv using x2 y2 b1 by (simp add: ab)
  show "refs (snd (pair_copy cp dp h ab)) (fst (fst (pair_copy cp dp h ab))) \<union>
      refs' (snd (pair_copy cp dp h ab)) (snd (fst (pair_copy cp dp h ab)))
      \<subseteq> {hp_next h..<hp_next (snd (pair_copy cp dp h ab))}"
    using x1(2) x2(2) y2(2) n by (auto simp: r)
qed

text \<open>A structure is copied as the tuple of its fields.\<close>

lemma iso_copier:
  assumes "copier cp view refs" and "\<And>x. un (mk x) = x"
    and "\<And>h x. dp h x = (mk (fst (cp h (un x))), snd (cp h (un x)))"
  shows "copier dp (\<lambda>h x. view h (un x)) (\<lambda>h x. refs h (un x))"
proof
  show "view h' (un x) = view h (un x)" if "\<forall>r \<in> refs h (un x). hp_cells h' r = hp_cells h r" for h h' x
    by (rule copier.frame_view [OF assms(1) that])
  show "refs h' (un x) = refs h (un x)" if "\<forall>r \<in> refs h (un x). hp_cells h' r = hp_cells h r" for h h' x
    by (rule copier.frame_refs [OF assms(1) that])
  show "extends h (snd (dp h x))" if "refs h (un x) \<subseteq> {..<hp_next h}" for h x
    unfolding assms(3) snd_conv by (rule copier.cp_extends [OF assms(1) that])
  show "view (snd (dp h x)) (un (fst (dp h x))) = view h (un x)" if "refs h (un x) \<subseteq> {..<hp_next h}" for h x
    unfolding assms(2,3) fst_conv snd_conv by (rule copier.cp_view [OF assms(1) that])
  show "refs (snd (dp h x)) (un (fst (dp h x))) \<subseteq> {hp_next h..<hp_next (snd (dp h x))}"
    if "refs h (un x) \<subseteq> {..<hp_next h}" for h x
    unfolding assms(2,3) fst_conv snd_conv by (rule copier.cp_fresh [OF assms(1) that])
qed

lemma items_copier:
  assumes "copier cp view refs"
  shows "copier (items_copy cp) (\<lambda>h xs. map (view h) xs) (\<lambda>h xs. \<Union> (refs h ` set xs))"
proof
  fix h h' :: "'a heap" and xs :: "'b list"
  assume "\<forall>r \<in> \<Union> (refs h ` set xs). hp_cells h' r = hp_cells h r"
  then have "\<forall>x \<in> set xs. view h' x = view h x \<and> refs h' x = refs h x"
    using copier.frame_view [OF assms] copier.frame_refs [OF assms] by (metis UN_I)
  then show "map (view h') xs = map (view h) xs" and "\<Union> (refs h' ` set xs) = \<Union> (refs h ` set xs)"
    by simp_all
next
  fix h :: "'a heap" and xs :: "'b list"
  assume "\<Union> (refs h ` set xs) \<subseteq> {..<hp_next h}"
  then have "extends h (snd (items_copy cp h xs)) \<and>
    map (view (snd (items_copy cp h xs))) (fst (items_copy cp h xs)) = map (view h) xs \<and>
    \<Union> (refs (snd (items_copy cp h xs)) ` set (fst (items_copy cp h xs))) \<subseteq> {hp_next h..<hp_next (snd (items_copy cp h xs))}"
  proof (induction xs arbitrary: h)
    case Nil
    then show ?case by simp
  next
    case (Cons x xs)
    let ?P = "pair_copy cp (items_copy cp)"
    obtain y h1 ys h2 where y: "cp h x = (y, h1)" and ys: "items_copy cp h1 xs = (ys, h2)" by (metis surj_pair)
    have vx: "refs h x \<subseteq> {..<hp_next h}" and vs: "z \<in> set xs \<Longrightarrow> refs h z \<subseteq> {..<hp_next h}" for z
      using Cons.prems by auto
    have e1: "extends h h1" using copier.cp_extends [OF assms vx] y by simp
    have xs1: "view h1 z = view h z" "refs h1 z \<subseteq> {..<hp_next h1}" if "z \<in> set xs" for z
      using copier.extended [OF assms vs [OF that] e1] by simp_all
    then have "\<Union> (refs h1 ` set xs) \<subseteq> {..<hp_next h1}" by auto
    from Cons.IH [OF this] ys have e2: "extends h1 h2" and vys: "map (view h2) ys = map (view h1) xs"
        and rys: "\<Union> (refs h2 ` set ys) \<subseteq> {hp_next h1..<hp_next h2}" by simp_all
    have y1: "view h1 y = view h x" "refs h1 y \<subseteq> {hp_next h..<hp_next h1}"
      using copier.cp_view [OF assms vx] copier.cp_fresh [OF assms vx] y by simp_all
    then have y2: "view h2 y = view h x" "refs h2 y = refs h1 y"
      using copier.extended [OF assms _ e2, of y] by (auto simp: subset_iff)
    have n: "hp_next h \<le> hp_next h1" "hp_next h1 \<le> hp_next h2" using e1 e2 extendsD(1) by blast+
    have r: "items_copy cp h (x # xs) = (y # ys, h2)" using y ys by simp
    have "extends h h2" using e1 e2 extends_trans by blast
    moreover have "map (view h2) (y # ys) = map (view h) (x # xs)" using y2 vys xs1 by simp
    moreover have "\<Union> (refs h2 ` set (y # ys)) \<subseteq> {hp_next h..<hp_next h2}"
      using y1(2) y2(2) rys n by fastforce
    ultimately show ?case unfolding r fst_conv snd_conv by blast
  qed
  then show "extends h (snd (items_copy cp h xs))"
    and "map (view (snd (items_copy cp h xs))) (fst (items_copy cp h xs)) = map (view h) xs"
    and "\<Union> (refs (snd (items_copy cp h xs)) ` set (fst (items_copy cp h xs))) \<subseteq> {hp_next h..<hp_next (snd (items_copy cp h xs))}"
    by blast+
qed

lemma ptr_copier:
  assumes "copier cp view refs" and prj: "\<And>x. prj (mk x) = Some x"
  shows "copier (ptr_copy prj mk cp) (ptr_view prj view) (ptr_refs prj refs)"
proof
  fix h h' :: "'a heap" and p :: "addr option"
  assume same: "\<forall>r \<in> ptr_refs prj refs h p. hp_cells h' r = hp_cells h r"
  show "ptr_view prj view h' p = ptr_view prj view h p"
    and "ptr_refs prj refs h' p = ptr_refs prj refs h p"
  proof (atomize (full), cases p)
    case (Some a)
    then have a: "hp_cells h' a = hp_cells h a" using same by (simp add: ptr_refs_def)
    show "ptr_view prj view h' p = ptr_view prj view h p \<and> ptr_refs prj refs h' p = ptr_refs prj refs h p"
    proof (cases "Option.bind (hp_cells h a) prj")
      case None
      with a Some show ?thesis by (simp add: ptr_view_def ptr_refs_def)
    next
      case x: (Some x)
      then have "\<forall>r \<in> refs h x. hp_cells h' r = hp_cells h r" using same Some by (simp add: ptr_refs_def)
      from copier.frame_view [OF assms(1) this] copier.frame_refs [OF assms(1) this]
      show ?thesis by (simp add: ptr_view_def ptr_refs_def Some a x)
    qed
  qed (simp add: ptr_view_def ptr_refs_def)
next
  fix h :: "'a heap" and p :: "addr option"
  assume v: "ptr_refs prj refs h p \<subseteq> {..<hp_next h}"
  let ?c = "ptr_copy prj mk cp h p"
  show "extends h (snd ?c)" and "ptr_view prj view (snd ?c) (fst ?c) = ptr_view prj view h p"
    and "ptr_refs prj refs (snd ?c) (fst ?c) \<subseteq> {hp_next h..<hp_next (snd ?c)}"
  proof (atomize (full), cases "Option.bind p (\<lambda>a. Option.bind (hp_cells h a) prj)")
    case None
    then have "?c = (None, h)" by (cases p) (simp_all add: ptr_copy_def)
    with None show "extends h (snd ?c) \<and> ptr_view prj view (snd ?c) (fst ?c) = ptr_view prj view h p \<and>
      ptr_refs prj refs (snd ?c) (fst ?c) \<subseteq> {hp_next h..<hp_next (snd ?c)}"
      by (simp add: ptr_view_def ptr_refs_def)
  next
    case (Some x)
    then obtain a where p: "p = Some a" and x: "Option.bind (hp_cells h a) prj = Some x" by (cases p) simp_all
    obtain y h1 b h2 where y: "cp h x = (y, h1)" and b: "alloc (mk y) h1 = (b, h2)" by (metis surj_pair)
    have c: "?c = (Some b, h2)" by (simp add: ptr_copy_def p x y b)
    have vx: "refs h x \<subseteq> {..<hp_next h}" using v by (simp add: ptr_refs_def p x)
    have e1: "extends h h1" using copier.cp_extends [OF assms(1) vx] y by simp
    have y1: "view h1 y = view h x" "refs h1 y \<subseteq> {hp_next h..<hp_next h1}"
      using copier.cp_view [OF assms(1) vx] copier.cp_fresh [OF assms(1) vx] y by simp_all
    note e2 = alloc_extends [OF b] and bD = allocD [OF b]
    have y2: "view h2 y = view h x" "refs h2 y = refs h1 y"
      using copier.extended [OF assms(1) _ e2, of y] y1 by (auto simp: subset_iff)
    have "hp_next h \<le> hp_next h1" using e1 extendsD(1) by blast
    then show "extends h (snd ?c) \<and> ptr_view prj view (snd ?c) (fst ?c) = ptr_view prj view h p \<and>
      ptr_refs prj refs (snd ?c) (fst ?c) \<subseteq> {hp_next h..<hp_next (snd ?c)}"
      unfolding c fst_conv snd_conv using extends_trans [OF e1 e2] y1 y2 bD prj
      by (auto simp: ptr_view_def ptr_refs_def p x)
  qed
qed

end
