(* ===== verification/GreeterDeepCopy.thy ===== *)
theory GreeterDeepCopy
  imports GreeterAPI HeapCopy
begin

text \<open>
  The generated deep copies of the Greeter API (\<open>zz_generated.deepcopy.go\<close>), on a heap. A Greeter in
  memory holds its \<open>ObjectMeta\<close> in a form of its own, with pointers; \<open>metav1.ObjectMeta.DeepCopyInto\<close>
  and \<open>metav1.ListMeta.DeepCopyInto\<close> are not part of this repository and are arguments (\<open>mcopy\<close>,
  \<open>lcopy\<close>) that have the contract of a copy. An address stands for a pointer and \<open>None\<close> for nil.
\<close>

section \<open>Objects in memory\<close>

record 'm greeter_mem =
  gm_type :: type_meta
  gm_meta :: 'm
  gm_spec :: greeter_spec
  gm_status :: greeter_status

record 'l greeter_list_mem =
  glm_type :: type_meta
  glm_meta :: 'l
  glm_items :: "addr option"

datatype ('m, 'l, 'x) greeter_cell =
    GCObj "'m greeter_mem"
  | GCItems "'m greeter_mem list"
  | GCList "'l greeter_list_mem"
  | GCSpec greeter_spec
  | GCStatus greeter_status
  | GCMeta 'x

fun gc_obj :: "('m, 'l, 'x) greeter_cell \<Rightarrow> 'm greeter_mem option" where
  "gc_obj (GCObj g) = Some g" | "gc_obj _ = None"

fun gc_items :: "('m, 'l, 'x) greeter_cell \<Rightarrow> 'm greeter_mem list option" where
  "gc_items (GCItems gs) = Some gs" | "gc_items _ = None"

fun gc_list :: "('m, 'l, 'x) greeter_cell \<Rightarrow> 'l greeter_list_mem option" where
  "gc_list (GCList l) = Some l" | "gc_list _ = None"

fun gc_spec :: "('m, 'l, 'x) greeter_cell \<Rightarrow> greeter_spec option" where
  "gc_spec (GCSpec s) = Some s" | "gc_spec _ = None"

fun gc_status :: "('m, 'l, 'x) greeter_cell \<Rightarrow> greeter_status option" where
  "gc_status (GCStatus s) = Some s" | "gc_status _ = None"

fun gc_meta :: "('m, 'l, 'x) greeter_cell \<Rightarrow> 'x option" where
  "gc_meta (GCMeta x) = Some x" | "gc_meta _ = None"

type_synonym ('m, 'l, 'x) greeter_heap = "('m, 'l, 'x) greeter_cell heap"

section \<open>The generated functions\<close>

definition greeter_DeepCopyInto ::
    "(('m, 'l, 'x) greeter_heap \<Rightarrow> 'm \<Rightarrow> 'm \<times> ('m, 'l, 'x) greeter_heap) \<Rightarrow>
     ('m, 'l, 'x) greeter_heap \<Rightarrow> 'm greeter_mem \<Rightarrow> 'm greeter_mem \<times> ('m, 'l, 'x) greeter_heap" where
  "greeter_DeepCopyInto mcopy h g =
     (let out = g;
          out = out\<lparr>gm_type := gm_type g\<rparr>;
          (m, h) = mcopy h (gm_meta g);
          out = out\<lparr>gm_meta := m\<rparr>;
          out = out\<lparr>gm_spec := gm_spec g\<rparr>;
          out = out\<lparr>gm_status := gm_status g\<rparr>
      in (out, h))"

definition greeter_DeepCopy ::
    "(('m, 'l, 'x) greeter_heap \<Rightarrow> 'm \<Rightarrow> 'm \<times> ('m, 'l, 'x) greeter_heap) \<Rightarrow>
     ('m, 'l, 'x) greeter_heap \<Rightarrow> addr option \<Rightarrow> addr option \<times> ('m, 'l, 'x) greeter_heap" where
  "greeter_DeepCopy mcopy = ptr_copy gc_obj GCObj (greeter_DeepCopyInto mcopy)"

definition greeter_DeepCopyObject ::
    "(('m, 'l, 'x) greeter_heap \<Rightarrow> 'm \<Rightarrow> 'm \<times> ('m, 'l, 'x) greeter_heap) \<Rightarrow>
     ('m, 'l, 'x) greeter_heap \<Rightarrow> addr option \<Rightarrow> iface \<times> ('m, 'l, 'x) greeter_heap" where
  "greeter_DeepCopyObject mcopy h p =
     (let (c, h) = greeter_DeepCopy mcopy h p in (if c \<noteq> None then Iface c else NilIface, h))"

definition greeterList_DeepCopyInto ::
    "(('m, 'l, 'x) greeter_heap \<Rightarrow> 'm \<Rightarrow> 'm \<times> ('m, 'l, 'x) greeter_heap) \<Rightarrow>
     (('m, 'l, 'x) greeter_heap \<Rightarrow> 'l \<Rightarrow> 'l \<times> ('m, 'l, 'x) greeter_heap) \<Rightarrow>
     ('m, 'l, 'x) greeter_heap \<Rightarrow> 'l greeter_list_mem \<Rightarrow> 'l greeter_list_mem \<times> ('m, 'l, 'x) greeter_heap" where
  "greeterList_DeepCopyInto mcopy lcopy h l =
     (let out = l;
          out = out\<lparr>glm_type := glm_type l\<rparr>;
          (m, h) = lcopy h (glm_meta l);
          out = out\<lparr>glm_meta := m\<rparr>;
          (items, h) = ptr_copy gc_items GCItems (items_copy (greeter_DeepCopyInto mcopy)) h (glm_items l);
          out = out\<lparr>glm_items := items\<rparr>
      in (out, h))"

definition greeterList_DeepCopy ::
    "(('m, 'l, 'x) greeter_heap \<Rightarrow> 'm \<Rightarrow> 'm \<times> ('m, 'l, 'x) greeter_heap) \<Rightarrow>
     (('m, 'l, 'x) greeter_heap \<Rightarrow> 'l \<Rightarrow> 'l \<times> ('m, 'l, 'x) greeter_heap) \<Rightarrow>
     ('m, 'l, 'x) greeter_heap \<Rightarrow> addr option \<Rightarrow> addr option \<times> ('m, 'l, 'x) greeter_heap" where
  "greeterList_DeepCopy mcopy lcopy = ptr_copy gc_list GCList (greeterList_DeepCopyInto mcopy lcopy)"

definition greeterList_DeepCopyObject ::
    "(('m, 'l, 'x) greeter_heap \<Rightarrow> 'm \<Rightarrow> 'm \<times> ('m, 'l, 'x) greeter_heap) \<Rightarrow>
     (('m, 'l, 'x) greeter_heap \<Rightarrow> 'l \<Rightarrow> 'l \<times> ('m, 'l, 'x) greeter_heap) \<Rightarrow>
     ('m, 'l, 'x) greeter_heap \<Rightarrow> addr option \<Rightarrow> iface \<times> ('m, 'l, 'x) greeter_heap" where
  "greeterList_DeepCopyObject mcopy lcopy h p =
     (let (c, h) = greeterList_DeepCopy mcopy lcopy h p in (if c \<noteq> None then Iface c else NilIface, h))"

definition greeterSpec_DeepCopyInto ::
    "('m, 'l, 'x) greeter_heap \<Rightarrow> greeter_spec \<Rightarrow> greeter_spec \<times> ('m, 'l, 'x) greeter_heap" where
  "greeterSpec_DeepCopyInto = flat_copy"

definition greeterSpec_DeepCopy ::
    "('m, 'l, 'x) greeter_heap \<Rightarrow> addr option \<Rightarrow> addr option \<times> ('m, 'l, 'x) greeter_heap" where
  "greeterSpec_DeepCopy = ptr_copy gc_spec GCSpec greeterSpec_DeepCopyInto"

definition greeterStatus_DeepCopyInto ::
    "('m, 'l, 'x) greeter_heap \<Rightarrow> greeter_status \<Rightarrow> greeter_status \<times> ('m, 'l, 'x) greeter_heap" where
  "greeterStatus_DeepCopyInto = flat_copy"

definition greeterStatus_DeepCopy ::
    "('m, 'l, 'x) greeter_heap \<Rightarrow> addr option \<Rightarrow> addr option \<times> ('m, 'l, 'x) greeter_heap" where
  "greeterStatus_DeepCopy = ptr_copy gc_status GCStatus greeterStatus_DeepCopyInto"

section \<open>They keep the contract of a copy\<close>

text \<open>The values that objects in memory stand for, and the cells they reach.\<close>

definition greeter_view :: "('h \<Rightarrow> 'm \<Rightarrow> 'v) \<Rightarrow> 'h \<Rightarrow> 'm greeter_mem \<Rightarrow> 'v \<times> type_meta \<times> greeter_spec \<times> greeter_status" where
  "greeter_view mview h g = (mview h (gm_meta g), gm_type g, gm_spec g, gm_status g)"

definition greeterList_view ::
    "(('m, 'l, 'x) greeter_heap \<Rightarrow> 'm \<Rightarrow> 'v) \<Rightarrow> (('m, 'l, 'x) greeter_heap \<Rightarrow> 'l \<Rightarrow> 'w) \<Rightarrow>
     ('m, 'l, 'x) greeter_heap \<Rightarrow> 'l greeter_list_mem \<Rightarrow>
     'w \<times> ('v \<times> type_meta \<times> greeter_spec \<times> greeter_status) list option \<times> type_meta" where
  "greeterList_view mview lview h l = (lview h (glm_meta l),
     ptr_view gc_items (\<lambda>h. map (greeter_view mview h)) h (glm_items l), glm_type l)"

definition greeterList_refs ::
    "(('m, 'l, 'x) greeter_heap \<Rightarrow> 'm \<Rightarrow> addr set) \<Rightarrow> (('m, 'l, 'x) greeter_heap \<Rightarrow> 'l \<Rightarrow> addr set) \<Rightarrow>
     ('m, 'l, 'x) greeter_heap \<Rightarrow> 'l greeter_list_mem \<Rightarrow> addr set" where
  "greeterList_refs mrefs lrefs h l = lrefs h (glm_meta l) \<union>
     ptr_refs gc_items (\<lambda>h gs. \<Union> ((\<lambda>g. mrefs h (gm_meta g)) ` set gs)) h (glm_items l)"

lemma copier_cong: "copier cp view refs \<Longrightarrow> view = view' \<Longrightarrow> refs = refs' \<Longrightarrow> copier cp view' refs'"
  by simp

text \<open>Two fields that hold pointers, and the rest.\<close>

lemma greeter_copier:
  fixes mcopy :: "('m, 'l, 'x) greeter_heap \<Rightarrow> 'm \<Rightarrow> 'm \<times> ('m, 'l, 'x) greeter_heap"
  assumes "copier mcopy mview mrefs"
  shows "copier (greeter_DeepCopyInto mcopy) (greeter_view mview) (\<lambda>h g. mrefs h (gm_meta g))"
proof -
  define un where "un = (\<lambda>g :: 'm greeter_mem. (gm_meta g, (gm_type g, gm_spec g, gm_status g)))"
  define mk where "mk = (\<lambda>(m :: 'm, t, s, st). \<lparr>gm_type = t, gm_meta = m, gm_spec = s, gm_status = st\<rparr>)"
  have "copier (greeter_DeepCopyInto mcopy)
      (\<lambda>h g. (mview h (fst (un g)), snd (un g))) (\<lambda>h g. mrefs h (fst (un g)) \<union> {})"
    by (rule iso_copier [OF pair_copier [OF assms flat_copier], of un mk])
       (simp_all add: un_def mk_def greeter_DeepCopyInto_def pair_copy_def flat_copy_def case_prod_beta Let_def)
  then show ?thesis by (rule copier_cong) (simp_all add: un_def greeter_view_def fun_eq_iff)
qed

lemma greeterList_copier:
  fixes mcopy :: "('m, 'l, 'x) greeter_heap \<Rightarrow> 'm \<Rightarrow> 'm \<times> ('m, 'l, 'x) greeter_heap"
    and lcopy :: "('m, 'l, 'x) greeter_heap \<Rightarrow> 'l \<Rightarrow> 'l \<times> ('m, 'l, 'x) greeter_heap"
  assumes "copier mcopy mview mrefs" and "copier lcopy lview lrefs"
  shows "copier (greeterList_DeepCopyInto mcopy lcopy) (greeterList_view mview lview) (greeterList_refs mrefs lrefs)"
proof -
  let ?items = "ptr_copy gc_items GCItems (items_copy (greeter_DeepCopyInto mcopy))"
  have items: "copier ?items (ptr_view gc_items (\<lambda>h. map (greeter_view mview h)))
      (ptr_refs gc_items (\<lambda>h gs. \<Union> ((\<lambda>g. mrefs h (gm_meta g)) ` set gs)))"
    by (rule ptr_copier [OF items_copier [OF greeter_copier [OF assms(1)]]]) simp
  define un where "un = (\<lambda>l :: 'l greeter_list_mem. (glm_meta l, glm_items l, glm_type l))"
  define mk where "mk = (\<lambda>(m :: 'l, i, t). \<lparr>glm_type = t, glm_meta = m, glm_items = i\<rparr>)"
  note two = pair_copier [OF assms(2) pair_copier [OF items flat_copier]]
  have "copier (greeterList_DeepCopyInto mcopy lcopy)
      (\<lambda>h l. (lview h (fst (un l)), ptr_view gc_items (\<lambda>h. map (greeter_view mview h)) h (fst (snd (un l))), snd (snd (un l))))
      (\<lambda>h l. lrefs h (fst (un l)) \<union>
        (ptr_refs gc_items (\<lambda>h gs. \<Union> ((\<lambda>g. mrefs h (gm_meta g)) ` set gs)) h (fst (snd (un l))) \<union> {}))"
    by (rule iso_copier [OF two, of un mk])
       (simp_all add: un_def mk_def greeterList_DeepCopyInto_def pair_copy_def flat_copy_def case_prod_beta Let_def)
  then show ?thesis
    by (rule copier_cong) (simp_all add: un_def greeterList_view_def greeterList_refs_def fun_eq_iff)
qed

lemma greeter_DeepCopy_copier:
  assumes "copier mcopy mview mrefs"
  shows "copier (greeter_DeepCopy mcopy) (ptr_view gc_obj (greeter_view mview))
    (ptr_refs gc_obj (\<lambda>h g. mrefs h (gm_meta g)))"
  unfolding greeter_DeepCopy_def by (rule ptr_copier [OF greeter_copier [OF assms]]) simp

lemma greeterList_DeepCopy_copier:
  assumes "copier mcopy mview mrefs" and "copier lcopy lview lrefs"
  shows "copier (greeterList_DeepCopy mcopy lcopy) (ptr_view gc_list (greeterList_view mview lview))
    (ptr_refs gc_list (greeterList_refs mrefs lrefs))"
  unfolding greeterList_DeepCopy_def by (rule ptr_copier [OF greeterList_copier [OF assms]]) simp

text \<open>Given copies of the metadata, all copies of the API have the contract.\<close>

locale greeter_copies = meta: copier mcopy mview mrefs + lst: copier lcopy lview lrefs
  for mcopy :: "('m, 'l, 'x) greeter_heap \<Rightarrow> 'm \<Rightarrow> 'm \<times> ('m, 'l, 'x) greeter_heap"
    and mview :: "('m, 'l, 'x) greeter_heap \<Rightarrow> 'm \<Rightarrow> 'v"
    and mrefs :: "('m, 'l, 'x) greeter_heap \<Rightarrow> 'm \<Rightarrow> addr set"
    and lcopy :: "('m, 'l, 'x) greeter_heap \<Rightarrow> 'l \<Rightarrow> 'l \<times> ('m, 'l, 'x) greeter_heap"
    and lview :: "('m, 'l, 'x) greeter_heap \<Rightarrow> 'l \<Rightarrow> 'w"
    and lrefs :: "('m, 'l, 'x) greeter_heap \<Rightarrow> 'l \<Rightarrow> addr set"
begin

lemma spec_copier: "copier greeterSpec_DeepCopy (ptr_view gc_spec (\<lambda>h s. s)) (ptr_refs gc_spec (\<lambda>h s. {}))"
  unfolding greeterSpec_DeepCopy_def greeterSpec_DeepCopyInto_def
  by (rule ptr_copier [OF flat_copier]) simp

lemma status_copier: "copier greeterStatus_DeepCopy (ptr_view gc_status (\<lambda>h s. s)) (ptr_refs gc_status (\<lambda>h s. {}))"
  unfolding greeterStatus_DeepCopy_def greeterStatus_DeepCopyInto_def
  by (rule ptr_copier [OF flat_copier]) simp

end

sublocale greeter_copies \<subseteq> obj: copier "greeter_DeepCopy mcopy"
    "ptr_view gc_obj (greeter_view mview)" "ptr_refs gc_obj (\<lambda>h g. mrefs h (gm_meta g))"
  by (rule greeter_DeepCopy_copier [OF meta.copier_axioms])

sublocale greeter_copies \<subseteq> objs: copier "greeterList_DeepCopy mcopy lcopy"
    "ptr_view gc_list (greeterList_view mview lview)" "ptr_refs gc_list (greeterList_refs mrefs lrefs)"
  by (rule greeterList_DeepCopy_copier [OF meta.copier_axioms lst.copier_axioms])

text \<open>Metadata with a label map behind a pointer, copied as \<open>ObjectMeta.DeepCopyInto\<close> documents.\<close>

record std_meta =
  sm_name :: string
  sm_labels :: "addr option"

type_synonym std_greeter_heap = "(std_meta, string, string \<rightharpoonup> string) greeter_heap"

definition std_meta_copy :: "std_greeter_heap \<Rightarrow> std_meta \<Rightarrow> std_meta \<times> std_greeter_heap" where
  "std_meta_copy h m =
     (let (p, h) = ptr_copy gc_meta GCMeta flat_copy h (sm_labels m) in (m\<lparr>sm_labels := p\<rparr>, h))"

definition std_meta_view :: "std_greeter_heap \<Rightarrow> std_meta \<Rightarrow> (string \<rightharpoonup> string) option \<times> string" where
  "std_meta_view h m = (ptr_view gc_meta (\<lambda>h x. x) h (sm_labels m), sm_name m)"

definition std_meta_refs :: "std_greeter_heap \<Rightarrow> std_meta \<Rightarrow> addr set" where
  "std_meta_refs h m = ptr_refs gc_meta (\<lambda>h x. {}) h (sm_labels m)"

lemma std_meta_copier: "copier std_meta_copy std_meta_view std_meta_refs"
proof -
  define un where "un = (\<lambda>m :: std_meta. (sm_labels m, sm_name m))"
  define mk where "mk = (\<lambda>(l, n). \<lparr>sm_name = n, sm_labels = l\<rparr>)"
  have ptr: "copier (ptr_copy gc_meta GCMeta flat_copy) (ptr_view gc_meta (\<lambda>h x. x))
      (ptr_refs gc_meta (\<lambda>(h :: std_greeter_heap) x. {}))"
    by (rule ptr_copier [OF flat_copier]) simp
  have "copier std_meta_copy (\<lambda>h m. (ptr_view gc_meta (\<lambda>h x. x) h (fst (un m)), snd (un m)))
      (\<lambda>h m. ptr_refs gc_meta (\<lambda>h x. {}) h (fst (un m)) \<union> {})"
    by (rule iso_copier [OF pair_copier [OF ptr flat_copier], of un mk])
       (simp_all add: un_def mk_def std_meta_copy_def pair_copy_def flat_copy_def case_prod_beta)
  then show ?thesis
    by (rule copier_cong) (simp_all add: un_def std_meta_view_def std_meta_refs_def fun_eq_iff)
qed

interpretation std: greeter_copies std_meta_copy std_meta_view std_meta_refs
    flat_copy "\<lambda>h l. l" "\<lambda>h l. {}"
  unfolding greeter_copies_def using std_meta_copier flat_copier by blast

text \<open>The copies as an interface: nil is copied to a nil interface, never to an interface that holds
  a nil pointer.\<close>

lemma greeter_DeepCopyObject_nil:
  "fst (greeter_DeepCopyObject mcopy h p) \<noteq> Iface None"
  "greeter_DeepCopyObject mcopy h None = (NilIface, h)"
  by (auto simp: greeter_DeepCopyObject_def greeter_DeepCopy_def ptr_copy_def case_prod_beta)

text \<open>C26: The deep copies of a Greeter and of a list of Greeters are new objects with the same value
  (the nil copy of nil, the nil slice of a nil slice), and copy and original are independent:
  whatever a later write does to the cells of the copy, the original, which an informer cache owns,
  keeps its value, and the other way round.\<close>

theorem greeter_DeepCopy_independent:
  assumes "copier mcopy mview mrefs" and "copier lcopy lview lrefs"
    and "ptr_refs gc_obj (\<lambda>h g. mrefs h (gm_meta g)) h p \<subseteq> {..<hp_next h}"
    and "ptr_refs gc_list (greeterList_refs mrefs lrefs) h l \<subseteq> {..<hp_next h}"
  shows "independent_copy (ptr_view gc_obj (greeter_view mview)) (ptr_refs gc_obj (\<lambda>h g. mrefs h (gm_meta g)))
      h p (snd (greeter_DeepCopy mcopy h p)) (fst (greeter_DeepCopy mcopy h p)) \<and>
    independent_copy (ptr_view gc_list (greeterList_view mview lview)) (ptr_refs gc_list (greeterList_refs mrefs lrefs))
      h l (snd (greeterList_DeepCopy mcopy lcopy h l)) (fst (greeterList_DeepCopy mcopy lcopy h l))"
  using copier.copies_independent [OF greeter_DeepCopy_copier [OF assms(1)] assms(3)]
    copier.copies_independent [OF greeterList_DeepCopy_copier [OF assms(1,2)] assms(4)]
  by (metis prod.collapse)

definition sample_heap :: std_greeter_heap where
  "sample_heap = \<lparr>hp_cells = [
     0 \<mapsto> GCObj \<lparr>gm_type = \<lparr>tm_kind = ''Greeter'', tm_apiVersion = ''example.org/v1alpha1''\<rparr>,
       gm_meta = \<lparr>sm_name = ''hello'', sm_labels = Some 1\<rparr>,
       gm_spec = \<lparr>gs_schedule = '''', gs_message = ''hi''\<rparr>, gm_status = \<lparr>gst_phase = ''Pending''\<rparr>\<rparr>,
     1 \<mapsto> GCMeta [''app'' \<mapsto> ''greeter'']], hp_next = 2\<rparr>"

theorem greeter_DeepCopy_independent_witness:
  "fst (greeter_DeepCopy std_meta_copy sample_heap (Some 0)) = Some 3 \<and>
   independent_copy (ptr_view gc_obj (greeter_view std_meta_view)) (ptr_refs gc_obj (\<lambda>h g. std_meta_refs h (gm_meta g)))
     sample_heap (Some 0) (snd (greeter_DeepCopy std_meta_copy sample_heap (Some 0)))
     (fst (greeter_DeepCopy std_meta_copy sample_heap (Some 0)))"
proof -
  have "fst (greeter_DeepCopy std_meta_copy sample_heap (Some 0)) = Some 3"
    by (simp add: greeter_DeepCopy_def ptr_copy_def sample_heap_def greeter_DeepCopyInto_def
        std_meta_copy_def flat_copy_def alloc_def)
  moreover have "ptr_refs gc_obj (\<lambda>h g. std_meta_refs h (gm_meta g)) sample_heap (Some 0) \<subseteq> {..<hp_next sample_heap}"
    by (simp add: ptr_refs_def sample_heap_def std_meta_refs_def)
  moreover have "ptr_refs gc_list (greeterList_refs std_meta_refs (\<lambda>h l. {})) sample_heap None \<subseteq> {..<hp_next sample_heap}"
    by (simp add: ptr_refs_def)
  ultimately show ?thesis
    using greeter_DeepCopy_independent [OF std_meta_copier flat_copier, of sample_heap "Some 0" None] by blast
qed

end
