(* ===== verification/CronDeepCopy.thy ===== *)
theory CronDeepCopy
  imports CronTypes HeapCopy
begin

text \<open>
  The generated deep copies of the CronJob API (\<open>circle/api/v1/zz_generated.deepcopy.go\<close>), on a heap.
  The pointer fields of the spec and of the status are addresses. The copies of \<open>ObjectMeta\<close>,
  \<open>ListMeta\<close> and \<open>PodTemplateSpec\<close> are not part of this repository: they are the arguments \<open>mcopy\<close>,
  \<open>lcopy\<close> and \<open>tcopy\<close>, with the contract of a copy.
\<close>

section \<open>Objects in memory\<close>

record 't cronjob_spec_mem =
  csm_schedule :: string
  csm_startingDeadlineSeconds :: "addr option"
  csm_concurrencyPolicy :: concurrency_policy
  csm_suspend :: "addr option"
  csm_jobTemplate :: 't
  csm_successfulJobsHistoryLimit :: "addr option"
  csm_failedJobsHistoryLimit :: "addr option"

record cronjob_status_mem =
  csm_active :: "addr option"
  csm_lastScheduleTime :: "addr option"

record ('m, 't) cronjob_mem =
  cm_type :: type_meta
  cm_meta :: 'm
  cm_spec :: "'t cronjob_spec_mem"
  cm_status :: cronjob_status_mem

record 'l cronjob_list_mem =
  clm_type :: type_meta
  clm_meta :: 'l
  clm_items :: "addr option"

datatype ('m, 't, 'l, 'x) cron_cell =
    CJObj "('m, 't) cronjob_mem"
  | CJItems "('m, 't) cronjob_mem list"
  | CJList "'l cronjob_list_mem"
  | CJSpec "'t cronjob_spec_mem"
  | CJStatus "cronjob_status_mem"
  | CJInt "int"
  | CJBool "bool"
  | CJTime "gotime"
  | CJRefs "object_reference list"
  | CJMeta "'x"

fun cj_obj :: "('m, 't, 'l, 'x) cron_cell \<Rightarrow> (('m, 't) cronjob_mem) option" where
  "cj_obj (CJObj y) = Some y" | "cj_obj _ = None"

fun cj_items :: "('m, 't, 'l, 'x) cron_cell \<Rightarrow> (('m, 't) cronjob_mem list) option" where
  "cj_items (CJItems y) = Some y" | "cj_items _ = None"

fun cj_list :: "('m, 't, 'l, 'x) cron_cell \<Rightarrow> ('l cronjob_list_mem) option" where
  "cj_list (CJList y) = Some y" | "cj_list _ = None"

fun cjc_spec :: "('m, 't, 'l, 'x) cron_cell \<Rightarrow> ('t cronjob_spec_mem) option" where
  "cjc_spec (CJSpec y) = Some y" | "cjc_spec _ = None"

fun cjc_status :: "('m, 't, 'l, 'x) cron_cell \<Rightarrow> (cronjob_status_mem) option" where
  "cjc_status (CJStatus y) = Some y" | "cjc_status _ = None"

fun cj_int :: "('m, 't, 'l, 'x) cron_cell \<Rightarrow> (int) option" where
  "cj_int (CJInt y) = Some y" | "cj_int _ = None"

fun cj_bool :: "('m, 't, 'l, 'x) cron_cell \<Rightarrow> (bool) option" where
  "cj_bool (CJBool y) = Some y" | "cj_bool _ = None"

fun cj_time :: "('m, 't, 'l, 'x) cron_cell \<Rightarrow> (gotime) option" where
  "cj_time (CJTime y) = Some y" | "cj_time _ = None"

fun cj_refs :: "('m, 't, 'l, 'x) cron_cell \<Rightarrow> (object_reference list) option" where
  "cj_refs (CJRefs y) = Some y" | "cj_refs _ = None"

fun cjc_meta :: "('m, 't, 'l, 'x) cron_cell \<Rightarrow> ('x) option" where
  "cjc_meta (CJMeta y) = Some y" | "cjc_meta _ = None"

type_synonym ('m, 't, 'l, 'x) cron_heap = "('m, 't, 'l, 'x) cron_cell heap"

datatype cron_iface = CNilIface | CIface "addr option"

section \<open>The generated functions\<close>

definition cronJobSpec_DeepCopyInto ::
    "(('m, 't, 'l, 'x) cron_heap \<Rightarrow> 't \<Rightarrow> 't \<times> ('m, 't, 'l, 'x) cron_heap) \<Rightarrow>
     ('m, 't, 'l, 'x) cron_heap \<Rightarrow> 't cronjob_spec_mem \<Rightarrow> 't cronjob_spec_mem \<times> ('m, 't, 'l, 'x) cron_heap" where
  "cronJobSpec_DeepCopyInto tcopy h s =
     (let out = s;
          (p, h) = ptr_copy cj_int CJInt flat_copy h (csm_startingDeadlineSeconds s);
          out = out\<lparr>csm_startingDeadlineSeconds := p\<rparr>;
          (p, h) = ptr_copy cj_bool CJBool flat_copy h (csm_suspend s);
          out = out\<lparr>csm_suspend := p\<rparr>;
          (t, h) = tcopy h (csm_jobTemplate s);
          out = out\<lparr>csm_jobTemplate := t\<rparr>;
          (p, h) = ptr_copy cj_int CJInt flat_copy h (csm_successfulJobsHistoryLimit s);
          out = out\<lparr>csm_successfulJobsHistoryLimit := p\<rparr>;
          (p, h) = ptr_copy cj_int CJInt flat_copy h (csm_failedJobsHistoryLimit s);
          out = out\<lparr>csm_failedJobsHistoryLimit := p\<rparr>
      in (out, h))"

definition cronJobSpec_DeepCopy ::
    "(('m, 't, 'l, 'x) cron_heap \<Rightarrow> 't \<Rightarrow> 't \<times> ('m, 't, 'l, 'x) cron_heap) \<Rightarrow>
     ('m, 't, 'l, 'x) cron_heap \<Rightarrow> addr option \<Rightarrow> addr option \<times> ('m, 't, 'l, 'x) cron_heap" where
  "cronJobSpec_DeepCopy tcopy = ptr_copy cjc_spec CJSpec (cronJobSpec_DeepCopyInto tcopy)"

text \<open>The slice of references is copied by \<open>copy\<close>, the time by \<open>Time.DeepCopy\<close>.\<close>

definition cronJobStatus_DeepCopyInto ::
    "('m, 't, 'l, 'x) cron_heap \<Rightarrow> cronjob_status_mem \<Rightarrow> cronjob_status_mem \<times> ('m, 't, 'l, 'x) cron_heap" where
  "cronJobStatus_DeepCopyInto h s =
     (let out = s;
          (p, h) = ptr_copy cj_refs CJRefs flat_copy h (csm_active s);
          out = out\<lparr>csm_active := p\<rparr>;
          (p, h) = ptr_copy cj_time CJTime flat_copy h (csm_lastScheduleTime s);
          out = out\<lparr>csm_lastScheduleTime := p\<rparr>
      in (out, h))"

definition cronJobStatus_DeepCopy ::
    "('m, 't, 'l, 'x) cron_heap \<Rightarrow> addr option \<Rightarrow> addr option \<times> ('m, 't, 'l, 'x) cron_heap" where
  "cronJobStatus_DeepCopy = ptr_copy cjc_status CJStatus cronJobStatus_DeepCopyInto"

definition cronJob_DeepCopyInto ::
    "(('m, 't, 'l, 'x) cron_heap \<Rightarrow> 'm \<Rightarrow> 'm \<times> ('m, 't, 'l, 'x) cron_heap) \<Rightarrow> (('m, 't, 'l, 'x) cron_heap \<Rightarrow> 't \<Rightarrow> 't \<times> ('m, 't, 'l, 'x) cron_heap) \<Rightarrow>
     ('m, 't, 'l, 'x) cron_heap \<Rightarrow> ('m, 't) cronjob_mem \<Rightarrow> ('m, 't) cronjob_mem \<times> ('m, 't, 'l, 'x) cron_heap" where
  "cronJob_DeepCopyInto mcopy tcopy h c =
     (let out = c;
          out = out\<lparr>cm_type := cm_type c\<rparr>;
          (m, h) = mcopy h (cm_meta c);
          out = out\<lparr>cm_meta := m\<rparr>;
          (s, h) = cronJobSpec_DeepCopyInto tcopy h (cm_spec c);
          out = out\<lparr>cm_spec := s\<rparr>;
          (st, h) = cronJobStatus_DeepCopyInto h (cm_status c);
          out = out\<lparr>cm_status := st\<rparr>
      in (out, h))"

definition cronJob_DeepCopy ::
    "(('m, 't, 'l, 'x) cron_heap \<Rightarrow> 'm \<Rightarrow> 'm \<times> ('m, 't, 'l, 'x) cron_heap) \<Rightarrow> (('m, 't, 'l, 'x) cron_heap \<Rightarrow> 't \<Rightarrow> 't \<times> ('m, 't, 'l, 'x) cron_heap) \<Rightarrow>
     ('m, 't, 'l, 'x) cron_heap \<Rightarrow> addr option \<Rightarrow> addr option \<times> ('m, 't, 'l, 'x) cron_heap" where
  "cronJob_DeepCopy mcopy tcopy = ptr_copy cj_obj CJObj (cronJob_DeepCopyInto mcopy tcopy)"

definition cronJob_DeepCopyObject ::
    "(('m, 't, 'l, 'x) cron_heap \<Rightarrow> 'm \<Rightarrow> 'm \<times> ('m, 't, 'l, 'x) cron_heap) \<Rightarrow> (('m, 't, 'l, 'x) cron_heap \<Rightarrow> 't \<Rightarrow> 't \<times> ('m, 't, 'l, 'x) cron_heap) \<Rightarrow>
     ('m, 't, 'l, 'x) cron_heap \<Rightarrow> addr option \<Rightarrow> cron_iface \<times> ('m, 't, 'l, 'x) cron_heap" where
  "cronJob_DeepCopyObject mcopy tcopy h p =
     (let (c, h) = cronJob_DeepCopy mcopy tcopy h p in (if c \<noteq> None then CIface c else CNilIface, h))"

definition cronJobList_DeepCopyInto ::
    "(('m, 't, 'l, 'x) cron_heap \<Rightarrow> 'm \<Rightarrow> 'm \<times> ('m, 't, 'l, 'x) cron_heap) \<Rightarrow> (('m, 't, 'l, 'x) cron_heap \<Rightarrow> 't \<Rightarrow> 't \<times> ('m, 't, 'l, 'x) cron_heap) \<Rightarrow>
     (('m, 't, 'l, 'x) cron_heap \<Rightarrow> 'l \<Rightarrow> 'l \<times> ('m, 't, 'l, 'x) cron_heap) \<Rightarrow>
     ('m, 't, 'l, 'x) cron_heap \<Rightarrow> 'l cronjob_list_mem \<Rightarrow> 'l cronjob_list_mem \<times> ('m, 't, 'l, 'x) cron_heap" where
  "cronJobList_DeepCopyInto mcopy tcopy lcopy h l =
     (let out = l;
          out = out\<lparr>clm_type := clm_type l\<rparr>;
          (m, h) = lcopy h (clm_meta l);
          out = out\<lparr>clm_meta := m\<rparr>;
          (items, h) = ptr_copy cj_items CJItems (items_copy (cronJob_DeepCopyInto mcopy tcopy)) h (clm_items l);
          out = out\<lparr>clm_items := items\<rparr>
      in (out, h))"

definition cronJobList_DeepCopy ::
    "(('m, 't, 'l, 'x) cron_heap \<Rightarrow> 'm \<Rightarrow> 'm \<times> ('m, 't, 'l, 'x) cron_heap) \<Rightarrow> (('m, 't, 'l, 'x) cron_heap \<Rightarrow> 't \<Rightarrow> 't \<times> ('m, 't, 'l, 'x) cron_heap) \<Rightarrow>
     (('m, 't, 'l, 'x) cron_heap \<Rightarrow> 'l \<Rightarrow> 'l \<times> ('m, 't, 'l, 'x) cron_heap) \<Rightarrow>
     ('m, 't, 'l, 'x) cron_heap \<Rightarrow> addr option \<Rightarrow> addr option \<times> ('m, 't, 'l, 'x) cron_heap" where
  "cronJobList_DeepCopy mcopy tcopy lcopy = ptr_copy cj_list CJList (cronJobList_DeepCopyInto mcopy tcopy lcopy)"

definition cronJobList_DeepCopyObject ::
    "(('m, 't, 'l, 'x) cron_heap \<Rightarrow> 'm \<Rightarrow> 'm \<times> ('m, 't, 'l, 'x) cron_heap) \<Rightarrow> (('m, 't, 'l, 'x) cron_heap \<Rightarrow> 't \<Rightarrow> 't \<times> ('m, 't, 'l, 'x) cron_heap) \<Rightarrow>
     (('m, 't, 'l, 'x) cron_heap \<Rightarrow> 'l \<Rightarrow> 'l \<times> ('m, 't, 'l, 'x) cron_heap) \<Rightarrow>
     ('m, 't, 'l, 'x) cron_heap \<Rightarrow> addr option \<Rightarrow> cron_iface \<times> ('m, 't, 'l, 'x) cron_heap" where
  "cronJobList_DeepCopyObject mcopy tcopy lcopy h p =
     (let (c, h) = cronJobList_DeepCopy mcopy tcopy lcopy h p in (if c \<noteq> None then CIface c else CNilIface, h))"

section \<open>They keep the contract of a copy\<close>

text \<open>A pointer to a plain value: its view and its cell.\<close>

abbreviation val :: "('c \<Rightarrow> 'a option) \<Rightarrow> 'c heap \<Rightarrow> addr option \<Rightarrow> 'a option" where
  "val prj \<equiv> ptr_view prj (\<lambda>h x. x)"

abbreviation cell :: "('c \<Rightarrow> 'a option) \<Rightarrow> 'c heap \<Rightarrow> addr option \<Rightarrow> addr set" where
  "cell prj \<equiv> ptr_refs prj (\<lambda>h x. {})"

lemma val_copier:
  assumes "\<And>x. prj (mk x) = Some x"
  shows "copier (ptr_copy prj mk flat_copy) (val prj) (cell prj)"
  by (rule ptr_copier [OF flat_copier]) (rule assms)

definition cronSpec_view ::
    "(('m, 't, 'l, 'x) cron_heap \<Rightarrow> 't \<Rightarrow> 'v) \<Rightarrow> ('m, 't, 'l, 'x) cron_heap \<Rightarrow> 't cronjob_spec_mem \<Rightarrow>
     int option \<times> bool option \<times> 'v \<times> int option \<times> int option \<times> string \<times> concurrency_policy" where
  "cronSpec_view tview h s = (val cj_int h (csm_startingDeadlineSeconds s), val cj_bool h (csm_suspend s),
     tview h (csm_jobTemplate s), val cj_int h (csm_successfulJobsHistoryLimit s),
     val cj_int h (csm_failedJobsHistoryLimit s), csm_schedule s, csm_concurrencyPolicy s)"

definition cronSpec_refs ::
    "(('m, 't, 'l, 'x) cron_heap \<Rightarrow> 't \<Rightarrow> addr set) \<Rightarrow> ('m, 't, 'l, 'x) cron_heap \<Rightarrow> 't cronjob_spec_mem \<Rightarrow> addr set" where
  "cronSpec_refs trefs h s = cell cj_int h (csm_startingDeadlineSeconds s) \<union> (cell cj_bool h (csm_suspend s) \<union>
     (trefs h (csm_jobTemplate s) \<union> (cell cj_int h (csm_successfulJobsHistoryLimit s) \<union>
     cell cj_int h (csm_failedJobsHistoryLimit s))))"

lemma copier_eq: "copier cp view refs \<Longrightarrow> view = view' \<Longrightarrow> refs = refs' \<Longrightarrow> copier cp view' refs'"
  by simp

lemma cronSpec_copier:
  fixes tcopy :: "('m, 't, 'l, 'x) cron_heap \<Rightarrow> 't \<Rightarrow> 't \<times> ('m, 't, 'l, 'x) cron_heap"
  assumes "copier tcopy tview trefs"
  shows "copier (cronJobSpec_DeepCopyInto tcopy) (cronSpec_view tview) (cronSpec_refs trefs)"
proof -
  define un where "un = (\<lambda>s :: 't cronjob_spec_mem. (csm_startingDeadlineSeconds s, csm_suspend s, csm_jobTemplate s,
    csm_successfulJobsHistoryLimit s, csm_failedJobsHistoryLimit s, csm_schedule s, csm_concurrencyPolicy s))"
  define mk where "mk = (\<lambda>(d, u, t :: 't, a, b, s, p). \<lparr>csm_schedule = s, csm_startingDeadlineSeconds = d,
    csm_concurrencyPolicy = p, csm_suspend = u, csm_jobTemplate = t, csm_successfulJobsHistoryLimit = a,
    csm_failedJobsHistoryLimit = b\<rparr>)"
  have i: "copier (ptr_copy cj_int CJInt flat_copy) (val cj_int) (cell (cj_int :: ('m, 't, 'l, 'x) cron_cell \<Rightarrow> int option))"
    and b: "copier (ptr_copy cj_bool CJBool flat_copy) (val cj_bool) (cell (cj_bool :: ('m, 't, 'l, 'x) cron_cell \<Rightarrow> bool option))"
    by (rule val_copier, simp)+
  note fields = pair_copier [OF i pair_copier [OF b pair_copier [OF assms
    pair_copier [OF i pair_copier [OF i flat_copier]]]]]
  have "cronJobSpec_DeepCopyInto tcopy h s =
      (let (r, h') = pair_copy (ptr_copy cj_int CJInt flat_copy) (pair_copy (ptr_copy cj_bool CJBool flat_copy)
        (pair_copy tcopy (pair_copy (ptr_copy cj_int CJInt flat_copy)
        (pair_copy (ptr_copy cj_int CJInt flat_copy) flat_copy)))) h (un s) in (mk r, h'))" for h s
    by (simp add: un_def mk_def cronJobSpec_DeepCopyInto_def pair_copy_def flat_copy_def case_prod_beta Let_def)
  then have "copier (cronJobSpec_DeepCopyInto tcopy)
      (\<lambda>h s. (val cj_int h (fst (un s)), val cj_bool h (fst (snd (un s))), tview h (fst (snd (snd (un s)))),
         val cj_int h (fst (snd (snd (snd (un s))))), val cj_int h (fst (snd (snd (snd (snd (un s)))))),
         snd (snd (snd (snd (snd (un s)))))))
      (\<lambda>h s. cell cj_int h (fst (un s)) \<union> (cell cj_bool h (fst (snd (un s))) \<union> (trefs h (fst (snd (snd (un s)))) \<union>
         (cell cj_int h (fst (snd (snd (snd (un s))))) \<union> (cell cj_int h (fst (snd (snd (snd (snd (un s))))))  \<union> {})))))"
    by (intro iso_copier [OF fields, of un mk]) (simp_all add: case_prod_beta un_def mk_def)
  then show ?thesis
    by (rule copier_eq) (simp_all add: un_def cronSpec_view_def cronSpec_refs_def fun_eq_iff)
qed

definition cronStatus_view ::
    "('m, 't, 'l, 'x) cron_heap \<Rightarrow> cronjob_status_mem \<Rightarrow> object_reference list option \<times> gotime option" where
  "cronStatus_view h s = (val cj_refs h (csm_active s), val cj_time h (csm_lastScheduleTime s))"

definition cronStatus_refs :: "('m, 't, 'l, 'x) cron_heap \<Rightarrow> cronjob_status_mem \<Rightarrow> addr set" where
  "cronStatus_refs h s = cell cj_refs h (csm_active s) \<union> cell cj_time h (csm_lastScheduleTime s)"

lemma cronStatus_copier:
  "copier cronJobStatus_DeepCopyInto cronStatus_view (cronStatus_refs :: ('m, 't, 'l, 'x) cron_heap \<Rightarrow> cronjob_status_mem \<Rightarrow> addr set)"
proof -
  define un where "un = (\<lambda>s :: cronjob_status_mem. (csm_active s, csm_lastScheduleTime s))"
  define mk where "mk = (\<lambda>(a, t). \<lparr>csm_active = a, csm_lastScheduleTime = t\<rparr>)"
  have r: "copier (ptr_copy cj_refs CJRefs flat_copy) (val cj_refs) (cell (cj_refs :: ('m, 't, 'l, 'x) cron_cell \<Rightarrow> _))"
    and t: "copier (ptr_copy cj_time CJTime flat_copy) (val cj_time) (cell (cj_time :: ('m, 't, 'l, 'x) cron_cell \<Rightarrow> gotime option))"
    by (rule val_copier, simp)+
  have "copier (cronJobStatus_DeepCopyInto :: ('m, 't, 'l, 'x) cron_heap \<Rightarrow> _)
      (\<lambda>h s. (val cj_refs h (fst (un s)), val cj_time h (snd (un s))))
      (\<lambda>h s. cell cj_refs h (fst (un s)) \<union> cell cj_time h (snd (un s)))"
    by (intro iso_copier [OF pair_copier [OF r t], of un mk])
       (simp_all add: un_def mk_def cronJobStatus_DeepCopyInto_def pair_copy_def case_prod_beta Let_def)
  then show ?thesis
    by (rule copier_eq) (simp_all add: un_def cronStatus_view_def cronStatus_refs_def fun_eq_iff)
qed

definition cronJob_view ::
    "(('m, 't, 'l, 'x) cron_heap \<Rightarrow> 'm \<Rightarrow> 'v) \<Rightarrow> (('m, 't, 'l, 'x) cron_heap \<Rightarrow> 't \<Rightarrow> 'w) \<Rightarrow> ('m, 't, 'l, 'x) cron_heap \<Rightarrow> ('m, 't) cronjob_mem \<Rightarrow>
     'v \<times> (int option \<times> bool option \<times> 'w \<times> int option \<times> int option \<times> string \<times> concurrency_policy) \<times>
     (object_reference list option \<times> gotime option) \<times> type_meta" where
  "cronJob_view mview tview h c = (mview h (cm_meta c), cronSpec_view tview h (cm_spec c),
     cronStatus_view h (cm_status c), cm_type c)"

definition cronJob_refs ::
    "(('m, 't, 'l, 'x) cron_heap \<Rightarrow> 'm \<Rightarrow> addr set) \<Rightarrow> (('m, 't, 'l, 'x) cron_heap \<Rightarrow> 't \<Rightarrow> addr set) \<Rightarrow> ('m, 't, 'l, 'x) cron_heap \<Rightarrow> ('m, 't) cronjob_mem \<Rightarrow> addr set" where
  "cronJob_refs mrefs trefs h c = mrefs h (cm_meta c) \<union> (cronSpec_refs trefs h (cm_spec c) \<union>
     cronStatus_refs h (cm_status c))"

lemma cronJob_copier:
  fixes mcopy :: "('m, 't, 'l, 'x) cron_heap \<Rightarrow> 'm \<Rightarrow> 'm \<times> ('m, 't, 'l, 'x) cron_heap" and tcopy :: "('m, 't, 'l, 'x) cron_heap \<Rightarrow> 't \<Rightarrow> 't \<times> ('m, 't, 'l, 'x) cron_heap"
  assumes "copier mcopy mview mrefs" and "copier tcopy tview trefs"
  shows "copier (cronJob_DeepCopyInto mcopy tcopy) (cronJob_view mview tview) (cronJob_refs mrefs trefs)"
proof -
  define un where "un = (\<lambda>c :: ('m, 't) cronjob_mem. (cm_meta c, cm_spec c, cm_status c, cm_type c))"
  define mk where "mk = (\<lambda>(m :: 'm, s :: 't cronjob_spec_mem, st, ty).
    \<lparr>cm_type = ty, cm_meta = m, cm_spec = s, cm_status = st\<rparr>)"
  note fields = pair_copier [OF assms(1) pair_copier [OF cronSpec_copier [OF assms(2)]
    pair_copier [OF cronStatus_copier flat_copier]]]
  have "cronJob_DeepCopyInto mcopy tcopy h c =
      (let (r, h') = pair_copy mcopy (pair_copy (cronJobSpec_DeepCopyInto tcopy)
        (pair_copy cronJobStatus_DeepCopyInto flat_copy)) h (un c) in (mk r, h'))" for h c
    by (simp add: un_def mk_def cronJob_DeepCopyInto_def pair_copy_def flat_copy_def case_prod_beta Let_def)
  then have "copier (cronJob_DeepCopyInto mcopy tcopy)
      (\<lambda>h c. (mview h (fst (un c)), cronSpec_view tview h (fst (snd (un c))),
         cronStatus_view h (fst (snd (snd (un c)))), snd (snd (snd (un c)))))
      (\<lambda>h c. mrefs h (fst (un c)) \<union> (cronSpec_refs trefs h (fst (snd (un c))) \<union>
         (cronStatus_refs h (fst (snd (snd (un c)))) \<union> {})))"
    by (intro iso_copier [OF fields, of un mk]) (simp_all add: case_prod_beta un_def mk_def)
  then show ?thesis
    by (rule copier_eq) (simp_all add: un_def cronJob_view_def cronJob_refs_def fun_eq_iff)
qed

definition cronJobs_view ::
    "(('m, 't, 'l, 'x) cron_heap \<Rightarrow> 'm \<Rightarrow> 'v) \<Rightarrow> (('m, 't, 'l, 'x) cron_heap \<Rightarrow> 't \<Rightarrow> 'w) \<Rightarrow> (('m, 't, 'l, 'x) cron_heap \<Rightarrow> 'l \<Rightarrow> 'u) \<Rightarrow> ('m, 't, 'l, 'x) cron_heap \<Rightarrow> 'l cronjob_list_mem \<Rightarrow>
     'u \<times> ('v \<times> (int option \<times> bool option \<times> 'w \<times> int option \<times> int option \<times> string \<times> concurrency_policy) \<times>
     (object_reference list option \<times> gotime option) \<times> type_meta) list option \<times> type_meta" where
  "cronJobs_view mview tview lview h l = (lview h (clm_meta l),
     ptr_view cj_items (\<lambda>h. map (cronJob_view mview tview h)) h (clm_items l), clm_type l)"

definition cronJobs_refs ::
    "(('m, 't, 'l, 'x) cron_heap \<Rightarrow> 'm \<Rightarrow> addr set) \<Rightarrow> (('m, 't, 'l, 'x) cron_heap \<Rightarrow> 't \<Rightarrow> addr set) \<Rightarrow> (('m, 't, 'l, 'x) cron_heap \<Rightarrow> 'l \<Rightarrow> addr set) \<Rightarrow>
     ('m, 't, 'l, 'x) cron_heap \<Rightarrow> 'l cronjob_list_mem \<Rightarrow> addr set" where
  "cronJobs_refs mrefs trefs lrefs h l = lrefs h (clm_meta l) \<union>
     ptr_refs cj_items (\<lambda>h cs. \<Union> (cronJob_refs mrefs trefs h ` set cs)) h (clm_items l)"

lemma cronJobs_copier:
  fixes mcopy :: "('m, 't, 'l, 'x) cron_heap \<Rightarrow> 'm \<Rightarrow> 'm \<times> ('m, 't, 'l, 'x) cron_heap" and tcopy :: "('m, 't, 'l, 'x) cron_heap \<Rightarrow> 't \<Rightarrow> 't \<times> ('m, 't, 'l, 'x) cron_heap" and lcopy :: "('m, 't, 'l, 'x) cron_heap \<Rightarrow> 'l \<Rightarrow> 'l \<times> ('m, 't, 'l, 'x) cron_heap"
  assumes "copier mcopy mview mrefs" and "copier tcopy tview trefs" and "copier lcopy lview lrefs"
  shows "copier (cronJobList_DeepCopyInto mcopy tcopy lcopy) (cronJobs_view mview tview lview)
    (cronJobs_refs mrefs trefs lrefs)"
proof -
  let ?items = "ptr_copy cj_items CJItems (items_copy (cronJob_DeepCopyInto mcopy tcopy))"
  have items: "copier ?items (ptr_view cj_items (\<lambda>h. map (cronJob_view mview tview h)))
      (ptr_refs cj_items (\<lambda>h cs. \<Union> (cronJob_refs mrefs trefs h ` set cs)))"
    by (rule ptr_copier [OF items_copier [OF cronJob_copier [OF assms(1,2)]]]) simp
  define un where "un = (\<lambda>l :: 'l cronjob_list_mem. (clm_meta l, clm_items l, clm_type l))"
  define mk where "mk = (\<lambda>(m :: 'l, i, t). \<lparr>clm_type = t, clm_meta = m, clm_items = i\<rparr>)"
  note fields = pair_copier [OF assms(3) pair_copier [OF items flat_copier]]
  have "copier (cronJobList_DeepCopyInto mcopy tcopy lcopy)
      (\<lambda>h l. (lview h (fst (un l)), ptr_view cj_items (\<lambda>h. map (cronJob_view mview tview h)) h (fst (snd (un l))),
         snd (snd (un l))))
      (\<lambda>h l. lrefs h (fst (un l)) \<union>
        (ptr_refs cj_items (\<lambda>h cs. \<Union> (cronJob_refs mrefs trefs h ` set cs)) h (fst (snd (un l))) \<union> {}))"
    by (rule iso_copier [OF fields, of un mk])
       (simp_all add: un_def mk_def cronJobList_DeepCopyInto_def pair_copy_def flat_copy_def case_prod_beta Let_def)
  then show ?thesis
    by (rule copier_eq) (simp_all add: un_def cronJobs_view_def cronJobs_refs_def fun_eq_iff)
qed

lemma cronJob_DeepCopy_copier:
  assumes "copier mcopy mview mrefs" and "copier tcopy tview trefs"
  shows "copier (cronJob_DeepCopy mcopy tcopy) (ptr_view cj_obj (cronJob_view mview tview))
    (ptr_refs cj_obj (cronJob_refs mrefs trefs))"
  unfolding cronJob_DeepCopy_def by (rule ptr_copier [OF cronJob_copier [OF assms]]) simp

lemma cronJobList_DeepCopy_copier:
  assumes "copier mcopy mview mrefs" and "copier tcopy tview trefs" and "copier lcopy lview lrefs"
  shows "copier (cronJobList_DeepCopy mcopy tcopy lcopy) (ptr_view cj_list (cronJobs_view mview tview lview))
    (ptr_refs cj_list (cronJobs_refs mrefs trefs lrefs))"
  unfolding cronJobList_DeepCopy_def by (rule ptr_copier [OF cronJobs_copier [OF assms]]) simp

text \<open>Given copies of the metadata and of the pod template, all copies of the API have the contract.\<close>

locale cron_copies = meta: copier mcopy mview mrefs + tmpl: copier tcopy tview trefs +
    lst: copier lcopy lview lrefs
  for mcopy :: "('m, 't, 'l, 'x) cron_heap \<Rightarrow> 'm \<Rightarrow> 'm \<times> ('m, 't, 'l, 'x) cron_heap" and mview :: "('m, 't, 'l, 'x) cron_heap \<Rightarrow> 'm \<Rightarrow> 'v" and mrefs
    and tcopy :: "('m, 't, 'l, 'x) cron_heap \<Rightarrow> 't \<Rightarrow> 't \<times> ('m, 't, 'l, 'x) cron_heap" and tview :: "('m, 't, 'l, 'x) cron_heap \<Rightarrow> 't \<Rightarrow> 'w" and trefs
    and lcopy :: "('m, 't, 'l, 'x) cron_heap \<Rightarrow> 'l \<Rightarrow> 'l \<times> ('m, 't, 'l, 'x) cron_heap" and lview :: "('m, 't, 'l, 'x) cron_heap \<Rightarrow> 'l \<Rightarrow> 'u" and lrefs
begin

lemma spec_copier: "copier (cronJobSpec_DeepCopy tcopy) (ptr_view cjc_spec (cronSpec_view tview))
    (ptr_refs cjc_spec (cronSpec_refs trefs))"
  unfolding cronJobSpec_DeepCopy_def by (rule ptr_copier [OF cronSpec_copier [OF tmpl.copier_axioms]]) simp

lemma status_copier: "copier cronJobStatus_DeepCopy (ptr_view cjc_status cronStatus_view)
    (ptr_refs cjc_status (cronStatus_refs :: ('m, 't, 'l, 'x) cron_heap \<Rightarrow> _))"
  unfolding cronJobStatus_DeepCopy_def by (rule ptr_copier [OF cronStatus_copier]) simp

end

sublocale cron_copies \<subseteq> obj: copier "cronJob_DeepCopy mcopy tcopy"
    "ptr_view cj_obj (cronJob_view mview tview)" "ptr_refs cj_obj (cronJob_refs mrefs trefs)"
  by (rule cronJob_DeepCopy_copier [OF meta.copier_axioms tmpl.copier_axioms])

sublocale cron_copies \<subseteq> objs: copier "cronJobList_DeepCopy mcopy tcopy lcopy"
    "ptr_view cj_list (cronJobs_view mview tview lview)" "ptr_refs cj_list (cronJobs_refs mrefs trefs lrefs)"
  by (rule cronJobList_DeepCopy_copier [OF meta.copier_axioms tmpl.copier_axioms lst.copier_axioms])

text \<open>Metadata and templates without pointers, for concrete heaps.\<close>

type_synonym std_cron_heap = "(string, string, string, unit) cron_heap"

interpretation std_cron: cron_copies
    "flat_copy :: std_cron_heap \<Rightarrow> string \<Rightarrow> string \<times> std_cron_heap" "\<lambda>h m. m" "\<lambda>h m. {}"
    flat_copy "\<lambda>h t. t" "\<lambda>h t. {}" flat_copy "\<lambda>h l. l" "\<lambda>h l. {}"
  unfolding cron_copies_def using flat_copier by blast

text \<open>C27: The deep copies of a CronJob and of a list of CronJobs have the same value, with every
  pointer of the spec (deadline, suspend, both history limits), the active references and the last
  schedule time in cells of their own, so that copy and original are independent.\<close>

theorem cronJob_DeepCopy_independent:
  assumes "copier mcopy mview mrefs" and "copier tcopy tview trefs" and "copier lcopy lview lrefs"
    and "ptr_refs cj_obj (cronJob_refs mrefs trefs) h p \<subseteq> {..<hp_next h}"
    and "ptr_refs cj_list (cronJobs_refs mrefs trefs lrefs) h l \<subseteq> {..<hp_next h}"
  shows "independent_copy (ptr_view cj_obj (cronJob_view mview tview)) (ptr_refs cj_obj (cronJob_refs mrefs trefs))
      h p (snd (cronJob_DeepCopy mcopy tcopy h p)) (fst (cronJob_DeepCopy mcopy tcopy h p)) \<and>
    independent_copy (ptr_view cj_list (cronJobs_view mview tview lview))
      (ptr_refs cj_list (cronJobs_refs mrefs trefs lrefs))
      h l (snd (cronJobList_DeepCopy mcopy tcopy lcopy h l)) (fst (cronJobList_DeepCopy mcopy tcopy lcopy h l))"
  using copier.copies_independent [OF cronJob_DeepCopy_copier [OF assms(1,2)] assms(4)]
    copier.copies_independent [OF cronJobList_DeepCopy_copier [OF assms(1-3)] assms(5)]
  by (metis prod.collapse)

definition sample_cron_heap :: std_cron_heap where
  "sample_cron_heap = \<lparr>hp_cells = [
     0 \<mapsto> CJObj \<lparr>cm_type = \<lparr>tm_kind = ''CronJob'', tm_apiVersion = ''batch.example.org/v1''\<rparr>,
       cm_meta = ''hello'',
       cm_spec = \<lparr>csm_schedule = ''@hourly'', csm_startingDeadlineSeconds = None,
         csm_concurrencyPolicy = ''Allow'', csm_suspend = Some 1, csm_jobTemplate = ''template'',
         csm_successfulJobsHistoryLimit = None, csm_failedJobsHistoryLimit = None\<rparr>,
       cm_status = \<lparr>csm_active = None, csm_lastScheduleTime = None\<rparr>\<rparr>,
     1 \<mapsto> CJBool False], hp_next = 2\<rparr>"

theorem cronJob_DeepCopy_independent_witness:
  "fst (cronJob_DeepCopy flat_copy flat_copy sample_cron_heap (Some 0)) = Some 3 \<and>
   independent_copy (ptr_view cj_obj (cronJob_view (\<lambda>h m. m) (\<lambda>h t. t)))
     (ptr_refs cj_obj (cronJob_refs (\<lambda>h m. {}) (\<lambda>h t. {})))
     sample_cron_heap (Some 0) (snd (cronJob_DeepCopy flat_copy flat_copy sample_cron_heap (Some 0)))
     (fst (cronJob_DeepCopy flat_copy flat_copy sample_cron_heap (Some 0)))"
proof -
  have "fst (cronJob_DeepCopy flat_copy flat_copy sample_cron_heap (Some 0)) = Some 3"
    by (simp add: cronJob_DeepCopy_def ptr_copy_def sample_cron_heap_def cronJob_DeepCopyInto_def
        cronJobSpec_DeepCopyInto_def cronJobStatus_DeepCopyInto_def flat_copy_def alloc_def)
  moreover have "ptr_refs cj_obj (cronJob_refs (\<lambda>h m. {}) (\<lambda>h t. {})) sample_cron_heap (Some 0)
      \<subseteq> {..<hp_next sample_cron_heap}"
    by (simp add: ptr_refs_def sample_cron_heap_def cronJob_refs_def cronSpec_refs_def cronStatus_refs_def)
  moreover have "ptr_refs cj_list (cronJobs_refs (\<lambda>h m. {}) (\<lambda>h t. {}) (\<lambda>h l. {})) sample_cron_heap None
      \<subseteq> {..<hp_next sample_cron_heap}"
    by (simp add: ptr_refs_def)
  ultimately show ?thesis
    using cronJob_DeepCopy_independent [OF flat_copier flat_copier flat_copier,
      of sample_cron_heap "Some 0" None] by blast
qed

end
