(* ===== verification/ApplyMeta.thy ===== *)
theory ApplyMeta
  imports KubeMeta
begin

text \<open>
  What the generated apply configurations share: the \<open>ObjectMetaApplyConfiguration\<close> they embed by
  pointer (a record of optional fields, like the client-go type), the loops that put entries into a
  map and append owner references, and the contract of a builder that updates its metadata in place.
  A builder method returns its receiver, so it is a function from the receiver to the receiver.
\<close>

section \<open>Metadata\<close>

record owner_ref_apply =
  oa_apiVersion :: "string option"
  oa_kind :: "string option"
  oa_name :: "string option"
  oa_uid :: "string option"
  oa_controller :: "bool option"

record meta_apply =
  ma_name :: "string option"
  ma_generateName :: "string option"
  ma_namespace :: "string option"
  ma_uid :: "string option"
  ma_resourceVersion :: "string option"
  ma_generation :: "64 word option"
  ma_creationTimestamp :: "gotime option"
  ma_deletionTimestamp :: "gotime option"
  ma_deletionGracePeriodSeconds :: "64 word option"
  ma_labels :: go_map
  ma_annotations :: go_map
  ma_ownerReferences :: "owner_ref_apply list"
  ma_finalizers :: "string list"

definition empty_meta_apply :: meta_apply where
  "empty_meta_apply = \<lparr>ma_name = None, ma_generateName = None, ma_namespace = None, ma_uid = None,
     ma_resourceVersion = None, ma_generation = None, ma_creationTimestamp = None,
     ma_deletionTimestamp = None, ma_deletionGracePeriodSeconds = None, ma_labels = None,
     ma_annotations = None, ma_ownerReferences = [], ma_finalizers = []\<rparr>"

text \<open>Metadata that is nil reads as the empty one.\<close>

definition meta_or_empty :: "meta_apply option \<Rightarrow> meta_apply" where
  "meta_or_empty m = (case m of None \<Rightarrow> empty_meta_apply | Some m \<Rightarrow> m)"

lemma meta_or_empty_simps [simp]:
  "meta_or_empty None = empty_meta_apply" "meta_or_empty (Some m) = m"
  by (simp_all add: meta_or_empty_def)

section \<open>Entries and owners\<close>

text \<open>A write to a nil map panics. The entries are those of a Go map, in the order of the range.\<close>

fun range_write :: "go_map \<Rightarrow> (string \<times> string) list \<Rightarrow> go_map go_out" where
  "range_write m [] = Ret m"
| "range_write m ((k, v) # es) =
     (case m of None \<Rightarrow> Panic ''assignment to entry in nil map''
      | Some f \<Rightarrow> range_write (Some (f(k \<mapsto> v))) es)"

definition put_entries :: "go_map \<Rightarrow> (string \<times> string) list \<Rightarrow> go_map go_out" where
  "put_entries m entries =
     range_write (if Option.is_none m \<and> 0 < length entries then Some Map.empty else m) entries"

text \<open>The variadic owners: a nil one panics, after those before it have been appended.\<close>

fun append_owners ::
    "owner_ref_apply list \<Rightarrow> owner_ref_apply option list \<Rightarrow> unit go_out \<times> owner_ref_apply list" where
  "append_owners refs [] = (Ret (), refs)"
| "append_owners refs (v # vs) =
     (case v of
        None \<Rightarrow> (Panic ''nil value passed to WithOwnerReferences'', refs)
      | Some r \<Rightarrow> append_owners (refs @ [r]) vs)"

text \<open>The loop that appends finalizers.\<close>

fun append_values :: "string list \<Rightarrow> string list \<Rightarrow> string list" where
  "append_values xs [] = xs"
| "append_values xs (v # vs) = append_values (xs @ [v]) vs"

lemma append_values_eq [simp]: "append_values xs vs = xs @ vs"
  by (induction vs arbitrary: xs) simp_all

lemma range_write_Some: "range_write (Some f) es = Ret (Some (range_assign f es))"
  by (induction f es rule: range_assign.induct) (simp_all del: fun_upd_apply)

text \<open>The entries are added over those that are there, never with a panic; no entries leave a nil map
  nil.\<close>

lemma put_entries_eq:
  "put_entries m es = Ret (if es = [] then m
     else Some (range_assign (case m of None \<Rightarrow> Map.empty | Some f \<Rightarrow> f) es))"
  by (cases m) (auto simp: put_entries_def range_write_Some)

lemma put_entries_map_of:
  assumes "distinct (map fst es)"
  shows "put_entries m es = Ret (if es = [] then m
    else Some ((case m of None \<Rightarrow> Map.empty | Some f \<Rightarrow> f) ++ map_of es))"
  using assms by (simp add: put_entries_eq range_assign_map_of)

lemma range_assign_append: "range_assign f (es @ fs) = range_assign (range_assign f es) fs"
  by (induction f es rule: range_assign.induct) (simp_all del: fun_upd_apply)

lemma put_entries_order:
  assumes "distinct (map fst es)" and "mset es = mset fs"
  shows "put_entries m es = put_entries m fs"
proof -
  have "distinct (map fst fs)"
    using assms by (metis mset_map mset_eq_imp_distinct_iff)
  moreover have "map_of es = map_of fs"
    using assms calculation by (metis map_of_inject_set mset_eq_setD)
  moreover have "es = [] \<longleftrightarrow> fs = []" using assms(2) by auto
  ultimately show ?thesis using assms(1) by (simp add: put_entries_map_of)
qed

lemma append_owners_eq:
  "append_owners refs vs =
     (if None \<in> set vs
      then (Panic ''nil value passed to WithOwnerReferences'',
            refs @ map the (takeWhile (\<lambda>v. v \<noteq> None) vs))
      else (Ret (), refs @ map the vs))"
  by (induction refs vs rule: append_owners.induct) (auto split: option.splits)

section \<open>Builders\<close>

text \<open>
  A configuration of any type: kind and version, the metadata behind a pointer that may be nil, and
  a specification and a status behind pointers of their own. The calls are those of its \<open>With\<close>
  methods; a call that panics ends a chain.
\<close>

record ('p, 't) apply_cfg =
  ac_kind :: "string option"
  ac_apiVersion :: "string option"
  ac_meta :: "meta_apply option"
  ac_spec :: "'p option"
  ac_status :: "'t option"

datatype ('p, 't) with_call =
    WKind string
  | WAPIVersion string
  | WName string
  | WGenerateName string
  | WNamespace string
  | WUID string
  | WResourceVersion string
  | WGeneration "64 word"
  | WCreationTimestamp gotime
  | WDeletionTimestamp gotime
  | WDeletionGracePeriodSeconds "64 word"
  | WLabels "(string \<times> string) list"
  | WAnnotations "(string \<times> string) list"
  | WOwnerReferences "owner_ref_apply option list"
  | WFinalizers "string list"
  | WSpec "'p option"
  | WStatus "'t option"

fun chain :: "('c \<Rightarrow> 'b \<Rightarrow> unit go_out \<times> 'b) \<Rightarrow> 'c list \<Rightarrow> 'b \<Rightarrow> unit go_out \<times> 'b" where
  "chain call [] b = (Ret (), b)"
| "chain call (c # cs) b =
     (case call c b of (Ret _, b) \<Rightarrow> chain call cs b | (Panic e, b) \<Rightarrow> (Panic e, b))"

text \<open>The configuration a chain describes, field by field: the value of the last call for a field, the
  entries and the values of all calls for a collection. It does not follow the calls one by one.\<close>

fun last_of :: "('c \<Rightarrow> 'v option) \<Rightarrow> 'v option \<Rightarrow> 'c list \<Rightarrow> 'v option" where
  "last_of sel d [] = d"
| "last_of sel d (c # cs) = last_of sel (case sel c of None \<Rightarrow> d | Some v \<Rightarrow> Some v) cs"

definition all_of :: "('c \<Rightarrow> 'v list) \<Rightarrow> 'c list \<Rightarrow> 'v list" where
  "all_of sel cs = concat (map sel cs)"

definition merged :: "go_map \<Rightarrow> (string \<times> string) list \<Rightarrow> go_map" where
  "merged m es = (if es = [] then m
     else Some (range_assign (case m of None \<Rightarrow> Map.empty | Some f \<Rightarrow> f) es))"

fun on_meta_call :: "('p, 't) with_call \<Rightarrow> bool" where
  "on_meta_call (WKind _) = False"
| "on_meta_call (WAPIVersion _) = False"
| "on_meta_call (WSpec _) = False"
| "on_meta_call (WStatus _) = False"
| "on_meta_call _ = True"

definition described_meta :: "('p, 't) with_call list \<Rightarrow> meta_apply \<Rightarrow> meta_apply" where
  "described_meta cs m = \<lparr>
     ma_name = last_of (\<lambda>c. case c of WName v \<Rightarrow> Some v | _ \<Rightarrow> None) (ma_name m) cs,
     ma_generateName = last_of (\<lambda>c. case c of WGenerateName v \<Rightarrow> Some v | _ \<Rightarrow> None) (ma_generateName m) cs,
     ma_namespace = last_of (\<lambda>c. case c of WNamespace v \<Rightarrow> Some v | _ \<Rightarrow> None) (ma_namespace m) cs,
     ma_uid = last_of (\<lambda>c. case c of WUID v \<Rightarrow> Some v | _ \<Rightarrow> None) (ma_uid m) cs,
     ma_resourceVersion =
       last_of (\<lambda>c. case c of WResourceVersion v \<Rightarrow> Some v | _ \<Rightarrow> None) (ma_resourceVersion m) cs,
     ma_generation = last_of (\<lambda>c. case c of WGeneration v \<Rightarrow> Some v | _ \<Rightarrow> None) (ma_generation m) cs,
     ma_creationTimestamp =
       last_of (\<lambda>c. case c of WCreationTimestamp v \<Rightarrow> Some v | _ \<Rightarrow> None) (ma_creationTimestamp m) cs,
     ma_deletionTimestamp =
       last_of (\<lambda>c. case c of WDeletionTimestamp v \<Rightarrow> Some v | _ \<Rightarrow> None) (ma_deletionTimestamp m) cs,
     ma_deletionGracePeriodSeconds =
       last_of (\<lambda>c. case c of WDeletionGracePeriodSeconds v \<Rightarrow> Some v | _ \<Rightarrow> None)
         (ma_deletionGracePeriodSeconds m) cs,
     ma_labels = merged (ma_labels m) (all_of (\<lambda>c. case c of WLabels es \<Rightarrow> es | _ \<Rightarrow> []) cs),
     ma_annotations =
       merged (ma_annotations m) (all_of (\<lambda>c. case c of WAnnotations es \<Rightarrow> es | _ \<Rightarrow> []) cs),
     ma_ownerReferences =
       ma_ownerReferences m @ all_of (\<lambda>c. case c of WOwnerReferences vs \<Rightarrow> map the vs | _ \<Rightarrow> []) cs,
     ma_finalizers = ma_finalizers m @ all_of (\<lambda>c. case c of WFinalizers vs \<Rightarrow> vs | _ \<Rightarrow> []) cs\<rparr>"

definition described :: "('p, 't) with_call list \<Rightarrow> ('p, 't) apply_cfg \<Rightarrow> ('p, 't) apply_cfg" where
  "described cs b = \<lparr>
     ac_kind = last_of (\<lambda>c. case c of WKind v \<Rightarrow> Some v | _ \<Rightarrow> None) (ac_kind b) cs,
     ac_apiVersion = last_of (\<lambda>c. case c of WAPIVersion v \<Rightarrow> Some v | _ \<Rightarrow> None) (ac_apiVersion b) cs,
     ac_meta = (if list_ex on_meta_call cs then Some (described_meta cs (meta_or_empty (ac_meta b)))
       else ac_meta b),
     ac_spec = Option.bind
       (last_of (\<lambda>c. case c of WSpec v \<Rightarrow> Some v | _ \<Rightarrow> None) (Some (ac_spec b)) cs) (\<lambda>v. v),
     ac_status = Option.bind
       (last_of (\<lambda>c. case c of WStatus v \<Rightarrow> Some v | _ \<Rightarrow> None) (Some (ac_status b)) cs) (\<lambda>v. v)\<rparr>"

fun nil_owner :: "('p, 't) with_call \<Rightarrow> bool" where
  "nil_owner (WOwnerReferences vs) = (None \<in> set vs)"
| "nil_owner _ = False"

lemma all_of_simps [simp]:
  "all_of sel [] = []" "all_of sel (c # cs) = sel c @ all_of sel cs"
  by (simp_all add: all_of_def)

lemma merged_merged [simp]: "merged (merged m es) fs = merged m (es @ fs)"
  by (auto simp: merged_def range_assign_append split: option.splits)

lemma merged_Nil [simp]: "merged m [] = m"
  by (simp add: merged_def)

lemma put_entries_merged: "put_entries m es = Ret (merged m es)"
  by (simp add: put_entries_eq merged_def)

lemma described_meta_Nil: "described_meta [] m = m"
  by (simp add: described_meta_def)

lemma described_meta_Cons: "described_meta (c # cs) m = described_meta cs (described_meta [c] m)"
  by (cases c) (simp_all add: described_meta_def)

lemma described_meta_other: "\<not> list_ex on_meta_call cs \<Longrightarrow> described_meta cs m = m"
proof (induction cs arbitrary: m)
  case Nil
  then show ?case by (simp add: described_meta_Nil)
next
  case (Cons c cs)
  then have "described_meta [c] m = m" by (cases c) (simp_all add: described_meta_def)
  with Cons show ?case by (simp add: described_meta_Cons [of c cs])
qed

lemma not_on_meta_name:
  "\<not> list_ex on_meta_call cs \<Longrightarrow> last_of (\<lambda>c. case c of WName v \<Rightarrow> Some v | _ \<Rightarrow> None) d cs = d"
  by (induction cs arbitrary: d) (auto split: with_call.splits)

lemma described_Cons: "described (c # cs) b = described cs (described [c] b)"
proof (rule apply_cfg.equality)
  have n: "described_meta [c] x = x" if "\<not> on_meta_call c" for x
    using that by (simp add: described_meta_other)
  show "ac_meta (described (c # cs) b) = ac_meta (described cs (described [c] b))"
    by (cases "list_ex on_meta_call cs"; cases "on_meta_call c")
       (simp_all add: described_def described_meta_Cons [of c cs] n described_meta_other)
qed (cases c; simp add: described_def)+

text \<open>What one call has to do: it panics exactly for a nil owner, and otherwise it makes the
  configuration it describes.\<close>

locale apply_builder =
  fixes call :: "('p, 't) with_call \<Rightarrow> 'b \<Rightarrow> unit go_out \<times> 'b"
    and view :: "'b \<Rightarrow> ('p, 't) apply_cfg"
  assumes call_ok: "\<not> nil_owner c \<Longrightarrow> \<exists>b'. call c b = (Ret (), b') \<and> view b' = described [c] (view b)"
    and call_nil: "nil_owner c \<Longrightarrow> fst (call c b) = Panic ''nil value passed to WithOwnerReferences''"
begin

lemma chain_described:
  assumes "\<not> list_ex nil_owner cs"
  shows "fst (chain call cs b) = Ret ()" and "view (snd (chain call cs b)) = described cs (view b)"
  using assms
proof (induction cs arbitrary: b)
  case Nil
  { case 1 show ?case by simp }
  { case 2 show ?case by (simp add: described_def) }
next
  case (Cons c cs)
  { case 1
    then show ?case using call_ok [of c b] Cons.IH(1) by fastforce }
  { case 2
    then obtain b' where "call c b = (Ret (), b')" and "view b' = described [c] (view b)"
      using call_ok [of c b] by auto
    with 2 Cons.IH(2) [of b'] show ?case by (simp add: described_Cons [of c cs]) }
qed

lemma chain_nil:
  assumes "list_ex nil_owner cs"
  shows "fst (chain call cs b) = Panic ''nil value passed to WithOwnerReferences''"
  using assms
proof (induction cs arbitrary: b)
  case (Cons c cs)
  show ?case
  proof (cases "nil_owner c")
    case True
    then show ?thesis using call_nil [of c b] by (auto split: prod.splits)
  next
    case False
    with Cons show ?thesis using call_ok [of c b] by auto
  qed
qed simp

end

end
