(* ===== verification/GreeterApply.thy ===== *)
theory GreeterApply
  imports ApplyMeta GreeterAPI
begin

text \<open>
  The apply configurations of the Greeter API (\<open>pkg/generated/applyconfiguration\<close>): every \<open>With\<close>
  method, the constructors and \<open>ForKind\<close>. The builder interprets the contract of \<open>ApplyMeta\<close>.
\<close>

section \<open>Greeter\<close>

text \<open>The specification and the status of a Greeter, with every field optional.\<close>

record greeterSpec_apply =
  gaps_schedule :: "string option"
  gaps_message :: "string option"

record greeterStatus_apply =
  gapst_phase :: "string option"

record greeter_apply =
  gap_kind :: "string option"
  gap_apiVersion :: "string option"
  gap_meta :: "meta_apply option"
  gap_spec :: "greeterSpec_apply option"
  gap_status :: "greeterStatus_apply option"

definition greeterSpec :: greeterSpec_apply where
  "greeterSpec = \<lparr>gaps_schedule = None, gaps_message = None\<rparr>"

definition greeterSpec_WithSchedule :: "string \<Rightarrow> greeterSpec_apply \<Rightarrow> greeterSpec_apply" where
  "greeterSpec_WithSchedule value b = b\<lparr>gaps_schedule := Some value\<rparr>"

definition greeterSpec_WithMessage :: "string \<Rightarrow> greeterSpec_apply \<Rightarrow> greeterSpec_apply" where
  "greeterSpec_WithMessage value b = b\<lparr>gaps_message := Some value\<rparr>"

definition greeterStatus :: greeterStatus_apply where
  "greeterStatus = \<lparr>gapst_phase = None\<rparr>"

definition greeterStatus_WithPhase :: "string \<Rightarrow> greeterStatus_apply \<Rightarrow> greeterStatus_apply" where
  "greeterStatus_WithPhase value b = b\<lparr>gapst_phase := Some value\<rparr>"

text \<open>The metadata is made before it is written, and is not nil after.\<close>

definition greeter_ensureObjectMeta :: "greeter_apply \<Rightarrow> greeter_apply" where
  "greeter_ensureObjectMeta b = (if gap_meta b = None then b\<lparr>gap_meta := Some empty_meta_apply\<rparr> else b)"

definition greeter_on_meta :: "(meta_apply \<Rightarrow> meta_apply) \<Rightarrow> greeter_apply \<Rightarrow> greeter_apply" where
  "greeter_on_meta f b = b\<lparr>gap_meta := map_option f (gap_meta b)\<rparr>"

definition greeter_WithKind :: "string \<Rightarrow> greeter_apply \<Rightarrow> greeter_apply" where
  "greeter_WithKind value b = b\<lparr>gap_kind := Some value\<rparr>"

definition greeter_WithAPIVersion :: "string \<Rightarrow> greeter_apply \<Rightarrow> greeter_apply" where
  "greeter_WithAPIVersion value b = b\<lparr>gap_apiVersion := Some value\<rparr>"

definition greeter_WithName :: "string \<Rightarrow> greeter_apply \<Rightarrow> greeter_apply" where
  "greeter_WithName value b =
     (let b = greeter_ensureObjectMeta b in greeter_on_meta (\<lambda>m. m\<lparr>ma_name := Some value\<rparr>) b)"

definition greeter_WithGenerateName :: "string \<Rightarrow> greeter_apply \<Rightarrow> greeter_apply" where
  "greeter_WithGenerateName value b =
     (let b = greeter_ensureObjectMeta b in greeter_on_meta (\<lambda>m. m\<lparr>ma_generateName := Some value\<rparr>) b)"

definition greeter_WithNamespace :: "string \<Rightarrow> greeter_apply \<Rightarrow> greeter_apply" where
  "greeter_WithNamespace value b =
     (let b = greeter_ensureObjectMeta b in greeter_on_meta (\<lambda>m. m\<lparr>ma_namespace := Some value\<rparr>) b)"

definition greeter_WithUID :: "string \<Rightarrow> greeter_apply \<Rightarrow> greeter_apply" where
  "greeter_WithUID value b =
     (let b = greeter_ensureObjectMeta b in greeter_on_meta (\<lambda>m. m\<lparr>ma_uid := Some value\<rparr>) b)"

definition greeter_WithResourceVersion :: "string \<Rightarrow> greeter_apply \<Rightarrow> greeter_apply" where
  "greeter_WithResourceVersion value b =
     (let b = greeter_ensureObjectMeta b in greeter_on_meta (\<lambda>m. m\<lparr>ma_resourceVersion := Some value\<rparr>) b)"

definition greeter_WithGeneration :: "64 word \<Rightarrow> greeter_apply \<Rightarrow> greeter_apply" where
  "greeter_WithGeneration value b =
     (let b = greeter_ensureObjectMeta b in greeter_on_meta (\<lambda>m. m\<lparr>ma_generation := Some value\<rparr>) b)"

definition greeter_WithCreationTimestamp :: "gotime \<Rightarrow> greeter_apply \<Rightarrow> greeter_apply" where
  "greeter_WithCreationTimestamp value b =
     (let b = greeter_ensureObjectMeta b in greeter_on_meta (\<lambda>m. m\<lparr>ma_creationTimestamp := Some value\<rparr>) b)"

definition greeter_WithDeletionTimestamp :: "gotime \<Rightarrow> greeter_apply \<Rightarrow> greeter_apply" where
  "greeter_WithDeletionTimestamp value b =
     (let b = greeter_ensureObjectMeta b in greeter_on_meta (\<lambda>m. m\<lparr>ma_deletionTimestamp := Some value\<rparr>) b)"

definition greeter_WithDeletionGracePeriodSeconds :: "64 word \<Rightarrow> greeter_apply \<Rightarrow> greeter_apply" where
  "greeter_WithDeletionGracePeriodSeconds value b =
     (let b = greeter_ensureObjectMeta b in greeter_on_meta (\<lambda>m. m\<lparr>ma_deletionGracePeriodSeconds := Some value\<rparr>) b)"

definition greeter_WithLabels :: "(string \<times> string) list \<Rightarrow> greeter_apply \<Rightarrow> unit go_out \<times> greeter_apply" where
  "greeter_WithLabels entries b =
     (let b = greeter_ensureObjectMeta b
      in case put_entries (ma_labels (meta_or_empty (gap_meta b))) entries of
           Ret l \<Rightarrow> (Ret (), greeter_on_meta (\<lambda>m. m\<lparr>ma_labels := l\<rparr>) b)
         | Panic e \<Rightarrow> (Panic e, b))"

definition greeter_WithAnnotations :: "(string \<times> string) list \<Rightarrow> greeter_apply \<Rightarrow> unit go_out \<times> greeter_apply" where
  "greeter_WithAnnotations entries b =
     (let b = greeter_ensureObjectMeta b
      in case put_entries (ma_annotations (meta_or_empty (gap_meta b))) entries of
           Ret l \<Rightarrow> (Ret (), greeter_on_meta (\<lambda>m. m\<lparr>ma_annotations := l\<rparr>) b)
         | Panic e \<Rightarrow> (Panic e, b))"

definition greeter_WithOwnerReferences ::
    "owner_ref_apply option list \<Rightarrow> greeter_apply \<Rightarrow> unit go_out \<times> greeter_apply" where
  "greeter_WithOwnerReferences values b =
     (let b = greeter_ensureObjectMeta b;
          (r, refs) = append_owners (ma_ownerReferences (meta_or_empty (gap_meta b))) values
      in (r, greeter_on_meta (\<lambda>m. m\<lparr>ma_ownerReferences := refs\<rparr>) b))"

definition greeter_WithFinalizers :: "string list \<Rightarrow> greeter_apply \<Rightarrow> greeter_apply" where
  "greeter_WithFinalizers values b =
     (let b = greeter_ensureObjectMeta b
      in greeter_on_meta (\<lambda>m. m\<lparr>ma_finalizers := append_values (ma_finalizers m) values\<rparr>) b)"

definition greeter_WithSpec :: "greeterSpec_apply option \<Rightarrow> greeter_apply \<Rightarrow> greeter_apply" where
  "greeter_WithSpec value b = b\<lparr>gap_spec := value\<rparr>"

definition greeter_WithStatus :: "greeterStatus_apply option \<Rightarrow> greeter_apply \<Rightarrow> greeter_apply" where
  "greeter_WithStatus value b = b\<lparr>gap_status := value\<rparr>"

text \<open>The constructor, and the configuration \<open>&GreeterApplyConfiguration{}\<close> that is not made by it.\<close>

definition greeter_zero_apply :: greeter_apply where
  "greeter_zero_apply = \<lparr>gap_kind = None, gap_apiVersion = None, gap_meta = None, gap_spec = None, gap_status = None\<rparr>"

definition greeter_apply_new :: "string \<Rightarrow> string \<Rightarrow> greeter_apply" where
  "greeter_apply_new name namespace =
     (let b = greeter_zero_apply;
          b = greeter_WithName name b;
          b = greeter_WithNamespace namespace b;
          b = greeter_WithKind ''Greeter'' b;
          b = greeter_WithAPIVersion ''example.org/v1alpha1'' b
      in b)"

text \<open>Its methods as calls, and what it looks like as a configuration of any type.\<close>

fun greeter_with :: "(greeterSpec_apply, greeterStatus_apply) with_call \<Rightarrow> greeter_apply \<Rightarrow> unit go_out \<times> greeter_apply" where
  "greeter_with (WKind v) b = (Ret (), greeter_WithKind v b)"
| "greeter_with (WAPIVersion v) b = (Ret (), greeter_WithAPIVersion v b)"
| "greeter_with (WName v) b = (Ret (), greeter_WithName v b)"
| "greeter_with (WGenerateName v) b = (Ret (), greeter_WithGenerateName v b)"
| "greeter_with (WNamespace v) b = (Ret (), greeter_WithNamespace v b)"
| "greeter_with (WUID v) b = (Ret (), greeter_WithUID v b)"
| "greeter_with (WResourceVersion v) b = (Ret (), greeter_WithResourceVersion v b)"
| "greeter_with (WGeneration v) b = (Ret (), greeter_WithGeneration v b)"
| "greeter_with (WCreationTimestamp v) b = (Ret (), greeter_WithCreationTimestamp v b)"
| "greeter_with (WDeletionTimestamp v) b = (Ret (), greeter_WithDeletionTimestamp v b)"
| "greeter_with (WDeletionGracePeriodSeconds v) b = (Ret (), greeter_WithDeletionGracePeriodSeconds v b)"
| "greeter_with (WLabels es) b = greeter_WithLabels es b"
| "greeter_with (WAnnotations es) b = greeter_WithAnnotations es b"
| "greeter_with (WOwnerReferences vs) b = greeter_WithOwnerReferences vs b"
| "greeter_with (WFinalizers vs) b = (Ret (), greeter_WithFinalizers vs b)"
| "greeter_with (WSpec v) b = (Ret (), greeter_WithSpec v b)"
| "greeter_with (WStatus v) b = (Ret (), greeter_WithStatus v b)"

definition greeter_cfg :: "greeter_apply \<Rightarrow> (greeterSpec_apply, greeterStatus_apply) apply_cfg" where
  "greeter_cfg b = \<lparr>ac_kind = gap_kind b, ac_apiVersion = gap_apiVersion b, ac_meta = gap_meta b,
     ac_spec = gap_spec b, ac_status = gap_status b\<rparr>"

lemmas greeter_with_defs = greeter_ensureObjectMeta_def greeter_on_meta_def greeter_WithKind_def
  greeter_WithAPIVersion_def greeter_WithName_def greeter_WithGenerateName_def greeter_WithNamespace_def
  greeter_WithUID_def greeter_WithResourceVersion_def greeter_WithGeneration_def
  greeter_WithCreationTimestamp_def greeter_WithDeletionTimestamp_def
  greeter_WithDeletionGracePeriodSeconds_def greeter_WithLabels_def greeter_WithAnnotations_def
  greeter_WithOwnerReferences_def greeter_WithFinalizers_def greeter_WithSpec_def greeter_WithStatus_def

interpretation greeter_builder: apply_builder greeter_with greeter_cfg
proof
  fix c :: "(greeterSpec_apply, greeterStatus_apply) with_call" and b :: greeter_apply
  show "\<exists>b'. greeter_with c b = (Ret (), b') \<and> greeter_cfg b' = described [c] (greeter_cfg b)" if "\<not> nil_owner c"
    using that by (cases c; cases "gap_meta b")
      (simp_all add: greeter_with_defs greeter_cfg_def described_def described_meta_def empty_meta_apply_def
        put_entries_merged append_owners_eq)
  show "fst (greeter_with c b) = Panic ''nil value passed to WithOwnerReferences''" if "nil_owner c"
    using that by (cases c) (simp_all add: greeter_WithOwnerReferences_def append_owners_eq Let_def)
qed

lemma greeter_apply_new_eq:
  "greeter_cfg (greeter_apply_new name namespace) = \<lparr>ac_kind = Some ''Greeter'', ac_apiVersion = Some ''example.org/v1alpha1'',
     ac_meta = Some (empty_meta_apply\<lparr>ma_name := Some name, ma_namespace := Some namespace\<rparr>),
     ac_spec = None, ac_status = None\<rparr>"
  by (simp add: greeter_apply_new_def greeter_zero_apply_def greeter_with_defs greeter_cfg_def empty_meta_apply_def)

section \<open>The configuration of a kind\<close>

datatype greeter_config =
    GreeterConfig greeter_apply
  | GreeterSpecConfig greeterSpec_apply
  | GreeterStatusConfig greeterStatus_apply

definition greeter_ForKind :: "gvk \<Rightarrow> greeter_config option" where
  "greeter_ForKind kind =
     (if kind = with_kind SchemeGroupVersion ''Greeter'' then Some (GreeterConfig greeter_zero_apply)
      else if kind = with_kind SchemeGroupVersion ''GreeterSpec'' then Some (GreeterSpecConfig greeterSpec)
      else if kind = with_kind SchemeGroupVersion ''GreeterStatus'' then Some (GreeterStatusConfig greeterStatus)
      else None)"

end
