(* ===== verification/SampleApplyV1.thy ===== *)
theory SampleApplyV1
  imports ApplyMeta
begin

text \<open>
  The apply configurations of the sample API, version v1alpha1
  (\<open>sample-controller/pkg/applyconfiguration/sample/v1alpha1\<close>): a resource of the cluster and one of
  a namespace. Both interpret the contract of \<open>ApplyMeta\<close>.
\<close>

section \<open>ClusterResource of v1alpha1\<close>

text \<open>The specification and the status of a ClusterResource, with every field optional.\<close>

record clusterV1Spec_apply =
  cv1s_name :: "string option"
  cv1s_replicas :: "32 word option"

record clusterV1Status_apply =
  cv1st_availableReplicas :: "32 word option"

record clusterV1_apply =
  cv1_kind :: "string option"
  cv1_apiVersion :: "string option"
  cv1_meta :: "meta_apply option"
  cv1_spec :: "clusterV1Spec_apply option"
  cv1_status :: "clusterV1Status_apply option"

definition clusterV1Spec :: clusterV1Spec_apply where
  "clusterV1Spec = \<lparr>cv1s_name = None, cv1s_replicas = None\<rparr>"

definition clusterV1Spec_WithName :: "string \<Rightarrow> clusterV1Spec_apply \<Rightarrow> clusterV1Spec_apply" where
  "clusterV1Spec_WithName value b = b\<lparr>cv1s_name := Some value\<rparr>"

definition clusterV1Spec_WithReplicas :: "32 word \<Rightarrow> clusterV1Spec_apply \<Rightarrow> clusterV1Spec_apply" where
  "clusterV1Spec_WithReplicas value b = b\<lparr>cv1s_replicas := Some value\<rparr>"

definition clusterV1Status :: clusterV1Status_apply where
  "clusterV1Status = \<lparr>cv1st_availableReplicas = None\<rparr>"

definition clusterV1Status_WithAvailableReplicas :: "32 word \<Rightarrow> clusterV1Status_apply \<Rightarrow> clusterV1Status_apply" where
  "clusterV1Status_WithAvailableReplicas value b = b\<lparr>cv1st_availableReplicas := Some value\<rparr>"

text \<open>The metadata is made before it is written, and is not nil after.\<close>

definition clusterV1_ensureObjectMeta :: "clusterV1_apply \<Rightarrow> clusterV1_apply" where
  "clusterV1_ensureObjectMeta b = (if cv1_meta b = None then b\<lparr>cv1_meta := Some empty_meta_apply\<rparr> else b)"

definition clusterV1_on_meta :: "(meta_apply \<Rightarrow> meta_apply) \<Rightarrow> clusterV1_apply \<Rightarrow> clusterV1_apply" where
  "clusterV1_on_meta f b = b\<lparr>cv1_meta := map_option f (cv1_meta b)\<rparr>"

definition clusterV1_WithKind :: "string \<Rightarrow> clusterV1_apply \<Rightarrow> clusterV1_apply" where
  "clusterV1_WithKind value b = b\<lparr>cv1_kind := Some value\<rparr>"

definition clusterV1_WithAPIVersion :: "string \<Rightarrow> clusterV1_apply \<Rightarrow> clusterV1_apply" where
  "clusterV1_WithAPIVersion value b = b\<lparr>cv1_apiVersion := Some value\<rparr>"

definition clusterV1_WithName :: "string \<Rightarrow> clusterV1_apply \<Rightarrow> clusterV1_apply" where
  "clusterV1_WithName value b =
     (let b = clusterV1_ensureObjectMeta b in clusterV1_on_meta (\<lambda>m. m\<lparr>ma_name := Some value\<rparr>) b)"

definition clusterV1_WithGenerateName :: "string \<Rightarrow> clusterV1_apply \<Rightarrow> clusterV1_apply" where
  "clusterV1_WithGenerateName value b =
     (let b = clusterV1_ensureObjectMeta b in clusterV1_on_meta (\<lambda>m. m\<lparr>ma_generateName := Some value\<rparr>) b)"

definition clusterV1_WithNamespace :: "string \<Rightarrow> clusterV1_apply \<Rightarrow> clusterV1_apply" where
  "clusterV1_WithNamespace value b =
     (let b = clusterV1_ensureObjectMeta b in clusterV1_on_meta (\<lambda>m. m\<lparr>ma_namespace := Some value\<rparr>) b)"

definition clusterV1_WithUID :: "string \<Rightarrow> clusterV1_apply \<Rightarrow> clusterV1_apply" where
  "clusterV1_WithUID value b =
     (let b = clusterV1_ensureObjectMeta b in clusterV1_on_meta (\<lambda>m. m\<lparr>ma_uid := Some value\<rparr>) b)"

definition clusterV1_WithResourceVersion :: "string \<Rightarrow> clusterV1_apply \<Rightarrow> clusterV1_apply" where
  "clusterV1_WithResourceVersion value b =
     (let b = clusterV1_ensureObjectMeta b in clusterV1_on_meta (\<lambda>m. m\<lparr>ma_resourceVersion := Some value\<rparr>) b)"

definition clusterV1_WithGeneration :: "64 word \<Rightarrow> clusterV1_apply \<Rightarrow> clusterV1_apply" where
  "clusterV1_WithGeneration value b =
     (let b = clusterV1_ensureObjectMeta b in clusterV1_on_meta (\<lambda>m. m\<lparr>ma_generation := Some value\<rparr>) b)"

definition clusterV1_WithCreationTimestamp :: "gotime \<Rightarrow> clusterV1_apply \<Rightarrow> clusterV1_apply" where
  "clusterV1_WithCreationTimestamp value b =
     (let b = clusterV1_ensureObjectMeta b in clusterV1_on_meta (\<lambda>m. m\<lparr>ma_creationTimestamp := Some value\<rparr>) b)"

definition clusterV1_WithDeletionTimestamp :: "gotime \<Rightarrow> clusterV1_apply \<Rightarrow> clusterV1_apply" where
  "clusterV1_WithDeletionTimestamp value b =
     (let b = clusterV1_ensureObjectMeta b in clusterV1_on_meta (\<lambda>m. m\<lparr>ma_deletionTimestamp := Some value\<rparr>) b)"

definition clusterV1_WithDeletionGracePeriodSeconds :: "64 word \<Rightarrow> clusterV1_apply \<Rightarrow> clusterV1_apply" where
  "clusterV1_WithDeletionGracePeriodSeconds value b =
     (let b = clusterV1_ensureObjectMeta b in clusterV1_on_meta (\<lambda>m. m\<lparr>ma_deletionGracePeriodSeconds := Some value\<rparr>) b)"

definition clusterV1_WithLabels :: "(string \<times> string) list \<Rightarrow> clusterV1_apply \<Rightarrow> unit go_out \<times> clusterV1_apply" where
  "clusterV1_WithLabels entries b =
     (let b = clusterV1_ensureObjectMeta b
      in case put_entries (ma_labels (meta_or_empty (cv1_meta b))) entries of
           Ret l \<Rightarrow> (Ret (), clusterV1_on_meta (\<lambda>m. m\<lparr>ma_labels := l\<rparr>) b)
         | Panic e \<Rightarrow> (Panic e, b))"

definition clusterV1_WithAnnotations :: "(string \<times> string) list \<Rightarrow> clusterV1_apply \<Rightarrow> unit go_out \<times> clusterV1_apply" where
  "clusterV1_WithAnnotations entries b =
     (let b = clusterV1_ensureObjectMeta b
      in case put_entries (ma_annotations (meta_or_empty (cv1_meta b))) entries of
           Ret l \<Rightarrow> (Ret (), clusterV1_on_meta (\<lambda>m. m\<lparr>ma_annotations := l\<rparr>) b)
         | Panic e \<Rightarrow> (Panic e, b))"

definition clusterV1_WithOwnerReferences ::
    "owner_ref_apply option list \<Rightarrow> clusterV1_apply \<Rightarrow> unit go_out \<times> clusterV1_apply" where
  "clusterV1_WithOwnerReferences values b =
     (let b = clusterV1_ensureObjectMeta b;
          (r, refs) = append_owners (ma_ownerReferences (meta_or_empty (cv1_meta b))) values
      in (r, clusterV1_on_meta (\<lambda>m. m\<lparr>ma_ownerReferences := refs\<rparr>) b))"

definition clusterV1_WithFinalizers :: "string list \<Rightarrow> clusterV1_apply \<Rightarrow> clusterV1_apply" where
  "clusterV1_WithFinalizers values b =
     (let b = clusterV1_ensureObjectMeta b
      in clusterV1_on_meta (\<lambda>m. m\<lparr>ma_finalizers := append_values (ma_finalizers m) values\<rparr>) b)"

definition clusterV1_WithSpec :: "clusterV1Spec_apply option \<Rightarrow> clusterV1_apply \<Rightarrow> clusterV1_apply" where
  "clusterV1_WithSpec value b = b\<lparr>cv1_spec := value\<rparr>"

definition clusterV1_WithStatus :: "clusterV1Status_apply option \<Rightarrow> clusterV1_apply \<Rightarrow> clusterV1_apply" where
  "clusterV1_WithStatus value b = b\<lparr>cv1_status := value\<rparr>"

text \<open>The constructor, and the configuration \<open>&ClusterResourceApplyConfiguration{}\<close> that is not made by it.\<close>

definition clusterV1_zero_apply :: clusterV1_apply where
  "clusterV1_zero_apply = \<lparr>cv1_kind = None, cv1_apiVersion = None, cv1_meta = None, cv1_spec = None, cv1_status = None\<rparr>"

definition clusterV1_apply_new :: "string \<Rightarrow> clusterV1_apply" where
  "clusterV1_apply_new name =
     (let b = clusterV1_zero_apply;
          b = clusterV1_WithName name b;
          b = clusterV1_WithKind ''ClusterResource'' b;
          b = clusterV1_WithAPIVersion ''sample.example.org/v1alpha1'' b
      in b)"

text \<open>Its methods as calls, and what it looks like as a configuration of any type.\<close>

fun clusterV1_with :: "(clusterV1Spec_apply, clusterV1Status_apply) with_call \<Rightarrow> clusterV1_apply \<Rightarrow> unit go_out \<times> clusterV1_apply" where
  "clusterV1_with (WKind v) b = (Ret (), clusterV1_WithKind v b)"
| "clusterV1_with (WAPIVersion v) b = (Ret (), clusterV1_WithAPIVersion v b)"
| "clusterV1_with (WName v) b = (Ret (), clusterV1_WithName v b)"
| "clusterV1_with (WGenerateName v) b = (Ret (), clusterV1_WithGenerateName v b)"
| "clusterV1_with (WNamespace v) b = (Ret (), clusterV1_WithNamespace v b)"
| "clusterV1_with (WUID v) b = (Ret (), clusterV1_WithUID v b)"
| "clusterV1_with (WResourceVersion v) b = (Ret (), clusterV1_WithResourceVersion v b)"
| "clusterV1_with (WGeneration v) b = (Ret (), clusterV1_WithGeneration v b)"
| "clusterV1_with (WCreationTimestamp v) b = (Ret (), clusterV1_WithCreationTimestamp v b)"
| "clusterV1_with (WDeletionTimestamp v) b = (Ret (), clusterV1_WithDeletionTimestamp v b)"
| "clusterV1_with (WDeletionGracePeriodSeconds v) b = (Ret (), clusterV1_WithDeletionGracePeriodSeconds v b)"
| "clusterV1_with (WLabels es) b = clusterV1_WithLabels es b"
| "clusterV1_with (WAnnotations es) b = clusterV1_WithAnnotations es b"
| "clusterV1_with (WOwnerReferences vs) b = clusterV1_WithOwnerReferences vs b"
| "clusterV1_with (WFinalizers vs) b = (Ret (), clusterV1_WithFinalizers vs b)"
| "clusterV1_with (WSpec v) b = (Ret (), clusterV1_WithSpec v b)"
| "clusterV1_with (WStatus v) b = (Ret (), clusterV1_WithStatus v b)"

definition clusterV1_cfg :: "clusterV1_apply \<Rightarrow> (clusterV1Spec_apply, clusterV1Status_apply) apply_cfg" where
  "clusterV1_cfg b = \<lparr>ac_kind = cv1_kind b, ac_apiVersion = cv1_apiVersion b, ac_meta = cv1_meta b,
     ac_spec = cv1_spec b, ac_status = cv1_status b\<rparr>"

lemmas clusterV1_with_defs = clusterV1_ensureObjectMeta_def clusterV1_on_meta_def clusterV1_WithKind_def
  clusterV1_WithAPIVersion_def clusterV1_WithName_def clusterV1_WithGenerateName_def clusterV1_WithNamespace_def
  clusterV1_WithUID_def clusterV1_WithResourceVersion_def clusterV1_WithGeneration_def
  clusterV1_WithCreationTimestamp_def clusterV1_WithDeletionTimestamp_def
  clusterV1_WithDeletionGracePeriodSeconds_def clusterV1_WithLabels_def clusterV1_WithAnnotations_def
  clusterV1_WithOwnerReferences_def clusterV1_WithFinalizers_def clusterV1_WithSpec_def clusterV1_WithStatus_def

interpretation clusterV1_builder: apply_builder clusterV1_with clusterV1_cfg
proof
  fix c :: "(clusterV1Spec_apply, clusterV1Status_apply) with_call" and b :: clusterV1_apply
  show "\<exists>b'. clusterV1_with c b = (Ret (), b') \<and> clusterV1_cfg b' = described [c] (clusterV1_cfg b)" if "\<not> nil_owner c"
    using that by (cases c; cases "cv1_meta b")
      (simp_all add: clusterV1_with_defs clusterV1_cfg_def described_def described_meta_def empty_meta_apply_def
        put_entries_merged append_owners_eq)
  show "fst (clusterV1_with c b) = Panic ''nil value passed to WithOwnerReferences''" if "nil_owner c"
    using that by (cases c) (simp_all add: clusterV1_WithOwnerReferences_def append_owners_eq Let_def)
qed

lemma clusterV1_apply_new_eq:
  "clusterV1_cfg (clusterV1_apply_new name) = \<lparr>ac_kind = Some ''ClusterResource'', ac_apiVersion = Some ''sample.example.org/v1alpha1'',
     ac_meta = Some (empty_meta_apply\<lparr>ma_name := Some name\<rparr>),
     ac_spec = None, ac_status = None\<rparr>"
  by (simp add: clusterV1_apply_new_def clusterV1_zero_apply_def clusterV1_with_defs clusterV1_cfg_def empty_meta_apply_def)

section \<open>NamespacedResource of v1alpha1\<close>

text \<open>The specification and the status of a NamespacedResource, with every field optional.\<close>

record namespacedV1Spec_apply =
  nv1s_name :: "string option"
  nv1s_replicas :: "32 word option"

record namespacedV1Status_apply =
  nv1st_availableReplicas :: "32 word option"

record namespacedV1_apply =
  nv1_kind :: "string option"
  nv1_apiVersion :: "string option"
  nv1_meta :: "meta_apply option"
  nv1_spec :: "namespacedV1Spec_apply option"
  nv1_status :: "namespacedV1Status_apply option"

definition namespacedV1Spec :: namespacedV1Spec_apply where
  "namespacedV1Spec = \<lparr>nv1s_name = None, nv1s_replicas = None\<rparr>"

definition namespacedV1Spec_WithName :: "string \<Rightarrow> namespacedV1Spec_apply \<Rightarrow> namespacedV1Spec_apply" where
  "namespacedV1Spec_WithName value b = b\<lparr>nv1s_name := Some value\<rparr>"

definition namespacedV1Spec_WithReplicas :: "32 word \<Rightarrow> namespacedV1Spec_apply \<Rightarrow> namespacedV1Spec_apply" where
  "namespacedV1Spec_WithReplicas value b = b\<lparr>nv1s_replicas := Some value\<rparr>"

definition namespacedV1Status :: namespacedV1Status_apply where
  "namespacedV1Status = \<lparr>nv1st_availableReplicas = None\<rparr>"

definition namespacedV1Status_WithAvailableReplicas :: "32 word \<Rightarrow> namespacedV1Status_apply \<Rightarrow> namespacedV1Status_apply" where
  "namespacedV1Status_WithAvailableReplicas value b = b\<lparr>nv1st_availableReplicas := Some value\<rparr>"

text \<open>The metadata is made before it is written, and is not nil after.\<close>

definition namespacedV1_ensureObjectMeta :: "namespacedV1_apply \<Rightarrow> namespacedV1_apply" where
  "namespacedV1_ensureObjectMeta b = (if nv1_meta b = None then b\<lparr>nv1_meta := Some empty_meta_apply\<rparr> else b)"

definition namespacedV1_on_meta :: "(meta_apply \<Rightarrow> meta_apply) \<Rightarrow> namespacedV1_apply \<Rightarrow> namespacedV1_apply" where
  "namespacedV1_on_meta f b = b\<lparr>nv1_meta := map_option f (nv1_meta b)\<rparr>"

definition namespacedV1_WithKind :: "string \<Rightarrow> namespacedV1_apply \<Rightarrow> namespacedV1_apply" where
  "namespacedV1_WithKind value b = b\<lparr>nv1_kind := Some value\<rparr>"

definition namespacedV1_WithAPIVersion :: "string \<Rightarrow> namespacedV1_apply \<Rightarrow> namespacedV1_apply" where
  "namespacedV1_WithAPIVersion value b = b\<lparr>nv1_apiVersion := Some value\<rparr>"

definition namespacedV1_WithName :: "string \<Rightarrow> namespacedV1_apply \<Rightarrow> namespacedV1_apply" where
  "namespacedV1_WithName value b =
     (let b = namespacedV1_ensureObjectMeta b in namespacedV1_on_meta (\<lambda>m. m\<lparr>ma_name := Some value\<rparr>) b)"

definition namespacedV1_WithGenerateName :: "string \<Rightarrow> namespacedV1_apply \<Rightarrow> namespacedV1_apply" where
  "namespacedV1_WithGenerateName value b =
     (let b = namespacedV1_ensureObjectMeta b in namespacedV1_on_meta (\<lambda>m. m\<lparr>ma_generateName := Some value\<rparr>) b)"

definition namespacedV1_WithNamespace :: "string \<Rightarrow> namespacedV1_apply \<Rightarrow> namespacedV1_apply" where
  "namespacedV1_WithNamespace value b =
     (let b = namespacedV1_ensureObjectMeta b in namespacedV1_on_meta (\<lambda>m. m\<lparr>ma_namespace := Some value\<rparr>) b)"

definition namespacedV1_WithUID :: "string \<Rightarrow> namespacedV1_apply \<Rightarrow> namespacedV1_apply" where
  "namespacedV1_WithUID value b =
     (let b = namespacedV1_ensureObjectMeta b in namespacedV1_on_meta (\<lambda>m. m\<lparr>ma_uid := Some value\<rparr>) b)"

definition namespacedV1_WithResourceVersion :: "string \<Rightarrow> namespacedV1_apply \<Rightarrow> namespacedV1_apply" where
  "namespacedV1_WithResourceVersion value b =
     (let b = namespacedV1_ensureObjectMeta b in namespacedV1_on_meta (\<lambda>m. m\<lparr>ma_resourceVersion := Some value\<rparr>) b)"

definition namespacedV1_WithGeneration :: "64 word \<Rightarrow> namespacedV1_apply \<Rightarrow> namespacedV1_apply" where
  "namespacedV1_WithGeneration value b =
     (let b = namespacedV1_ensureObjectMeta b in namespacedV1_on_meta (\<lambda>m. m\<lparr>ma_generation := Some value\<rparr>) b)"

definition namespacedV1_WithCreationTimestamp :: "gotime \<Rightarrow> namespacedV1_apply \<Rightarrow> namespacedV1_apply" where
  "namespacedV1_WithCreationTimestamp value b =
     (let b = namespacedV1_ensureObjectMeta b in namespacedV1_on_meta (\<lambda>m. m\<lparr>ma_creationTimestamp := Some value\<rparr>) b)"

definition namespacedV1_WithDeletionTimestamp :: "gotime \<Rightarrow> namespacedV1_apply \<Rightarrow> namespacedV1_apply" where
  "namespacedV1_WithDeletionTimestamp value b =
     (let b = namespacedV1_ensureObjectMeta b in namespacedV1_on_meta (\<lambda>m. m\<lparr>ma_deletionTimestamp := Some value\<rparr>) b)"

definition namespacedV1_WithDeletionGracePeriodSeconds :: "64 word \<Rightarrow> namespacedV1_apply \<Rightarrow> namespacedV1_apply" where
  "namespacedV1_WithDeletionGracePeriodSeconds value b =
     (let b = namespacedV1_ensureObjectMeta b in namespacedV1_on_meta (\<lambda>m. m\<lparr>ma_deletionGracePeriodSeconds := Some value\<rparr>) b)"

definition namespacedV1_WithLabels :: "(string \<times> string) list \<Rightarrow> namespacedV1_apply \<Rightarrow> unit go_out \<times> namespacedV1_apply" where
  "namespacedV1_WithLabels entries b =
     (let b = namespacedV1_ensureObjectMeta b
      in case put_entries (ma_labels (meta_or_empty (nv1_meta b))) entries of
           Ret l \<Rightarrow> (Ret (), namespacedV1_on_meta (\<lambda>m. m\<lparr>ma_labels := l\<rparr>) b)
         | Panic e \<Rightarrow> (Panic e, b))"

definition namespacedV1_WithAnnotations :: "(string \<times> string) list \<Rightarrow> namespacedV1_apply \<Rightarrow> unit go_out \<times> namespacedV1_apply" where
  "namespacedV1_WithAnnotations entries b =
     (let b = namespacedV1_ensureObjectMeta b
      in case put_entries (ma_annotations (meta_or_empty (nv1_meta b))) entries of
           Ret l \<Rightarrow> (Ret (), namespacedV1_on_meta (\<lambda>m. m\<lparr>ma_annotations := l\<rparr>) b)
         | Panic e \<Rightarrow> (Panic e, b))"

definition namespacedV1_WithOwnerReferences ::
    "owner_ref_apply option list \<Rightarrow> namespacedV1_apply \<Rightarrow> unit go_out \<times> namespacedV1_apply" where
  "namespacedV1_WithOwnerReferences values b =
     (let b = namespacedV1_ensureObjectMeta b;
          (r, refs) = append_owners (ma_ownerReferences (meta_or_empty (nv1_meta b))) values
      in (r, namespacedV1_on_meta (\<lambda>m. m\<lparr>ma_ownerReferences := refs\<rparr>) b))"

definition namespacedV1_WithFinalizers :: "string list \<Rightarrow> namespacedV1_apply \<Rightarrow> namespacedV1_apply" where
  "namespacedV1_WithFinalizers values b =
     (let b = namespacedV1_ensureObjectMeta b
      in namespacedV1_on_meta (\<lambda>m. m\<lparr>ma_finalizers := append_values (ma_finalizers m) values\<rparr>) b)"

definition namespacedV1_WithSpec :: "namespacedV1Spec_apply option \<Rightarrow> namespacedV1_apply \<Rightarrow> namespacedV1_apply" where
  "namespacedV1_WithSpec value b = b\<lparr>nv1_spec := value\<rparr>"

definition namespacedV1_WithStatus :: "namespacedV1Status_apply option \<Rightarrow> namespacedV1_apply \<Rightarrow> namespacedV1_apply" where
  "namespacedV1_WithStatus value b = b\<lparr>nv1_status := value\<rparr>"

text \<open>The constructor, and the configuration \<open>&NamespacedResourceApplyConfiguration{}\<close> that is not made by it.\<close>

definition namespacedV1_zero_apply :: namespacedV1_apply where
  "namespacedV1_zero_apply = \<lparr>nv1_kind = None, nv1_apiVersion = None, nv1_meta = None, nv1_spec = None, nv1_status = None\<rparr>"

definition namespacedV1_apply_new :: "string \<Rightarrow> string \<Rightarrow> namespacedV1_apply" where
  "namespacedV1_apply_new name namespace =
     (let b = namespacedV1_zero_apply;
          b = namespacedV1_WithName name b;
          b = namespacedV1_WithNamespace namespace b;
          b = namespacedV1_WithKind ''NamespacedResource'' b;
          b = namespacedV1_WithAPIVersion ''sample.example.org/v1alpha1'' b
      in b)"

text \<open>Its methods as calls, and what it looks like as a configuration of any type.\<close>

fun namespacedV1_with :: "(namespacedV1Spec_apply, namespacedV1Status_apply) with_call \<Rightarrow> namespacedV1_apply \<Rightarrow> unit go_out \<times> namespacedV1_apply" where
  "namespacedV1_with (WKind v) b = (Ret (), namespacedV1_WithKind v b)"
| "namespacedV1_with (WAPIVersion v) b = (Ret (), namespacedV1_WithAPIVersion v b)"
| "namespacedV1_with (WName v) b = (Ret (), namespacedV1_WithName v b)"
| "namespacedV1_with (WGenerateName v) b = (Ret (), namespacedV1_WithGenerateName v b)"
| "namespacedV1_with (WNamespace v) b = (Ret (), namespacedV1_WithNamespace v b)"
| "namespacedV1_with (WUID v) b = (Ret (), namespacedV1_WithUID v b)"
| "namespacedV1_with (WResourceVersion v) b = (Ret (), namespacedV1_WithResourceVersion v b)"
| "namespacedV1_with (WGeneration v) b = (Ret (), namespacedV1_WithGeneration v b)"
| "namespacedV1_with (WCreationTimestamp v) b = (Ret (), namespacedV1_WithCreationTimestamp v b)"
| "namespacedV1_with (WDeletionTimestamp v) b = (Ret (), namespacedV1_WithDeletionTimestamp v b)"
| "namespacedV1_with (WDeletionGracePeriodSeconds v) b = (Ret (), namespacedV1_WithDeletionGracePeriodSeconds v b)"
| "namespacedV1_with (WLabels es) b = namespacedV1_WithLabels es b"
| "namespacedV1_with (WAnnotations es) b = namespacedV1_WithAnnotations es b"
| "namespacedV1_with (WOwnerReferences vs) b = namespacedV1_WithOwnerReferences vs b"
| "namespacedV1_with (WFinalizers vs) b = (Ret (), namespacedV1_WithFinalizers vs b)"
| "namespacedV1_with (WSpec v) b = (Ret (), namespacedV1_WithSpec v b)"
| "namespacedV1_with (WStatus v) b = (Ret (), namespacedV1_WithStatus v b)"

definition namespacedV1_cfg :: "namespacedV1_apply \<Rightarrow> (namespacedV1Spec_apply, namespacedV1Status_apply) apply_cfg" where
  "namespacedV1_cfg b = \<lparr>ac_kind = nv1_kind b, ac_apiVersion = nv1_apiVersion b, ac_meta = nv1_meta b,
     ac_spec = nv1_spec b, ac_status = nv1_status b\<rparr>"

lemmas namespacedV1_with_defs = namespacedV1_ensureObjectMeta_def namespacedV1_on_meta_def namespacedV1_WithKind_def
  namespacedV1_WithAPIVersion_def namespacedV1_WithName_def namespacedV1_WithGenerateName_def namespacedV1_WithNamespace_def
  namespacedV1_WithUID_def namespacedV1_WithResourceVersion_def namespacedV1_WithGeneration_def
  namespacedV1_WithCreationTimestamp_def namespacedV1_WithDeletionTimestamp_def
  namespacedV1_WithDeletionGracePeriodSeconds_def namespacedV1_WithLabels_def namespacedV1_WithAnnotations_def
  namespacedV1_WithOwnerReferences_def namespacedV1_WithFinalizers_def namespacedV1_WithSpec_def namespacedV1_WithStatus_def

interpretation namespacedV1_builder: apply_builder namespacedV1_with namespacedV1_cfg
proof
  fix c :: "(namespacedV1Spec_apply, namespacedV1Status_apply) with_call" and b :: namespacedV1_apply
  show "\<exists>b'. namespacedV1_with c b = (Ret (), b') \<and> namespacedV1_cfg b' = described [c] (namespacedV1_cfg b)" if "\<not> nil_owner c"
    using that by (cases c; cases "nv1_meta b")
      (simp_all add: namespacedV1_with_defs namespacedV1_cfg_def described_def described_meta_def empty_meta_apply_def
        put_entries_merged append_owners_eq)
  show "fst (namespacedV1_with c b) = Panic ''nil value passed to WithOwnerReferences''" if "nil_owner c"
    using that by (cases c) (simp_all add: namespacedV1_WithOwnerReferences_def append_owners_eq Let_def)
qed

lemma namespacedV1_apply_new_eq:
  "namespacedV1_cfg (namespacedV1_apply_new name namespace) = \<lparr>ac_kind = Some ''NamespacedResource'', ac_apiVersion = Some ''sample.example.org/v1alpha1'',
     ac_meta = Some (empty_meta_apply\<lparr>ma_name := Some name, ma_namespace := Some namespace\<rparr>),
     ac_spec = None, ac_status = None\<rparr>"
  by (simp add: namespacedV1_apply_new_def namespacedV1_zero_apply_def namespacedV1_with_defs namespacedV1_cfg_def empty_meta_apply_def)

end
