(* ===== verification/SampleApplyV2.thy ===== *)
theory SampleApplyV2
  imports ApplyMeta
begin

text \<open>
  The apply configurations of the sample API, version v1alpha2
  (\<open>sample-controller/pkg/applyconfiguration/sample/v1alpha2\<close>): a resource of the cluster and one of
  a namespace. Both interpret the contract of \<open>ApplyMeta\<close>.
\<close>

section \<open>ClusterResource of v1alpha2\<close>

text \<open>The specification and the status of a ClusterResource, with every field optional.\<close>

record clusterV2Spec_apply =
  cv2s_name :: "string option"
  cv2s_replicas :: "32 word option"

record clusterV2Status_apply =
  cv2st_availableReplicas :: "32 word option"

record clusterV2_apply =
  cv2_kind :: "string option"
  cv2_apiVersion :: "string option"
  cv2_meta :: "meta_apply option"
  cv2_spec :: "clusterV2Spec_apply option"
  cv2_status :: "clusterV2Status_apply option"

definition clusterV2Spec :: clusterV2Spec_apply where
  "clusterV2Spec = \<lparr>cv2s_name = None, cv2s_replicas = None\<rparr>"

definition clusterV2Spec_WithName :: "string \<Rightarrow> clusterV2Spec_apply \<Rightarrow> clusterV2Spec_apply" where
  "clusterV2Spec_WithName value b = b\<lparr>cv2s_name := Some value\<rparr>"

definition clusterV2Spec_WithReplicas :: "32 word \<Rightarrow> clusterV2Spec_apply \<Rightarrow> clusterV2Spec_apply" where
  "clusterV2Spec_WithReplicas value b = b\<lparr>cv2s_replicas := Some value\<rparr>"

definition clusterV2Status :: clusterV2Status_apply where
  "clusterV2Status = \<lparr>cv2st_availableReplicas = None\<rparr>"

definition clusterV2Status_WithAvailableReplicas :: "32 word \<Rightarrow> clusterV2Status_apply \<Rightarrow> clusterV2Status_apply" where
  "clusterV2Status_WithAvailableReplicas value b = b\<lparr>cv2st_availableReplicas := Some value\<rparr>"

text \<open>The metadata is made before it is written, and is not nil after.\<close>

definition clusterV2_ensureObjectMeta :: "clusterV2_apply \<Rightarrow> clusterV2_apply" where
  "clusterV2_ensureObjectMeta b = (if cv2_meta b = None then b\<lparr>cv2_meta := Some empty_meta_apply\<rparr> else b)"

definition clusterV2_on_meta :: "(meta_apply \<Rightarrow> meta_apply) \<Rightarrow> clusterV2_apply \<Rightarrow> clusterV2_apply" where
  "clusterV2_on_meta f b = b\<lparr>cv2_meta := map_option f (cv2_meta b)\<rparr>"

definition clusterV2_WithKind :: "string \<Rightarrow> clusterV2_apply \<Rightarrow> clusterV2_apply" where
  "clusterV2_WithKind value b = b\<lparr>cv2_kind := Some value\<rparr>"

definition clusterV2_WithAPIVersion :: "string \<Rightarrow> clusterV2_apply \<Rightarrow> clusterV2_apply" where
  "clusterV2_WithAPIVersion value b = b\<lparr>cv2_apiVersion := Some value\<rparr>"

definition clusterV2_WithName :: "string \<Rightarrow> clusterV2_apply \<Rightarrow> clusterV2_apply" where
  "clusterV2_WithName value b =
     (let b = clusterV2_ensureObjectMeta b in clusterV2_on_meta (\<lambda>m. m\<lparr>ma_name := Some value\<rparr>) b)"

definition clusterV2_WithGenerateName :: "string \<Rightarrow> clusterV2_apply \<Rightarrow> clusterV2_apply" where
  "clusterV2_WithGenerateName value b =
     (let b = clusterV2_ensureObjectMeta b in clusterV2_on_meta (\<lambda>m. m\<lparr>ma_generateName := Some value\<rparr>) b)"

definition clusterV2_WithNamespace :: "string \<Rightarrow> clusterV2_apply \<Rightarrow> clusterV2_apply" where
  "clusterV2_WithNamespace value b =
     (let b = clusterV2_ensureObjectMeta b in clusterV2_on_meta (\<lambda>m. m\<lparr>ma_namespace := Some value\<rparr>) b)"

definition clusterV2_WithUID :: "string \<Rightarrow> clusterV2_apply \<Rightarrow> clusterV2_apply" where
  "clusterV2_WithUID value b =
     (let b = clusterV2_ensureObjectMeta b in clusterV2_on_meta (\<lambda>m. m\<lparr>ma_uid := Some value\<rparr>) b)"

definition clusterV2_WithResourceVersion :: "string \<Rightarrow> clusterV2_apply \<Rightarrow> clusterV2_apply" where
  "clusterV2_WithResourceVersion value b =
     (let b = clusterV2_ensureObjectMeta b in clusterV2_on_meta (\<lambda>m. m\<lparr>ma_resourceVersion := Some value\<rparr>) b)"

definition clusterV2_WithGeneration :: "64 word \<Rightarrow> clusterV2_apply \<Rightarrow> clusterV2_apply" where
  "clusterV2_WithGeneration value b =
     (let b = clusterV2_ensureObjectMeta b in clusterV2_on_meta (\<lambda>m. m\<lparr>ma_generation := Some value\<rparr>) b)"

definition clusterV2_WithCreationTimestamp :: "gotime \<Rightarrow> clusterV2_apply \<Rightarrow> clusterV2_apply" where
  "clusterV2_WithCreationTimestamp value b =
     (let b = clusterV2_ensureObjectMeta b in clusterV2_on_meta (\<lambda>m. m\<lparr>ma_creationTimestamp := Some value\<rparr>) b)"

definition clusterV2_WithDeletionTimestamp :: "gotime \<Rightarrow> clusterV2_apply \<Rightarrow> clusterV2_apply" where
  "clusterV2_WithDeletionTimestamp value b =
     (let b = clusterV2_ensureObjectMeta b in clusterV2_on_meta (\<lambda>m. m\<lparr>ma_deletionTimestamp := Some value\<rparr>) b)"

definition clusterV2_WithDeletionGracePeriodSeconds :: "64 word \<Rightarrow> clusterV2_apply \<Rightarrow> clusterV2_apply" where
  "clusterV2_WithDeletionGracePeriodSeconds value b =
     (let b = clusterV2_ensureObjectMeta b in clusterV2_on_meta (\<lambda>m. m\<lparr>ma_deletionGracePeriodSeconds := Some value\<rparr>) b)"

definition clusterV2_WithLabels :: "(string \<times> string) list \<Rightarrow> clusterV2_apply \<Rightarrow> unit go_out \<times> clusterV2_apply" where
  "clusterV2_WithLabels entries b =
     (let b = clusterV2_ensureObjectMeta b
      in case put_entries (ma_labels (meta_or_empty (cv2_meta b))) entries of
           Ret l \<Rightarrow> (Ret (), clusterV2_on_meta (\<lambda>m. m\<lparr>ma_labels := l\<rparr>) b)
         | Panic e \<Rightarrow> (Panic e, b))"

definition clusterV2_WithAnnotations :: "(string \<times> string) list \<Rightarrow> clusterV2_apply \<Rightarrow> unit go_out \<times> clusterV2_apply" where
  "clusterV2_WithAnnotations entries b =
     (let b = clusterV2_ensureObjectMeta b
      in case put_entries (ma_annotations (meta_or_empty (cv2_meta b))) entries of
           Ret l \<Rightarrow> (Ret (), clusterV2_on_meta (\<lambda>m. m\<lparr>ma_annotations := l\<rparr>) b)
         | Panic e \<Rightarrow> (Panic e, b))"

definition clusterV2_WithOwnerReferences ::
    "owner_ref_apply option list \<Rightarrow> clusterV2_apply \<Rightarrow> unit go_out \<times> clusterV2_apply" where
  "clusterV2_WithOwnerReferences values b =
     (let b = clusterV2_ensureObjectMeta b;
          (r, refs) = append_owners (ma_ownerReferences (meta_or_empty (cv2_meta b))) values
      in (r, clusterV2_on_meta (\<lambda>m. m\<lparr>ma_ownerReferences := refs\<rparr>) b))"

definition clusterV2_WithFinalizers :: "string list \<Rightarrow> clusterV2_apply \<Rightarrow> clusterV2_apply" where
  "clusterV2_WithFinalizers values b =
     (let b = clusterV2_ensureObjectMeta b
      in clusterV2_on_meta (\<lambda>m. m\<lparr>ma_finalizers := append_values (ma_finalizers m) values\<rparr>) b)"

definition clusterV2_WithSpec :: "clusterV2Spec_apply option \<Rightarrow> clusterV2_apply \<Rightarrow> clusterV2_apply" where
  "clusterV2_WithSpec value b = b\<lparr>cv2_spec := value\<rparr>"

definition clusterV2_WithStatus :: "clusterV2Status_apply option \<Rightarrow> clusterV2_apply \<Rightarrow> clusterV2_apply" where
  "clusterV2_WithStatus value b = b\<lparr>cv2_status := value\<rparr>"

text \<open>The constructor, and the configuration \<open>&ClusterResourceApplyConfiguration{}\<close> that is not made by it.\<close>

definition clusterV2_zero_apply :: clusterV2_apply where
  "clusterV2_zero_apply = \<lparr>cv2_kind = None, cv2_apiVersion = None, cv2_meta = None, cv2_spec = None, cv2_status = None\<rparr>"

definition clusterV2_apply_new :: "string \<Rightarrow> clusterV2_apply" where
  "clusterV2_apply_new name =
     (let b = clusterV2_zero_apply;
          b = clusterV2_WithName name b;
          b = clusterV2_WithKind ''ClusterResource'' b;
          b = clusterV2_WithAPIVersion ''sample.example.org/v1alpha2'' b
      in b)"

text \<open>Its methods as calls, and what it looks like as a configuration of any type.\<close>

fun clusterV2_with :: "(clusterV2Spec_apply, clusterV2Status_apply) with_call \<Rightarrow> clusterV2_apply \<Rightarrow> unit go_out \<times> clusterV2_apply" where
  "clusterV2_with (WKind v) b = (Ret (), clusterV2_WithKind v b)"
| "clusterV2_with (WAPIVersion v) b = (Ret (), clusterV2_WithAPIVersion v b)"
| "clusterV2_with (WName v) b = (Ret (), clusterV2_WithName v b)"
| "clusterV2_with (WGenerateName v) b = (Ret (), clusterV2_WithGenerateName v b)"
| "clusterV2_with (WNamespace v) b = (Ret (), clusterV2_WithNamespace v b)"
| "clusterV2_with (WUID v) b = (Ret (), clusterV2_WithUID v b)"
| "clusterV2_with (WResourceVersion v) b = (Ret (), clusterV2_WithResourceVersion v b)"
| "clusterV2_with (WGeneration v) b = (Ret (), clusterV2_WithGeneration v b)"
| "clusterV2_with (WCreationTimestamp v) b = (Ret (), clusterV2_WithCreationTimestamp v b)"
| "clusterV2_with (WDeletionTimestamp v) b = (Ret (), clusterV2_WithDeletionTimestamp v b)"
| "clusterV2_with (WDeletionGracePeriodSeconds v) b = (Ret (), clusterV2_WithDeletionGracePeriodSeconds v b)"
| "clusterV2_with (WLabels es) b = clusterV2_WithLabels es b"
| "clusterV2_with (WAnnotations es) b = clusterV2_WithAnnotations es b"
| "clusterV2_with (WOwnerReferences vs) b = clusterV2_WithOwnerReferences vs b"
| "clusterV2_with (WFinalizers vs) b = (Ret (), clusterV2_WithFinalizers vs b)"
| "clusterV2_with (WSpec v) b = (Ret (), clusterV2_WithSpec v b)"
| "clusterV2_with (WStatus v) b = (Ret (), clusterV2_WithStatus v b)"

definition clusterV2_cfg :: "clusterV2_apply \<Rightarrow> (clusterV2Spec_apply, clusterV2Status_apply) apply_cfg" where
  "clusterV2_cfg b = \<lparr>ac_kind = cv2_kind b, ac_apiVersion = cv2_apiVersion b, ac_meta = cv2_meta b,
     ac_spec = cv2_spec b, ac_status = cv2_status b\<rparr>"

lemmas clusterV2_with_defs = clusterV2_ensureObjectMeta_def clusterV2_on_meta_def clusterV2_WithKind_def
  clusterV2_WithAPIVersion_def clusterV2_WithName_def clusterV2_WithGenerateName_def clusterV2_WithNamespace_def
  clusterV2_WithUID_def clusterV2_WithResourceVersion_def clusterV2_WithGeneration_def
  clusterV2_WithCreationTimestamp_def clusterV2_WithDeletionTimestamp_def
  clusterV2_WithDeletionGracePeriodSeconds_def clusterV2_WithLabels_def clusterV2_WithAnnotations_def
  clusterV2_WithOwnerReferences_def clusterV2_WithFinalizers_def clusterV2_WithSpec_def clusterV2_WithStatus_def

interpretation clusterV2_builder: apply_builder clusterV2_with clusterV2_cfg
proof
  fix c :: "(clusterV2Spec_apply, clusterV2Status_apply) with_call" and b :: clusterV2_apply
  show "\<exists>b'. clusterV2_with c b = (Ret (), b') \<and> clusterV2_cfg b' = described [c] (clusterV2_cfg b)" if "\<not> nil_owner c"
    using that by (cases c; cases "cv2_meta b")
      (simp_all add: clusterV2_with_defs clusterV2_cfg_def described_def described_meta_def empty_meta_apply_def
        put_entries_merged append_owners_eq)
  show "fst (clusterV2_with c b) = Panic ''nil value passed to WithOwnerReferences''" if "nil_owner c"
    using that by (cases c) (simp_all add: clusterV2_WithOwnerReferences_def append_owners_eq Let_def)
qed

lemma clusterV2_apply_new_eq:
  "clusterV2_cfg (clusterV2_apply_new name) = \<lparr>ac_kind = Some ''ClusterResource'', ac_apiVersion = Some ''sample.example.org/v1alpha2'',
     ac_meta = Some (empty_meta_apply\<lparr>ma_name := Some name\<rparr>),
     ac_spec = None, ac_status = None\<rparr>"
  by (simp add: clusterV2_apply_new_def clusterV2_zero_apply_def clusterV2_with_defs clusterV2_cfg_def empty_meta_apply_def)

section \<open>NamespacedResource of v1alpha2\<close>

text \<open>The specification and the status of a NamespacedResource, with every field optional.\<close>

record namespacedV2Spec_apply =
  nv2s_name :: "string option"
  nv2s_replicas :: "32 word option"

record namespacedV2Status_apply =
  nv2st_availableReplicas :: "32 word option"

record namespacedV2_apply =
  nv2_kind :: "string option"
  nv2_apiVersion :: "string option"
  nv2_meta :: "meta_apply option"
  nv2_spec :: "namespacedV2Spec_apply option"
  nv2_status :: "namespacedV2Status_apply option"

definition namespacedV2Spec :: namespacedV2Spec_apply where
  "namespacedV2Spec = \<lparr>nv2s_name = None, nv2s_replicas = None\<rparr>"

definition namespacedV2Spec_WithName :: "string \<Rightarrow> namespacedV2Spec_apply \<Rightarrow> namespacedV2Spec_apply" where
  "namespacedV2Spec_WithName value b = b\<lparr>nv2s_name := Some value\<rparr>"

definition namespacedV2Spec_WithReplicas :: "32 word \<Rightarrow> namespacedV2Spec_apply \<Rightarrow> namespacedV2Spec_apply" where
  "namespacedV2Spec_WithReplicas value b = b\<lparr>nv2s_replicas := Some value\<rparr>"

definition namespacedV2Status :: namespacedV2Status_apply where
  "namespacedV2Status = \<lparr>nv2st_availableReplicas = None\<rparr>"

definition namespacedV2Status_WithAvailableReplicas :: "32 word \<Rightarrow> namespacedV2Status_apply \<Rightarrow> namespacedV2Status_apply" where
  "namespacedV2Status_WithAvailableReplicas value b = b\<lparr>nv2st_availableReplicas := Some value\<rparr>"

text \<open>The metadata is made before it is written, and is not nil after.\<close>

definition namespacedV2_ensureObjectMeta :: "namespacedV2_apply \<Rightarrow> namespacedV2_apply" where
  "namespacedV2_ensureObjectMeta b = (if nv2_meta b = None then b\<lparr>nv2_meta := Some empty_meta_apply\<rparr> else b)"

definition namespacedV2_on_meta :: "(meta_apply \<Rightarrow> meta_apply) \<Rightarrow> namespacedV2_apply \<Rightarrow> namespacedV2_apply" where
  "namespacedV2_on_meta f b = b\<lparr>nv2_meta := map_option f (nv2_meta b)\<rparr>"

definition namespacedV2_WithKind :: "string \<Rightarrow> namespacedV2_apply \<Rightarrow> namespacedV2_apply" where
  "namespacedV2_WithKind value b = b\<lparr>nv2_kind := Some value\<rparr>"

definition namespacedV2_WithAPIVersion :: "string \<Rightarrow> namespacedV2_apply \<Rightarrow> namespacedV2_apply" where
  "namespacedV2_WithAPIVersion value b = b\<lparr>nv2_apiVersion := Some value\<rparr>"

definition namespacedV2_WithName :: "string \<Rightarrow> namespacedV2_apply \<Rightarrow> namespacedV2_apply" where
  "namespacedV2_WithName value b =
     (let b = namespacedV2_ensureObjectMeta b in namespacedV2_on_meta (\<lambda>m. m\<lparr>ma_name := Some value\<rparr>) b)"

definition namespacedV2_WithGenerateName :: "string \<Rightarrow> namespacedV2_apply \<Rightarrow> namespacedV2_apply" where
  "namespacedV2_WithGenerateName value b =
     (let b = namespacedV2_ensureObjectMeta b in namespacedV2_on_meta (\<lambda>m. m\<lparr>ma_generateName := Some value\<rparr>) b)"

definition namespacedV2_WithNamespace :: "string \<Rightarrow> namespacedV2_apply \<Rightarrow> namespacedV2_apply" where
  "namespacedV2_WithNamespace value b =
     (let b = namespacedV2_ensureObjectMeta b in namespacedV2_on_meta (\<lambda>m. m\<lparr>ma_namespace := Some value\<rparr>) b)"

definition namespacedV2_WithUID :: "string \<Rightarrow> namespacedV2_apply \<Rightarrow> namespacedV2_apply" where
  "namespacedV2_WithUID value b =
     (let b = namespacedV2_ensureObjectMeta b in namespacedV2_on_meta (\<lambda>m. m\<lparr>ma_uid := Some value\<rparr>) b)"

definition namespacedV2_WithResourceVersion :: "string \<Rightarrow> namespacedV2_apply \<Rightarrow> namespacedV2_apply" where
  "namespacedV2_WithResourceVersion value b =
     (let b = namespacedV2_ensureObjectMeta b in namespacedV2_on_meta (\<lambda>m. m\<lparr>ma_resourceVersion := Some value\<rparr>) b)"

definition namespacedV2_WithGeneration :: "64 word \<Rightarrow> namespacedV2_apply \<Rightarrow> namespacedV2_apply" where
  "namespacedV2_WithGeneration value b =
     (let b = namespacedV2_ensureObjectMeta b in namespacedV2_on_meta (\<lambda>m. m\<lparr>ma_generation := Some value\<rparr>) b)"

definition namespacedV2_WithCreationTimestamp :: "gotime \<Rightarrow> namespacedV2_apply \<Rightarrow> namespacedV2_apply" where
  "namespacedV2_WithCreationTimestamp value b =
     (let b = namespacedV2_ensureObjectMeta b in namespacedV2_on_meta (\<lambda>m. m\<lparr>ma_creationTimestamp := Some value\<rparr>) b)"

definition namespacedV2_WithDeletionTimestamp :: "gotime \<Rightarrow> namespacedV2_apply \<Rightarrow> namespacedV2_apply" where
  "namespacedV2_WithDeletionTimestamp value b =
     (let b = namespacedV2_ensureObjectMeta b in namespacedV2_on_meta (\<lambda>m. m\<lparr>ma_deletionTimestamp := Some value\<rparr>) b)"

definition namespacedV2_WithDeletionGracePeriodSeconds :: "64 word \<Rightarrow> namespacedV2_apply \<Rightarrow> namespacedV2_apply" where
  "namespacedV2_WithDeletionGracePeriodSeconds value b =
     (let b = namespacedV2_ensureObjectMeta b in namespacedV2_on_meta (\<lambda>m. m\<lparr>ma_deletionGracePeriodSeconds := Some value\<rparr>) b)"

definition namespacedV2_WithLabels :: "(string \<times> string) list \<Rightarrow> namespacedV2_apply \<Rightarrow> unit go_out \<times> namespacedV2_apply" where
  "namespacedV2_WithLabels entries b =
     (let b = namespacedV2_ensureObjectMeta b
      in case put_entries (ma_labels (meta_or_empty (nv2_meta b))) entries of
           Ret l \<Rightarrow> (Ret (), namespacedV2_on_meta (\<lambda>m. m\<lparr>ma_labels := l\<rparr>) b)
         | Panic e \<Rightarrow> (Panic e, b))"

definition namespacedV2_WithAnnotations :: "(string \<times> string) list \<Rightarrow> namespacedV2_apply \<Rightarrow> unit go_out \<times> namespacedV2_apply" where
  "namespacedV2_WithAnnotations entries b =
     (let b = namespacedV2_ensureObjectMeta b
      in case put_entries (ma_annotations (meta_or_empty (nv2_meta b))) entries of
           Ret l \<Rightarrow> (Ret (), namespacedV2_on_meta (\<lambda>m. m\<lparr>ma_annotations := l\<rparr>) b)
         | Panic e \<Rightarrow> (Panic e, b))"

definition namespacedV2_WithOwnerReferences ::
    "owner_ref_apply option list \<Rightarrow> namespacedV2_apply \<Rightarrow> unit go_out \<times> namespacedV2_apply" where
  "namespacedV2_WithOwnerReferences values b =
     (let b = namespacedV2_ensureObjectMeta b;
          (r, refs) = append_owners (ma_ownerReferences (meta_or_empty (nv2_meta b))) values
      in (r, namespacedV2_on_meta (\<lambda>m. m\<lparr>ma_ownerReferences := refs\<rparr>) b))"

definition namespacedV2_WithFinalizers :: "string list \<Rightarrow> namespacedV2_apply \<Rightarrow> namespacedV2_apply" where
  "namespacedV2_WithFinalizers values b =
     (let b = namespacedV2_ensureObjectMeta b
      in namespacedV2_on_meta (\<lambda>m. m\<lparr>ma_finalizers := append_values (ma_finalizers m) values\<rparr>) b)"

definition namespacedV2_WithSpec :: "namespacedV2Spec_apply option \<Rightarrow> namespacedV2_apply \<Rightarrow> namespacedV2_apply" where
  "namespacedV2_WithSpec value b = b\<lparr>nv2_spec := value\<rparr>"

definition namespacedV2_WithStatus :: "namespacedV2Status_apply option \<Rightarrow> namespacedV2_apply \<Rightarrow> namespacedV2_apply" where
  "namespacedV2_WithStatus value b = b\<lparr>nv2_status := value\<rparr>"

text \<open>The constructor, and the configuration \<open>&NamespacedResourceApplyConfiguration{}\<close> that is not made by it.\<close>

definition namespacedV2_zero_apply :: namespacedV2_apply where
  "namespacedV2_zero_apply = \<lparr>nv2_kind = None, nv2_apiVersion = None, nv2_meta = None, nv2_spec = None, nv2_status = None\<rparr>"

definition namespacedV2_apply_new :: "string \<Rightarrow> string \<Rightarrow> namespacedV2_apply" where
  "namespacedV2_apply_new name namespace =
     (let b = namespacedV2_zero_apply;
          b = namespacedV2_WithName name b;
          b = namespacedV2_WithNamespace namespace b;
          b = namespacedV2_WithKind ''NamespacedResource'' b;
          b = namespacedV2_WithAPIVersion ''sample.example.org/v1alpha2'' b
      in b)"

text \<open>Its methods as calls, and what it looks like as a configuration of any type.\<close>

fun namespacedV2_with :: "(namespacedV2Spec_apply, namespacedV2Status_apply) with_call \<Rightarrow> namespacedV2_apply \<Rightarrow> unit go_out \<times> namespacedV2_apply" where
  "namespacedV2_with (WKind v) b = (Ret (), namespacedV2_WithKind v b)"
| "namespacedV2_with (WAPIVersion v) b = (Ret (), namespacedV2_WithAPIVersion v b)"
| "namespacedV2_with (WName v) b = (Ret (), namespacedV2_WithName v b)"
| "namespacedV2_with (WGenerateName v) b = (Ret (), namespacedV2_WithGenerateName v b)"
| "namespacedV2_with (WNamespace v) b = (Ret (), namespacedV2_WithNamespace v b)"
| "namespacedV2_with (WUID v) b = (Ret (), namespacedV2_WithUID v b)"
| "namespacedV2_with (WResourceVersion v) b = (Ret (), namespacedV2_WithResourceVersion v b)"
| "namespacedV2_with (WGeneration v) b = (Ret (), namespacedV2_WithGeneration v b)"
| "namespacedV2_with (WCreationTimestamp v) b = (Ret (), namespacedV2_WithCreationTimestamp v b)"
| "namespacedV2_with (WDeletionTimestamp v) b = (Ret (), namespacedV2_WithDeletionTimestamp v b)"
| "namespacedV2_with (WDeletionGracePeriodSeconds v) b = (Ret (), namespacedV2_WithDeletionGracePeriodSeconds v b)"
| "namespacedV2_with (WLabels es) b = namespacedV2_WithLabels es b"
| "namespacedV2_with (WAnnotations es) b = namespacedV2_WithAnnotations es b"
| "namespacedV2_with (WOwnerReferences vs) b = namespacedV2_WithOwnerReferences vs b"
| "namespacedV2_with (WFinalizers vs) b = (Ret (), namespacedV2_WithFinalizers vs b)"
| "namespacedV2_with (WSpec v) b = (Ret (), namespacedV2_WithSpec v b)"
| "namespacedV2_with (WStatus v) b = (Ret (), namespacedV2_WithStatus v b)"

definition namespacedV2_cfg :: "namespacedV2_apply \<Rightarrow> (namespacedV2Spec_apply, namespacedV2Status_apply) apply_cfg" where
  "namespacedV2_cfg b = \<lparr>ac_kind = nv2_kind b, ac_apiVersion = nv2_apiVersion b, ac_meta = nv2_meta b,
     ac_spec = nv2_spec b, ac_status = nv2_status b\<rparr>"

lemmas namespacedV2_with_defs = namespacedV2_ensureObjectMeta_def namespacedV2_on_meta_def namespacedV2_WithKind_def
  namespacedV2_WithAPIVersion_def namespacedV2_WithName_def namespacedV2_WithGenerateName_def namespacedV2_WithNamespace_def
  namespacedV2_WithUID_def namespacedV2_WithResourceVersion_def namespacedV2_WithGeneration_def
  namespacedV2_WithCreationTimestamp_def namespacedV2_WithDeletionTimestamp_def
  namespacedV2_WithDeletionGracePeriodSeconds_def namespacedV2_WithLabels_def namespacedV2_WithAnnotations_def
  namespacedV2_WithOwnerReferences_def namespacedV2_WithFinalizers_def namespacedV2_WithSpec_def namespacedV2_WithStatus_def

interpretation namespacedV2_builder: apply_builder namespacedV2_with namespacedV2_cfg
proof
  fix c :: "(namespacedV2Spec_apply, namespacedV2Status_apply) with_call" and b :: namespacedV2_apply
  show "\<exists>b'. namespacedV2_with c b = (Ret (), b') \<and> namespacedV2_cfg b' = described [c] (namespacedV2_cfg b)" if "\<not> nil_owner c"
    using that by (cases c; cases "nv2_meta b")
      (simp_all add: namespacedV2_with_defs namespacedV2_cfg_def described_def described_meta_def empty_meta_apply_def
        put_entries_merged append_owners_eq)
  show "fst (namespacedV2_with c b) = Panic ''nil value passed to WithOwnerReferences''" if "nil_owner c"
    using that by (cases c) (simp_all add: namespacedV2_WithOwnerReferences_def append_owners_eq Let_def)
qed

lemma namespacedV2_apply_new_eq:
  "namespacedV2_cfg (namespacedV2_apply_new name namespace) = \<lparr>ac_kind = Some ''NamespacedResource'', ac_apiVersion = Some ''sample.example.org/v1alpha2'',
     ac_meta = Some (empty_meta_apply\<lparr>ma_name := Some name, ma_namespace := Some namespace\<rparr>),
     ac_spec = None, ac_status = None\<rparr>"
  by (simp add: namespacedV2_apply_new_def namespacedV2_zero_apply_def namespacedV2_with_defs namespacedV2_cfg_def empty_meta_apply_def)

end
