(* ===== verification/SampleAPI.thy ===== *)
theory SampleAPI
  imports KubeMeta
begin

text \<open>
  The sample API group (\<open>sample-controller/pkg/apis/sample\<close>) in its versions v1alpha1 and v1alpha2: a
  resource of the cluster and one of a namespace, and what each version registers in a scheme.
\<close>

definition sample_GroupName :: string where
  "sample_GroupName = ''sample.example.org''"

section \<open>Version v1alpha1\<close>

record namespacedV1_spec =
  nr1s_name :: string
  nr1s_replicas :: "32 word"

record namespacedV1_status =
  nr1st_availableReplicas :: "32 word"

record namespacedV1 =
  nr1_type :: type_meta
  nr1_meta :: object_meta
  nr1_spec :: namespacedV1_spec
  nr1_status :: namespacedV1_status

record namespacedV1_list =
  nr1l_type :: type_meta
  nr1l_resourceVersion :: string
  nr1l_items :: "namespacedV1 list option"

record clusterV1_spec =
  cr1s_name :: string
  cr1s_replicas :: "32 word"

record clusterV1_status =
  cr1st_availableReplicas :: "32 word"

record clusterV1 =
  cr1_type :: type_meta
  cr1_meta :: object_meta
  cr1_spec :: clusterV1_spec
  cr1_status :: clusterV1_status

record clusterV1_list =
  cr1l_type :: type_meta
  cr1l_resourceVersion :: string
  cr1l_items :: "clusterV1 list option"

definition sampleV1_GroupName :: string where
  "sampleV1_GroupName = ''sample.example.org''"

definition sampleV1_GroupVersion :: "string \<times> string" where
  "sampleV1_GroupVersion = (sampleV1_GroupName, ''v1alpha1'')"

definition sampleV1_SchemeGroupVersion :: "string \<times> string" where
  "sampleV1_SchemeGroupVersion = (sampleV1_GroupName, ''v1alpha1'')"

definition sampleV1_Resource :: "string \<Rightarrow> string \<times> string" where
  "sampleV1_Resource resource = (fst sampleV1_SchemeGroupVersion, resource)"

definition sampleV1_addKnownTypes :: "scheme_call list \<Rightarrow> scheme_call list \<times> go_error option" where
  "sampleV1_addKnownTypes scheme =
     (scheme @ [AddKnownTypes sampleV1_SchemeGroupVersion
          [''ClusterResource'', ''ClusterResourceList'', ''NamespacedResource'', ''NamespacedResourceList''],
        AddToGroupVersion sampleV1_SchemeGroupVersion], None)"

lemmas sampleV1_consts = sampleV1_GroupName_def sampleV1_GroupVersion_def
  sampleV1_SchemeGroupVersion_def

section \<open>Version v1alpha2\<close>

record namespacedV2_spec =
  nr2s_name :: string
  nr2s_replicas :: "32 word"

record namespacedV2_status =
  nr2st_availableReplicas :: "32 word"

record namespacedV2 =
  nr2_type :: type_meta
  nr2_meta :: object_meta
  nr2_spec :: namespacedV2_spec
  nr2_status :: namespacedV2_status

record namespacedV2_list =
  nr2l_type :: type_meta
  nr2l_resourceVersion :: string
  nr2l_items :: "namespacedV2 list option"

record clusterV2_spec =
  cr2s_name :: string
  cr2s_replicas :: "32 word"

record clusterV2_status =
  cr2st_availableReplicas :: "32 word"

record clusterV2 =
  cr2_type :: type_meta
  cr2_meta :: object_meta
  cr2_spec :: clusterV2_spec
  cr2_status :: clusterV2_status

record clusterV2_list =
  cr2l_type :: type_meta
  cr2l_resourceVersion :: string
  cr2l_items :: "clusterV2 list option"

definition sampleV2_GroupName :: string where
  "sampleV2_GroupName = ''sample.example.org''"

definition sampleV2_GroupVersion :: "string \<times> string" where
  "sampleV2_GroupVersion = (sampleV2_GroupName, ''v1alpha2'')"

definition sampleV2_SchemeGroupVersion :: "string \<times> string" where
  "sampleV2_SchemeGroupVersion = (sampleV2_GroupName, ''v1alpha2'')"

definition sampleV2_Resource :: "string \<Rightarrow> string \<times> string" where
  "sampleV2_Resource resource = (fst sampleV2_SchemeGroupVersion, resource)"

definition sampleV2_addKnownTypes :: "scheme_call list \<Rightarrow> scheme_call list \<times> go_error option" where
  "sampleV2_addKnownTypes scheme =
     (scheme @ [AddKnownTypes sampleV2_SchemeGroupVersion
          [''ClusterResource'', ''ClusterResourceList'', ''NamespacedResource'', ''NamespacedResourceList''],
        AddToGroupVersion sampleV2_SchemeGroupVersion], None)"

lemmas sampleV2_consts = sampleV2_GroupName_def sampleV2_GroupVersion_def
  sampleV2_SchemeGroupVersion_def

end
