(* ===== verification/ApplyProps.thy ===== *)
theory ApplyProps
  imports GreeterApply SampleApplyV1 SampleApplyV2 SampleAPI
begin

text \<open>
  \<open>ForKind\<close> of the sample API (\<open>sample-controller/pkg/applyconfiguration/utils.go\<close>), and what holds of
  the apply configurations of both APIs.
\<close>

section \<open>The configuration of a kind\<close>

datatype sample_config =
    ClusterV1Config clusterV1_apply
  | ClusterV1SpecConfig clusterV1Spec_apply
  | ClusterV1StatusConfig clusterV1Status_apply
  | NamespacedV1Config namespacedV1_apply
  | NamespacedV1SpecConfig namespacedV1Spec_apply
  | NamespacedV1StatusConfig namespacedV1Status_apply
  | ClusterV2Config clusterV2_apply
  | ClusterV2SpecConfig clusterV2Spec_apply
  | ClusterV2StatusConfig clusterV2Status_apply
  | NamespacedV2Config namespacedV2_apply
  | NamespacedV2SpecConfig namespacedV2Spec_apply
  | NamespacedV2StatusConfig namespacedV2Status_apply

definition sample_ForKind :: "gvk \<Rightarrow> sample_config option" where
  "sample_ForKind kind =
     (if kind = with_kind sampleV1_SchemeGroupVersion ''ClusterResource'' then Some (ClusterV1Config clusterV1_zero_apply)
      else if kind = with_kind sampleV1_SchemeGroupVersion ''ClusterResourceSpec'' then Some (ClusterV1SpecConfig clusterV1Spec)
      else if kind = with_kind sampleV1_SchemeGroupVersion ''ClusterResourceStatus'' then Some (ClusterV1StatusConfig clusterV1Status)
      else if kind = with_kind sampleV1_SchemeGroupVersion ''NamespacedResource'' then Some (NamespacedV1Config namespacedV1_zero_apply)
      else if kind = with_kind sampleV1_SchemeGroupVersion ''NamespacedResourceSpec'' then Some (NamespacedV1SpecConfig namespacedV1Spec)
      else if kind = with_kind sampleV1_SchemeGroupVersion ''NamespacedResourceStatus'' then Some (NamespacedV1StatusConfig namespacedV1Status)
      else if kind = with_kind sampleV2_SchemeGroupVersion ''ClusterResource'' then Some (ClusterV2Config clusterV2_zero_apply)
      else if kind = with_kind sampleV2_SchemeGroupVersion ''ClusterResourceSpec'' then Some (ClusterV2SpecConfig clusterV2Spec)
      else if kind = with_kind sampleV2_SchemeGroupVersion ''ClusterResourceStatus'' then Some (ClusterV2StatusConfig clusterV2Status)
      else if kind = with_kind sampleV2_SchemeGroupVersion ''NamespacedResource'' then Some (NamespacedV2Config namespacedV2_zero_apply)
      else if kind = with_kind sampleV2_SchemeGroupVersion ''NamespacedResourceSpec'' then Some (NamespacedV2SpecConfig namespacedV2Spec)
      else if kind = with_kind sampleV2_SchemeGroupVersion ''NamespacedResourceStatus'' then Some (NamespacedV2StatusConfig namespacedV2Status)
      else None)"

text \<open>The kind that a configuration is for, and whether nothing is set in it.\<close>

fun greeter_config_kind :: "greeter_config \<Rightarrow> gvk \<times> bool" where
  "greeter_config_kind (GreeterConfig c) =
     ((''example.org'', ''v1alpha1'', ''Greeter''), c = greeter_zero_apply)"
| "greeter_config_kind (GreeterSpecConfig c) =
     ((''example.org'', ''v1alpha1'', ''GreeterSpec''), c = greeterSpec)"
| "greeter_config_kind (GreeterStatusConfig c) =
     ((''example.org'', ''v1alpha1'', ''GreeterStatus''), c = greeterStatus)"

fun sample_config_kind :: "sample_config \<Rightarrow> gvk \<times> bool" where
  "sample_config_kind (ClusterV1Config c) =
     ((''sample.example.org'', ''v1alpha1'', ''ClusterResource''), c = clusterV1_zero_apply)"
| "sample_config_kind (ClusterV1SpecConfig c) =
     ((''sample.example.org'', ''v1alpha1'', ''ClusterResourceSpec''), c = clusterV1Spec)"
| "sample_config_kind (ClusterV1StatusConfig c) =
     ((''sample.example.org'', ''v1alpha1'', ''ClusterResourceStatus''), c = clusterV1Status)"
| "sample_config_kind (NamespacedV1Config c) =
     ((''sample.example.org'', ''v1alpha1'', ''NamespacedResource''), c = namespacedV1_zero_apply)"
| "sample_config_kind (NamespacedV1SpecConfig c) =
     ((''sample.example.org'', ''v1alpha1'', ''NamespacedResourceSpec''), c = namespacedV1Spec)"
| "sample_config_kind (NamespacedV1StatusConfig c) =
     ((''sample.example.org'', ''v1alpha1'', ''NamespacedResourceStatus''), c = namespacedV1Status)"
| "sample_config_kind (ClusterV2Config c) =
     ((''sample.example.org'', ''v1alpha2'', ''ClusterResource''), c = clusterV2_zero_apply)"
| "sample_config_kind (ClusterV2SpecConfig c) =
     ((''sample.example.org'', ''v1alpha2'', ''ClusterResourceSpec''), c = clusterV2Spec)"
| "sample_config_kind (ClusterV2StatusConfig c) =
     ((''sample.example.org'', ''v1alpha2'', ''ClusterResourceStatus''), c = clusterV2Status)"
| "sample_config_kind (NamespacedV2Config c) =
     ((''sample.example.org'', ''v1alpha2'', ''NamespacedResource''), c = namespacedV2_zero_apply)"
| "sample_config_kind (NamespacedV2SpecConfig c) =
     ((''sample.example.org'', ''v1alpha2'', ''NamespacedResourceSpec''), c = namespacedV2Spec)"
| "sample_config_kind (NamespacedV2StatusConfig c) =
     ((''sample.example.org'', ''v1alpha2'', ''NamespacedResourceStatus''), c = namespacedV2Status)"

text \<open>The switch as a table.\<close>

definition sample_kinds :: "(gvk \<times> sample_config) list" where
  "sample_kinds = [((''sample.example.org'', ''v1alpha1'', ''ClusterResource''), ClusterV1Config clusterV1_zero_apply),
     ((''sample.example.org'', ''v1alpha1'', ''ClusterResourceSpec''), ClusterV1SpecConfig clusterV1Spec),
     ((''sample.example.org'', ''v1alpha1'', ''ClusterResourceStatus''), ClusterV1StatusConfig clusterV1Status),
     ((''sample.example.org'', ''v1alpha1'', ''NamespacedResource''), NamespacedV1Config namespacedV1_zero_apply),
     ((''sample.example.org'', ''v1alpha1'', ''NamespacedResourceSpec''), NamespacedV1SpecConfig namespacedV1Spec),
     ((''sample.example.org'', ''v1alpha1'', ''NamespacedResourceStatus''), NamespacedV1StatusConfig namespacedV1Status),
     ((''sample.example.org'', ''v1alpha2'', ''ClusterResource''), ClusterV2Config clusterV2_zero_apply),
     ((''sample.example.org'', ''v1alpha2'', ''ClusterResourceSpec''), ClusterV2SpecConfig clusterV2Spec),
     ((''sample.example.org'', ''v1alpha2'', ''ClusterResourceStatus''), ClusterV2StatusConfig clusterV2Status),
     ((''sample.example.org'', ''v1alpha2'', ''NamespacedResource''), NamespacedV2Config namespacedV2_zero_apply),
     ((''sample.example.org'', ''v1alpha2'', ''NamespacedResourceSpec''), NamespacedV2SpecConfig namespacedV2Spec),
     ((''sample.example.org'', ''v1alpha2'', ''NamespacedResourceStatus''), NamespacedV2StatusConfig namespacedV2Status)]"

lemma sample_ForKind_table: "sample_ForKind k = map_of sample_kinds k"
  unfolding sample_ForKind_def sample_kinds_def sampleV1_consts sampleV2_consts with_kind.simps
    map_of.simps fun_upd_apply fst_conv snd_conv by (rule refl)

lemma sample_kinds_distinct: "distinct (map fst sample_kinds)"
  by code_simp

lemma sample_ForKind_Some: "sample_ForKind k = Some d \<longleftrightarrow> sample_config_kind d = (k, True)"
proof -
  have "sample_ForKind k = Some d \<longleftrightarrow> (k, d) \<in> set sample_kinds"
    by (simp add: sample_ForKind_table map_of_eq_Some_iff sample_kinds_distinct)
  also have "\<dots> \<longleftrightarrow> sample_config_kind d = (k, True)"
    unfolding sample_kinds_def set_simps by (cases d; simp; blast)
  finally show ?thesis .
qed

lemma kinds_product:
  "{(g, v, a), (g, v, b), (g, v, c), (g, v, d), (g, v, e), (g, v, f),
    (g, w, a), (g, w, b), (g, w, c), (g, w, d), (g, w, e), (g, w, f)} =
   {g} \<times> {v, w} \<times> {a, b, c, d, e, f}"
  by auto

lemma sample_ForKind_None: "sample_ForKind k = None \<longleftrightarrow>
    k \<notin> {''sample.example.org''} \<times> {''v1alpha1'', ''v1alpha2''} \<times>
      {''ClusterResource'', ''ClusterResourceSpec'', ''ClusterResourceStatus'',
       ''NamespacedResource'', ''NamespacedResourceSpec'', ''NamespacedResourceStatus''}"
proof -
  have "sample_ForKind k = None \<longleftrightarrow> k \<notin> fst ` set sample_kinds"
    by (simp add: sample_ForKind_table map_of_eq_None_iff)
  also have "fst ` set sample_kinds = {''sample.example.org''} \<times> {''v1alpha1'', ''v1alpha2''} \<times>
      {''ClusterResource'', ''ClusterResourceSpec'', ''ClusterResourceStatus'',
       ''NamespacedResource'', ''NamespacedResourceSpec'', ''NamespacedResourceStatus''}"
    unfolding sample_kinds_def set_simps image_insert image_empty fst_conv by (rule kinds_product)
  finally show ?thesis .
qed

text \<open>C29: \<open>ForKind\<close> is typed by its argument: for a group, version and kind it returns a
  configuration exactly when that is one of the three kinds of the Greeter API, or one of the twelve
  of the two versions of the sample API; the configuration is then the empty one of the type for that
  very kind, so no kind gets the configuration of another, of another version or of another API.\<close>

theorem ForKind_typed:
  "(greeter_ForKind k = Some c \<longleftrightarrow> greeter_config_kind c = (k, True)) \<and>
   (sample_ForKind k = Some d \<longleftrightarrow> sample_config_kind d = (k, True)) \<and>
   (greeter_ForKind k = None \<longleftrightarrow> k \<notin> {(''example.org'', ''v1alpha1'', n) | n.
      n \<in> {''Greeter'', ''GreeterSpec'', ''GreeterStatus''}}) \<and>
   (sample_ForKind k = None \<longleftrightarrow> k \<notin> {''sample.example.org''} \<times> {''v1alpha1'', ''v1alpha2''} \<times>
      {''ClusterResource'', ''ClusterResourceSpec'', ''ClusterResourceStatus'',
       ''NamespacedResource'', ''NamespacedResourceSpec'', ''NamespacedResourceStatus''})"
proof (intro conjI)
  show "greeter_ForKind k = Some c \<longleftrightarrow> greeter_config_kind c = (k, True)"
    by (cases c) (auto simp: greeter_ForKind_def SchemeGroupVersion_def GroupName_def)
  show "sample_ForKind k = Some d \<longleftrightarrow> sample_config_kind d = (k, True)"
    by (rule sample_ForKind_Some)
  show "greeter_ForKind k = None \<longleftrightarrow> k \<notin> {(''example.org'', ''v1alpha1'', n) | n.
      n \<in> {''Greeter'', ''GreeterSpec'', ''GreeterStatus''}}"
    by (auto simp: greeter_ForKind_def SchemeGroupVersion_def GroupName_def)
  show "sample_ForKind k = None \<longleftrightarrow> k \<notin> {''sample.example.org''} \<times> {''v1alpha1'', ''v1alpha2''} \<times>
      {''ClusterResource'', ''ClusterResourceSpec'', ''ClusterResourceStatus'',
       ''NamespacedResource'', ''NamespacedResourceSpec'', ''NamespacedResourceStatus''}"
    by (rule sample_ForKind_None)
qed

section \<open>Chains of calls\<close>

text \<open>C28: A Greeter configuration built with the constructor and any chain of \<open>With\<close> calls: when no
  call passes a nil owner reference nothing panics, and every field of the result is what the
  documentation says of it: the value of the last call for it, or what the constructor set; the
  labels and annotations hold the entries of all calls, a later one over an earlier one; the owner
  references and finalizers are those of all calls in order. A nil owner reference panics. The four
  builders of the sample API do the same from any configuration, the zero one without metadata
  included.\<close>

theorem builder_chains_described:
  "((if list_ex nil_owner cs'
    then fst (chain greeter_with cs' (greeter_apply_new name namespace)) =
      Panic ''nil value passed to WithOwnerReferences''
    else fst (chain greeter_with cs' (greeter_apply_new name namespace)) = Ret () \<and>
      greeter_cfg (snd (chain greeter_with cs' (greeter_apply_new name namespace))) =
        described cs' \<lparr>ac_kind = Some ''Greeter'', ac_apiVersion = Some ''example.org/v1alpha1'',
          ac_meta = Some (empty_meta_apply\<lparr>ma_name := Some name, ma_namespace := Some namespace\<rparr>),
          ac_spec = None, ac_status = None\<rparr>)) \<and>
   (if list_ex nil_owner cs then is_panic (fst (chain clusterV1_with cs a))
    else fst (chain clusterV1_with cs a) = Ret () \<and>
      clusterV1_cfg (snd (chain clusterV1_with cs a)) = described cs (clusterV1_cfg a)) \<and>
   (if list_ex nil_owner ds then is_panic (fst (chain clusterV2_with ds b))
    else fst (chain clusterV2_with ds b) = Ret () \<and>
      clusterV2_cfg (snd (chain clusterV2_with ds b)) = described ds (clusterV2_cfg b)) \<and>
   (if list_ex nil_owner es then is_panic (fst (chain namespacedV1_with es c))
    else fst (chain namespacedV1_with es c) = Ret () \<and>
      namespacedV1_cfg (snd (chain namespacedV1_with es c)) = described es (namespacedV1_cfg c)) \<and>
   (if list_ex nil_owner fs then is_panic (fst (chain namespacedV2_with fs d))
    else fst (chain namespacedV2_with fs d) = Ret () \<and>
      namespacedV2_cfg (snd (chain namespacedV2_with fs d)) = described fs (namespacedV2_cfg d))"
  using greeter_builder.chain_nil [of cs'] greeter_builder.chain_described [of cs']
    clusterV1_builder.chain_described [of cs a] clusterV1_builder.chain_nil [of cs a]
    clusterV2_builder.chain_described [of ds b] clusterV2_builder.chain_nil [of ds b]
    namespacedV1_builder.chain_described [of es c] namespacedV1_builder.chain_nil [of es c]
    namespacedV2_builder.chain_described [of fs d] namespacedV2_builder.chain_nil [of fs d]
  by (simp add: greeter_apply_new_eq)

end
