(* ===== verification/TypedClient.thy ===== *)
theory TypedClient
  imports ApplyMeta "HOL-Library.AList"
begin

text \<open>
  What the generated clients call: the request builder of client-go's \<open>rest.Interface\<close>, as the list of
  builder calls a client makes before \<open>Do\<close> or \<open>Watch\<close>, and the actions of \<open>testing.Fake\<close>. Neither is
  part of this repository: both are records of functions, arguments of the clients. An API server
  (\<open>api\<close>) says what a request means; \<open>rest_backed\<close> and \<open>fake_backed\<close> state that a real and a fake
  client reach that server, and \<open>resource_interface\<close> is the Go interface of a resource as a contract.
\<close>

section \<open>Requests\<close>

text \<open>The list options the clients read; other options are passed on as they are (\<open>'o\<close>).\<close>

record list_options =
  lo_labelSelector :: string
  lo_fieldSelector :: string
  lo_watch :: bool
  lo_timeoutSeconds :: "64 word option"

datatype 'o rest_params = OptParams 'o | ListParams list_options

datatype ('obj, 'o) rest_body = ObjBody 'obj | OptionsBody 'o | DataBody string

datatype ('obj, 'o) rest_call =
    RGet | RPost | RPut | RDelete | RPatch string
  | RNamespace string
  | RResource string
  | RName string
  | RSubResource "string list"
  | RVersionedParams "'o rest_params"
  | RTimeout "64 word"
  | RBody "('obj, 'o) rest_body"

text \<open>\<open>Do(ctx).Into(result)\<close> decodes into an object or a list and returns an error, \<open>Do(ctx).Error()\<close>
  only the error, \<open>Watch(ctx)\<close> the watch. The state \<open>'s\<close> is that of the server.\<close>

record ('obj, 'lst, 'w, 'o, 's) rest_client =
  rc_into :: "('obj, 'o) rest_call list \<Rightarrow> 'obj \<Rightarrow> 's \<Rightarrow> ('obj \<times> go_error option) \<times> 's"
  rc_intoList :: "('obj, 'o) rest_call list \<Rightarrow> 'lst \<Rightarrow> 's \<Rightarrow> ('lst \<times> go_error option) \<times> 's"
  rc_error :: "('obj, 'o) rest_call list \<Rightarrow> 's \<Rightarrow> go_error option \<times> 's"
  rc_watch :: "('obj, 'o) rest_call list \<Rightarrow> 's \<Rightarrow> ('w option \<times> go_error option) \<times> 's"

text \<open>What a client method returns: a pointer and an error, or it panics.\<close>

type_synonym ('r, 's) call_out = "('r option \<times> go_error option) go_out \<times> 's"

text \<open>The product of \<open>time.Duration(*opts.TimeoutSeconds) * time.Second\<close> wraps around.\<close>

definition list_timeout :: "list_options \<Rightarrow> 64 word" where
  "list_timeout opts =
     (case lo_timeoutSeconds opts of None \<Rightarrow> 0 | Some seconds \<Rightarrow> seconds * 1000000000)"

definition ApplyPatchType :: string where
  "ApplyPatchType = ''application/apply-patch+yaml''"

section \<open>Actions of the fake\<close>

type_synonym gvr = "(string \<times> string) \<times> string"

text \<open>The constructors are the functions of client-go's \<open>testing\<close> package that make the actions; those
  with \<open>Root\<close> in their name are without a namespace.\<close>

datatype ('obj, 'o) fake_action =
    NewGetAction gvr string string
  | NewListAction gvr gvk string list_options
  | NewWatchAction gvr string list_options
  | NewCreateAction gvr string 'obj
  | NewUpdateAction gvr string 'obj
  | NewUpdateSubresourceAction gvr string string 'obj
  | NewDeleteActionWithOptions gvr string string 'o
  | NewDeleteCollectionAction gvr string list_options
  | NewPatchSubresourceAction gvr string string string string "string list"
  | NewRootGetAction gvr string
  | NewRootListAction gvr gvk list_options
  | NewRootWatchAction gvr list_options
  | NewRootCreateAction gvr 'obj
  | NewRootUpdateAction gvr 'obj
  | NewRootUpdateSubresourceAction gvr string 'obj
  | NewRootDeleteActionWithOptions gvr string 'o
  | NewRootDeleteCollectionAction gvr list_options
  | NewRootPatchSubresourceAction gvr string string string "string list"

text \<open>A \<open>runtime.Object\<close> that a reaction can return.\<close>

datatype ('obj, 'lst) runtime_obj = RObj 'obj | RList 'lst | ROther string

fun assert_obj :: "('obj, 'lst) runtime_obj \<Rightarrow> 'obj go_out" where
  "assert_obj (RObj x) = Ret x"
| "assert_obj _ = Panic ''interface conversion''"

fun assert_list :: "('obj, 'lst) runtime_obj \<Rightarrow> 'lst go_out" where
  "assert_list (RList x) = Ret x"
| "assert_list _ = Panic ''interface conversion''"

text \<open>\<open>Invokes\<close> gets the action and the object to return by default; \<open>testing.ExtractFromListOptions\<close>
  gives a label selector or nil.\<close>

record ('obj, 'lst, 'w, 'o, 'sel, 's) fake_client =
  fk_invokes :: "('obj, 'o) fake_action \<Rightarrow> ('obj, 'lst) runtime_obj \<Rightarrow> 's \<Rightarrow>
    (('obj, 'lst) runtime_obj option \<times> go_error option) \<times> 's"
  fk_invokesWatch :: "('obj, 'o) fake_action \<Rightarrow> 's \<Rightarrow> ('w option \<times> go_error option) \<times> 's"
  fk_extractLabel :: "list_options \<Rightarrow> 'sel option"
  fk_everything :: 'sel
  fk_matches :: "'sel \<Rightarrow> go_map \<Rightarrow> bool"

definition selector_of :: "('obj, 'lst, 'w, 'o, 'sel, 's) fake_client \<Rightarrow> list_options \<Rightarrow> go_map \<Rightarrow> bool" where
  "selector_of fk opts =
     fk_matches fk (case fk_extractLabel fk opts of None \<Rightarrow> fk_everything fk | Some l \<Rightarrow> l)"

text \<open>The loop that keeps the items a label selector matches.\<close>

fun keep_matching :: "(go_map \<Rightarrow> bool) \<Rightarrow> ('obj \<Rightarrow> go_map) \<Rightarrow> 'obj list \<Rightarrow> 'obj list \<Rightarrow> 'obj list" where
  "keep_matching matches labels [] kept = kept"
| "keep_matching matches labels (x # xs) kept =
     keep_matching matches labels xs (if matches (labels x) then kept @ [x] else kept)"

lemma keep_matching_filter: "keep_matching p lab xs kept = kept @ filter (\<lambda>x. p (lab x)) xs"
  by (induction xs arbitrary: kept) simp_all

text \<open>The reaction to an action, read as an object: \<open>if obj == nil { return nil, err }\<close> and the type
  assertion.\<close>

definition obj_result :: "(('obj, 'lst) runtime_obj option \<times> go_error option) \<times> 's \<Rightarrow> ('obj, 's) call_out" where
  "obj_result r =
     (let ((obj, err), s) = r
      in case obj of
           None \<Rightarrow> (Ret (None, err), s)
         | Some x \<Rightarrow> (case assert_obj x of Panic p \<Rightarrow> (Panic p, s) | Ret y \<Rightarrow> (Ret (Some y, err), s)))"

section \<open>The API server\<close>

datatype 'obj payload =
    NoPayload
  | ObjPayload 'obj
  | PatchPayload string string
  | SelPayload string string

record 'obj api_request =
  rq_verb :: string
  rq_gv :: "string \<times> string"
  rq_resource :: string
  rq_namespace :: string
  rq_name :: string
  rq_sub :: "string list"
  rq_payload :: "'obj payload"

record ('obj, 'lst, 'w, 's) api =
  api_obj :: "'obj api_request \<Rightarrow> 's \<Rightarrow> (go_error + 'obj) \<times> 's"
  api_list :: "'obj api_request \<Rightarrow> 's \<Rightarrow> (go_error + 'lst) \<times> 's"
  api_done :: "'obj api_request \<Rightarrow> 's \<Rightarrow> go_error option \<times> 's"
  api_watch :: "'obj api_request \<Rightarrow> 's \<Rightarrow> (go_error + 'w) \<times> 's"

definition sel_payload :: "list_options \<Rightarrow> 'obj payload" where
  "sel_payload opts = SelPayload (lo_labelSelector opts) (lo_fieldSelector opts)"

text \<open>The request that builder calls make, in any order: each call sets one part of it. The verb of the
  API follows from the HTTP method and from whether there is a name: a \<open>GET\<close> without a name is a list,
  or a watch, and a \<open>DELETE\<close> without a name deletes a collection.\<close>

fun rest_set :: "'obj api_request \<Rightarrow> ('obj, 'o) rest_call \<Rightarrow> 'obj api_request" where
  "rest_set q RGet = q\<lparr>rq_verb := ''get''\<rparr>"
| "rest_set q RPost = q\<lparr>rq_verb := ''create''\<rparr>"
| "rest_set q RPut = q\<lparr>rq_verb := ''update''\<rparr>"
| "rest_set q RDelete = q\<lparr>rq_verb := ''delete''\<rparr>"
| "rest_set q (RPatch pt) = q\<lparr>rq_verb := ''patch'', rq_payload := PatchPayload pt ''''\<rparr>"
| "rest_set q (RNamespace n) = q\<lparr>rq_namespace := n\<rparr>"
| "rest_set q (RResource r) = q\<lparr>rq_resource := r\<rparr>"
| "rest_set q (RName n) = q\<lparr>rq_name := n\<rparr>"
| "rest_set q (RSubResource ss) = q\<lparr>rq_sub := ss\<rparr>"
| "rest_set q (RVersionedParams (ListParams opts)) =
     q\<lparr>rq_verb := (if rq_verb q = ''get'' then if lo_watch opts then ''watch'' else ''list''
         else rq_verb q), rq_payload := sel_payload opts\<rparr>"
| "rest_set q (RVersionedParams (OptParams _)) = q"
| "rest_set q (RTimeout _) = q"
| "rest_set q (RBody (ObjBody x)) = q\<lparr>rq_payload := ObjPayload x\<rparr>"
| "rest_set q (RBody (OptionsBody _)) = q"
| "rest_set q (RBody (DataBody d)) =
     q\<lparr>rq_payload := (case rq_payload q of PatchPayload pt _ \<Rightarrow> PatchPayload pt d | p \<Rightarrow> p)\<rparr>"

definition empty_request :: "string \<times> string \<Rightarrow> 'obj api_request" where
  "empty_request gv = \<lparr>rq_verb = '''', rq_gv = gv, rq_resource = '''', rq_namespace = '''',
     rq_name = '''', rq_sub = [], rq_payload = NoPayload\<rparr>"

definition rest_request :: "string \<times> string \<Rightarrow> ('obj, 'o) rest_call list \<Rightarrow> 'obj api_request" where
  "rest_request gv calls =
     (let q = foldl rest_set (empty_request gv) calls
      in if rq_verb q = ''delete'' \<and> rq_name q = '''' then q\<lparr>rq_verb := ''deletecollection''\<rparr> else q)"

text \<open>The request an action stands for. The name of an updated object is in the object.\<close>

definition mk_request :: "string \<Rightarrow> gvr \<Rightarrow> string \<Rightarrow> string \<Rightarrow> string list \<Rightarrow> 'obj payload \<Rightarrow> 'obj api_request" where
  "mk_request verb r ns name sub p = \<lparr>rq_verb = verb, rq_gv = fst r, rq_resource = snd r,
     rq_namespace = ns, rq_name = name, rq_sub = sub, rq_payload = p\<rparr>"

fun fake_request :: "('obj \<Rightarrow> string) \<Rightarrow> ('obj, 'o) fake_action \<Rightarrow> 'obj api_request" where
  "fake_request nm (NewGetAction r ns n) = mk_request ''get'' r ns n [] NoPayload"
| "fake_request nm (NewListAction r k ns opts) = mk_request ''list'' r ns '''' [] (sel_payload opts)"
| "fake_request nm (NewWatchAction r ns opts) = mk_request ''watch'' r ns '''' [] (sel_payload opts)"
| "fake_request nm (NewCreateAction r ns x) = mk_request ''create'' r ns '''' [] (ObjPayload x)"
| "fake_request nm (NewUpdateAction r ns x) = mk_request ''update'' r ns (nm x) [] (ObjPayload x)"
| "fake_request nm (NewUpdateSubresourceAction r sub ns x) = mk_request ''update'' r ns (nm x) [sub] (ObjPayload x)"
| "fake_request nm (NewDeleteActionWithOptions r ns n opts) = mk_request ''delete'' r ns n [] NoPayload"
| "fake_request nm (NewDeleteCollectionAction r ns opts) = mk_request ''deletecollection'' r ns '''' [] (sel_payload opts)"
| "fake_request nm (NewPatchSubresourceAction r ns n pt d subs) = mk_request ''patch'' r ns n subs (PatchPayload pt d)"
| "fake_request nm (NewRootGetAction r n) = mk_request ''get'' r '''' n [] NoPayload"
| "fake_request nm (NewRootListAction r k opts) = mk_request ''list'' r '''' '''' [] (sel_payload opts)"
| "fake_request nm (NewRootWatchAction r opts) = mk_request ''watch'' r '''' '''' [] (sel_payload opts)"
| "fake_request nm (NewRootCreateAction r x) = mk_request ''create'' r '''' '''' [] (ObjPayload x)"
| "fake_request nm (NewRootUpdateAction r x) = mk_request ''update'' r '''' (nm x) [] (ObjPayload x)"
| "fake_request nm (NewRootUpdateSubresourceAction r sub x) = mk_request ''update'' r '''' (nm x) [sub] (ObjPayload x)"
| "fake_request nm (NewRootDeleteActionWithOptions r n opts) = mk_request ''delete'' r '''' n [] NoPayload"
| "fake_request nm (NewRootDeleteCollectionAction r opts) = mk_request ''deletecollection'' r '''' '''' [] (sel_payload opts)"
| "fake_request nm (NewRootPatchSubresourceAction r n pt d subs) = mk_request ''patch'' r '''' n subs (PatchPayload pt d)"

section \<open>Clients of the server\<close>

text \<open>The documented behaviour of a \<open>rest.RESTClient\<close> made for a group version: a request reaches the
  server as the calls say (an empty name is refused before, which is left out here), and the result
  is decoded into the object given unless there is an error.\<close>

fun decoded :: "'r \<Rightarrow> (go_error + 'r) \<times> 's \<Rightarrow> ('r \<times> go_error option) \<times> 's" where
  "decoded z (Inl e, s) = ((z, Some e), s)"
| "decoded z (Inr x, s) = ((x, None), s)"

fun pointed :: "('r \<Rightarrow> 'p) \<Rightarrow> (go_error + 'r) \<times> 's \<Rightarrow> ('p option \<times> go_error option) \<times> 's" where
  "pointed f (Inl e, s) = ((None, Some e), s)"
| "pointed f (Inr x, s) = ((Some (f x), None), s)"

definition rest_backed :: "string \<times> string \<Rightarrow> ('obj, 'lst, 'w, 's) api \<Rightarrow> ('obj, 'lst, 'w, 'o, 's) rest_client \<Rightarrow> bool" where
  "rest_backed gv api rc \<longleftrightarrow> (\<forall>calls. RName '''' \<notin> set calls \<longrightarrow>
     (\<forall>z s. rc_into rc calls z s = decoded z (api_obj api (rest_request gv calls) s)) \<and>
     (\<forall>z s. rc_intoList rc calls z s = decoded z (api_list api (rest_request gv calls) s)) \<and>
     (\<forall>s. rc_error rc calls s = api_done api (rest_request gv calls) s) \<and>
     (\<forall>s. rc_watch rc calls s = pointed id (api_watch api (rest_request gv calls) s)))"

text \<open>A \<open>testing.Fake\<close> whose reactions are those of the server: a list or an object by the verb of the
  action, nil with an error, and nil for a deletion.\<close>

definition fake_backed :: "('obj \<Rightarrow> string) \<Rightarrow> ('obj, 'lst, 'w, 's) api \<Rightarrow> ('obj, 'lst, 'w, 'o, 'sel, 's) fake_client \<Rightarrow> bool" where
  "fake_backed nm api fk \<longleftrightarrow> (\<forall>a.
     (\<forall>d s. fk_invokes fk a d s =
        (let q = fake_request nm a
         in if rq_verb q = ''list'' then pointed RList (api_list api q s)
            else if rq_verb q = ''delete'' \<or> rq_verb q = ''deletecollection'' then
              (let (e, s) = api_done api q s in ((None, e), s))
            else pointed RObj (api_obj api q s))) \<and>
     (\<forall>s. fk_invokesWatch fk a s = pointed id (api_watch api (fake_request nm a) s)))"

text \<open>The server lists only what the label selector matches, as the fake understands selectors.\<close>

definition honest_lists :: "('lst \<Rightarrow> 'obj list) \<Rightarrow> ('obj \<Rightarrow> go_map) \<Rightarrow> ('obj, 'lst, 'w, 's) api \<Rightarrow>
    ('obj, 'lst, 'w, 'o, 'sel, 's) fake_client \<Rightarrow> bool" where
  "honest_lists items labels api fk \<longleftrightarrow> (\<forall>q opts s l s'. api_list api q s = (Inr l, s') \<longrightarrow>
     rq_payload q = sel_payload opts \<longrightarrow> (\<forall>x \<in> set (items l). selector_of fk opts (labels x)))"

text \<open>Clients that have these contracts, for any server.\<close>

definition rest_of_api :: "string \<times> string \<Rightarrow> ('obj, 'lst, 'w, 's) api \<Rightarrow> ('obj, 'lst, 'w, 'o, 's) rest_client" where
  "rest_of_api gv api = \<lparr>
     rc_into = (\<lambda>calls z s. decoded z (api_obj api (rest_request gv calls) s)),
     rc_intoList = (\<lambda>calls z s. decoded z (api_list api (rest_request gv calls) s)),
     rc_error = (\<lambda>calls s. api_done api (rest_request gv calls) s),
     rc_watch = (\<lambda>calls s. pointed id (api_watch api (rest_request gv calls) s))\<rparr>"

definition fake_of_api :: "('obj \<Rightarrow> string) \<Rightarrow> ('obj, 'lst, 'w, 's) api \<Rightarrow> (string \<Rightarrow> go_map \<Rightarrow> bool) \<Rightarrow>
    ('obj, 'lst, 'w, 'o, string, 's) fake_client" where
  "fake_of_api nm api matches = \<lparr>
     fk_invokes = (\<lambda>a d s. let q = fake_request nm a
       in if rq_verb q = ''list'' then pointed RList (api_list api q s)
          else if rq_verb q = ''delete'' \<or> rq_verb q = ''deletecollection'' then
            (let (e, s) = api_done api q s in ((None, e), s))
          else pointed RObj (api_obj api q s)),
     fk_invokesWatch = (\<lambda>a s. pointed id (api_watch api (fake_request nm a) s)),
     fk_extractLabel = (\<lambda>opts. if lo_labelSelector opts = '''' then None else Some (lo_labelSelector opts)),
     fk_everything = '''', fk_matches = matches\<rparr>"

lemma rest_of_api_backed [simp]: "rest_backed gv api (rest_of_api gv api)"
  by (simp add: rest_backed_def rest_of_api_def)

lemma fake_of_api_backed [simp]: "fake_backed nm api (fake_of_api nm api matches)"
  by (simp add: fake_backed_def fake_of_api_def)

lemma fake_of_api_honest [simp]: "honest_lists items labels api' (fake_of_api nm api (\<lambda>_ _. True))"
  by (simp add: honest_lists_def selector_of_def fake_of_api_def)

section \<open>The interface of a resource\<close>

text \<open>What a call returned answers what the server did: the same state, the same error and, without
  one, a pointer to what the server sent (as far as \<open>f\<close> can see).\<close>

definition answers :: "('r \<Rightarrow> 'v) \<Rightarrow> ('r, 's) call_out \<Rightarrow> (go_error + 'r) \<times> 's \<Rightarrow> bool" where
  "answers f out r \<longleftrightarrow> snd out = snd r \<and>
     (case fst r of
        Inl e \<Rightarrow> (\<exists>x. fst out = Ret (x, Some e))
      | Inr v \<Rightarrow> (\<exists>x. fst out = Ret (Some x, None) \<and> f x = f v))"

definition agree :: "('r \<Rightarrow> 'v) \<Rightarrow> ('r, 's) call_out \<Rightarrow> ('r, 's) call_out \<Rightarrow> bool" where
  "agree f a b \<longleftrightarrow> snd a = snd b \<and>
     (case (fst a, fst b) of
        (Ret (x, e), Ret (y, e')) \<Rightarrow> e = e' \<and> (e = None \<longrightarrow> x \<noteq> None \<and> map_option f x = map_option f y)
      | (Panic p, Panic p') \<Rightarrow> p = p'
      | _ \<Rightarrow> False)"

lemma answers_agree: "answers f a r \<Longrightarrow> answers f b r \<Longrightarrow> agree f a b"
  by (auto simp: answers_def agree_def split: sum.splits)

text \<open>What an apply call checks before it sends a patch: the configuration and its name.\<close>

definition apply_check :: "('cfg \<Rightarrow> meta_apply option) \<Rightarrow> ('cfg \<Rightarrow> go_error + string) \<Rightarrow> 'cfg option \<Rightarrow>
    (go_error + string \<times> string) go_out" where
  "apply_check meta marshal c =
     (case c of
        None \<Rightarrow> Ret (Inl ErrMustNotBeNil)
      | Some b \<Rightarrow>
          (case marshal b of
             Inl e \<Rightarrow> Ret (Inl e)
           | Inr d \<Rightarrow>
               (case meta b of
                  None \<Rightarrow> Panic ''nil pointer dereference''
                | Some m \<Rightarrow>
                    (case ma_name m of
                       None \<Rightarrow> Ret (Inl ErrNameRequired)
                     | Some n \<Rightarrow> Ret (Inr (n, d))))))"

definition applies :: "('obj, 'lst, 'w, 's) api \<Rightarrow> gvr \<Rightarrow> string \<Rightarrow> string list \<Rightarrow>
    (go_error + string \<times> string) go_out \<Rightarrow> ('obj, 's) call_out \<Rightarrow> 's \<Rightarrow> bool" where
  "applies api r ns sub check out s =
     (case check of
        Panic p \<Rightarrow> out = (Panic p, s)
      | Ret (Inl e) \<Rightarrow> out = (Ret (None, Some e), s)
      | Ret (Inr (n, d)) \<Rightarrow> n \<noteq> '''' \<longrightarrow>
          answers id out (api_obj api (mk_request ''patch'' r ns n sub (PatchPayload ApplyPatchType d)) s))"

text \<open>The check does not ask for a name that is not empty.\<close>

definition empty_name :: "(go_error + string \<times> string) go_out \<Rightarrow> bool" where
  "empty_name check = (case check of Ret (Inr (n, d)) \<Rightarrow> n = '''' | _ \<Rightarrow> False)"

lemma applies_agree:
  "applies api r ns sub c a s \<Longrightarrow> applies api r ns sub c b s \<Longrightarrow> \<not> empty_name c \<Longrightarrow> agree id a b"
proof (cases c)
  case (Ret x)
  assume "applies api r ns sub c a s" and "applies api r ns sub c b s" and "\<not> empty_name c"
  with Ret show ?thesis
  proof (cases x)
    case (Inl e)
    with Ret \<open>applies api r ns sub c a s\<close> \<open>applies api r ns sub c b s\<close> show ?thesis
      by (simp add: applies_def agree_def)
  next
    case (Inr nd)
    with Ret \<open>applies api r ns sub c a s\<close> \<open>applies api r ns sub c b s\<close> \<open>\<not> empty_name c\<close> show ?thesis
      by (auto simp: applies_def empty_name_def split: prod.splits intro: answers_agree)
  qed
qed (simp add: applies_def agree_def)

text \<open>The Go interface of a resource (\<open>GreeterInterface\<close> and its like): a value of it holds the methods
  of an implementation.\<close>

record ('obj, 'lst, 'w, 'o, 'cfg, 's) resource_methods =
  rm_Create :: "'obj \<Rightarrow> 'o \<Rightarrow> 's \<Rightarrow> ('obj, 's) call_out"
  rm_Update :: "'obj \<Rightarrow> 'o \<Rightarrow> 's \<Rightarrow> ('obj, 's) call_out"
  rm_UpdateStatus :: "'obj \<Rightarrow> 'o \<Rightarrow> 's \<Rightarrow> ('obj, 's) call_out"
  rm_Delete :: "string \<Rightarrow> 'o \<Rightarrow> 's \<Rightarrow> go_error option \<times> 's"
  rm_DeleteCollection :: "'o \<Rightarrow> list_options \<Rightarrow> 's \<Rightarrow> go_error option \<times> 's"
  rm_Get :: "string \<Rightarrow> 'o \<Rightarrow> 's \<Rightarrow> ('obj, 's) call_out"
  rm_List :: "list_options \<Rightarrow> 's \<Rightarrow> ('lst, 's) call_out"
  rm_Watch :: "list_options \<Rightarrow> 's \<Rightarrow> ('w, 's) call_out"
  rm_Patch :: "string \<Rightarrow> string \<Rightarrow> string \<Rightarrow> 'o \<Rightarrow> string list \<Rightarrow> 's \<Rightarrow> ('obj, 's) call_out"
  rm_Apply :: "'cfg option \<Rightarrow> 'o \<Rightarrow> 's \<Rightarrow> ('obj, 's) call_out"
  rm_ApplyStatus :: "'cfg option \<Rightarrow> 'o \<Rightarrow> 's \<Rightarrow> ('obj, 's) call_out"

text \<open>Its contract: each method makes one request, of this resource, and answers what the server did.\<close>

locale resource_interface =
  fixes api :: "('obj, 'lst, 'w, 's) api" and r :: gvr and ns :: string and nm :: "'obj \<Rightarrow> string"
    and lview :: "'lst \<Rightarrow> 'v" and check :: "'cfg option \<Rightarrow> (go_error + string \<times> string) go_out"
    and I :: "('obj, 'lst, 'w, 'o, 'cfg, 's) resource_methods"
  assumes get_ok: "n \<noteq> '''' \<Longrightarrow>
      answers id (rm_Get I n op s) (api_obj api (mk_request ''get'' r ns n [] NoPayload) s)"
    and list_ok: "\<not> lo_watch opts \<Longrightarrow>
      answers lview (rm_List I opts s) (api_list api (mk_request ''list'' r ns '''' [] (sel_payload opts)) s)"
    and watch_ok:
      "answers id (rm_Watch I opts s) (api_watch api (mk_request ''watch'' r ns '''' [] (sel_payload opts)) s)"
    and create_ok:
      "answers id (rm_Create I x op s) (api_obj api (mk_request ''create'' r ns '''' [] (ObjPayload x)) s)"
    and update_ok: "nm x \<noteq> '''' \<Longrightarrow>
      answers id (rm_Update I x op s) (api_obj api (mk_request ''update'' r ns (nm x) [] (ObjPayload x)) s)"
    and updateStatus_ok: "nm x \<noteq> '''' \<Longrightarrow> answers id (rm_UpdateStatus I x op s)
      (api_obj api (mk_request ''update'' r ns (nm x) [''status''] (ObjPayload x)) s)"
    and delete_ok: "n \<noteq> '''' \<Longrightarrow> rm_Delete I n op s = api_done api (mk_request ''delete'' r ns n [] NoPayload) s"
    and deleteCollection_ok: "\<not> lo_watch opts \<Longrightarrow> rm_DeleteCollection I op opts s =
      api_done api (mk_request ''deletecollection'' r ns '''' [] (sel_payload opts)) s"
    and patch_ok: "n \<noteq> '''' \<Longrightarrow> answers id (rm_Patch I n pt d op subs s)
      (api_obj api (mk_request ''patch'' r ns n subs (PatchPayload pt d)) s)"
    and apply_ok: "applies api r ns [] (check c) (rm_Apply I c op s) s"
    and applyStatus_ok: "applies api r ns [''status''] (check c) (rm_ApplyStatus I c op s) s"

text \<open>Two implementations of the interface for the same server.\<close>

definition clients_agree ::
    "('obj \<Rightarrow> string) \<Rightarrow> ('lst \<Rightarrow> 'v) \<Rightarrow> ('cfg option \<Rightarrow> (go_error + string \<times> string) go_out) \<Rightarrow>
     ('obj, 'lst, 'w, 'o, 'cfg, 's) resource_methods \<Rightarrow> ('obj, 'lst, 'w, 'o, 'cfg, 's) resource_methods \<Rightarrow> bool" where
  "clients_agree nm lview check I J \<longleftrightarrow>
      (\<forall>n op s. n \<noteq> '''' \<longrightarrow> agree id (rm_Get I n op s) (rm_Get J n op s)) \<and>
      (\<forall>opts s. \<not> lo_watch opts \<longrightarrow> agree lview (rm_List I opts s) (rm_List J opts s)) \<and>
      (\<forall>opts s. agree id (rm_Watch I opts s) (rm_Watch J opts s)) \<and>
      (\<forall>x op s. agree id (rm_Create I x op s) (rm_Create J x op s)) \<and>
      (\<forall>x op s. nm x \<noteq> '''' \<longrightarrow> agree id (rm_Update I x op s) (rm_Update J x op s)) \<and>
      (\<forall>x op s. nm x \<noteq> '''' \<longrightarrow> agree id (rm_UpdateStatus I x op s) (rm_UpdateStatus J x op s)) \<and>
      (\<forall>n op s. n \<noteq> '''' \<longrightarrow> rm_Delete I n op s = rm_Delete J n op s) \<and>
      (\<forall>op opts s. \<not> lo_watch opts \<longrightarrow> rm_DeleteCollection I op opts s = rm_DeleteCollection J op opts s) \<and>
      (\<forall>n pt d op subs s. n \<noteq> '''' \<longrightarrow> agree id (rm_Patch I n pt d op subs s) (rm_Patch J n pt d op subs s)) \<and>
      (\<forall>c op s. \<not> empty_name (check c) \<longrightarrow> agree id (rm_Apply I c op s) (rm_Apply J c op s)) \<and>
      (\<forall>c op s. \<not> empty_name (check c) \<longrightarrow> agree id (rm_ApplyStatus I c op s) (rm_ApplyStatus J c op s))"

locale two_clients =
  real: resource_interface api r ns nm lview check I + fake: resource_interface api r ns nm lview check J
  for api :: "('obj, 'lst, 'w, 's) api" and r :: gvr and ns :: string and nm :: "'obj \<Rightarrow> string"
    and lview :: "'lst \<Rightarrow> 'v" and check :: "'cfg option \<Rightarrow> (go_error + string \<times> string) go_out"
    and I :: "('obj, 'lst, 'w, 'o, 'cfg, 's) resource_methods"
    and J :: "('obj, 'lst, 'w, 'o, 'cfg, 's) resource_methods"
begin

lemma clients_agree: "clients_agree nm lview check I J"
  unfolding clients_agree_def
  using answers_agree [OF real.get_ok fake.get_ok] answers_agree [OF real.list_ok fake.list_ok]
    answers_agree [OF real.watch_ok fake.watch_ok] answers_agree [OF real.create_ok fake.create_ok]
    answers_agree [OF real.update_ok fake.update_ok] answers_agree [OF real.updateStatus_ok fake.updateStatus_ok]
    real.delete_ok fake.delete_ok real.deleteCollection_ok fake.deleteCollection_ok
    answers_agree [OF real.patch_ok fake.patch_ok] applies_agree [OF real.apply_ok fake.apply_ok]
    applies_agree [OF real.applyStatus_ok fake.applyStatus_ok]
  by simp

end

section \<open>What the methods of a client need\<close>

text \<open>The clients of a resource of a namespace and of one of the cluster, real and fake, and what an
  apply call takes from outside: \<open>json.Marshal\<close> of a configuration and \<open>ToPatchOptions\<close>.\<close>

record ('obj, 'lst, 'w, 'o, 's) namespaced_client =
  nc_client :: "('obj, 'lst, 'w, 'o, 's) rest_client"
  nc_ns :: string

record ('obj, 'lst, 'w, 'o, 's) cluster_client =
  cc_client :: "('obj, 'lst, 'w, 'o, 's) rest_client"

record ('obj, 'lst, 'w, 'o, 'sel, 's) fake_namespaced =
  fn_Fake :: "('obj, 'lst, 'w, 'o, 'sel, 's) fake_client"
  fn_ns :: string

record ('obj, 'lst, 'w, 'o, 'sel, 's) fake_cluster =
  fc_Fake :: "('obj, 'lst, 'w, 'o, 'sel, 's) fake_client"

record ('cfg, 'o) apply_lib =
  al_marshal :: "'cfg \<Rightarrow> go_error + string"
  al_toPatch :: "'o \<Rightarrow> 'o"

definition the_items :: "'a list option \<Rightarrow> 'a list" where
  "the_items xs = (case xs of None \<Rightarrow> [] | Some xs \<Rightarrow> xs)"

text \<open>What \<open>append\<close> to a nil slice makes: nil when nothing is appended.\<close>

definition slice_of :: "'a list \<Rightarrow> 'a list option" where
  "slice_of xs = (if xs = [] then None else Some xs)"

lemma the_items_simps [simp]:
  "the_items None = []" "the_items (Some xs) = xs" "the_items (slice_of xs) = xs"
  by (simp_all add: the_items_def slice_of_def)

definition returned :: "('r \<times> go_error option) \<times> 's \<Rightarrow> ('r, 's) call_out" where
  "returned r = (let ((result, err), s) = r in (Ret (Some result, err), s))"

lemma answers_returned [simp]: "answers f (returned (decoded z r)) r"
  by (cases r; cases "fst r") (auto simp: answers_def returned_def)

text \<open>\<open>return call(...)\<close>.\<close>

definition passed_on :: "('r option \<times> go_error option) \<times> 's \<Rightarrow> ('r, 's) call_out" where
  "passed_on r = (Ret (fst r), snd r)"

lemma answers_pointed [simp]: "answers id (passed_on (pointed id r)) r"
  by (cases r; cases "fst r") (auto simp: answers_def passed_on_def)

lemma answers_obj_result [simp]: "answers id (obj_result (pointed RObj r)) r"
  by (cases r; cases "fst r") (auto simp: answers_def obj_result_def)

lemma rest_backedD:
  assumes "rest_backed gv api rc" and "RName '''' \<notin> set calls"
  shows "rc_into rc calls z s = decoded z (api_obj api (rest_request gv calls) s)"
    and "rc_intoList rc calls l s = decoded l (api_list api (rest_request gv calls) s)"
    and "rc_error rc calls s = api_done api (rest_request gv calls) s"
    and "rc_watch rc calls s = pointed id (api_watch api (rest_request gv calls) s)"
  using assms by (simp_all add: rest_backed_def)

lemma fake_backedD:
  assumes "fake_backed nm api fk"
  shows "fk_invokes fk a d s =
      (let q = fake_request nm a
       in if rq_verb q = ''list'' then pointed RList (api_list api q s)
          else if rq_verb q = ''delete'' \<or> rq_verb q = ''deletecollection'' then
            (let (e, s) = api_done api q s in ((None, e), s))
          else pointed RObj (api_obj api q s))"
    and "fk_invokesWatch fk a s = pointed id (api_watch api (fake_request nm a) s)"
  using assms by (simp_all add: fake_backed_def)

lemma fake_backed_list:
  assumes "fake_backed nm api fk"
  shows "fk_invokes fk (NewListAction r k ns opts) d s =
      pointed RList (api_list api (mk_request ''list'' r ns '''' [] (sel_payload opts)) s)"
    and "fk_invokes fk (NewRootListAction r k opts) d s =
      pointed RList (api_list api (mk_request ''list'' r '''' '''' [] (sel_payload opts)) s)"
  by (simp_all add: fake_backedD [OF assms] mk_request_def)

text \<open>The result of a fake list: the items are filtered once more, which an honest server makes a no-op.\<close>

lemma answers_fake_list:
  assumes "honest_lists items labels api fk" and "rq_payload q = sel_payload opts"
    and "\<And>l. f (rebuild l (items l)) = f l"
  shows "answers f
    (case pointed RList (api_list api q s) of
       ((None, err), s) \<Rightarrow> (Ret (None, err), s)
     | ((Some x, err), s) \<Rightarrow>
         (case assert_list x of
            Panic p \<Rightarrow> (Panic p, s)
          | Ret l \<Rightarrow> (Ret (Some (rebuild l (filter (\<lambda>x. selector_of fk opts (labels x)) (items l))), err), s)))
    (api_list api q s)"
proof (cases "api_list api q s")
  case (Pair r s')
  show ?thesis
  proof (cases r)
    case (Inl e)
    with Pair show ?thesis by (simp add: answers_def)
  next
    case (Inr l)
    with assms(1,2) Pair have "filter (\<lambda>x. selector_of fk opts (labels x)) (items l) = items l"
      unfolding honest_lists_def by (metis filter_True)
    with Pair Inr assms(3) [of l] show ?thesis by (simp add: answers_def)
  qed
qed

section \<open>A server in memory\<close>

text \<open>A server that has all of this, for concrete runs: objects by namespace and name, listed when the
  selector (a predicate here) matches; a patch is the data's own business.\<close>

type_synonym 'obj objects = "((string \<times> string) \<times> 'obj) list"

definition memory_obj :: "('obj \<Rightarrow> string) \<Rightarrow> (string \<Rightarrow> string \<Rightarrow> string \<Rightarrow> 'obj option \<Rightarrow> 'obj) \<Rightarrow>
    'obj api_request \<Rightarrow> 'obj objects \<Rightarrow> (go_error + 'obj) \<times> 'obj objects" where
  "memory_obj nm merge q s =
     (let old = map_of s (rq_namespace q, rq_name q)
      in if rq_verb q = ''get'' then
           (case old of None \<Rightarrow> (Inl (ExtErr ''NotFound''), s) | Some x \<Rightarrow> (Inr x, s))
         else (case rq_payload q of
           ObjPayload x \<Rightarrow>
             if rq_verb q = ''create'' then
               (if map_of s (rq_namespace q, nm x) = None
                then (Inr x, ((rq_namespace q, nm x), x) # s) else (Inl (ExtErr ''AlreadyExists''), s))
             else if old = None then (Inl (ExtErr ''NotFound''), s)
             else (Inr x, AList.update (rq_namespace q, nm x) x s)
         | PatchPayload pt d \<Rightarrow>
             let x = merge pt d (rq_name q) old
             in (Inr x, AList.update (rq_namespace q, rq_name q) x s)
         | _ \<Rightarrow> (Inl (ExtErr ''BadRequest''), s)))"

definition memory_api :: "('obj \<Rightarrow> string) \<Rightarrow> ('obj \<Rightarrow> go_map) \<Rightarrow> (string \<Rightarrow> go_map \<Rightarrow> bool) \<Rightarrow>
    ('obj list \<Rightarrow> 'lst) \<Rightarrow> (string \<Rightarrow> string \<Rightarrow> string \<Rightarrow> 'obj option \<Rightarrow> 'obj) \<Rightarrow>
    ('obj, 'lst, unit, 'obj objects) api" where
  "memory_api nm labels matches mkl merge = \<lparr>
     api_obj = memory_obj nm merge,
     api_list = (\<lambda>q s. case rq_payload q of
        SelPayload l f \<Rightarrow> (Inr (mkl (map snd (filter (\<lambda>((ns, n), x). ns = rq_namespace q \<and> matches l (labels x)) s))), s)
      | _ \<Rightarrow> (Inl (ExtErr ''BadRequest''), s)),
     api_done = (\<lambda>q s. if rq_verb q = ''delete''
        then (if map_of s (rq_namespace q, rq_name q) = None then (Some (ExtErr ''NotFound''), s)
              else (None, AList.delete (rq_namespace q, rq_name q) s))
        else (None, filter (\<lambda>((ns, n), x). ns \<noteq> rq_namespace q) s)),
     api_watch = (\<lambda>q s. (Inr (), s))\<rparr>"

definition label_app :: "string \<Rightarrow> go_map \<Rightarrow> bool" where
  "label_app sel m \<longleftrightarrow> sel = '''' \<or> go_map_get m ''app'' = sel"

lemma memory_api_honest:
  assumes "\<And>xs. items (mkl xs) = xs"
  shows "honest_lists items labels (memory_api nm labels label_app mkl merge)
    (fake_of_api nm' api label_app)"
  by (auto simp: honest_lists_def memory_api_def sel_payload_def fake_of_api_def selector_of_def assms
      label_app_def split: payload.splits)

end
