(* ===== verification/GreeterClient.thy ===== *)
theory GreeterClient
  imports TypedClient GreeterApply
begin

text \<open>
  The generated client of Greeters (\<open>clientset/versioned/typed/greeter/v1alpha1/greeter.go\<close>) and its
  fake (\<open>fake/fake_greeter.go\<close>): every method as the builder calls or the action it makes. Both are
  implementations of one interface; an API server behind them cannot tell which of them is used.
\<close>

definition zero_greeter_spec :: greeter_spec where
  "zero_greeter_spec = \<lparr>gs_schedule = '''', gs_message = ''''\<rparr>"

definition zero_greeter_status :: greeter_status where
  "zero_greeter_status = \<lparr>gst_phase = ''''\<rparr>"

section \<open>Greeter: the client\<close>

definition zero_greeter :: greeter where
  "zero_greeter = \<lparr>g_type = zero_type, g_meta = zero_meta, g_spec = zero_greeter_spec,
     g_status = zero_greeter_status\<rparr>"

definition zero_greeter_list :: greeter_list where
  "zero_greeter_list = \<lparr>gl_type = zero_type, gl_resourceVersion = '''', gl_items = None\<rparr>"

definition new_greeters :: "(greeter, greeter_list, 'w, 'o, 's) rest_client \<Rightarrow> string \<Rightarrow> (greeter, greeter_list, 'w, 'o, 's) namespaced_client" where
  "new_greeters rc namespace = \<lparr>nc_client = rc, nc_ns = namespace\<rparr>"

definition greeters_Get :: "(greeter, greeter_list, 'w, 'o, 's) namespaced_client \<Rightarrow> string \<Rightarrow> 'o \<Rightarrow> 's \<Rightarrow> (greeter, 's) call_out" where
  "greeters_Get c name options s =
     returned (rc_into (nc_client c)
       [RGet, RNamespace (nc_ns c), RResource ''greeters'', RName name, RVersionedParams (OptParams options)]
       zero_greeter s)"

definition greeters_List :: "(greeter, greeter_list, 'w, 'o, 's) namespaced_client \<Rightarrow> list_options \<Rightarrow> 's \<Rightarrow> (greeter_list, 's) call_out" where
  "greeters_List c opts s =
     (let timeout = list_timeout opts
      in returned (rc_intoList (nc_client c)
           [RGet, RNamespace (nc_ns c), RResource ''greeters'', RVersionedParams (ListParams opts), RTimeout timeout]
           zero_greeter_list s))"

definition greeters_Watch :: "(greeter, greeter_list, 'w, 'o, 's) namespaced_client \<Rightarrow> list_options \<Rightarrow> 's \<Rightarrow> ('w, 's) call_out" where
  "greeters_Watch c opts s =
     (let timeout = list_timeout opts;
opts = opts\<lparr>lo_watch := True\<rparr>
      in passed_on (rc_watch (nc_client c)
           [RGet, RNamespace (nc_ns c), RResource ''greeters'', RVersionedParams (ListParams opts), RTimeout timeout] s))"

definition greeters_Create :: "(greeter, greeter_list, 'w, 'o, 's) namespaced_client \<Rightarrow> greeter \<Rightarrow> 'o \<Rightarrow> 's \<Rightarrow> (greeter, 's) call_out" where
  "greeters_Create c x opts s =
     returned (rc_into (nc_client c)
       [RPost, RNamespace (nc_ns c), RResource ''greeters'', RVersionedParams (OptParams opts), RBody (ObjBody x)]
       zero_greeter s)"

definition greeters_Update :: "(greeter, greeter_list, 'w, 'o, 's) namespaced_client \<Rightarrow> greeter \<Rightarrow> 'o \<Rightarrow> 's \<Rightarrow> (greeter, 's) call_out" where
  "greeters_Update c x opts s =
     returned (rc_into (nc_client c)
       [RPut, RNamespace (nc_ns c), RResource ''greeters'', RName (om_name (g_meta x)),
        RVersionedParams (OptParams opts), RBody (ObjBody x)]
       zero_greeter s)"

definition greeters_UpdateStatus :: "(greeter, greeter_list, 'w, 'o, 's) namespaced_client \<Rightarrow> greeter \<Rightarrow> 'o \<Rightarrow> 's \<Rightarrow> (greeter, 's) call_out" where
  "greeters_UpdateStatus c x opts s =
     returned (rc_into (nc_client c)
       [RPut, RNamespace (nc_ns c), RResource ''greeters'', RName (om_name (g_meta x)), RSubResource [''status''],
        RVersionedParams (OptParams opts), RBody (ObjBody x)]
       zero_greeter s)"

definition greeters_Delete :: "(greeter, greeter_list, 'w, 'o, 's) namespaced_client \<Rightarrow> string \<Rightarrow> 'o \<Rightarrow> 's \<Rightarrow> go_error option \<times> 's" where
  "greeters_Delete c name opts s =
     rc_error (nc_client c)
       [RDelete, RNamespace (nc_ns c), RResource ''greeters'', RName name, RBody (OptionsBody opts)] s"

definition greeters_DeleteCollection ::
    "(greeter, greeter_list, 'w, 'o, 's) namespaced_client \<Rightarrow> 'o \<Rightarrow> list_options \<Rightarrow> 's \<Rightarrow> go_error option \<times> 's" where
  "greeters_DeleteCollection c opts listOpts s =
     (let timeout = list_timeout listOpts
      in rc_error (nc_client c)
           [RDelete, RNamespace (nc_ns c), RResource ''greeters'', RVersionedParams (ListParams listOpts), RTimeout timeout,
            RBody (OptionsBody opts)] s)"

definition greeters_Patch ::
    "(greeter, greeter_list, 'w, 'o, 's) namespaced_client \<Rightarrow> string \<Rightarrow> string \<Rightarrow> string \<Rightarrow> 'o \<Rightarrow> string list \<Rightarrow> 's \<Rightarrow> (greeter, 's) call_out" where
  "greeters_Patch c name pt data opts subresources s =
     returned (rc_into (nc_client c)
       [RPatch pt, RNamespace (nc_ns c), RResource ''greeters'', RName name, RSubResource subresources,
        RVersionedParams (OptParams opts), RBody (DataBody data)]
       zero_greeter s)"

definition greeters_Apply ::
    "(greeter_apply, 'o) apply_lib \<Rightarrow> (greeter, greeter_list, 'w, 'o, 's) namespaced_client \<Rightarrow> greeter_apply option \<Rightarrow> 'o \<Rightarrow> 's \<Rightarrow> (greeter, 's) call_out" where
  "greeters_Apply lib c cfg opts s =
     (case cfg of
        None \<Rightarrow> (Ret (None, Some ErrMustNotBeNil), s)
      | Some b \<Rightarrow>
          let patchOpts = al_toPatch lib opts
          in case al_marshal lib b of
               Inl err \<Rightarrow> (Ret (None, Some err), s)
             | Inr data \<Rightarrow>
                 (case gap_meta b of
                    None \<Rightarrow> (Panic ''nil pointer dereference'', s)
                  | Some m \<Rightarrow>
                      (case ma_name m of
                         None \<Rightarrow> (Ret (None, Some ErrNameRequired), s)
                       | Some name \<Rightarrow>
                           returned (rc_into (nc_client c)
                             [RPatch ApplyPatchType, RNamespace (nc_ns c), RResource ''greeters'', RName name,
                              RVersionedParams (OptParams patchOpts), RBody (DataBody data)]
                             zero_greeter s))))"

definition greeters_ApplyStatus ::
    "(greeter_apply, 'o) apply_lib \<Rightarrow> (greeter, greeter_list, 'w, 'o, 's) namespaced_client \<Rightarrow> greeter_apply option \<Rightarrow> 'o \<Rightarrow> 's \<Rightarrow> (greeter, 's) call_out" where
  "greeters_ApplyStatus lib c cfg opts s =
     (case cfg of
        None \<Rightarrow> (Ret (None, Some ErrMustNotBeNil), s)
      | Some b \<Rightarrow>
          let patchOpts = al_toPatch lib opts
          in case al_marshal lib b of
               Inl err \<Rightarrow> (Ret (None, Some err), s)
             | Inr data \<Rightarrow>
                 (case gap_meta b of
                    None \<Rightarrow> (Panic ''nil pointer dereference'', s)
                  | Some m \<Rightarrow>
                      (case ma_name m of
                         None \<Rightarrow> (Ret (None, Some ErrNameRequired), s)
                       | Some name \<Rightarrow>
                           returned (rc_into (nc_client c)
                             [RPatch ApplyPatchType, RNamespace (nc_ns c), RResource ''greeters'', RName name,
                              RSubResource [''status''], RVersionedParams (OptParams patchOpts), RBody (DataBody data)]
                             zero_greeter s))))"

text \<open>The interface value that the group client returns.\<close>

definition greeters_methods :: "(greeter_apply, 'o) apply_lib \<Rightarrow> (greeter, greeter_list, 'w, 'o, 's) namespaced_client \<Rightarrow> (greeter, greeter_list, 'w, 'o, greeter_apply, 's) resource_methods" where
  "greeters_methods lib c = \<lparr>
     rm_Create = greeters_Create c, rm_Update = greeters_Update c, rm_UpdateStatus = greeters_UpdateStatus c,
     rm_Delete = greeters_Delete c, rm_DeleteCollection = greeters_DeleteCollection c, rm_Get = greeters_Get c,
     rm_List = greeters_List c, rm_Watch = greeters_Watch c, rm_Patch = greeters_Patch c,
     rm_Apply = greeters_Apply lib c, rm_ApplyStatus = greeters_ApplyStatus lib c\<rparr>"

section \<open>Greeter: the fake client\<close>

definition greetersResource :: gvr where
  "greetersResource = (SchemeGroupVersion, ''greeters'')"

definition greetersKind :: gvk where
  "greetersKind = with_kind SchemeGroupVersion ''Greeter''"

definition fakeGreeters_Get :: "(greeter, greeter_list, 'w, 'o, 'sel, 's) fake_namespaced \<Rightarrow> string \<Rightarrow> 'o \<Rightarrow> 's \<Rightarrow> (greeter, 's) call_out" where
  "fakeGreeters_Get c name options s =
     obj_result (fk_invokes (fn_Fake c) (NewGetAction greetersResource (fn_ns c) name) (RObj zero_greeter) s)"

definition fakeGreeters_List :: "(greeter, greeter_list, 'w, 'o, 'sel, 's) fake_namespaced \<Rightarrow> list_options \<Rightarrow> 's \<Rightarrow> (greeter_list, 's) call_out" where
  "fakeGreeters_List c opts s =
     (case fk_invokes (fn_Fake c) (NewListAction greetersResource greetersKind (fn_ns c) opts) (RList zero_greeter_list) s of
        ((None, err), s) \<Rightarrow> (Ret (None, err), s)
      | ((Some x, err), s) \<Rightarrow>
          (case assert_list x of
             Panic p \<Rightarrow> (Panic p, s)
           | Ret l \<Rightarrow>
               let label = selector_of (fn_Fake c) opts;
                   items = keep_matching label (\<lambda>item. om_labels (g_meta item)) (the_items (gl_items l)) [];
                   list = zero_greeter_list\<lparr>gl_resourceVersion := gl_resourceVersion l,
                     gl_items := slice_of items\<rparr>
               in (Ret (Some list, err), s)))"

definition fakeGreeters_Watch :: "(greeter, greeter_list, 'w, 'o, 'sel, 's) fake_namespaced \<Rightarrow> list_options \<Rightarrow> 's \<Rightarrow> ('w, 's) call_out" where
  "fakeGreeters_Watch c opts s =
     passed_on (fk_invokesWatch (fn_Fake c) (NewWatchAction greetersResource (fn_ns c) opts) s)"

definition fakeGreeters_Create :: "(greeter, greeter_list, 'w, 'o, 'sel, 's) fake_namespaced \<Rightarrow> greeter \<Rightarrow> 'o \<Rightarrow> 's \<Rightarrow> (greeter, 's) call_out" where
  "fakeGreeters_Create c x opts s =
     obj_result (fk_invokes (fn_Fake c) (NewCreateAction greetersResource (fn_ns c) x) (RObj zero_greeter) s)"

definition fakeGreeters_Update :: "(greeter, greeter_list, 'w, 'o, 'sel, 's) fake_namespaced \<Rightarrow> greeter \<Rightarrow> 'o \<Rightarrow> 's \<Rightarrow> (greeter, 's) call_out" where
  "fakeGreeters_Update c x opts s =
     obj_result (fk_invokes (fn_Fake c) (NewUpdateAction greetersResource (fn_ns c) x) (RObj zero_greeter) s)"

definition fakeGreeters_UpdateStatus :: "(greeter, greeter_list, 'w, 'o, 'sel, 's) fake_namespaced \<Rightarrow> greeter \<Rightarrow> 'o \<Rightarrow> 's \<Rightarrow> (greeter, 's) call_out" where
  "fakeGreeters_UpdateStatus c x opts s =
     obj_result (fk_invokes (fn_Fake c)
       (NewUpdateSubresourceAction greetersResource ''status'' (fn_ns c) x) (RObj zero_greeter) s)"

definition fakeGreeters_Delete :: "(greeter, greeter_list, 'w, 'o, 'sel, 's) fake_namespaced \<Rightarrow> string \<Rightarrow> 'o \<Rightarrow> 's \<Rightarrow> go_error option \<times> 's" where
  "fakeGreeters_Delete c name opts s =
     (let ((_, err), s) = fk_invokes (fn_Fake c)
        (NewDeleteActionWithOptions greetersResource (fn_ns c) name opts) (RObj zero_greeter) s
      in (err, s))"

definition fakeGreeters_DeleteCollection ::
    "(greeter, greeter_list, 'w, 'o, 'sel, 's) fake_namespaced \<Rightarrow> 'o \<Rightarrow> list_options \<Rightarrow> 's \<Rightarrow> go_error option \<times> 's" where
  "fakeGreeters_DeleteCollection c opts listOpts s =
     (let action = NewDeleteCollectionAction greetersResource (fn_ns c) listOpts;
          ((_, err), s) = fk_invokes (fn_Fake c) action (RList zero_greeter_list) s
      in (err, s))"

definition fakeGreeters_Patch ::
    "(greeter, greeter_list, 'w, 'o, 'sel, 's) fake_namespaced \<Rightarrow> string \<Rightarrow> string \<Rightarrow> string \<Rightarrow> 'o \<Rightarrow> string list \<Rightarrow> 's \<Rightarrow> (greeter, 's) call_out" where
  "fakeGreeters_Patch c name pt data opts subresources s =
     obj_result (fk_invokes (fn_Fake c)
       (NewPatchSubresourceAction greetersResource (fn_ns c) name pt data subresources) (RObj zero_greeter) s)"

definition fakeGreeters_Apply ::
    "(greeter_apply, 'o) apply_lib \<Rightarrow> (greeter, greeter_list, 'w, 'o, 'sel, 's) fake_namespaced \<Rightarrow> greeter_apply option \<Rightarrow> 'o \<Rightarrow> 's \<Rightarrow> (greeter, 's) call_out" where
  "fakeGreeters_Apply lib c cfg opts s =
     (case cfg of
        None \<Rightarrow> (Ret (None, Some ErrMustNotBeNil), s)
      | Some b \<Rightarrow>
          (case al_marshal lib b of
             Inl err \<Rightarrow> (Ret (None, Some err), s)
           | Inr data \<Rightarrow>
               (case gap_meta b of
                  None \<Rightarrow> (Panic ''nil pointer dereference'', s)
                | Some m \<Rightarrow>
                    (case ma_name m of
                       None \<Rightarrow> (Ret (None, Some ErrNameRequired), s)
                     | Some name \<Rightarrow>
                         obj_result (fk_invokes (fn_Fake c)
                           (NewPatchSubresourceAction greetersResource (fn_ns c) name ApplyPatchType data [])
                           (RObj zero_greeter) s)))))"

definition fakeGreeters_ApplyStatus ::
    "(greeter_apply, 'o) apply_lib \<Rightarrow> (greeter, greeter_list, 'w, 'o, 'sel, 's) fake_namespaced \<Rightarrow> greeter_apply option \<Rightarrow> 'o \<Rightarrow> 's \<Rightarrow> (greeter, 's) call_out" where
  "fakeGreeters_ApplyStatus lib c cfg opts s =
     (case cfg of
        None \<Rightarrow> (Ret (None, Some ErrMustNotBeNil), s)
      | Some b \<Rightarrow>
          (case al_marshal lib b of
             Inl err \<Rightarrow> (Ret (None, Some err), s)
           | Inr data \<Rightarrow>
               (case gap_meta b of
                  None \<Rightarrow> (Panic ''nil pointer dereference'', s)
                | Some m \<Rightarrow>
                    (case ma_name m of
                       None \<Rightarrow> (Ret (None, Some ErrNameRequired), s)
                     | Some name \<Rightarrow>
                         obj_result (fk_invokes (fn_Fake c)
                           (NewPatchSubresourceAction greetersResource (fn_ns c) name ApplyPatchType data [''status''])
                           (RObj zero_greeter) s)))))"

definition fakeGreeters_methods :: "(greeter_apply, 'o) apply_lib \<Rightarrow> (greeter, greeter_list, 'w, 'o, 'sel, 's) fake_namespaced \<Rightarrow> (greeter, greeter_list, 'w, 'o, greeter_apply, 's) resource_methods" where
  "fakeGreeters_methods lib c = \<lparr>
     rm_Create = fakeGreeters_Create c, rm_Update = fakeGreeters_Update c, rm_UpdateStatus = fakeGreeters_UpdateStatus c,
     rm_Delete = fakeGreeters_Delete c, rm_DeleteCollection = fakeGreeters_DeleteCollection c, rm_Get = fakeGreeters_Get c,
     rm_List = fakeGreeters_List c, rm_Watch = fakeGreeters_Watch c, rm_Patch = fakeGreeters_Patch c,
     rm_Apply = fakeGreeters_Apply lib c, rm_ApplyStatus = fakeGreeters_ApplyStatus lib c\<rparr>"

section \<open>Greeter: both clients keep the contract of the interface\<close>

lemmas greeters_defs = greeters_methods_def greeters_Get_def greeters_List_def greeters_Watch_def greeters_Create_def
  greeters_Update_def greeters_UpdateStatus_def greeters_Delete_def greeters_DeleteCollection_def greeters_Patch_def
  greeters_Apply_def greeters_ApplyStatus_def

lemmas fakeGreeters_defs = fakeGreeters_methods_def fakeGreeters_Get_def fakeGreeters_List_def fakeGreeters_Watch_def fakeGreeters_Create_def
  fakeGreeters_Update_def fakeGreeters_UpdateStatus_def fakeGreeters_Delete_def fakeGreeters_DeleteCollection_def fakeGreeters_Patch_def
  fakeGreeters_Apply_def fakeGreeters_ApplyStatus_def

lemmas greeters_request_simps = greeters_defs greetersResource_def rest_request_def empty_request_def mk_request_def

lemmas fakeGreeters_request_simps = fakeGreeters_defs mk_request_def

definition greeters_name :: "greeter \<Rightarrow> string" where
  "greeters_name x = om_name (g_meta x)"

definition greeters_labels :: "greeter \<Rightarrow> go_map" where
  "greeters_labels x = om_labels (g_meta x)"

definition greeters_items :: "greeter_list \<Rightarrow> greeter list" where
  "greeters_items l = the_items (gl_items l)"

definition greeters_listed :: "greeter_list \<Rightarrow> string \<times> greeter list" where
  "greeters_listed l = (gl_resourceVersion l, greeters_items l)"

definition greeters_check :: "(greeter_apply, 'o) apply_lib \<Rightarrow> greeter_apply option \<Rightarrow> (go_error + string \<times> string) go_out" where
  "greeters_check lib = apply_check gap_meta (al_marshal lib)"

locale greeters_served =
  fixes api :: "(greeter, greeter_list, 'w, 's) api"
    and c :: "(greeter, greeter_list, 'w, 'o, 's) namespaced_client"
    and f :: "(greeter, greeter_list, 'w, 'o, 'sel, 's) fake_namespaced"
    and lib :: "(greeter_apply, 'o) apply_lib" and ns :: string
  assumes rest: "rest_backed SchemeGroupVersion api (nc_client c)"
    and fake: "fake_backed greeters_name api (fn_Fake f)"
    and honest: "honest_lists greeters_items greeters_labels api (fn_Fake f)"
    and names: "nc_ns c = ns" "fn_ns f = ns"

sublocale greeters_served \<subseteq> of_rest: resource_interface api greetersResource ns greeters_name greeters_listed
    "greeters_check lib" "greeters_methods lib c"
  by unfold_locales
    (auto simp: rest_backedD [OF rest] greeters_request_simps names greeters_name_def sel_payload_def
       applies_def greeters_check_def apply_check_def split: option.splits sum.splits)

sublocale greeters_served \<subseteq> of_fake: resource_interface api greetersResource ns greeters_name greeters_listed
    "greeters_check lib" "fakeGreeters_methods lib f"
proof unfold_locales
  fix opts :: list_options and s :: 's
  let ?r = "api_list api (mk_request ''list'' greetersResource ns '''' [] (sel_payload opts)) s"
  let ?rebuild = "\<lambda>l xs. zero_greeter_list\<lparr>gl_resourceVersion := gl_resourceVersion l,
    gl_items := slice_of xs\<rparr>"
  have "answers greeters_listed
    (case pointed RList ?r of
       ((None, err), s) \<Rightarrow> (Ret (None, err), s)
     | ((Some x, err), s) \<Rightarrow>
         (case assert_list x of
            Panic p \<Rightarrow> (Panic p, s)
          | Ret l \<Rightarrow> (Ret (Some (?rebuild l
              (filter (\<lambda>x. selector_of (fn_Fake f) opts (greeters_labels x)) (greeters_items l))), err), s))) ?r"
    by (rule answers_fake_list [OF honest]) (simp_all add: mk_request_def greeters_listed_def greeters_items_def)
  then show "answers greeters_listed (rm_List (fakeGreeters_methods lib f) opts s) ?r"
    unfolding fakeGreeters_defs fake_backed_list [OF fake] names keep_matching_filter Let_def append_Nil
      greeters_labels_def [abs_def] greeters_items_def resource_methods.simps .
qed (auto simp: fake_backedD [OF fake] fakeGreeters_request_simps names greeters_name_def case_prod_beta Let_def
  applies_def greeters_check_def apply_check_def split: option.splits sum.splits)

sublocale greeters_served \<subseteq> two_clients api greetersResource ns greeters_name greeters_listed
    "greeters_check lib" "greeters_methods lib c" "fakeGreeters_methods lib f"
  by (intro two_clients.intro of_rest.resource_interface_axioms of_fake.resource_interface_axioms)

context greeters_served
begin

lemma same_interface: "clients_agree greeters_name greeters_listed (greeters_check lib)
    (greeters_methods lib c) (fakeGreeters_methods lib f)"
  by (rule clients_agree)

lemma apply_patches: "applies api greetersResource ns [] (greeters_check lib cfg) (greeters_Apply lib c cfg op s) s"
  using of_rest.apply_ok by (simp add: greeters_methods_def)

end

definition memory_greeters :: "(greeter, greeter_list, unit, greeter objects) api" where
  "memory_greeters = memory_api greeters_name greeters_labels label_app
     (\<lambda>xs. zero_greeter_list\<lparr>gl_items := Some xs\<rparr>)
     (\<lambda>pt d n old. case old of None \<Rightarrow> zero_greeter\<lparr>g_meta := zero_meta\<lparr>om_name := n\<rparr>\<rparr> | Some x \<Rightarrow> x)"

definition memory_greeters_lib :: "(greeter_apply, string) apply_lib" where
  "memory_greeters_lib = \<lparr>al_marshal = (\<lambda>_. Inr ''{}''), al_toPatch = (\<lambda>opts. opts)\<rparr>"

interpretation memory_greeters: greeters_served memory_greeters
    "new_greeters (rest_of_api SchemeGroupVersion memory_greeters) ns"
    "\<lparr>fn_Fake = fake_of_api greeters_name memory_greeters label_app, fn_ns = ns\<rparr>" memory_greeters_lib ns for ns
  by unfold_locales
    (simp_all add: new_greeters_def memory_greeters_def memory_api_honest greeters_items_def)

end
