(* ===== verification/SampleClientV1.thy ===== *)
theory SampleClientV1
  imports TypedClient SampleApplyV1 SampleAPI
begin

text \<open>
  The generated clients of the sample API, version v1alpha1
  (\<open>clientset/versioned/typed/sample/v1alpha1\<close>), and their fakes: those of ClusterResources make requests
  without a namespace, those of NamespacedResources with one.
\<close>

definition zero_clusterV1_spec :: clusterV1_spec where
  "zero_clusterV1_spec = \<lparr>cr1s_name = '''', cr1s_replicas = 0\<rparr>"

definition zero_clusterV1_status :: clusterV1_status where
  "zero_clusterV1_status = \<lparr>cr1st_availableReplicas = 0\<rparr>"

section \<open>ClusterResource of v1alpha1: the client\<close>

definition zero_clusterV1 :: clusterV1 where
  "zero_clusterV1 = \<lparr>cr1_type = zero_type, cr1_meta = zero_meta, cr1_spec = zero_clusterV1_spec,
     cr1_status = zero_clusterV1_status\<rparr>"

definition zero_clusterV1_list :: clusterV1_list where
  "zero_clusterV1_list = \<lparr>cr1l_type = zero_type, cr1l_resourceVersion = '''', cr1l_items = None\<rparr>"

definition new_clusterResourcesV1 :: "(clusterV1, clusterV1_list, 'w, 'o, 's) rest_client \<Rightarrow> (clusterV1, clusterV1_list, 'w, 'o, 's) cluster_client" where
  "new_clusterResourcesV1 rc = \<lparr>cc_client = rc\<rparr>"

definition clusterResourcesV1_Get :: "(clusterV1, clusterV1_list, 'w, 'o, 's) cluster_client \<Rightarrow> string \<Rightarrow> 'o \<Rightarrow> 's \<Rightarrow> (clusterV1, 's) call_out" where
  "clusterResourcesV1_Get c name options s =
     returned (rc_into (cc_client c)
       [RGet, RResource ''clusterresources'', RName name, RVersionedParams (OptParams options)]
       zero_clusterV1 s)"

definition clusterResourcesV1_List :: "(clusterV1, clusterV1_list, 'w, 'o, 's) cluster_client \<Rightarrow> list_options \<Rightarrow> 's \<Rightarrow> (clusterV1_list, 's) call_out" where
  "clusterResourcesV1_List c opts s =
     (let timeout = list_timeout opts
      in returned (rc_intoList (cc_client c)
           [RGet, RResource ''clusterresources'', RVersionedParams (ListParams opts), RTimeout timeout]
           zero_clusterV1_list s))"

definition clusterResourcesV1_Watch :: "(clusterV1, clusterV1_list, 'w, 'o, 's) cluster_client \<Rightarrow> list_options \<Rightarrow> 's \<Rightarrow> ('w, 's) call_out" where
  "clusterResourcesV1_Watch c opts s =
     (let timeout = list_timeout opts;
opts = opts\<lparr>lo_watch := True\<rparr>
      in passed_on (rc_watch (cc_client c)
           [RGet, RResource ''clusterresources'', RVersionedParams (ListParams opts), RTimeout timeout] s))"

definition clusterResourcesV1_Create :: "(clusterV1, clusterV1_list, 'w, 'o, 's) cluster_client \<Rightarrow> clusterV1 \<Rightarrow> 'o \<Rightarrow> 's \<Rightarrow> (clusterV1, 's) call_out" where
  "clusterResourcesV1_Create c x opts s =
     returned (rc_into (cc_client c)
       [RPost, RResource ''clusterresources'', RVersionedParams (OptParams opts), RBody (ObjBody x)]
       zero_clusterV1 s)"

definition clusterResourcesV1_Update :: "(clusterV1, clusterV1_list, 'w, 'o, 's) cluster_client \<Rightarrow> clusterV1 \<Rightarrow> 'o \<Rightarrow> 's \<Rightarrow> (clusterV1, 's) call_out" where
  "clusterResourcesV1_Update c x opts s =
     returned (rc_into (cc_client c)
       [RPut, RResource ''clusterresources'', RName (om_name (cr1_meta x)),
        RVersionedParams (OptParams opts), RBody (ObjBody x)]
       zero_clusterV1 s)"

definition clusterResourcesV1_UpdateStatus :: "(clusterV1, clusterV1_list, 'w, 'o, 's) cluster_client \<Rightarrow> clusterV1 \<Rightarrow> 'o \<Rightarrow> 's \<Rightarrow> (clusterV1, 's) call_out" where
  "clusterResourcesV1_UpdateStatus c x opts s =
     returned (rc_into (cc_client c)
       [RPut, RResource ''clusterresources'', RName (om_name (cr1_meta x)), RSubResource [''status''],
        RVersionedParams (OptParams opts), RBody (ObjBody x)]
       zero_clusterV1 s)"

definition clusterResourcesV1_Delete :: "(clusterV1, clusterV1_list, 'w, 'o, 's) cluster_client \<Rightarrow> string \<Rightarrow> 'o \<Rightarrow> 's \<Rightarrow> go_error option \<times> 's" where
  "clusterResourcesV1_Delete c name opts s =
     rc_error (cc_client c)
       [RDelete, RResource ''clusterresources'', RName name, RBody (OptionsBody opts)] s"

definition clusterResourcesV1_DeleteCollection ::
    "(clusterV1, clusterV1_list, 'w, 'o, 's) cluster_client \<Rightarrow> 'o \<Rightarrow> list_options \<Rightarrow> 's \<Rightarrow> go_error option \<times> 's" where
  "clusterResourcesV1_DeleteCollection c opts listOpts s =
     (let timeout = list_timeout listOpts
      in rc_error (cc_client c)
           [RDelete, RResource ''clusterresources'', RVersionedParams (ListParams listOpts), RTimeout timeout,
            RBody (OptionsBody opts)] s)"

definition clusterResourcesV1_Patch ::
    "(clusterV1, clusterV1_list, 'w, 'o, 's) cluster_client \<Rightarrow> string \<Rightarrow> string \<Rightarrow> string \<Rightarrow> 'o \<Rightarrow> string list \<Rightarrow> 's \<Rightarrow> (clusterV1, 's) call_out" where
  "clusterResourcesV1_Patch c name pt data opts subresources s =
     returned (rc_into (cc_client c)
       [RPatch pt, RResource ''clusterresources'', RName name, RSubResource subresources,
        RVersionedParams (OptParams opts), RBody (DataBody data)]
       zero_clusterV1 s)"

definition clusterResourcesV1_Apply ::
    "(clusterV1_apply, 'o) apply_lib \<Rightarrow> (clusterV1, clusterV1_list, 'w, 'o, 's) cluster_client \<Rightarrow> clusterV1_apply option \<Rightarrow> 'o \<Rightarrow> 's \<Rightarrow> (clusterV1, 's) call_out" where
  "clusterResourcesV1_Apply lib c cfg opts s =
     (case cfg of
        None \<Rightarrow> (Ret (None, Some ErrMustNotBeNil), s)
      | Some b \<Rightarrow>
          let patchOpts = al_toPatch lib opts
          in case al_marshal lib b of
               Inl err \<Rightarrow> (Ret (None, Some err), s)
             | Inr data \<Rightarrow>
                 (case cv1_meta b of
                    None \<Rightarrow> (Panic ''nil pointer dereference'', s)
                  | Some m \<Rightarrow>
                      (case ma_name m of
                         None \<Rightarrow> (Ret (None, Some ErrNameRequired), s)
                       | Some name \<Rightarrow>
                           returned (rc_into (cc_client c)
                             [RPatch ApplyPatchType, RResource ''clusterresources'', RName name,
                              RVersionedParams (OptParams patchOpts), RBody (DataBody data)]
                             zero_clusterV1 s))))"

definition clusterResourcesV1_ApplyStatus ::
    "(clusterV1_apply, 'o) apply_lib \<Rightarrow> (clusterV1, clusterV1_list, 'w, 'o, 's) cluster_client \<Rightarrow> clusterV1_apply option \<Rightarrow> 'o \<Rightarrow> 's \<Rightarrow> (clusterV1, 's) call_out" where
  "clusterResourcesV1_ApplyStatus lib c cfg opts s =
     (case cfg of
        None \<Rightarrow> (Ret (None, Some ErrMustNotBeNil), s)
      | Some b \<Rightarrow>
          let patchOpts = al_toPatch lib opts
          in case al_marshal lib b of
               Inl err \<Rightarrow> (Ret (None, Some err), s)
             | Inr data \<Rightarrow>
                 (case cv1_meta b of
                    None \<Rightarrow> (Panic ''nil pointer dereference'', s)
                  | Some m \<Rightarrow>
                      (case ma_name m of
                         None \<Rightarrow> (Ret (None, Some ErrNameRequired), s)
                       | Some name \<Rightarrow>
                           returned (rc_into (cc_client c)
                             [RPatch ApplyPatchType, RResource ''clusterresources'', RName name,
                              RSubResource [''status''], RVersionedParams (OptParams patchOpts), RBody (DataBody data)]
                             zero_clusterV1 s))))"

text \<open>The interface value that the group client returns.\<close>

definition clusterResourcesV1_methods :: "(clusterV1_apply, 'o) apply_lib \<Rightarrow> (clusterV1, clusterV1_list, 'w, 'o, 's) cluster_client \<Rightarrow> (clusterV1, clusterV1_list, 'w, 'o, clusterV1_apply, 's) resource_methods" where
  "clusterResourcesV1_methods lib c = \<lparr>
     rm_Create = clusterResourcesV1_Create c, rm_Update = clusterResourcesV1_Update c, rm_UpdateStatus = clusterResourcesV1_UpdateStatus c,
     rm_Delete = clusterResourcesV1_Delete c, rm_DeleteCollection = clusterResourcesV1_DeleteCollection c, rm_Get = clusterResourcesV1_Get c,
     rm_List = clusterResourcesV1_List c, rm_Watch = clusterResourcesV1_Watch c, rm_Patch = clusterResourcesV1_Patch c,
     rm_Apply = clusterResourcesV1_Apply lib c, rm_ApplyStatus = clusterResourcesV1_ApplyStatus lib c\<rparr>"

section \<open>ClusterResource: the fake client\<close>

definition clusterResourcesV1Resource :: gvr where
  "clusterResourcesV1Resource = (sampleV1_SchemeGroupVersion, ''clusterresources'')"

definition clusterResourcesV1Kind :: gvk where
  "clusterResourcesV1Kind = with_kind sampleV1_SchemeGroupVersion ''ClusterResource''"

definition fakeClusterResourcesV1_Get :: "(clusterV1, clusterV1_list, 'w, 'o, 'sel, 's) fake_cluster \<Rightarrow> string \<Rightarrow> 'o \<Rightarrow> 's \<Rightarrow> (clusterV1, 's) call_out" where
  "fakeClusterResourcesV1_Get c name options s =
     obj_result (fk_invokes (fc_Fake c) (NewRootGetAction clusterResourcesV1Resource name) (RObj zero_clusterV1) s)"

definition fakeClusterResourcesV1_List :: "(clusterV1, clusterV1_list, 'w, 'o, 'sel, 's) fake_cluster \<Rightarrow> list_options \<Rightarrow> 's \<Rightarrow> (clusterV1_list, 's) call_out" where
  "fakeClusterResourcesV1_List c opts s =
     (case fk_invokes (fc_Fake c) (NewRootListAction clusterResourcesV1Resource clusterResourcesV1Kind opts) (RList zero_clusterV1_list) s of
        ((None, err), s) \<Rightarrow> (Ret (None, err), s)
      | ((Some x, err), s) \<Rightarrow>
          (case assert_list x of
             Panic p \<Rightarrow> (Panic p, s)
           | Ret l \<Rightarrow>
               let label = selector_of (fc_Fake c) opts;
                   items = keep_matching label (\<lambda>item. om_labels (cr1_meta item)) (the_items (cr1l_items l)) [];
                   list = zero_clusterV1_list\<lparr>cr1l_resourceVersion := cr1l_resourceVersion l,
                     cr1l_items := slice_of items\<rparr>
               in (Ret (Some list, err), s)))"

definition fakeClusterResourcesV1_Watch :: "(clusterV1, clusterV1_list, 'w, 'o, 'sel, 's) fake_cluster \<Rightarrow> list_options \<Rightarrow> 's \<Rightarrow> ('w, 's) call_out" where
  "fakeClusterResourcesV1_Watch c opts s =
     passed_on (fk_invokesWatch (fc_Fake c) (NewRootWatchAction clusterResourcesV1Resource opts) s)"

definition fakeClusterResourcesV1_Create :: "(clusterV1, clusterV1_list, 'w, 'o, 'sel, 's) fake_cluster \<Rightarrow> clusterV1 \<Rightarrow> 'o \<Rightarrow> 's \<Rightarrow> (clusterV1, 's) call_out" where
  "fakeClusterResourcesV1_Create c x opts s =
     obj_result (fk_invokes (fc_Fake c) (NewRootCreateAction clusterResourcesV1Resource x) (RObj zero_clusterV1) s)"

definition fakeClusterResourcesV1_Update :: "(clusterV1, clusterV1_list, 'w, 'o, 'sel, 's) fake_cluster \<Rightarrow> clusterV1 \<Rightarrow> 'o \<Rightarrow> 's \<Rightarrow> (clusterV1, 's) call_out" where
  "fakeClusterResourcesV1_Update c x opts s =
     obj_result (fk_invokes (fc_Fake c) (NewRootUpdateAction clusterResourcesV1Resource x) (RObj zero_clusterV1) s)"

definition fakeClusterResourcesV1_UpdateStatus :: "(clusterV1, clusterV1_list, 'w, 'o, 'sel, 's) fake_cluster \<Rightarrow> clusterV1 \<Rightarrow> 'o \<Rightarrow> 's \<Rightarrow> (clusterV1, 's) call_out" where
  "fakeClusterResourcesV1_UpdateStatus c x opts s =
     obj_result (fk_invokes (fc_Fake c)
       (NewRootUpdateSubresourceAction clusterResourcesV1Resource ''status'' x) (RObj zero_clusterV1) s)"

definition fakeClusterResourcesV1_Delete :: "(clusterV1, clusterV1_list, 'w, 'o, 'sel, 's) fake_cluster \<Rightarrow> string \<Rightarrow> 'o \<Rightarrow> 's \<Rightarrow> go_error option \<times> 's" where
  "fakeClusterResourcesV1_Delete c name opts s =
     (let ((_, err), s) = fk_invokes (fc_Fake c)
        (NewRootDeleteActionWithOptions clusterResourcesV1Resource name opts) (RObj zero_clusterV1) s
      in (err, s))"

definition fakeClusterResourcesV1_DeleteCollection ::
    "(clusterV1, clusterV1_list, 'w, 'o, 'sel, 's) fake_cluster \<Rightarrow> 'o \<Rightarrow> list_options \<Rightarrow> 's \<Rightarrow> go_error option \<times> 's" where
  "fakeClusterResourcesV1_DeleteCollection c opts listOpts s =
     (let action = NewRootDeleteCollectionAction clusterResourcesV1Resource listOpts;
          ((_, err), s) = fk_invokes (fc_Fake c) action (RList zero_clusterV1_list) s
      in (err, s))"

definition fakeClusterResourcesV1_Patch ::
    "(clusterV1, clusterV1_list, 'w, 'o, 'sel, 's) fake_cluster \<Rightarrow> string \<Rightarrow> string \<Rightarrow> string \<Rightarrow> 'o \<Rightarrow> string list \<Rightarrow> 's \<Rightarrow> (clusterV1, 's) call_out" where
  "fakeClusterResourcesV1_Patch c name pt data opts subresources s =
     obj_result (fk_invokes (fc_Fake c)
       (NewRootPatchSubresourceAction clusterResourcesV1Resource name pt data subresources) (RObj zero_clusterV1) s)"

definition fakeClusterResourcesV1_Apply ::
    "(clusterV1_apply, 'o) apply_lib \<Rightarrow> (clusterV1, clusterV1_list, 'w, 'o, 'sel, 's) fake_cluster \<Rightarrow> clusterV1_apply option \<Rightarrow> 'o \<Rightarrow> 's \<Rightarrow> (clusterV1, 's) call_out" where
  "fakeClusterResourcesV1_Apply lib c cfg opts s =
     (case cfg of
        None \<Rightarrow> (Ret (None, Some ErrMustNotBeNil), s)
      | Some b \<Rightarrow>
          (case al_marshal lib b of
             Inl err \<Rightarrow> (Ret (None, Some err), s)
           | Inr data \<Rightarrow>
               (case cv1_meta b of
                  None \<Rightarrow> (Panic ''nil pointer dereference'', s)
                | Some m \<Rightarrow>
                    (case ma_name m of
                       None \<Rightarrow> (Ret (None, Some ErrNameRequired), s)
                     | Some name \<Rightarrow>
                         obj_result (fk_invokes (fc_Fake c)
                           (NewRootPatchSubresourceAction clusterResourcesV1Resource name ApplyPatchType data [])
                           (RObj zero_clusterV1) s)))))"

definition fakeClusterResourcesV1_ApplyStatus ::
    "(clusterV1_apply, 'o) apply_lib \<Rightarrow> (clusterV1, clusterV1_list, 'w, 'o, 'sel, 's) fake_cluster \<Rightarrow> clusterV1_apply option \<Rightarrow> 'o \<Rightarrow> 's \<Rightarrow> (clusterV1, 's) call_out" where
  "fakeClusterResourcesV1_ApplyStatus lib c cfg opts s =
     (case cfg of
        None \<Rightarrow> (Ret (None, Some ErrMustNotBeNil), s)
      | Some b \<Rightarrow>
          (case al_marshal lib b of
             Inl err \<Rightarrow> (Ret (None, Some err), s)
           | Inr data \<Rightarrow>
               (case cv1_meta b of
                  None \<Rightarrow> (Panic ''nil pointer dereference'', s)
                | Some m \<Rightarrow>
                    (case ma_name m of
                       None \<Rightarrow> (Ret (None, Some ErrNameRequired), s)
                     | Some name \<Rightarrow>
                         obj_result (fk_invokes (fc_Fake c)
                           (NewRootPatchSubresourceAction clusterResourcesV1Resource name ApplyPatchType data [''status''])
                           (RObj zero_clusterV1) s)))))"

definition fakeClusterResourcesV1_methods :: "(clusterV1_apply, 'o) apply_lib \<Rightarrow> (clusterV1, clusterV1_list, 'w, 'o, 'sel, 's) fake_cluster \<Rightarrow> (clusterV1, clusterV1_list, 'w, 'o, clusterV1_apply, 's) resource_methods" where
  "fakeClusterResourcesV1_methods lib c = \<lparr>
     rm_Create = fakeClusterResourcesV1_Create c, rm_Update = fakeClusterResourcesV1_Update c, rm_UpdateStatus = fakeClusterResourcesV1_UpdateStatus c,
     rm_Delete = fakeClusterResourcesV1_Delete c, rm_DeleteCollection = fakeClusterResourcesV1_DeleteCollection c, rm_Get = fakeClusterResourcesV1_Get c,
     rm_List = fakeClusterResourcesV1_List c, rm_Watch = fakeClusterResourcesV1_Watch c, rm_Patch = fakeClusterResourcesV1_Patch c,
     rm_Apply = fakeClusterResourcesV1_Apply lib c, rm_ApplyStatus = fakeClusterResourcesV1_ApplyStatus lib c\<rparr>"

section \<open>ClusterResource: both clients keep the contract of the interface\<close>

lemmas clusterResourcesV1_defs = clusterResourcesV1_methods_def clusterResourcesV1_Get_def clusterResourcesV1_List_def clusterResourcesV1_Watch_def clusterResourcesV1_Create_def
  clusterResourcesV1_Update_def clusterResourcesV1_UpdateStatus_def clusterResourcesV1_Delete_def clusterResourcesV1_DeleteCollection_def clusterResourcesV1_Patch_def
  clusterResourcesV1_Apply_def clusterResourcesV1_ApplyStatus_def

lemmas fakeClusterResourcesV1_defs = fakeClusterResourcesV1_methods_def fakeClusterResourcesV1_Get_def fakeClusterResourcesV1_List_def fakeClusterResourcesV1_Watch_def fakeClusterResourcesV1_Create_def
  fakeClusterResourcesV1_Update_def fakeClusterResourcesV1_UpdateStatus_def fakeClusterResourcesV1_Delete_def fakeClusterResourcesV1_DeleteCollection_def fakeClusterResourcesV1_Patch_def
  fakeClusterResourcesV1_Apply_def fakeClusterResourcesV1_ApplyStatus_def

lemmas clusterResourcesV1_request_simps = clusterResourcesV1_defs clusterResourcesV1Resource_def rest_request_def empty_request_def mk_request_def

lemmas fakeClusterResourcesV1_request_simps = fakeClusterResourcesV1_defs mk_request_def

definition clusterResourcesV1_name :: "clusterV1 \<Rightarrow> string" where
  "clusterResourcesV1_name x = om_name (cr1_meta x)"

definition clusterResourcesV1_labels :: "clusterV1 \<Rightarrow> go_map" where
  "clusterResourcesV1_labels x = om_labels (cr1_meta x)"

definition clusterResourcesV1_items :: "clusterV1_list \<Rightarrow> clusterV1 list" where
  "clusterResourcesV1_items l = the_items (cr1l_items l)"

definition clusterResourcesV1_listed :: "clusterV1_list \<Rightarrow> string \<times> clusterV1 list" where
  "clusterResourcesV1_listed l = (cr1l_resourceVersion l, clusterResourcesV1_items l)"

definition clusterResourcesV1_check :: "(clusterV1_apply, 'o) apply_lib \<Rightarrow> clusterV1_apply option \<Rightarrow> (go_error + string \<times> string) go_out" where
  "clusterResourcesV1_check lib = apply_check cv1_meta (al_marshal lib)"

locale clusterResourcesV1_served =
  fixes api :: "(clusterV1, clusterV1_list, 'w, 's) api"
    and c :: "(clusterV1, clusterV1_list, 'w, 'o, 's) cluster_client"
    and f :: "(clusterV1, clusterV1_list, 'w, 'o, 'sel, 's) fake_cluster"
    and lib :: "(clusterV1_apply, 'o) apply_lib"
  assumes rest: "rest_backed sampleV1_SchemeGroupVersion api (cc_client c)"
    and fake: "fake_backed clusterResourcesV1_name api (fc_Fake f)"
    and honest: "honest_lists clusterResourcesV1_items clusterResourcesV1_labels api (fc_Fake f)"

sublocale clusterResourcesV1_served \<subseteq> of_rest: resource_interface api clusterResourcesV1Resource "''''" clusterResourcesV1_name clusterResourcesV1_listed
    "clusterResourcesV1_check lib" "clusterResourcesV1_methods lib c"
  by unfold_locales
    (auto simp: rest_backedD [OF rest] clusterResourcesV1_request_simps clusterResourcesV1_name_def sel_payload_def
       applies_def clusterResourcesV1_check_def apply_check_def split: option.splits sum.splits)

sublocale clusterResourcesV1_served \<subseteq> of_fake: resource_interface api clusterResourcesV1Resource "''''" clusterResourcesV1_name clusterResourcesV1_listed
    "clusterResourcesV1_check lib" "fakeClusterResourcesV1_methods lib f"
proof unfold_locales
  fix opts :: list_options and s :: 's
  let ?r = "api_list api (mk_request ''list'' clusterResourcesV1Resource '''' '''' [] (sel_payload opts)) s"
  let ?rebuild = "\<lambda>l xs. zero_clusterV1_list\<lparr>cr1l_resourceVersion := cr1l_resourceVersion l,
    cr1l_items := slice_of xs\<rparr>"
  have "answers clusterResourcesV1_listed
    (case pointed RList ?r of
       ((None, err), s) \<Rightarrow> (Ret (None, err), s)
     | ((Some x, err), s) \<Rightarrow>
         (case assert_list x of
            Panic p \<Rightarrow> (Panic p, s)
          | Ret l \<Rightarrow> (Ret (Some (?rebuild l
              (filter (\<lambda>x. selector_of (fc_Fake f) opts (clusterResourcesV1_labels x)) (clusterResourcesV1_items l))), err), s))) ?r"
    by (rule answers_fake_list [OF honest]) (simp_all add: mk_request_def clusterResourcesV1_listed_def clusterResourcesV1_items_def)
  then show "answers clusterResourcesV1_listed (rm_List (fakeClusterResourcesV1_methods lib f) opts s) ?r"
    unfolding fakeClusterResourcesV1_defs fake_backed_list [OF fake] keep_matching_filter Let_def append_Nil
      clusterResourcesV1_labels_def [abs_def] clusterResourcesV1_items_def resource_methods.simps .
qed (auto simp: fake_backedD [OF fake] fakeClusterResourcesV1_request_simps clusterResourcesV1_name_def case_prod_beta Let_def
  applies_def clusterResourcesV1_check_def apply_check_def split: option.splits sum.splits)

sublocale clusterResourcesV1_served \<subseteq> two_clients api clusterResourcesV1Resource "''''" clusterResourcesV1_name clusterResourcesV1_listed
    "clusterResourcesV1_check lib" "clusterResourcesV1_methods lib c" "fakeClusterResourcesV1_methods lib f"
  by (intro two_clients.intro of_rest.resource_interface_axioms of_fake.resource_interface_axioms)

context clusterResourcesV1_served
begin

lemma same_interface: "clients_agree clusterResourcesV1_name clusterResourcesV1_listed (clusterResourcesV1_check lib)
    (clusterResourcesV1_methods lib c) (fakeClusterResourcesV1_methods lib f)"
  by (rule clients_agree)

lemma apply_patches: "applies api clusterResourcesV1Resource '''' [] (clusterResourcesV1_check lib cfg) (clusterResourcesV1_Apply lib c cfg op s) s"
  using of_rest.apply_ok by (simp add: clusterResourcesV1_methods_def)

end

definition memory_clusterResourcesV1 :: "(clusterV1, clusterV1_list, unit, clusterV1 objects) api" where
  "memory_clusterResourcesV1 = memory_api clusterResourcesV1_name clusterResourcesV1_labels label_app
     (\<lambda>xs. zero_clusterV1_list\<lparr>cr1l_items := Some xs\<rparr>)
     (\<lambda>pt d n old. case old of None \<Rightarrow> zero_clusterV1\<lparr>cr1_meta := zero_meta\<lparr>om_name := n\<rparr>\<rparr> | Some x \<Rightarrow> x)"

definition memory_clusterResourcesV1_lib :: "(clusterV1_apply, string) apply_lib" where
  "memory_clusterResourcesV1_lib = \<lparr>al_marshal = (\<lambda>_. Inr ''{}''), al_toPatch = (\<lambda>opts. opts)\<rparr>"

interpretation memory_clusterResourcesV1: clusterResourcesV1_served memory_clusterResourcesV1
    "new_clusterResourcesV1 (rest_of_api sampleV1_SchemeGroupVersion memory_clusterResourcesV1)"
    "\<lparr>fc_Fake = fake_of_api clusterResourcesV1_name memory_clusterResourcesV1 label_app\<rparr>" memory_clusterResourcesV1_lib
  by unfold_locales
    (simp_all add: new_clusterResourcesV1_def memory_clusterResourcesV1_def memory_api_honest clusterResourcesV1_items_def)

definition zero_namespacedV1_spec :: namespacedV1_spec where
  "zero_namespacedV1_spec = \<lparr>nr1s_name = '''', nr1s_replicas = 0\<rparr>"

definition zero_namespacedV1_status :: namespacedV1_status where
  "zero_namespacedV1_status = \<lparr>nr1st_availableReplicas = 0\<rparr>"

section \<open>NamespacedResource of v1alpha1: the client\<close>

definition zero_namespacedV1 :: namespacedV1 where
  "zero_namespacedV1 = \<lparr>nr1_type = zero_type, nr1_meta = zero_meta, nr1_spec = zero_namespacedV1_spec,
     nr1_status = zero_namespacedV1_status\<rparr>"

definition zero_namespacedV1_list :: namespacedV1_list where
  "zero_namespacedV1_list = \<lparr>nr1l_type = zero_type, nr1l_resourceVersion = '''', nr1l_items = None\<rparr>"

definition new_namespacedResourcesV1 :: "(namespacedV1, namespacedV1_list, 'w, 'o, 's) rest_client \<Rightarrow> string \<Rightarrow> (namespacedV1, namespacedV1_list, 'w, 'o, 's) namespaced_client" where
  "new_namespacedResourcesV1 rc namespace = \<lparr>nc_client = rc, nc_ns = namespace\<rparr>"

definition namespacedResourcesV1_Get :: "(namespacedV1, namespacedV1_list, 'w, 'o, 's) namespaced_client \<Rightarrow> string \<Rightarrow> 'o \<Rightarrow> 's \<Rightarrow> (namespacedV1, 's) call_out" where
  "namespacedResourcesV1_Get c name options s =
     returned (rc_into (nc_client c)
       [RGet, RNamespace (nc_ns c), RResource ''namespacedresources'', RName name, RVersionedParams (OptParams options)]
       zero_namespacedV1 s)"

definition namespacedResourcesV1_List :: "(namespacedV1, namespacedV1_list, 'w, 'o, 's) namespaced_client \<Rightarrow> list_options \<Rightarrow> 's \<Rightarrow> (namespacedV1_list, 's) call_out" where
  "namespacedResourcesV1_List c opts s =
     (let timeout = list_timeout opts
      in returned (rc_intoList (nc_client c)
           [RGet, RNamespace (nc_ns c), RResource ''namespacedresources'', RVersionedParams (ListParams opts), RTimeout timeout]
           zero_namespacedV1_list s))"

definition namespacedResourcesV1_Watch :: "(namespacedV1, namespacedV1_list, 'w, 'o, 's) namespaced_client \<Rightarrow> list_options \<Rightarrow> 's \<Rightarrow> ('w, 's) call_out" where
  "namespacedResourcesV1_Watch c opts s =
     (let timeout = list_timeout opts;
opts = opts\<lparr>lo_watch := True\<rparr>
      in passed_on (rc_watch (nc_client c)
           [RGet, RNamespace (nc_ns c), RResource ''namespacedresources'', RVersionedParams (ListParams opts), RTimeout timeout] s))"

definition namespacedResourcesV1_Create :: "(namespacedV1, namespacedV1_list, 'w, 'o, 's) namespaced_client \<Rightarrow> namespacedV1 \<Rightarrow> 'o \<Rightarrow> 's \<Rightarrow> (namespacedV1, 's) call_out" where
  "namespacedResourcesV1_Create c x opts s =
     returned (rc_into (nc_client c)
       [RPost, RNamespace (nc_ns c), RResource ''namespacedresources'', RVersionedParams (OptParams opts), RBody (ObjBody x)]
       zero_namespacedV1 s)"

definition namespacedResourcesV1_Update :: "(namespacedV1, namespacedV1_list, 'w, 'o, 's) namespaced_client \<Rightarrow> namespacedV1 \<Rightarrow> 'o \<Rightarrow> 's \<Rightarrow> (namespacedV1, 's) call_out" where
  "namespacedResourcesV1_Update c x opts s =
     returned (rc_into (nc_client c)
       [RPut, RNamespace (nc_ns c), RResource ''namespacedresources'', RName (om_name (nr1_meta x)),
        RVersionedParams (OptParams opts), RBody (ObjBody x)]
       zero_namespacedV1 s)"

definition namespacedResourcesV1_UpdateStatus :: "(namespacedV1, namespacedV1_list, 'w, 'o, 's) namespaced_client \<Rightarrow> namespacedV1 \<Rightarrow> 'o \<Rightarrow> 's \<Rightarrow> (namespacedV1, 's) call_out" where
  "namespacedResourcesV1_UpdateStatus c x opts s =
     returned (rc_into (nc_client c)
       [RPut, RNamespace (nc_ns c), RResource ''namespacedresources'', RName (om_name (nr1_meta x)), RSubResource [''status''],
        RVersionedParams (OptParams opts), RBody (ObjBody x)]
       zero_namespacedV1 s)"

definition namespacedResourcesV1_Delete :: "(namespacedV1, namespacedV1_list, 'w, 'o, 's) namespaced_client \<Rightarrow> string \<Rightarrow> 'o \<Rightarrow> 's \<Rightarrow> go_error option \<times> 's" where
  "namespacedResourcesV1_Delete c name opts s =
     rc_error (nc_client c)
       [RDelete, RNamespace (nc_ns c), RResource ''namespacedresources'', RName name, RBody (OptionsBody opts)] s"

definition namespacedResourcesV1_DeleteCollection ::
    "(namespacedV1, namespacedV1_list, 'w, 'o, 's) namespaced_client \<Rightarrow> 'o \<Rightarrow> list_options \<Rightarrow> 's \<Rightarrow> go_error option \<times> 's" where
  "namespacedResourcesV1_DeleteCollection c opts listOpts s =
     (let timeout = list_timeout listOpts
      in rc_error (nc_client c)
           [RDelete, RNamespace (nc_ns c), RResource ''namespacedresources'', RVersionedParams (ListParams listOpts), RTimeout timeout,
            RBody (OptionsBody opts)] s)"

definition namespacedResourcesV1_Patch ::
    "(namespacedV1, namespacedV1_list, 'w, 'o, 's) namespaced_client \<Rightarrow> string \<Rightarrow> string \<Rightarrow> string \<Rightarrow> 'o \<Rightarrow> string list \<Rightarrow> 's \<Rightarrow> (namespacedV1, 's) call_out" where
  "namespacedResourcesV1_Patch c name pt data opts subresources s =
     returned (rc_into (nc_client c)
       [RPatch pt, RNamespace (nc_ns c), RResource ''namespacedresources'', RName name, RSubResource subresources,
        RVersionedParams (OptParams opts), RBody (DataBody data)]
       zero_namespacedV1 s)"

definition namespacedResourcesV1_Apply ::
    "(namespacedV1_apply, 'o) apply_lib \<Rightarrow> (namespacedV1, namespacedV1_list, 'w, 'o, 's) namespaced_client \<Rightarrow> namespacedV1_apply option \<Rightarrow> 'o \<Rightarrow> 's \<Rightarrow> (namespacedV1, 's) call_out" where
  "namespacedResourcesV1_Apply lib c cfg opts s =
     (case cfg of
        None \<Rightarrow> (Ret (None, Some ErrMustNotBeNil), s)
      | Some b \<Rightarrow>
          let patchOpts = al_toPatch lib opts
          in case al_marshal lib b of
               Inl err \<Rightarrow> (Ret (None, Some err), s)
             | Inr data \<Rightarrow>
                 (case nv1_meta b of
                    None \<Rightarrow> (Panic ''nil pointer dereference'', s)
                  | Some m \<Rightarrow>
                      (case ma_name m of
                         None \<Rightarrow> (Ret (None, Some ErrNameRequired), s)
                       | Some name \<Rightarrow>
                           returned (rc_into (nc_client c)
                             [RPatch ApplyPatchType, RNamespace (nc_ns c), RResource ''namespacedresources'', RName name,
                              RVersionedParams (OptParams patchOpts), RBody (DataBody data)]
                             zero_namespacedV1 s))))"

definition namespacedResourcesV1_ApplyStatus ::
    "(namespacedV1_apply, 'o) apply_lib \<Rightarrow> (namespacedV1, namespacedV1_list, 'w, 'o, 's) namespaced_client \<Rightarrow> namespacedV1_apply option \<Rightarrow> 'o \<Rightarrow> 's \<Rightarrow> (namespacedV1, 's) call_out" where
  "namespacedResourcesV1_ApplyStatus lib c cfg opts s =
     (case cfg of
        None \<Rightarrow> (Ret (None, Some ErrMustNotBeNil), s)
      | Some b \<Rightarrow>
          let patchOpts = al_toPatch lib opts
          in case al_marshal lib b of
               Inl err \<Rightarrow> (Ret (None, Some err), s)
             | Inr data \<Rightarrow>
                 (case nv1_meta b of
                    None \<Rightarrow> (Panic ''nil pointer dereference'', s)
                  | Some m \<Rightarrow>
                      (case ma_name m of
                         None \<Rightarrow> (Ret (None, Some ErrNameRequired), s)
                       | Some name \<Rightarrow>
                           returned (rc_into (nc_client c)
                             [RPatch ApplyPatchType, RNamespace (nc_ns c), RResource ''namespacedresources'', RName name,
                              RSubResource [''status''], RVersionedParams (OptParams patchOpts), RBody (DataBody data)]
                             zero_namespacedV1 s))))"

text \<open>The interface value that the group client returns.\<close>

definition namespacedResourcesV1_methods :: "(namespacedV1_apply, 'o) apply_lib \<Rightarrow> (namespacedV1, namespacedV1_list, 'w, 'o, 's) namespaced_client \<Rightarrow> (namespacedV1, namespacedV1_list, 'w, 'o, namespacedV1_apply, 's) resource_methods" where
  "namespacedResourcesV1_methods lib c = \<lparr>
     rm_Create = namespacedResourcesV1_Create c, rm_Update = namespacedResourcesV1_Update c, rm_UpdateStatus = namespacedResourcesV1_UpdateStatus c,
     rm_Delete = namespacedResourcesV1_Delete c, rm_DeleteCollection = namespacedResourcesV1_DeleteCollection c, rm_Get = namespacedResourcesV1_Get c,
     rm_List = namespacedResourcesV1_List c, rm_Watch = namespacedResourcesV1_Watch c, rm_Patch = namespacedResourcesV1_Patch c,
     rm_Apply = namespacedResourcesV1_Apply lib c, rm_ApplyStatus = namespacedResourcesV1_ApplyStatus lib c\<rparr>"

section \<open>NamespacedResource: the fake client\<close>

definition namespacedResourcesV1Resource :: gvr where
  "namespacedResourcesV1Resource = (sampleV1_SchemeGroupVersion, ''namespacedresources'')"

definition namespacedResourcesV1Kind :: gvk where
  "namespacedResourcesV1Kind = with_kind sampleV1_SchemeGroupVersion ''NamespacedResource''"

definition fakeNamespacedResourcesV1_Get :: "(namespacedV1, namespacedV1_list, 'w, 'o, 'sel, 's) fake_namespaced \<Rightarrow> string \<Rightarrow> 'o \<Rightarrow> 's \<Rightarrow> (namespacedV1, 's) call_out" where
  "fakeNamespacedResourcesV1_Get c name options s =
     obj_result (fk_invokes (fn_Fake c) (NewGetAction namespacedResourcesV1Resource (fn_ns c) name) (RObj zero_namespacedV1) s)"

definition fakeNamespacedResourcesV1_List :: "(namespacedV1, namespacedV1_list, 'w, 'o, 'sel, 's) fake_namespaced \<Rightarrow> list_options \<Rightarrow> 's \<Rightarrow> (namespacedV1_list, 's) call_out" where
  "fakeNamespacedResourcesV1_List c opts s =
     (case fk_invokes (fn_Fake c) (NewListAction namespacedResourcesV1Resource namespacedResourcesV1Kind (fn_ns c) opts) (RList zero_namespacedV1_list) s of
        ((None, err), s) \<Rightarrow> (Ret (None, err), s)
      | ((Some x, err), s) \<Rightarrow>
          (case assert_list x of
             Panic p \<Rightarrow> (Panic p, s)
           | Ret l \<Rightarrow>
               let label = selector_of (fn_Fake c) opts;
                   items = keep_matching label (\<lambda>item. om_labels (nr1_meta item)) (the_items (nr1l_items l)) [];
                   list = zero_namespacedV1_list\<lparr>nr1l_resourceVersion := nr1l_resourceVersion l,
                     nr1l_items := slice_of items\<rparr>
               in (Ret (Some list, err), s)))"

definition fakeNamespacedResourcesV1_Watch :: "(namespacedV1, namespacedV1_list, 'w, 'o, 'sel, 's) fake_namespaced \<Rightarrow> list_options \<Rightarrow> 's \<Rightarrow> ('w, 's) call_out" where
  "fakeNamespacedResourcesV1_Watch c opts s =
     passed_on (fk_invokesWatch (fn_Fake c) (NewWatchAction namespacedResourcesV1Resource (fn_ns c) opts) s)"

definition fakeNamespacedResourcesV1_Create :: "(namespacedV1, namespacedV1_list, 'w, 'o, 'sel, 's) fake_namespaced \<Rightarrow> namespacedV1 \<Rightarrow> 'o \<Rightarrow> 's \<Rightarrow> (namespacedV1, 's) call_out" where
  "fakeNamespacedResourcesV1_Create c x opts s =
     obj_result (fk_invokes (fn_Fake c) (NewCreateAction namespacedResourcesV1Resource (fn_ns c) x) (RObj zero_namespacedV1) s)"

definition fakeNamespacedResourcesV1_Update :: "(namespacedV1, namespacedV1_list, 'w, 'o, 'sel, 's) fake_namespaced \<Rightarrow> namespacedV1 \<Rightarrow> 'o \<Rightarrow> 's \<Rightarrow> (namespacedV1, 's) call_out" where
  "fakeNamespacedResourcesV1_Update c x opts s =
     obj_result (fk_invokes (fn_Fake c) (NewUpdateAction namespacedResourcesV1Resource (fn_ns c) x) (RObj zero_namespacedV1) s)"

definition fakeNamespacedResourcesV1_UpdateStatus :: "(namespacedV1, namespacedV1_list, 'w, 'o, 'sel, 's) fake_namespaced \<Rightarrow> namespacedV1 \<Rightarrow> 'o \<Rightarrow> 's \<Rightarrow> (namespacedV1, 's) call_out" where
  "fakeNamespacedResourcesV1_UpdateStatus c x opts s =
     obj_result (fk_invokes (fn_Fake c)
       (NewUpdateSubresourceAction namespacedResourcesV1Resource ''status'' (fn_ns c) x) (RObj zero_namespacedV1) s)"

definition fakeNamespacedResourcesV1_Delete :: "(namespacedV1, namespacedV1_list, 'w, 'o, 'sel, 's) fake_namespaced \<Rightarrow> string \<Rightarrow> 'o \<Rightarrow> 's \<Rightarrow> go_error option \<times> 's" where
  "fakeNamespacedResourcesV1_Delete c name opts s =
     (let ((_, err), s) = fk_invokes (fn_Fake c)
        (NewDeleteActionWithOptions namespacedResourcesV1Resource (fn_ns c) name opts) (RObj zero_namespacedV1) s
      in (err, s))"

definition fakeNamespacedResourcesV1_DeleteCollection ::
    "(namespacedV1, namespacedV1_list, 'w, 'o, 'sel, 's) fake_namespaced \<Rightarrow> 'o \<Rightarrow> list_options \<Rightarrow> 's \<Rightarrow> go_error option \<times> 's" where
  "fakeNamespacedResourcesV1_DeleteCollection c opts listOpts s =
     (let action = NewDeleteCollectionAction namespacedResourcesV1Resource (fn_ns c) listOpts;
          ((_, err), s) = fk_invokes (fn_Fake c) action (RList zero_namespacedV1_list) s
      in (err, s))"

definition fakeNamespacedResourcesV1_Patch ::
    "(namespacedV1, namespacedV1_list, 'w, 'o, 'sel, 's) fake_namespaced \<Rightarrow> string \<Rightarrow> string \<Rightarrow> string \<Rightarrow> 'o \<Rightarrow> string list \<Rightarrow> 's \<Rightarrow> (namespacedV1, 's) call_out" where
  "fakeNamespacedResourcesV1_Patch c name pt data opts subresources s =
     obj_result (fk_invokes (fn_Fake c)
       (NewPatchSubresourceAction namespacedResourcesV1Resource (fn_ns c) name pt data subresources) (RObj zero_namespacedV1) s)"

definition fakeNamespacedResourcesV1_Apply ::
    "(namespacedV1_apply, 'o) apply_lib \<Rightarrow> (namespacedV1, namespacedV1_list, 'w, 'o, 'sel, 's) fake_namespaced \<Rightarrow> namespacedV1_apply option \<Rightarrow> 'o \<Rightarrow> 's \<Rightarrow> (namespacedV1, 's) call_out" where
  "fakeNamespacedResourcesV1_Apply lib c cfg opts s =
     (case cfg of
        None \<Rightarrow> (Ret (None, Some ErrMustNotBeNil), s)
      | Some b \<Rightarrow>
          (case al_marshal lib b of
             Inl err \<Rightarrow> (Ret (None, Some err), s)
           | Inr data \<Rightarrow>
               (case nv1_meta b of
                  None \<Rightarrow> (Panic ''nil pointer dereference'', s)
                | Some m \<Rightarrow>
                    (case ma_name m of
                       None \<Rightarrow> (Ret (None, Some ErrNameRequired), s)
                     | Some name \<Rightarrow>
                         obj_result (fk_invokes (fn_Fake c)
                           (NewPatchSubresourceAction namespacedResourcesV1Resource (fn_ns c) name ApplyPatchType data [])
                           (RObj zero_namespacedV1) s)))))"

definition fakeNamespacedResourcesV1_ApplyStatus ::
    "(namespacedV1_apply, 'o) apply_lib \<Rightarrow> (namespacedV1, namespacedV1_list, 'w, 'o, 'sel, 's) fake_namespaced \<Rightarrow> namespacedV1_apply option \<Rightarrow> 'o \<Rightarrow> 's \<Rightarrow> (namespacedV1, 's) call_out" where
  "fakeNamespacedResourcesV1_ApplyStatus lib c cfg opts s =
     (case cfg of
        None \<Rightarrow> (Ret (None, Some ErrMustNotBeNil), s)
      | Some b \<Rightarrow>
          (case al_marshal lib b of
             Inl err \<Rightarrow> (Ret (None, Some err), s)
           | Inr data \<Rightarrow>
               (case nv1_meta b of
                  None \<Rightarrow> (Panic ''nil pointer dereference'', s)
                | Some m \<Rightarrow>
                    (case ma_name m of
                       None \<Rightarrow> (Ret (None, Some ErrNameRequired), s)
                     | Some name \<Rightarrow>
                         obj_result (fk_invokes (fn_Fake c)
                           (NewPatchSubresourceAction namespacedResourcesV1Resource (fn_ns c) name ApplyPatchType data [''status''])
                           (RObj zero_namespacedV1) s)))))"

definition fakeNamespacedResourcesV1_methods :: "(namespacedV1_apply, 'o) apply_lib \<Rightarrow> (namespacedV1, namespacedV1_list, 'w, 'o, 'sel, 's) fake_namespaced \<Rightarrow> (namespacedV1, namespacedV1_list, 'w, 'o, namespacedV1_apply, 's) resource_methods" where
  "fakeNamespacedResourcesV1_methods lib c = \<lparr>
     rm_Create = fakeNamespacedResourcesV1_Create c, rm_Update = fakeNamespacedResourcesV1_Update c, rm_UpdateStatus = fakeNamespacedResourcesV1_UpdateStatus c,
     rm_Delete = fakeNamespacedResourcesV1_Delete c, rm_DeleteCollection = fakeNamespacedResourcesV1_DeleteCollection c, rm_Get = fakeNamespacedResourcesV1_Get c,
     rm_List = fakeNamespacedResourcesV1_List c, rm_Watch = fakeNamespacedResourcesV1_Watch c, rm_Patch = fakeNamespacedResourcesV1_Patch c,
     rm_Apply = fakeNamespacedResourcesV1_Apply lib c, rm_ApplyStatus = fakeNamespacedResourcesV1_ApplyStatus lib c\<rparr>"

section \<open>NamespacedResource: both clients keep the contract of the interface\<close>

lemmas namespacedResourcesV1_defs = namespacedResourcesV1_methods_def namespacedResourcesV1_Get_def namespacedResourcesV1_List_def namespacedResourcesV1_Watch_def namespacedResourcesV1_Create_def
  namespacedResourcesV1_Update_def namespacedResourcesV1_UpdateStatus_def namespacedResourcesV1_Delete_def namespacedResourcesV1_DeleteCollection_def namespacedResourcesV1_Patch_def
  namespacedResourcesV1_Apply_def namespacedResourcesV1_ApplyStatus_def

lemmas fakeNamespacedResourcesV1_defs = fakeNamespacedResourcesV1_methods_def fakeNamespacedResourcesV1_Get_def fakeNamespacedResourcesV1_List_def fakeNamespacedResourcesV1_Watch_def fakeNamespacedResourcesV1_Create_def
  fakeNamespacedResourcesV1_Update_def fakeNamespacedResourcesV1_UpdateStatus_def fakeNamespacedResourcesV1_Delete_def fakeNamespacedResourcesV1_DeleteCollection_def fakeNamespacedResourcesV1_Patch_def
  fakeNamespacedResourcesV1_Apply_def fakeNamespacedResourcesV1_ApplyStatus_def

lemmas namespacedResourcesV1_request_simps = namespacedResourcesV1_defs namespacedResourcesV1Resource_def rest_request_def empty_request_def mk_request_def

lemmas fakeNamespacedResourcesV1_request_simps = fakeNamespacedResourcesV1_defs mk_request_def

definition namespacedResourcesV1_name :: "namespacedV1 \<Rightarrow> string" where
  "namespacedResourcesV1_name x = om_name (nr1_meta x)"

definition namespacedResourcesV1_labels :: "namespacedV1 \<Rightarrow> go_map" where
  "namespacedResourcesV1_labels x = om_labels (nr1_meta x)"

definition namespacedResourcesV1_items :: "namespacedV1_list \<Rightarrow> namespacedV1 list" where
  "namespacedResourcesV1_items l = the_items (nr1l_items l)"

definition namespacedResourcesV1_listed :: "namespacedV1_list \<Rightarrow> string \<times> namespacedV1 list" where
  "namespacedResourcesV1_listed l = (nr1l_resourceVersion l, namespacedResourcesV1_items l)"

definition namespacedResourcesV1_check :: "(namespacedV1_apply, 'o) apply_lib \<Rightarrow> namespacedV1_apply option \<Rightarrow> (go_error + string \<times> string) go_out" where
  "namespacedResourcesV1_check lib = apply_check nv1_meta (al_marshal lib)"

locale namespacedResourcesV1_served =
  fixes api :: "(namespacedV1, namespacedV1_list, 'w, 's) api"
    and c :: "(namespacedV1, namespacedV1_list, 'w, 'o, 's) namespaced_client"
    and f :: "(namespacedV1, namespacedV1_list, 'w, 'o, 'sel, 's) fake_namespaced"
    and lib :: "(namespacedV1_apply, 'o) apply_lib" and ns :: string
  assumes rest: "rest_backed sampleV1_SchemeGroupVersion api (nc_client c)"
    and fake: "fake_backed namespacedResourcesV1_name api (fn_Fake f)"
    and honest: "honest_lists namespacedResourcesV1_items namespacedResourcesV1_labels api (fn_Fake f)"
    and names: "nc_ns c = ns" "fn_ns f = ns"

sublocale namespacedResourcesV1_served \<subseteq> of_rest: resource_interface api namespacedResourcesV1Resource ns namespacedResourcesV1_name namespacedResourcesV1_listed
    "namespacedResourcesV1_check lib" "namespacedResourcesV1_methods lib c"
  by unfold_locales
    (auto simp: rest_backedD [OF rest] namespacedResourcesV1_request_simps names namespacedResourcesV1_name_def sel_payload_def
       applies_def namespacedResourcesV1_check_def apply_check_def split: option.splits sum.splits)

sublocale namespacedResourcesV1_served \<subseteq> of_fake: resource_interface api namespacedResourcesV1Resource ns namespacedResourcesV1_name namespacedResourcesV1_listed
    "namespacedResourcesV1_check lib" "fakeNamespacedResourcesV1_methods lib f"
proof unfold_locales
  fix opts :: list_options and s :: 's
  let ?r = "api_list api (mk_request ''list'' namespacedResourcesV1Resource ns '''' [] (sel_payload opts)) s"
  let ?rebuild = "\<lambda>l xs. zero_namespacedV1_list\<lparr>nr1l_resourceVersion := nr1l_resourceVersion l,
    nr1l_items := slice_of xs\<rparr>"
  have "answers namespacedResourcesV1_listed
    (case pointed RList ?r of
       ((None, err), s) \<Rightarrow> (Ret (None, err), s)
     | ((Some x, err), s) \<Rightarrow>
         (case assert_list x of
            Panic p \<Rightarrow> (Panic p, s)
          | Ret l \<Rightarrow> (Ret (Some (?rebuild l
              (filter (\<lambda>x. selector_of (fn_Fake f) opts (namespacedResourcesV1_labels x)) (namespacedResourcesV1_items l))), err), s))) ?r"
    by (rule answers_fake_list [OF honest]) (simp_all add: mk_request_def namespacedResourcesV1_listed_def namespacedResourcesV1_items_def)
  then show "answers namespacedResourcesV1_listed (rm_List (fakeNamespacedResourcesV1_methods lib f) opts s) ?r"
    unfolding fakeNamespacedResourcesV1_defs fake_backed_list [OF fake] names keep_matching_filter Let_def append_Nil
      namespacedResourcesV1_labels_def [abs_def] namespacedResourcesV1_items_def resource_methods.simps .
qed (auto simp: fake_backedD [OF fake] fakeNamespacedResourcesV1_request_simps names namespacedResourcesV1_name_def case_prod_beta Let_def
  applies_def namespacedResourcesV1_check_def apply_check_def split: option.splits sum.splits)

sublocale namespacedResourcesV1_served \<subseteq> two_clients api namespacedResourcesV1Resource ns namespacedResourcesV1_name namespacedResourcesV1_listed
    "namespacedResourcesV1_check lib" "namespacedResourcesV1_methods lib c" "fakeNamespacedResourcesV1_methods lib f"
  by (intro two_clients.intro of_rest.resource_interface_axioms of_fake.resource_interface_axioms)

context namespacedResourcesV1_served
begin

lemma same_interface: "clients_agree namespacedResourcesV1_name namespacedResourcesV1_listed (namespacedResourcesV1_check lib)
    (namespacedResourcesV1_methods lib c) (fakeNamespacedResourcesV1_methods lib f)"
  by (rule clients_agree)

lemma apply_patches: "applies api namespacedResourcesV1Resource ns [] (namespacedResourcesV1_check lib cfg) (namespacedResourcesV1_Apply lib c cfg op s) s"
  using of_rest.apply_ok by (simp add: namespacedResourcesV1_methods_def)

end

definition memory_namespacedResourcesV1 :: "(namespacedV1, namespacedV1_list, unit, namespacedV1 objects) api" where
  "memory_namespacedResourcesV1 = memory_api namespacedResourcesV1_name namespacedResourcesV1_labels label_app
     (\<lambda>xs. zero_namespacedV1_list\<lparr>nr1l_items := Some xs\<rparr>)
     (\<lambda>pt d n old. case old of None \<Rightarrow> zero_namespacedV1\<lparr>nr1_meta := zero_meta\<lparr>om_name := n\<rparr>\<rparr> | Some x \<Rightarrow> x)"

definition memory_namespacedResourcesV1_lib :: "(namespacedV1_apply, string) apply_lib" where
  "memory_namespacedResourcesV1_lib = \<lparr>al_marshal = (\<lambda>_. Inr ''{}''), al_toPatch = (\<lambda>opts. opts)\<rparr>"

interpretation memory_namespacedResourcesV1: namespacedResourcesV1_served memory_namespacedResourcesV1
    "new_namespacedResourcesV1 (rest_of_api sampleV1_SchemeGroupVersion memory_namespacedResourcesV1) ns"
    "\<lparr>fn_Fake = fake_of_api namespacedResourcesV1_name memory_namespacedResourcesV1 label_app, fn_ns = ns\<rparr>" memory_namespacedResourcesV1_lib ns for ns
  by unfold_locales
    (simp_all add: new_namespacedResourcesV1_def memory_namespacedResourcesV1_def memory_api_honest namespacedResourcesV1_items_def)

end
