(* ===== verification/SampleClientV2.thy ===== *)
theory SampleClientV2
  imports TypedClient SampleApplyV2 SampleAPI
begin

text \<open>
  The generated clients of the sample API, version v1alpha2
  (\<open>clientset/versioned/typed/sample/v1alpha2\<close>), and their fakes: those of ClusterResources make requests
  without a namespace, those of NamespacedResources with one.
\<close>

definition zero_clusterV2_spec :: clusterV2_spec where
  "zero_clusterV2_spec = \<lparr>cr2s_name = '''', cr2s_replicas = 0\<rparr>"

definition zero_clusterV2_status :: clusterV2_status where
  "zero_clusterV2_status = \<lparr>cr2st_availableReplicas = 0\<rparr>"

section \<open>ClusterResource of v1alpha2: the client\<close>

definition zero_clusterV2 :: clusterV2 where
  "zero_clusterV2 = \<lparr>cr2_type = zero_type, cr2_meta = zero_meta, cr2_spec = zero_clusterV2_spec,
     cr2_status = zero_clusterV2_status\<rparr>"

definition zero_clusterV2_list :: clusterV2_list where
  "zero_clusterV2_list = \<lparr>cr2l_type = zero_type, cr2l_resourceVersion = '''', cr2l_items = None\<rparr>"

definition new_clusterResourcesV2 :: "(clusterV2, clusterV2_list, 'w, 'o, 's) rest_client \<Rightarrow> (clusterV2, clusterV2_list, 'w, 'o, 's) cluster_client" where
  "new_clusterResourcesV2 rc = \<lparr>cc_client = rc\<rparr>"

definition clusterResourcesV2_Get :: "(clusterV2, clusterV2_list, 'w, 'o, 's) cluster_client \<Rightarrow> string \<Rightarrow> 'o \<Rightarrow> 's \<Rightarrow> (clusterV2, 's) call_out" where
  "clusterResourcesV2_Get c name options s =
     returned (rc_into (cc_client c)
       [RGet, RResource ''clusterresources'', RName name, RVersionedParams (OptParams options)]
       zero_clusterV2 s)"

definition clusterResourcesV2_List :: "(clusterV2, clusterV2_list, 'w, 'o, 's) cluster_client \<Rightarrow> list_options \<Rightarrow> 's \<Rightarrow> (clusterV2_list, 's) call_out" where
  "clusterResourcesV2_List c opts s =
     (let timeout = list_timeout opts
      in returned (rc_intoList (cc_client c)
           [RGet, RResource ''clusterresources'', RVersionedParams (ListParams opts), RTimeout timeout]
           zero_clusterV2_list s))"

definition clusterResourcesV2_Watch :: "(clusterV2, clusterV2_list, 'w, 'o, 's) cluster_client \<Rightarrow> list_options \<Rightarrow> 's \<Rightarrow> ('w, 's) call_out" where
  "clusterResourcesV2_Watch c opts s =
     (let timeout = list_timeout opts;
opts = opts\<lparr>lo_watch := True\<rparr>
      in passed_on (rc_watch (cc_client c)
           [RGet, RResource ''clusterresources'', RVersionedParams (ListParams opts), RTimeout timeout] s))"

definition clusterResourcesV2_Create :: "(clusterV2, clusterV2_list, 'w, 'o, 's) cluster_client \<Rightarrow> clusterV2 \<Rightarrow> 'o \<Rightarrow> 's \<Rightarrow> (clusterV2, 's) call_out" where
  "clusterResourcesV2_Create c x opts s =
     returned (rc_into (cc_client c)
       [RPost, RResource ''clusterresources'', RVersionedParams (OptParams opts), RBody (ObjBody x)]
       zero_clusterV2 s)"

definition clusterResourcesV2_Update :: "(clusterV2, clusterV2_list, 'w, 'o, 's) cluster_client \<Rightarrow> clusterV2 \<Rightarrow> 'o \<Rightarrow> 's \<Rightarrow> (clusterV2, 's) call_out" where
  "clusterResourcesV2_Update c x opts s =
     returned (rc_into (cc_client c)
       [RPut, RResource ''clusterresources'', RName (om_name (cr2_meta x)),
        RVersionedParams (OptParams opts), RBody (ObjBody x)]
       zero_clusterV2 s)"

definition clusterResourcesV2_UpdateStatus :: "(clusterV2, clusterV2_list, 'w, 'o, 's) cluster_client \<Rightarrow> clusterV2 \<Rightarrow> 'o \<Rightarrow> 's \<Rightarrow> (clusterV2, 's) call_out" where
  "clusterResourcesV2_UpdateStatus c x opts s =
     returned (rc_into (cc_client c)
       [RPut, RResource ''clusterresources'', RName (om_name (cr2_meta x)), RSubResource [''status''],
        RVersionedParams (OptParams opts), RBody (ObjBody x)]
       zero_clusterV2 s)"

definition clusterResourcesV2_Delete :: "(clusterV2, clusterV2_list, 'w, 'o, 's) cluster_client \<Rightarrow> string \<Rightarrow> 'o \<Rightarrow> 's \<Rightarrow> go_error option \<times> 's" where
  "clusterResourcesV2_Delete c name opts s =
     rc_error (cc_client c)
       [RDelete, RResource ''clusterresources'', RName name, RBody (OptionsBody opts)] s"

definition clusterResourcesV2_DeleteCollection ::
    "(clusterV2, clusterV2_list, 'w, 'o, 's) cluster_client \<Rightarrow> 'o \<Rightarrow> list_options \<Rightarrow> 's \<Rightarrow> go_error option \<times> 's" where
  "clusterResourcesV2_DeleteCollection c opts listOpts s =
     (let timeout = list_timeout listOpts
      in rc_error (cc_client c)
           [RDelete, RResource ''clusterresources'', RVersionedParams (ListParams listOpts), RTimeout timeout,
            RBody (OptionsBody opts)] s)"

definition clusterResourcesV2_Patch ::
    "(clusterV2, clusterV2_list, 'w, 'o, 's) cluster_client \<Rightarrow> string \<Rightarrow> string \<Rightarrow> string \<Rightarrow> 'o \<Rightarrow> string list \<Rightarrow> 's \<Rightarrow> (clusterV2, 's) call_out" where
  "clusterResourcesV2_Patch c name pt data opts subresources s =
     returned (rc_into (cc_client c)
       [RPatch pt, RResource ''clusterresources'', RName name, RSubResource subresources,
        RVersionedParams (OptParams opts), RBody (DataBody data)]
       zero_clusterV2 s)"

definition clusterResourcesV2_Apply ::
    "(clusterV2_apply, 'o) apply_lib \<Rightarrow> (clusterV2, clusterV2_list, 'w, 'o, 's) cluster_client \<Rightarrow> clusterV2_apply option \<Rightarrow> 'o \<Rightarrow> 's \<Rightarrow> (clusterV2, 's) call_out" where
  "clusterResourcesV2_Apply lib c cfg opts s =
     (case cfg of
        None \<Rightarrow> (Ret (None, Some ErrMustNotBeNil), s)
      | Some b \<Rightarrow>
          let patchOpts = al_toPatch lib opts
          in case al_marshal lib b of
               Inl err \<Rightarrow> (Ret (None, Some err), s)
             | Inr data \<Rightarrow>
                 (case cv2_meta b of
                    None \<Rightarrow> (Panic ''nil pointer dereference'', s)
                  | Some m \<Rightarrow>
                      (case ma_name m of
                         None \<Rightarrow> (Ret (None, Some ErrNameRequired), s)
                       | Some name \<Rightarrow>
                           returned (rc_into (cc_client c)
                             [RPatch ApplyPatchType, RResource ''clusterresources'', RName name,
                              RVersionedParams (OptParams patchOpts), RBody (DataBody data)]
                             zero_clusterV2 s))))"

definition clusterResourcesV2_ApplyStatus ::
    "(clusterV2_apply, 'o) apply_lib \<Rightarrow> (clusterV2, clusterV2_list, 'w, 'o, 's) cluster_client \<Rightarrow> clusterV2_apply option \<Rightarrow> 'o \<Rightarrow> 's \<Rightarrow> (clusterV2, 's) call_out" where
  "clusterResourcesV2_ApplyStatus lib c cfg opts s =
     (case cfg of
        None \<Rightarrow> (Ret (None, Some ErrMustNotBeNil), s)
      | Some b \<Rightarrow>
          let patchOpts = al_toPatch lib opts
          in case al_marshal lib b of
               Inl err \<Rightarrow> (Ret (None, Some err), s)
             | Inr data \<Rightarrow>
                 (case cv2_meta b of
                    None \<Rightarrow> (Panic ''nil pointer dereference'', s)
                  | Some m \<Rightarrow>
                      (case ma_name m of
                         None \<Rightarrow> (Ret (None, Some ErrNameRequired), s)
                       | Some name \<Rightarrow>
                           returned (rc_into (cc_client c)
                             [RPatch ApplyPatchType, RResource ''clusterresources'', RName name,
                              RSubResource [''status''], RVersionedParams (OptParams patchOpts), RBody (DataBody data)]
                             zero_clusterV2 s))))"

text \<open>The interface value that the group client returns.\<close>

definition clusterResourcesV2_methods :: "(clusterV2_apply, 'o) apply_lib \<Rightarrow> (clusterV2, clusterV2_list, 'w, 'o, 's) cluster_client \<Rightarrow> (clusterV2, clusterV2_list, 'w, 'o, clusterV2_apply, 's) resource_methods" where
  "clusterResourcesV2_methods lib c = \<lparr>
     rm_Create = clusterResourcesV2_Create c, rm_Update = clusterResourcesV2_Update c, rm_UpdateStatus = clusterResourcesV2_UpdateStatus c,
     rm_Delete = clusterResourcesV2_Delete c, rm_DeleteCollection = clusterResourcesV2_DeleteCollection c, rm_Get = clusterResourcesV2_Get c,
     rm_List = clusterResourcesV2_List c, rm_Watch = clusterResourcesV2_Watch c, rm_Patch = clusterResourcesV2_Patch c,
     rm_Apply = clusterResourcesV2_Apply lib c, rm_ApplyStatus = clusterResourcesV2_ApplyStatus lib c\<rparr>"

section \<open>ClusterResource: the fake client\<close>

definition clusterResourcesV2Resource :: gvr where
  "clusterResourcesV2Resource = (sampleV2_SchemeGroupVersion, ''clusterresources'')"

definition clusterResourcesV2Kind :: gvk where
  "clusterResourcesV2Kind = with_kind sampleV2_SchemeGroupVersion ''ClusterResource''"

definition fakeClusterResourcesV2_Get :: "(clusterV2, clusterV2_list, 'w, 'o, 'sel, 's) fake_cluster \<Rightarrow> string \<Rightarrow> 'o \<Rightarrow> 's \<Rightarrow> (clusterV2, 's) call_out" where
  "fakeClusterResourcesV2_Get c name options s =
     obj_result (fk_invokes (fc_Fake c) (NewRootGetAction clusterResourcesV2Resource name) (RObj zero_clusterV2) s)"

definition fakeClusterResourcesV2_List :: "(clusterV2, clusterV2_list, 'w, 'o, 'sel, 's) fake_cluster \<Rightarrow> list_options \<Rightarrow> 's \<Rightarrow> (clusterV2_list, 's) call_out" where
  "fakeClusterResourcesV2_List c opts s =
     (case fk_invokes (fc_Fake c) (NewRootListAction clusterResourcesV2Resource clusterResourcesV2Kind opts) (RList zero_clusterV2_list) s of
        ((None, err), s) \<Rightarrow> (Ret (None, err), s)
      | ((Some x, err), s) \<Rightarrow>
          (case assert_list x of
             Panic p \<Rightarrow> (Panic p, s)
           | Ret l \<Rightarrow>
               let label = selector_of (fc_Fake c) opts;
                   items = keep_matching label (\<lambda>item. om_labels (cr2_meta item)) (the_items (cr2l_items l)) [];
                   list = zero_clusterV2_list\<lparr>cr2l_resourceVersion := cr2l_resourceVersion l,
                     cr2l_items := slice_of items\<rparr>
               in (Ret (Some list, err), s)))"

definition fakeClusterResourcesV2_Watch :: "(clusterV2, clusterV2_list, 'w, 'o, 'sel, 's) fake_cluster \<Rightarrow> list_options \<Rightarrow> 's \<Rightarrow> ('w, 's) call_out" where
  "fakeClusterResourcesV2_Watch c opts s =
     passed_on (fk_invokesWatch (fc_Fake c) (NewRootWatchAction clusterResourcesV2Resource opts) s)"

definition fakeClusterResourcesV2_Create :: "(clusterV2, clusterV2_list, 'w, 'o, 'sel, 's) fake_cluster \<Rightarrow> clusterV2 \<Rightarrow> 'o \<Rightarrow> 's \<Rightarrow> (clusterV2, 's) call_out" where
  "fakeClusterResourcesV2_Create c x opts s =
     obj_result (fk_invokes (fc_Fake c) (NewRootCreateAction clusterResourcesV2Resource x) (RObj zero_clusterV2) s)"

definition fakeClusterResourcesV2_Update :: "(clusterV2, clusterV2_list, 'w, 'o, 'sel, 's) fake_cluster \<Rightarrow> clusterV2 \<Rightarrow> 'o \<Rightarrow> 's \<Rightarrow> (clusterV2, 's) call_out" where
  "fakeClusterResourcesV2_Update c x opts s =
     obj_result (fk_invokes (fc_Fake c) (NewRootUpdateAction clusterResourcesV2Resource x) (RObj zero_clusterV2) s)"

definition fakeClusterResourcesV2_UpdateStatus :: "(clusterV2, clusterV2_list, 'w, 'o, 'sel, 's) fake_cluster \<Rightarrow> clusterV2 \<Rightarrow> 'o \<Rightarrow> 's \<Rightarrow> (clusterV2, 's) call_out" where
  "fakeClusterResourcesV2_UpdateStatus c x opts s =
     obj_result (fk_invokes (fc_Fake c)
       (NewRootUpdateSubresourceAction clusterResourcesV2Resource ''status'' x) (RObj zero_clusterV2) s)"

definition fakeClusterResourcesV2_Delete :: "(clusterV2, clusterV2_list, 'w, 'o, 'sel, 's) fake_cluster \<Rightarrow> string \<Rightarrow> 'o \<Rightarrow> 's \<Rightarrow> go_error option \<times> 's" where
  "fakeClusterResourcesV2_Delete c name opts s =
     (let ((_, err), s) = fk_invokes (fc_Fake c)
        (NewRootDeleteActionWithOptions clusterResourcesV2Resource name opts) (RObj zero_clusterV2) s
      in (err, s))"

definition fakeClusterResourcesV2_DeleteCollection ::
    "(clusterV2, clusterV2_list, 'w, 'o, 'sel, 's) fake_cluster \<Rightarrow> 'o \<Rightarrow> list_options \<Rightarrow> 's \<Rightarrow> go_error option \<times> 's" where
  "fakeClusterResourcesV2_DeleteCollection c opts listOpts s =
     (let action = NewRootDeleteCollectionAction clusterResourcesV2Resource listOpts;
          ((_, err), s) = fk_invokes (fc_Fake c) action (RList zero_clusterV2_list) s
      in (err, s))"

definition fakeClusterResourcesV2_Patch ::
    "(clusterV2, clusterV2_list, 'w, 'o, 'sel, 's) fake_cluster \<Rightarrow> string \<Rightarrow> string \<Rightarrow> string \<Rightarrow> 'o \<Rightarrow> string list \<Rightarrow> 's \<Rightarrow> (clusterV2, 's) call_out" where
  "fakeClusterResourcesV2_Patch c name pt data opts subresources s =
     obj_result (fk_invokes (fc_Fake c)
       (NewRootPatchSubresourceAction clusterResourcesV2Resource name pt data subresources) (RObj zero_clusterV2) s)"

definition fakeClusterResourcesV2_Apply ::
    "(clusterV2_apply, 'o) apply_lib \<Rightarrow> (clusterV2, clusterV2_list, 'w, 'o, 'sel, 's) fake_cluster \<Rightarrow> clusterV2_apply option \<Rightarrow> 'o \<Rightarrow> 's \<Rightarrow> (clusterV2, 's) call_out" where
  "fakeClusterResourcesV2_Apply lib c cfg opts s =
     (case cfg of
        None \<Rightarrow> (Ret (None, Some ErrMustNotBeNil), s)
      | Some b \<Rightarrow>
          (case al_marshal lib b of
             Inl err \<Rightarrow> (Ret (None, Some err), s)
           | Inr data \<Rightarrow>
               (case cv2_meta b of
                  None \<Rightarrow> (Panic ''nil pointer dereference'', s)
                | Some m \<Rightarrow>
                    (case ma_name m of
                       None \<Rightarrow> (Ret (None, Some ErrNameRequired), s)
                     | Some name \<Rightarrow>
                         obj_result (fk_invokes (fc_Fake c)
                           (NewRootPatchSubresourceAction clusterResourcesV2Resource name ApplyPatchType data [])
                           (RObj zero_clusterV2) s)))))"

definition fakeClusterResourcesV2_ApplyStatus ::
    "(clusterV2_apply, 'o) apply_lib \<Rightarrow> (clusterV2, clusterV2_list, 'w, 'o, 'sel, 's) fake_cluster \<Rightarrow> clusterV2_apply option \<Rightarrow> 'o \<Rightarrow> 's \<Rightarrow> (clusterV2, 's) call_out" where
  "fakeClusterResourcesV2_ApplyStatus lib c cfg opts s =
     (case cfg of
        None \<Rightarrow> (Ret (None, Some ErrMustNotBeNil), s)
      | Some b \<Rightarrow>
          (case al_marshal lib b of
             Inl err \<Rightarrow> (Ret (None, Some err), s)
           | Inr data \<Rightarrow>
               (case cv2_meta b of
                  None \<Rightarrow> (Panic ''nil pointer dereference'', s)
                | Some m \<Rightarrow>
                    (case ma_name m of
                       None \<Rightarrow> (Ret (None, Some ErrNameRequired), s)
                     | Some name \<Rightarrow>
                         obj_result (fk_invokes (fc_Fake c)
                           (NewRootPatchSubresourceAction clusterResourcesV2Resource name ApplyPatchType data [''status''])
                           (RObj zero_clusterV2) s)))))"

definition fakeClusterResourcesV2_methods :: "(clusterV2_apply, 'o) apply_lib \<Rightarrow> (clusterV2, clusterV2_list, 'w, 'o, 'sel, 's) fake_cluster \<Rightarrow> (clusterV2, clusterV2_list, 'w, 'o, clusterV2_apply, 's) resource_methods" where
  "fakeClusterResourcesV2_methods lib c = \<lparr>
     rm_Create = fakeClusterResourcesV2_Create c, rm_Update = fakeClusterResourcesV2_Update c, rm_UpdateStatus = fakeClusterResourcesV2_UpdateStatus c,
     rm_Delete = fakeClusterResourcesV2_Delete c, rm_DeleteCollection = fakeClusterResourcesV2_DeleteCollection c, rm_Get = fakeClusterResourcesV2_Get c,
     rm_List = fakeClusterResourcesV2_List c, rm_Watch = fakeClusterResourcesV2_Watch c, rm_Patch = fakeClusterResourcesV2_Patch c,
     rm_Apply = fakeClusterResourcesV2_Apply lib c, rm_ApplyStatus = fakeClusterResourcesV2_ApplyStatus lib c\<rparr>"

section \<open>ClusterResource: both clients keep the contract of the interface\<close>

lemmas clusterResourcesV2_defs = clusterResourcesV2_methods_def clusterResourcesV2_Get_def clusterResourcesV2_List_def clusterResourcesV2_Watch_def clusterResourcesV2_Create_def
  clusterResourcesV2_Update_def clusterResourcesV2_UpdateStatus_def clusterResourcesV2_Delete_def clusterResourcesV2_DeleteCollection_def clusterResourcesV2_Patch_def
  clusterResourcesV2_Apply_def clusterResourcesV2_ApplyStatus_def

lemmas fakeClusterResourcesV2_defs = fakeClusterResourcesV2_methods_def fakeClusterResourcesV2_Get_def fakeClusterResourcesV2_List_def fakeClusterResourcesV2_Watch_def fakeClusterResourcesV2_Create_def
  fakeClusterResourcesV2_Update_def fakeClusterResourcesV2_UpdateStatus_def fakeClusterResourcesV2_Delete_def fakeClusterResourcesV2_DeleteCollection_def fakeClusterResourcesV2_Patch_def
  fakeClusterResourcesV2_Apply_def fakeClusterResourcesV2_ApplyStatus_def

lemmas clusterResourcesV2_request_simps = clusterResourcesV2_defs clusterResourcesV2Resource_def rest_request_def empty_request_def mk_request_def

lemmas fakeClusterResourcesV2_request_simps = fakeClusterResourcesV2_defs mk_request_def

definition clusterResourcesV2_name :: "clusterV2 \<Rightarrow> string" where
  "clusterResourcesV2_name x = om_name (cr2_meta x)"

definition clusterResourcesV2_labels :: "clusterV2 \<Rightarrow> go_map" where
  "clusterResourcesV2_labels x = om_labels (cr2_meta x)"

definition clusterResourcesV2_items :: "clusterV2_list \<Rightarrow> clusterV2 list" where
  "clusterResourcesV2_items l = the_items (cr2l_items l)"

definition clusterResourcesV2_listed :: "clusterV2_list \<Rightarrow> string \<times> clusterV2 list" where
  "clusterResourcesV2_listed l = (cr2l_resourceVersion l, clusterResourcesV2_items l)"

definition clusterResourcesV2_check :: "(clusterV2_apply, 'o) apply_lib \<Rightarrow> clusterV2_apply option \<Rightarrow> (go_error + string \<times> string) go_out" where
  "clusterResourcesV2_check lib = apply_check cv2_meta (al_marshal lib)"

locale clusterResourcesV2_served =
  fixes api :: "(clusterV2, clusterV2_list, 'w, 's) api"
    and c :: "(clusterV2, clusterV2_list, 'w, 'o, 's) cluster_client"
    and f :: "(clusterV2, clusterV2_list, 'w, 'o, 'sel, 's) fake_cluster"
    and lib :: "(clusterV2_apply, 'o) apply_lib"
  assumes rest: "rest_backed sampleV2_SchemeGroupVersion api (cc_client c)"
    and fake: "fake_backed clusterResourcesV2_name api (fc_Fake f)"
    and honest: "honest_lists clusterResourcesV2_items clusterResourcesV2_labels api (fc_Fake f)"

sublocale clusterResourcesV2_served \<subseteq> of_rest: resource_interface api clusterResourcesV2Resource "''''" clusterResourcesV2_name clusterResourcesV2_listed
    "clusterResourcesV2_check lib" "clusterResourcesV2_methods lib c"
  by unfold_locales
    (auto simp: rest_backedD [OF rest] clusterResourcesV2_request_simps clusterResourcesV2_name_def sel_payload_def
       applies_def clusterResourcesV2_check_def apply_check_def split: option.splits sum.splits)

sublocale clusterResourcesV2_served \<subseteq> of_fake: resource_interface api clusterResourcesV2Resource "''''" clusterResourcesV2_name clusterResourcesV2_listed
    "clusterResourcesV2_check lib" "fakeClusterResourcesV2_methods lib f"
proof unfold_locales
  fix opts :: list_options and s :: 's
  let ?r = "api_list api (mk_request ''list'' clusterResourcesV2Resource '''' '''' [] (sel_payload opts)) s"
  let ?rebuild = "\<lambda>l xs. zero_clusterV2_list\<lparr>cr2l_resourceVersion := cr2l_resourceVersion l,
    cr2l_items := slice_of xs\<rparr>"
  have "answers clusterResourcesV2_listed
    (case pointed RList ?r of
       ((None, err), s) \<Rightarrow> (Ret (None, err), s)
     | ((Some x, err), s) \<Rightarrow>
         (case assert_list x of
            Panic p \<Rightarrow> (Panic p, s)
          | Ret l \<Rightarrow> (Ret (Some (?rebuild l
              (filter (\<lambda>x. selector_of (fc_Fake f) opts (clusterResourcesV2_labels x)) (clusterResourcesV2_items l))), err), s))) ?r"
    by (rule answers_fake_list [OF honest]) (simp_all add: mk_request_def clusterResourcesV2_listed_def clusterResourcesV2_items_def)
  then show "answers clusterResourcesV2_listed (rm_List (fakeClusterResourcesV2_methods lib f) opts s) ?r"
    unfolding fakeClusterResourcesV2_defs fake_backed_list [OF fake] keep_matching_filter Let_def append_Nil
      clusterResourcesV2_labels_def [abs_def] clusterResourcesV2_items_def resource_methods.simps .
qed (auto simp: fake_backedD [OF fake] fakeClusterResourcesV2_request_simps clusterResourcesV2_name_def case_prod_beta Let_def
  applies_def clusterResourcesV2_check_def apply_check_def split: option.splits sum.splits)

sublocale clusterResourcesV2_served \<subseteq> two_clients api clusterResourcesV2Resource "''''" clusterResourcesV2_name clusterResourcesV2_listed
    "clusterResourcesV2_check lib" "clusterResourcesV2_methods lib c" "fakeClusterResourcesV2_methods lib f"
  by (intro two_clients.intro of_rest.resource_interface_axioms of_fake.resource_interface_axioms)

context clusterResourcesV2_served
begin

lemma same_interface: "clients_agree clusterResourcesV2_name clusterResourcesV2_listed (clusterResourcesV2_check lib)
    (clusterResourcesV2_methods lib c) (fakeClusterResourcesV2_methods lib f)"
  by (rule clients_agree)

lemma apply_patches: "applies api clusterResourcesV2Resource '''' [] (clusterResourcesV2_check lib cfg) (clusterResourcesV2_Apply lib c cfg op s) s"
  using of_rest.apply_ok by (simp add: clusterResourcesV2_methods_def)

end

definition memory_clusterResourcesV2 :: "(clusterV2, clusterV2_list, unit, clusterV2 objects) api" where
  "memory_clusterResourcesV2 = memory_api clusterResourcesV2_name clusterResourcesV2_labels label_app
     (\<lambda>xs. zero_clusterV2_list\<lparr>cr2l_items := Some xs\<rparr>)
     (\<lambda>pt d n old. case old of None \<Rightarrow> zero_clusterV2\<lparr>cr2_meta := zero_meta\<lparr>om_name := n\<rparr>\<rparr> | Some x \<Rightarrow> x)"

definition memory_clusterResourcesV2_lib :: "(clusterV2_apply, string) apply_lib" where
  "memory_clusterResourcesV2_lib = \<lparr>al_marshal = (\<lambda>_. Inr ''{}''), al_toPatch = (\<lambda>opts. opts)\<rparr>"

interpretation memory_clusterResourcesV2: clusterResourcesV2_served memory_clusterResourcesV2
    "new_clusterResourcesV2 (rest_of_api sampleV2_SchemeGroupVersion memory_clusterResourcesV2)"
    "\<lparr>fc_Fake = fake_of_api clusterResourcesV2_name memory_clusterResourcesV2 label_app\<rparr>" memory_clusterResourcesV2_lib
  by unfold_locales
    (simp_all add: new_clusterResourcesV2_def memory_clusterResourcesV2_def memory_api_honest clusterResourcesV2_items_def)

definition zero_namespacedV2_spec :: namespacedV2_spec where
  "zero_namespacedV2_spec = \<lparr>nr2s_name = '''', nr2s_replicas = 0\<rparr>"

definition zero_namespacedV2_status :: namespacedV2_status where
  "zero_namespacedV2_status = \<lparr>nr2st_availableReplicas = 0\<rparr>"

section \<open>NamespacedResource of v1alpha2: the client\<close>

definition zero_namespacedV2 :: namespacedV2 where
  "zero_namespacedV2 = \<lparr>nr2_type = zero_type, nr2_meta = zero_meta, nr2_spec = zero_namespacedV2_spec,
     nr2_status = zero_namespacedV2_status\<rparr>"

definition zero_namespacedV2_list :: namespacedV2_list where
  "zero_namespacedV2_list = \<lparr>nr2l_type = zero_type, nr2l_resourceVersion = '''', nr2l_items = None\<rparr>"

definition new_namespacedResourcesV2 :: "(namespacedV2, namespacedV2_list, 'w, 'o, 's) rest_client \<Rightarrow> string \<Rightarrow> (namespacedV2, namespacedV2_list, 'w, 'o, 's) namespaced_client" where
  "new_namespacedResourcesV2 rc namespace = \<lparr>nc_client = rc, nc_ns = namespace\<rparr>"

definition namespacedResourcesV2_Get :: "(namespacedV2, namespacedV2_list, 'w, 'o, 's) namespaced_client \<Rightarrow> string \<Rightarrow> 'o \<Rightarrow> 's \<Rightarrow> (namespacedV2, 's) call_out" where
  "namespacedResourcesV2_Get c name options s =
     returned (rc_into (nc_client c)
       [RGet, RNamespace (nc_ns c), RResource ''namespacedresources'', RName name, RVersionedParams (OptParams options)]
       zero_namespacedV2 s)"

definition namespacedResourcesV2_List :: "(namespacedV2, namespacedV2_list, 'w, 'o, 's) namespaced_client \<Rightarrow> list_options \<Rightarrow> 's \<Rightarrow> (namespacedV2_list, 's) call_out" where
  "namespacedResourcesV2_List c opts s =
     (let timeout = list_timeout opts
      in returned (rc_intoList (nc_client c)
           [RGet, RNamespace (nc_ns c), RResource ''namespacedresources'', RVersionedParams (ListParams opts), RTimeout timeout]
           zero_namespacedV2_list s))"

definition namespacedResourcesV2_Watch :: "(namespacedV2, namespacedV2_list, 'w, 'o, 's) namespaced_client \<Rightarrow> list_options \<Rightarrow> 's \<Rightarrow> ('w, 's) call_out" where
  "namespacedResourcesV2_Watch c opts s =
     (let timeout = list_timeout opts;
opts = opts\<lparr>lo_watch := True\<rparr>
      in passed_on (rc_watch (nc_client c)
           [RGet, RNamespace (nc_ns c), RResource ''namespacedresources'', RVersionedParams (ListParams opts), RTimeout timeout] s))"

definition namespacedResourcesV2_Create :: "(namespacedV2, namespacedV2_list, 'w, 'o, 's) namespaced_client \<Rightarrow> namespacedV2 \<Rightarrow> 'o \<Rightarrow> 's \<Rightarrow> (namespacedV2, 's) call_out" where
  "namespacedResourcesV2_Create c x opts s =
     returned (rc_into (nc_client c)
       [RPost, RNamespace (nc_ns c), RResource ''namespacedresources'', RVersionedParams (OptParams opts), RBody (ObjBody x)]
       zero_namespacedV2 s)"

definition namespacedResourcesV2_Update :: "(namespacedV2, namespacedV2_list, 'w, 'o, 's) namespaced_client \<Rightarrow> namespacedV2 \<Rightarrow> 'o \<Rightarrow> 's \<Rightarrow> (namespacedV2, 's) call_out" where
  "namespacedResourcesV2_Update c x opts s =
     returned (rc_into (nc_client c)
       [RPut, RNamespace (nc_ns c), RResource ''namespacedresources'', RName (om_name (nr2_meta x)),
        RVersionedParams (OptParams opts), RBody (ObjBody x)]
       zero_namespacedV2 s)"

definition namespacedResourcesV2_UpdateStatus :: "(namespacedV2, namespacedV2_list, 'w, 'o, 's) namespaced_client \<Rightarrow> namespacedV2 \<Rightarrow> 'o \<Rightarrow> 's \<Rightarrow> (namespacedV2, 's) call_out" where
  "namespacedResourcesV2_UpdateStatus c x opts s =
     returned (rc_into (nc_client c)
       [RPut, RNamespace (nc_ns c), RResource ''namespacedresources'', RName (om_name (nr2_meta x)), RSubResource [''status''],
        RVersionedParams (OptParams opts), RBody (ObjBody x)]
       zero_namespacedV2 s)"

definition namespacedResourcesV2_Delete :: "(namespacedV2, namespacedV2_list, 'w, 'o, 's) namespaced_client \<Rightarrow> string \<Rightarrow> 'o \<Rightarrow> 's \<Rightarrow> go_error option \<times> 's" where
  "namespacedResourcesV2_Delete c name opts s =
     rc_error (nc_client c)
       [RDelete, RNamespace (nc_ns c), RResource ''namespacedresources'', RName name, RBody (OptionsBody opts)] s"

definition namespacedResourcesV2_DeleteCollection ::
    "(namespacedV2, namespacedV2_list, 'w, 'o, 's) namespaced_client \<Rightarrow> 'o \<Rightarrow> list_options \<Rightarrow> 's \<Rightarrow> go_error option \<times> 's" where
  "namespacedResourcesV2_DeleteCollection c opts listOpts s =
     (let timeout = list_timeout listOpts
      in rc_error (nc_client c)
           [RDelete, RNamespace (nc_ns c), RResource ''namespacedresources'', RVersionedParams (ListParams listOpts), RTimeout timeout,
            RBody (OptionsBody opts)] s)"

definition namespacedResourcesV2_Patch ::
    "(namespacedV2, namespacedV2_list, 'w, 'o, 's) namespaced_client \<Rightarrow> string \<Rightarrow> string \<Rightarrow> string \<Rightarrow> 'o \<Rightarrow> string list \<Rightarrow> 's \<Rightarrow> (namespacedV2, 's) call_out" where
  "namespacedResourcesV2_Patch c name pt data opts subresources s =
     returned (rc_into (nc_client c)
       [RPatch pt, RNamespace (nc_ns c), RResource ''namespacedresources'', RName name, RSubResource subresources,
        RVersionedParams (OptParams opts), RBody (DataBody data)]
       zero_namespacedV2 s)"

definition namespacedResourcesV2_Apply ::
    "(namespacedV2_apply, 'o) apply_lib \<Rightarrow> (namespacedV2, namespacedV2_list, 'w, 'o, 's) namespaced_client \<Rightarrow> namespacedV2_apply option \<Rightarrow> 'o \<Rightarrow> 's \<Rightarrow> (namespacedV2, 's) call_out" where
  "namespacedResourcesV2_Apply lib c cfg opts s =
     (case cfg of
        None \<Rightarrow> (Ret (None, Some ErrMustNotBeNil), s)
      | Some b \<Rightarrow>
          let patchOpts = al_toPatch lib opts
          in case al_marshal lib b of
               Inl err \<Rightarrow> (Ret (None, Some err), s)
             | Inr data \<Rightarrow>
                 (case nv2_meta b of
                    None \<Rightarrow> (Panic ''nil pointer dereference'', s)
                  | Some m \<Rightarrow>
                      (case ma_name m of
                         None \<Rightarrow> (Ret (None, Some ErrNameRequired), s)
                       | Some name \<Rightarrow>
                           returned (rc_into (nc_client c)
                             [RPatch ApplyPatchType, RNamespace (nc_ns c), RResource ''namespacedresources'', RName name,
                              RVersionedParams (OptParams patchOpts), RBody (DataBody data)]
                             zero_namespacedV2 s))))"

definition namespacedResourcesV2_ApplyStatus ::
    "(namespacedV2_apply, 'o) apply_lib \<Rightarrow> (namespacedV2, namespacedV2_list, 'w, 'o, 's) namespaced_client \<Rightarrow> namespacedV2_apply option \<Rightarrow> 'o \<Rightarrow> 's \<Rightarrow> (namespacedV2, 's) call_out" where
  "namespacedResourcesV2_ApplyStatus lib c cfg opts s =
     (case cfg of
        None \<Rightarrow> (Ret (None, Some ErrMustNotBeNil), s)
      | Some b \<Rightarrow>
          let patchOpts = al_toPatch lib opts
          in case al_marshal lib b of
               Inl err \<Rightarrow> (Ret (None, Some err), s)
             | Inr data \<Rightarrow>
                 (case nv2_meta b of
                    None \<Rightarrow> (Panic ''nil pointer dereference'', s)
                  | Some m \<Rightarrow>
                      (case ma_name m of
                         None \<Rightarrow> (Ret (None, Some ErrNameRequired), s)
                       | Some name \<Rightarrow>
                           returned (rc_into (nc_client c)
                             [RPatch ApplyPatchType, RNamespace (nc_ns c), RResource ''namespacedresources'', RName name,
                              RSubResource [''status''], RVersionedParams (OptParams patchOpts), RBody (DataBody data)]
                             zero_namespacedV2 s))))"

text \<open>The interface value that the group client returns.\<close>

definition namespacedResourcesV2_methods :: "(namespacedV2_apply, 'o) apply_lib \<Rightarrow> (namespacedV2, namespacedV2_list, 'w, 'o, 's) namespaced_client \<Rightarrow> (namespacedV2, namespacedV2_list, 'w, 'o, namespacedV2_apply, 's) resource_methods" where
  "namespacedResourcesV2_methods lib c = \<lparr>
     rm_Create = namespacedResourcesV2_Create c, rm_Update = namespacedResourcesV2_Update c, rm_UpdateStatus = namespacedResourcesV2_UpdateStatus c,
     rm_Delete = namespacedResourcesV2_Delete c, rm_DeleteCollection = namespacedResourcesV2_DeleteCollection c, rm_Get = namespacedResourcesV2_Get c,
     rm_List = namespacedResourcesV2_List c, rm_Watch = namespacedResourcesV2_Watch c, rm_Patch = namespacedResourcesV2_Patch c,
     rm_Apply = namespacedResourcesV2_Apply lib c, rm_ApplyStatus = namespacedResourcesV2_ApplyStatus lib c\<rparr>"

section \<open>NamespacedResource: the fake client\<close>

definition namespacedResourcesV2Resource :: gvr where
  "namespacedResourcesV2Resource = (sampleV2_SchemeGroupVersion, ''namespacedresources'')"

definition namespacedResourcesV2Kind :: gvk where
  "namespacedResourcesV2Kind = with_kind sampleV2_SchemeGroupVersion ''NamespacedResource''"

definition fakeNamespacedResourcesV2_Get :: "(namespacedV2, namespacedV2_list, 'w, 'o, 'sel, 's) fake_namespaced \<Rightarrow> string \<Rightarrow> 'o \<Rightarrow> 's \<Rightarrow> (namespacedV2, 's) call_out" where
  "fakeNamespacedResourcesV2_Get c name options s =
     obj_result (fk_invokes (fn_Fake c) (NewGetAction namespacedResourcesV2Resource (fn_ns c) name) (RObj zero_namespacedV2) s)"

definition fakeNamespacedResourcesV2_List :: "(namespacedV2, namespacedV2_list, 'w, 'o, 'sel, 's) fake_namespaced \<Rightarrow> list_options \<Rightarrow> 's \<Rightarrow> (namespacedV2_list, 's) call_out" where
  "fakeNamespacedResourcesV2_List c opts s =
     (case fk_invokes (fn_Fake c) (NewListAction namespacedResourcesV2Resource namespacedResourcesV2Kind (fn_ns c) opts) (RList zero_namespacedV2_list) s of
        ((None, err), s) \<Rightarrow> (Ret (None, err), s)
      | ((Some x, err), s) \<Rightarrow>
          (case assert_list x of
             Panic p \<Rightarrow> (Panic p, s)
           | Ret l \<Rightarrow>
               let label = selector_of (fn_Fake c) opts;
                   items = keep_matching label (\<lambda>item. om_labels (nr2_meta item)) (the_items (nr2l_items l)) [];
                   list = zero_namespacedV2_list\<lparr>nr2l_resourceVersion := nr2l_resourceVersion l,
                     nr2l_items := slice_of items\<rparr>
               in (Ret (Some list, err), s)))"

definition fakeNamespacedResourcesV2_Watch :: "(namespacedV2, namespacedV2_list, 'w, 'o, 'sel, 's) fake_namespaced \<Rightarrow> list_options \<Rightarrow> 's \<Rightarrow> ('w, 's) call_out" where
  "fakeNamespacedResourcesV2_Watch c opts s =
     passed_on (fk_invokesWatch (fn_Fake c) (NewWatchAction namespacedResourcesV2Resource (fn_ns c) opts) s)"

definition fakeNamespacedResourcesV2_Create :: "(namespacedV2, namespacedV2_list, 'w, 'o, 'sel, 's) fake_namespaced \<Rightarrow> namespacedV2 \<Rightarrow> 'o \<Rightarrow> 's \<Rightarrow> (namespacedV2, 's) call_out" where
  "fakeNamespacedResourcesV2_Create c x opts s =
     obj_result (fk_invokes (fn_Fake c) (NewCreateAction namespacedResourcesV2Resource (fn_ns c) x) (RObj zero_namespacedV2) s)"

definition fakeNamespacedResourcesV2_Update :: "(namespacedV2, namespacedV2_list, 'w, 'o, 'sel, 's) fake_namespaced \<Rightarrow> namespacedV2 \<Rightarrow> 'o \<Rightarrow> 's \<Rightarrow> (namespacedV2, 's) call_out" where
  "fakeNamespacedResourcesV2_Update c x opts s =
     obj_result (fk_invokes (fn_Fake c) (NewUpdateAction namespacedResourcesV2Resource (fn_ns c) x) (RObj zero_namespacedV2) s)"

definition fakeNamespacedResourcesV2_UpdateStatus :: "(namespacedV2, namespacedV2_list, 'w, 'o, 'sel, 's) fake_namespaced \<Rightarrow> namespacedV2 \<Rightarrow> 'o \<Rightarrow> 's \<Rightarrow> (namespacedV2, 's) call_out" where
  "fakeNamespacedResourcesV2_UpdateStatus c x opts s =
     obj_result (fk_invokes (fn_Fake c)
       (NewUpdateSubresourceAction namespacedResourcesV2Resource ''status'' (fn_ns c) x) (RObj zero_namespacedV2) s)"

definition fakeNamespacedResourcesV2_Delete :: "(namespacedV2, namespacedV2_list, 'w, 'o, 'sel, 's) fake_namespaced \<Rightarrow> string \<Rightarrow> 'o \<Rightarrow> 's \<Rightarrow> go_error option \<times> 's" where
  "fakeNamespacedResourcesV2_Delete c name opts s =
     (let ((_, err), s) = fk_invokes (fn_Fake c)
        (NewDeleteActionWithOptions namespacedResourcesV2Resource (fn_ns c) name opts) (RObj zero_namespacedV2) s
      in (err, s))"

definition fakeNamespacedResourcesV2_DeleteCollection ::
    "(namespacedV2, namespacedV2_list, 'w, 'o, 'sel, 's) fake_namespaced \<Rightarrow> 'o \<Rightarrow> list_options \<Rightarrow> 's \<Rightarrow> go_error option \<times> 's" where
  "fakeNamespacedResourcesV2_DeleteCollection c opts listOpts s =
     (let action = NewDeleteCollectionAction namespacedResourcesV2Resource (fn_ns c) listOpts;
          ((_, err), s) = fk_invokes (fn_Fake c) action (RList zero_namespacedV2_list) s
      in (err, s))"

definition fakeNamespacedResourcesV2_Patch ::
    "(namespacedV2, namespacedV2_list, 'w, 'o, 'sel, 's) fake_namespaced \<Rightarrow> string \<Rightarrow> string \<Rightarrow> string \<Rightarrow> 'o \<Rightarrow> string list \<Rightarrow> 's \<Rightarrow> (namespacedV2, 's) call_out" where
  "fakeNamespacedResourcesV2_Patch c name pt data opts subresources s =
     obj_result (fk_invokes (fn_Fake c)
       (NewPatchSubresourceAction namespacedResourcesV2Resource (fn_ns c) name pt data subresources) (RObj zero_namespacedV2) s)"

definition fakeNamespacedResourcesV2_Apply ::
    "(namespacedV2_apply, 'o) apply_lib \<Rightarrow> (namespacedV2, namespacedV2_list, 'w, 'o, 'sel, 's) fake_namespaced \<Rightarrow> namespacedV2_apply option \<Rightarrow> 'o \<Rightarrow> 's \<Rightarrow> (namespacedV2, 's) call_out" where
  "fakeNamespacedResourcesV2_Apply lib c cfg opts s =
     (case cfg of
        None \<Rightarrow> (Ret (None, Some ErrMustNotBeNil), s)
      | Some b \<Rightarrow>
          (case al_marshal lib b of
             Inl err \<Rightarrow> (Ret (None, Some err), s)
           | Inr data \<Rightarrow>
               (case nv2_meta b of
                  None \<Rightarrow> (Panic ''nil pointer dereference'', s)
                | Some m \<Rightarrow>
                    (case ma_name m of
                       None \<Rightarrow> (Ret (None, Some ErrNameRequired), s)
                     | Some name \<Rightarrow>
                         obj_result (fk_invokes (fn_Fake c)
                           (NewPatchSubresourceAction namespacedResourcesV2Resource (fn_ns c) name ApplyPatchType data [])
                           (RObj zero_namespacedV2) s)))))"

definition fakeNamespacedResourcesV2_ApplyStatus ::
    "(namespacedV2_apply, 'o) apply_lib \<Rightarrow> (namespacedV2, namespacedV2_list, 'w, 'o, 'sel, 's) fake_namespaced \<Rightarrow> namespacedV2_apply option \<Rightarrow> 'o \<Rightarrow> 's \<Rightarrow> (namespacedV2, 's) call_out" where
  "fakeNamespacedResourcesV2_ApplyStatus lib c cfg opts s =
     (case cfg of
        None \<Rightarrow> (Ret (None, Some ErrMustNotBeNil), s)
      | Some b \<Rightarrow>
          (case al_marshal lib b of
             Inl err \<Rightarrow> (Ret (None, Some err), s)
           | Inr data \<Rightarrow>
               (case nv2_meta b of
                  None \<Rightarrow> (Panic ''nil pointer dereference'', s)
                | Some m \<Rightarrow>
                    (case ma_name m of
                       None \<Rightarrow> (Ret (None, Some ErrNameRequired), s)
                     | Some name \<Rightarrow>
                         obj_result (fk_invokes (fn_Fake c)
                           (NewPatchSubresourceAction namespacedResourcesV2Resource (fn_ns c) name ApplyPatchType data [''status''])
                           (RObj zero_namespacedV2) s)))))"

definition fakeNamespacedResourcesV2_methods :: "(namespacedV2_apply, 'o) apply_lib \<Rightarrow> (namespacedV2, namespacedV2_list, 'w, 'o, 'sel, 's) fake_namespaced \<Rightarrow> (namespacedV2, namespacedV2_list, 'w, 'o, namespacedV2_apply, 's) resource_methods" where
  "fakeNamespacedResourcesV2_methods lib c = \<lparr>
     rm_Create = fakeNamespacedResourcesV2_Create c, rm_Update = fakeNamespacedResourcesV2_Update c, rm_UpdateStatus = fakeNamespacedResourcesV2_UpdateStatus c,
     rm_Delete = fakeNamespacedResourcesV2_Delete c, rm_DeleteCollection = fakeNamespacedResourcesV2_DeleteCollection c, rm_Get = fakeNamespacedResourcesV2_Get c,
     rm_List = fakeNamespacedResourcesV2_List c, rm_Watch = fakeNamespacedResourcesV2_Watch c, rm_Patch = fakeNamespacedResourcesV2_Patch c,
     rm_Apply = fakeNamespacedResourcesV2_Apply lib c, rm_ApplyStatus = fakeNamespacedResourcesV2_ApplyStatus lib c\<rparr>"

section \<open>NamespacedResource: both clients keep the contract of the interface\<close>

lemmas namespacedResourcesV2_defs = namespacedResourcesV2_methods_def namespacedResourcesV2_Get_def namespacedResourcesV2_List_def namespacedResourcesV2_Watch_def namespacedResourcesV2_Create_def
  namespacedResourcesV2_Update_def namespacedResourcesV2_UpdateStatus_def namespacedResourcesV2_Delete_def namespacedResourcesV2_DeleteCollection_def namespacedResourcesV2_Patch_def
  namespacedResourcesV2_Apply_def namespacedResourcesV2_ApplyStatus_def

lemmas fakeNamespacedResourcesV2_defs = fakeNamespacedResourcesV2_methods_def fakeNamespacedResourcesV2_Get_def fakeNamespacedResourcesV2_List_def fakeNamespacedResourcesV2_Watch_def fakeNamespacedResourcesV2_Create_def
  fakeNamespacedResourcesV2_Update_def fakeNamespacedResourcesV2_UpdateStatus_def fakeNamespacedResourcesV2_Delete_def fakeNamespacedResourcesV2_DeleteCollection_def fakeNamespacedResourcesV2_Patch_def
  fakeNamespacedResourcesV2_Apply_def fakeNamespacedResourcesV2_ApplyStatus_def

lemmas namespacedResourcesV2_request_simps = namespacedResourcesV2_defs namespacedResourcesV2Resource_def rest_request_def empty_request_def mk_request_def

lemmas fakeNamespacedResourcesV2_request_simps = fakeNamespacedResourcesV2_defs mk_request_def

definition namespacedResourcesV2_name :: "namespacedV2 \<Rightarrow> string" where
  "namespacedResourcesV2_name x = om_name (nr2_meta x)"

definition namespacedResourcesV2_labels :: "namespacedV2 \<Rightarrow> go_map" where
  "namespacedResourcesV2_labels x = om_labels (nr2_meta x)"

definition namespacedResourcesV2_items :: "namespacedV2_list \<Rightarrow> namespacedV2 list" where
  "namespacedResourcesV2_items l = the_items (nr2l_items l)"

definition namespacedResourcesV2_listed :: "namespacedV2_list \<Rightarrow> string \<times> namespacedV2 list" where
  "namespacedResourcesV2_listed l = (nr2l_resourceVersion l, namespacedResourcesV2_items l)"

definition namespacedResourcesV2_check :: "(namespacedV2_apply, 'o) apply_lib \<Rightarrow> namespacedV2_apply option \<Rightarrow> (go_error + string \<times> string) go_out" where
  "namespacedResourcesV2_check lib = apply_check nv2_meta (al_marshal lib)"

locale namespacedResourcesV2_served =
  fixes api :: "(namespacedV2, namespacedV2_list, 'w, 's) api"
    and c :: "(namespacedV2, namespacedV2_list, 'w, 'o, 's) namespaced_client"
    and f :: "(namespacedV2, namespacedV2_list, 'w, 'o, 'sel, 's) fake_namespaced"
    and lib :: "(namespacedV2_apply, 'o) apply_lib" and ns :: string
  assumes rest: "rest_backed sampleV2_SchemeGroupVersion api (nc_client c)"
    and fake: "fake_backed namespacedResourcesV2_name api (fn_Fake f)"
    and honest: "honest_lists namespacedResourcesV2_items namespacedResourcesV2_labels api (fn_Fake f)"
    and names: "nc_ns c = ns" "fn_ns f = ns"

sublocale namespacedResourcesV2_served \<subseteq> of_rest: resource_interface api namespacedResourcesV2Resource ns namespacedResourcesV2_name namespacedResourcesV2_listed
    "namespacedResourcesV2_check lib" "namespacedResourcesV2_methods lib c"
  by unfold_locales
    (auto simp: rest_backedD [OF rest] namespacedResourcesV2_request_simps names namespacedResourcesV2_name_def sel_payload_def
       applies_def namespacedResourcesV2_check_def apply_check_def split: option.splits sum.splits)

sublocale namespacedResourcesV2_served \<subseteq> of_fake: resource_interface api namespacedResourcesV2Resource ns namespacedResourcesV2_name namespacedResourcesV2_listed
    "namespacedResourcesV2_check lib" "fakeNamespacedResourcesV2_methods lib f"
proof unfold_locales
  fix opts :: list_options and s :: 's
  let ?r = "api_list api (mk_request ''list'' namespacedResourcesV2Resource ns '''' [] (sel_payload opts)) s"
  let ?rebuild = "\<lambda>l xs. zero_namespacedV2_list\<lparr>nr2l_resourceVersion := nr2l_resourceVersion l,
    nr2l_items := slice_of xs\<rparr>"
  have "answers namespacedResourcesV2_listed
    (case pointed RList ?r of
       ((None, err), s) \<Rightarrow> (Ret (None, err), s)
     | ((Some x, err), s) \<Rightarrow>
         (case assert_list x of
            Panic p \<Rightarrow> (Panic p, s)
          | Ret l \<Rightarrow> (Ret (Some (?rebuild l
              (filter (\<lambda>x. selector_of (fn_Fake f) opts (namespacedResourcesV2_labels x)) (namespacedResourcesV2_items l))), err), s))) ?r"
    by (rule answers_fake_list [OF honest]) (simp_all add: mk_request_def namespacedResourcesV2_listed_def namespacedResourcesV2_items_def)
  then show "answers namespacedResourcesV2_listed (rm_List (fakeNamespacedResourcesV2_methods lib f) opts s) ?r"
    unfolding fakeNamespacedResourcesV2_defs fake_backed_list [OF fake] names keep_matching_filter Let_def append_Nil
      namespacedResourcesV2_labels_def [abs_def] namespacedResourcesV2_items_def resource_methods.simps .
qed (auto simp: fake_backedD [OF fake] fakeNamespacedResourcesV2_request_simps names namespacedResourcesV2_name_def case_prod_beta Let_def
  applies_def namespacedResourcesV2_check_def apply_check_def split: option.splits sum.splits)

sublocale namespacedResourcesV2_served \<subseteq> two_clients api namespacedResourcesV2Resource ns namespacedResourcesV2_name namespacedResourcesV2_listed
    "namespacedResourcesV2_check lib" "namespacedResourcesV2_methods lib c" "fakeNamespacedResourcesV2_methods lib f"
  by (intro two_clients.intro of_rest.resource_interface_axioms of_fake.resource_interface_axioms)

context namespacedResourcesV2_served
begin

lemma same_interface: "clients_agree namespacedResourcesV2_name namespacedResourcesV2_listed (namespacedResourcesV2_check lib)
    (namespacedResourcesV2_methods lib c) (fakeNamespacedResourcesV2_methods lib f)"
  by (rule clients_agree)

lemma apply_patches: "applies api namespacedResourcesV2Resource ns [] (namespacedResourcesV2_check lib cfg) (namespacedResourcesV2_Apply lib c cfg op s) s"
  using of_rest.apply_ok by (simp add: namespacedResourcesV2_methods_def)

end

definition memory_namespacedResourcesV2 :: "(namespacedV2, namespacedV2_list, unit, namespacedV2 objects) api" where
  "memory_namespacedResourcesV2 = memory_api namespacedResourcesV2_name namespacedResourcesV2_labels label_app
     (\<lambda>xs. zero_namespacedV2_list\<lparr>nr2l_items := Some xs\<rparr>)
     (\<lambda>pt d n old. case old of None \<Rightarrow> zero_namespacedV2\<lparr>nr2_meta := zero_meta\<lparr>om_name := n\<rparr>\<rparr> | Some x \<Rightarrow> x)"

definition memory_namespacedResourcesV2_lib :: "(namespacedV2_apply, string) apply_lib" where
  "memory_namespacedResourcesV2_lib = \<lparr>al_marshal = (\<lambda>_. Inr ''{}''), al_toPatch = (\<lambda>opts. opts)\<rparr>"

interpretation memory_namespacedResourcesV2: namespacedResourcesV2_served memory_namespacedResourcesV2
    "new_namespacedResourcesV2 (rest_of_api sampleV2_SchemeGroupVersion memory_namespacedResourcesV2) ns"
    "\<lparr>fn_Fake = fake_of_api namespacedResourcesV2_name memory_namespacedResourcesV2 label_app, fn_ns = ns\<rparr>" memory_namespacedResourcesV2_lib ns for ns
  by unfold_locales
    (simp_all add: new_namespacedResourcesV2_def memory_namespacedResourcesV2_def memory_api_honest namespacedResourcesV2_items_def)

end
