(* ===== verification/ClientProps.thy ===== *)
theory ClientProps
  imports GreeterClient SampleClientV1 SampleClientV2
begin

text \<open>
  What holds of the generated clients: a real client and a fake one cannot be told apart, what an
  apply call makes of its configuration, and how far the timeout of a list is the one asked for.
\<close>

section \<open>Real and fake\<close>


text \<open>A server with a Greeter and a pod of another label, seen through both clients.\<close>

definition stored_greeter :: greeter where
  "stored_greeter = zero_greeter\<lparr>g_meta := zero_meta\<lparr>om_name := ''hello'', om_labels := Some [''app'' \<mapsto> ''web'']\<rparr>\<rparr>"


section \<open>Applying a configuration\<close>

text \<open>The name that a chain of calls gives to a configuration.\<close>

definition built_name :: "string \<Rightarrow> ('p, 't) with_call list \<Rightarrow> string option" where
  "built_name name cs = last_of (\<lambda>c. case c of WName v \<Rightarrow> Some v | _ \<Rightarrow> None) (Some name) cs"

lemma built_meta:
  assumes "\<not> list_ex nil_owner cs"
  shows "\<exists>m. gap_meta (snd (chain greeter_with cs (greeter_apply_new name namespace))) = Some m \<and>
    ma_name m = built_name name cs"
proof -
  let ?b = "snd (chain greeter_with cs (greeter_apply_new name namespace))"
  have "greeter_cfg ?b = described cs (greeter_cfg (greeter_apply_new name namespace))"
    by (rule greeter_builder.chain_described(2) [OF assms])
  then have "gap_meta ?b = ac_meta (described cs (greeter_cfg (greeter_apply_new name namespace)))"
    by (metis apply_cfg.select_convs(3) greeter_cfg_def)
  then show ?thesis
    by (cases "list_ex on_meta_call cs")
       (auto simp: described_def greeter_apply_new_eq described_meta_def empty_meta_apply_def built_name_def
          not_on_meta_name)
qed

lemma greeters_check_built:
  assumes "\<not> list_ex nil_owner cs"
  shows "greeters_check lib (Some (snd (chain greeter_with cs (greeter_apply_new name namespace)))) =
    (case al_marshal lib (snd (chain greeter_with cs (greeter_apply_new name namespace))) of
       Inl e \<Rightarrow> Ret (Inl e) | Inr d \<Rightarrow> Ret (Inr (the (built_name name cs), d)))"
proof -
  have "built_name name cs \<noteq> None" unfolding built_name_def
    by (induction cs arbitrary: name) (auto split: with_call.splits)
  with built_meta [OF assms, of name namespace] show ?thesis
    by (auto simp: greeters_check_def apply_check_def split: sum.splits)
qed

text \<open>C31: Applying a configuration of a Greeter. One made by the constructor and any chain of \<open>With\<close>
  calls without a nil owner never panics: if it cannot be encoded that error is returned, and
  otherwise one patch of type apply is sent, for the name the last \<open>WithName\<close> gave, with its
  encoding. A nil configuration is refused with an error. But one that was not made by the
  constructor and has no metadata yet makes \<open>Apply\<close> and \<open>ApplyStatus\<close> of both clients panic, where
  the check for a missing name promises an error.\<close>

theorem Apply_by_metadata:
  assumes "rest_backed SchemeGroupVersion api rc" and "\<not> list_ex nil_owner cs"
    and "the (built_name name cs) \<noteq> ''''"
    and "b = snd (chain greeter_with cs (greeter_apply_new name namespace))"
    and "gap_meta bare = None" and "al_marshal lib bare = Inr d"
  shows "(case al_marshal lib b of
       Inl e \<Rightarrow> greeters_Apply lib (new_greeters rc ns) (Some b) op s = (Ret (None, Some e), s)
     | Inr data \<Rightarrow> answers id (greeters_Apply lib (new_greeters rc ns) (Some b) op s)
         (api_obj api (mk_request ''patch'' greetersResource ns (the (built_name name cs)) []
            (PatchPayload ApplyPatchType data)) s)) \<and>
    greeters_Apply lib c None op s = (Ret (None, Some ErrMustNotBeNil), s) \<and>
    is_panic (fst (greeters_Apply lib c (Some bare) op s)) \<and>
    is_panic (fst (greeters_ApplyStatus lib c (Some bare) op s)) \<and>
    is_panic (fst (fakeGreeters_Apply lib f (Some bare) op s)) \<and>
    is_panic (fst (fakeGreeters_ApplyStatus lib f (Some bare) op s))"
proof (intro conjI)
  let ?fk = "\<lparr>fn_Fake = fake_of_api greeters_name api (\<lambda>_ _. True), fn_ns = ns\<rparr>"
  have "greeters_served api (new_greeters rc ns) ?fk ns"
    by unfold_locales (use assms(1) in \<open>simp_all add: new_greeters_def\<close>)
  note sent = greeters_served.apply_patches [OF this, of lib "Some b" op s]
  show "case al_marshal lib b of
       Inl e \<Rightarrow> greeters_Apply lib (new_greeters rc ns) (Some b) op s = (Ret (None, Some e), s)
     | Inr data \<Rightarrow> answers id (greeters_Apply lib (new_greeters rc ns) (Some b) op s)
         (api_obj api (mk_request ''patch'' greetersResource ns (the (built_name name cs)) []
            (PatchPayload ApplyPatchType data)) s)"
    using sent assms(3) unfolding assms(4) greeters_check_built [OF assms(2)]
    by (simp add: applies_def split: sum.splits)
qed (use assms(5,6) in \<open>simp_all add: greeters_defs fakeGreeters_defs\<close>)

theorem Apply_by_metadata_witness:
  "greeters_Apply memory_greeters_lib (new_greeters (rest_of_api SchemeGroupVersion memory_greeters) ''default'')
     (Some (snd (chain greeter_with [WName ''hi''] (greeter_apply_new ''hello'' ''default'')))) '''' [] =
     (Ret (Some (zero_greeter\<lparr>g_meta := zero_meta\<lparr>om_name := ''hi''\<rparr>\<rparr>), None),
      [((''default'', ''hi''), zero_greeter\<lparr>g_meta := zero_meta\<lparr>om_name := ''hi''\<rparr>\<rparr>)]) \<and>
   is_panic (fst (greeters_Apply memory_greeters_lib (new_greeters (rest_of_api SchemeGroupVersion memory_greeters) ''default'')
     (Some (greeter_WithStatus (Some greeterStatus) greeter_zero_apply)) '''' []))"
proof -
  let ?c = "new_greeters (rest_of_api SchemeGroupVersion memory_greeters) ''default''"
  let ?b = "snd (chain greeter_with [WName ''hi''] (greeter_apply_new ''hello'' ''default''))"
  let ?bare = "greeter_WithStatus (Some greeterStatus) greeter_zero_apply"
  have h: "rest_backed SchemeGroupVersion memory_greeters (rest_of_api SchemeGroupVersion memory_greeters)"
    "\<not> list_ex nil_owner [WName ''hi'']" "the (built_name ''hello'' [WName ''hi'']) \<noteq> ''''"
    "gap_meta ?bare = None" "al_marshal memory_greeters_lib ?bare = Inr ''{}''"
    by (simp_all add: built_name_def greeter_WithStatus_def greeter_zero_apply_def memory_greeters_lib_def)
  note P = Apply_by_metadata [OF h(1-3) refl h(4,5), where ns = "''default''" and op = "''''" and s = "[]"
      and c = ?c and f = "\<lparr>fn_Fake = fake_of_api greeters_name memory_greeters label_app, fn_ns = ''default''\<rparr>"]
  have "answers id (greeters_Apply memory_greeters_lib ?c (Some ?b) '''' [])
      (api_obj memory_greeters (mk_request ''patch'' greetersResource ''default'' ''hi'' []
         (PatchPayload ApplyPatchType ''{}'')) [])"
    using P [THEN conjunct1] by (simp add: memory_greeters_lib_def built_name_def)
  moreover have "api_obj memory_greeters (mk_request ''patch'' greetersResource ''default'' ''hi'' []
         (PatchPayload ApplyPatchType ''{}'')) [] =
      (Inr (zero_greeter\<lparr>g_meta := zero_meta\<lparr>om_name := ''hi''\<rparr>\<rparr>),
       [((''default'', ''hi''), zero_greeter\<lparr>g_meta := zero_meta\<lparr>om_name := ''hi''\<rparr>\<rparr>)])"
    by (simp add: memory_greeters_def memory_api_def memory_obj_def mk_request_def Let_def)
  ultimately have "greeters_Apply memory_greeters_lib ?c (Some ?b) '''' [] =
     (Ret (Some (zero_greeter\<lparr>g_meta := zero_meta\<lparr>om_name := ''hi''\<rparr>\<rparr>), None),
      [((''default'', ''hi''), zero_greeter\<lparr>g_meta := zero_meta\<lparr>om_name := ''hi''\<rparr>\<rparr>)])"
    by (auto simp: answers_def prod_eq_iff)
  with P show ?thesis by blast
qed

section \<open>Timeouts\<close>

text \<open>C32: The timeout a list, a watch or a deletion of a collection asks for, \<open>TimeoutSeconds\<close> times
  \<open>time.Second\<close> in 64 bits, is that number of seconds exactly when it is between -9223372036 and
  9223372036; beyond that the product wraps around, and for a multiple of 2^55 seconds, and only then,
  it is 0, which means no timeout at all.\<close>

theorem list_timeout_bounds:
  assumes "lo_timeoutSeconds opts = Some seconds"
  shows "(sint (list_timeout opts) = sint seconds * 1000000000 \<longleftrightarrow>
      -9223372036 \<le> sint seconds \<and> sint seconds \<le> 9223372036) \<and>
    min_int64 \<le> sint (list_timeout opts) \<and> sint (list_timeout opts) \<le> max_int64 \<and>
    (list_timeout opts = 0 \<longleftrightarrow> 2 ^ 55 dvd sint seconds)"
proof -
  have t: "list_timeout opts = word_of_int (sint seconds * 1000000000)"
    by (simp add: list_timeout_def assms)
  then have w: "sint (list_timeout opts) = wrap64 (sint seconds * 1000000000)"
    by (simp only: wrap64_sint)
  have "list_timeout opts = 0 \<longleftrightarrow> (2::int) ^ 64 dvd sint seconds * 1000000000"
    unfolding t word_of_int_eq_0_iff by simp
  also have "\<dots> \<longleftrightarrow> (2::int) ^ 9 * 2 ^ 55 dvd 2 ^ 9 * (sint seconds * 1953125)"
    by (simp add: mult.commute)
  also have "\<dots> \<longleftrightarrow> (2::int) ^ 55 dvd sint seconds * 1953125"
    by (subst dvd_mult_cancel_left) simp
  also have "\<dots> \<longleftrightarrow> 2 ^ 55 dvd sint seconds"
    by (rule coprime_dvd_mult_left_iff, simp only: coprime_power_left_iff) simp
  finally show ?thesis
    unfolding w wrap64_fixed using wrap64_range by (auto simp: min_int64_def max_int64_def)
qed

theorem list_timeout_bounds_witness:
  "list_timeout \<lparr>lo_labelSelector = '''', lo_fieldSelector = '''', lo_watch = False,
     lo_timeoutSeconds = Some (36028797018963968 :: 64 word)\<rparr> = 0 \<and>
   sint (list_timeout \<lparr>lo_labelSelector = '''', lo_fieldSelector = '''', lo_watch = False,
     lo_timeoutSeconds = Some (30 :: 64 word)\<rparr>) = 30000000000"
  using list_timeout_bounds [of "\<lparr>lo_labelSelector = '''', lo_fieldSelector = '''', lo_watch = False,
     lo_timeoutSeconds = Some (36028797018963968 :: 64 word)\<rparr>"]
    list_timeout_bounds [of "\<lparr>lo_labelSelector = '''', lo_fieldSelector = '''', lo_watch = False,
     lo_timeoutSeconds = Some (30 :: 64 word)\<rparr>"]
  by simp

end
