(* ===== verification/InformerFactory.thy ===== *)
theory InformerFactory
  imports Transitions TypedClient GreeterLister
begin

text \<open>
  The shared informer factory (\<open>greeter/pkg/generated/informers/externalversions\<close>, and the same code
  for the sample API): its state, one definition per method, and the steps of a program that uses it
  from several goroutines. The methods hold the lock, so each of them is one step; the goroutines that
  \<open>Start\<close> makes and the two halves of \<open>Shutdown\<close> are steps of their own. A \<open>reflect.Type\<close> is its name;
  an informer has an identity, since the factory is there to share it.
\<close>

section \<open>The factory\<close>

type_synonym tweak = "list_options \<Rightarrow> list_options"

record informer =
  inf_id :: nat
  inf_type :: string
  inf_namespace :: string
  inf_resync :: int
  inf_tweak :: "tweak option"

type_synonym chan = nat

record 'c factory =
  fa_client :: 'c
  fa_namespace :: string
  fa_tweakListOptions :: "tweak option"
  fa_defaultResync :: int
  fa_customResync :: "string \<rightharpoonup> int"
  fa_informers :: "string \<rightharpoonup> informer"
  fa_startedInformers :: "string \<rightharpoonup> bool"
  fa_wg :: nat
  fa_shuttingDown :: bool

text \<open>A function that makes an informer gets the identity of it, the client and the resync period.\<close>

type_synonym 'c new_informer = "nat \<Rightarrow> 'c \<Rightarrow> int \<Rightarrow> informer"

type_synonym 'c factory_option = "'c factory \<Rightarrow> 'c factory"

text \<open>The options. A range over the resync configuration assigns its entries one by one.\<close>

definition WithCustomResyncConfig :: "(string \<times> int) list \<Rightarrow> 'c factory_option" where
  "WithCustomResyncConfig resyncConfig f =
     f\<lparr>fa_customResync := range_assign (fa_customResync f) resyncConfig\<rparr>"

definition WithTweakListOptions :: "tweak option \<Rightarrow> 'c factory_option" where
  "WithTweakListOptions tweakListOptions f = f\<lparr>fa_tweakListOptions := tweakListOptions\<rparr>"

definition WithNamespace :: "string \<Rightarrow> 'c factory_option" where
  "WithNamespace namespace f = f\<lparr>fa_namespace := namespace\<rparr>"

definition NewSharedInformerFactoryWithOptions :: "'c \<Rightarrow> int \<Rightarrow> 'c factory_option list \<Rightarrow> 'c factory" where
  "NewSharedInformerFactoryWithOptions client defaultResync options =
     foldl (\<lambda>f opt. opt f)
       \<lparr>fa_client = client, fa_namespace = '''', fa_tweakListOptions = None,
        fa_defaultResync = defaultResync, fa_customResync = Map.empty, fa_informers = Map.empty,
        fa_startedInformers = Map.empty, fa_wg = 0, fa_shuttingDown = False\<rparr> options"

definition NewSharedInformerFactory :: "'c \<Rightarrow> int \<Rightarrow> 'c factory" where
  "NewSharedInformerFactory client defaultResync =
     NewSharedInformerFactoryWithOptions client defaultResync []"

definition NewFilteredSharedInformerFactory :: "'c \<Rightarrow> int \<Rightarrow> string \<Rightarrow> tweak option \<Rightarrow> 'c factory" where
  "NewFilteredSharedInformerFactory client defaultResync namespace tweakListOptions =
     NewSharedInformerFactoryWithOptions client defaultResync
       [WithNamespace namespace, WithTweakListOptions tweakListOptions]"

definition is_started :: "'c factory \<Rightarrow> string \<Rightarrow> bool" where
  "is_started f t = (fa_startedInformers f t = Some True)"

text \<open>\<open>Start\<close>: the goroutines it makes, each with its informer, in the order of the range over the map.\<close>

fun start_loop :: "string list \<Rightarrow> 'c factory \<Rightarrow> informer list \<Rightarrow> 'c factory \<times> informer list" where
  "start_loop [] f gos = (f, gos)"
| "start_loop (t # ts) f gos =
     (case fa_informers f t of
        None \<Rightarrow> start_loop ts f gos
      | Some informer \<Rightarrow>
          if \<not> is_started f t
          then start_loop ts
            (f\<lparr>fa_wg := fa_wg f + 1, fa_startedInformers := (fa_startedInformers f)(t \<mapsto> True)\<rparr>)
            (gos @ [informer])
          else start_loop ts f gos)"

definition factory_Start :: "string list \<Rightarrow> 'c factory \<Rightarrow> 'c factory \<times> informer list" where
  "factory_Start order f = (if fa_shuttingDown f then (f, []) else start_loop order f [])"

definition factory_Shutdown :: "'c factory \<Rightarrow> 'c factory" where
  "factory_Shutdown f = f\<lparr>fa_shuttingDown := True\<rparr>"

text \<open>\<open>WaitForCacheSync\<close>: the started informers, and what \<open>cache.WaitForCacheSync\<close> says of each.\<close>

definition started_informers :: "'c factory \<Rightarrow> string \<rightharpoonup> informer" where
  "started_informers f t = (if is_started f t then fa_informers f t else None)"

definition factory_WaitForCacheSync :: "(informer \<Rightarrow> bool) \<Rightarrow> 'c factory \<Rightarrow> string \<rightharpoonup> bool" where
  "factory_WaitForCacheSync synced f t = map_option synced (started_informers f t)"

definition factory_InformerFor :: "nat \<Rightarrow> string \<Rightarrow> 'c new_informer \<Rightarrow> 'c factory \<Rightarrow> informer \<times> 'c factory" where
  "factory_InformerFor fresh informerType newFunc f =
     (case fa_informers f informerType of
        Some informer \<Rightarrow> (informer, f)
      | None \<Rightarrow>
          let resyncPeriod = (case fa_customResync f informerType of
                 None \<Rightarrow> fa_defaultResync f | Some d \<Rightarrow> d);
              informer = newFunc fresh (fa_client f) resyncPeriod
          in (informer, f\<lparr>fa_informers := (fa_informers f)(informerType \<mapsto> informer)\<rparr>))"

section \<open>Groups, versions and informers\<close>

text \<open>\<open>group\<close>, \<open>version\<close> and \<open>greeterInformer\<close> hold the factory by reference; here it is passed on.\<close>

record group_access =
  ga_namespace :: string
  ga_tweak :: "tweak option"

record version_access =
  va_namespace :: string
  va_tweak :: "tweak option"

record greeter_informer =
  gi_namespace :: string
  gi_tweak :: "tweak option"

definition new_group :: "string \<Rightarrow> tweak option \<Rightarrow> group_access" where
  "new_group namespace tweakListOptions = \<lparr>ga_namespace = namespace, ga_tweak = tweakListOptions\<rparr>"

definition new_version :: "string \<Rightarrow> tweak option \<Rightarrow> version_access" where
  "new_version namespace tweakListOptions = \<lparr>va_namespace = namespace, va_tweak = tweakListOptions\<rparr>"

definition factory_Greeter :: "'c factory \<Rightarrow> group_access" where
  "factory_Greeter f = new_group (fa_namespace f) (fa_tweakListOptions f)"

definition group_V1alpha1 :: "group_access \<Rightarrow> version_access" where
  "group_V1alpha1 g = new_version (ga_namespace g) (ga_tweak g)"

definition version_Greeters :: "version_access \<Rightarrow> greeter_informer" where
  "version_Greeters v = \<lparr>gi_namespace = va_namespace v, gi_tweak = va_tweak v\<rparr>"

text \<open>\<open>NewFilteredGreeterInformer\<close>: the list and watch functions of the informer tweak the options they
  get; \<open>inf_tweak\<close> is the tweak they close over.\<close>

definition NewFilteredGreeterInformer :: "nat \<Rightarrow> string \<Rightarrow> int \<Rightarrow> tweak option \<Rightarrow> informer" where
  "NewFilteredGreeterInformer fresh namespace resyncPeriod tweakListOptions =
     \<lparr>inf_id = fresh, inf_type = ''*v1alpha1.Greeter'', inf_namespace = namespace,
      inf_resync = resyncPeriod, inf_tweak = tweakListOptions\<rparr>"

definition NewGreeterInformer :: "nat \<Rightarrow> string \<Rightarrow> int \<Rightarrow> informer" where
  "NewGreeterInformer fresh namespace resyncPeriod =
     NewFilteredGreeterInformer fresh namespace resyncPeriod None"

definition informer_options :: "informer \<Rightarrow> list_options \<Rightarrow> list_options" where
  "informer_options i options = (case inf_tweak i of None \<Rightarrow> options | Some tweak \<Rightarrow> tweak options)"

definition greeterInformer_defaultInformer :: "greeter_informer \<Rightarrow> 'c new_informer" where
  "greeterInformer_defaultInformer gi fresh client resyncPeriod =
     NewFilteredGreeterInformer fresh (gi_namespace gi) resyncPeriod (gi_tweak gi)"

definition greeterInformer_Informer :: "nat \<Rightarrow> greeter_informer \<Rightarrow> 'c factory \<Rightarrow> informer \<times> 'c factory" where
  "greeterInformer_Informer fresh gi f =
     factory_InformerFor fresh ''*v1alpha1.Greeter'' (greeterInformer_defaultInformer gi) f"

text \<open>The lister reads the indexer of the shared informer.\<close>

definition greeterInformer_Lister ::
    "(informer \<Rightarrow> indexer) \<Rightarrow> nat \<Rightarrow> greeter_informer \<Rightarrow> 'c factory \<Rightarrow> greeter_lister \<times> 'c factory" where
  "greeterInformer_Lister getIndexer fresh gi f =
     (let (i, f) = greeterInformer_Informer fresh gi f in (NewGreeterLister (getIndexer i), f))"

text \<open>\<open>ForResource\<close>: a generic informer, or an error for any other resource.\<close>

record generic_informer =
  gen_informer :: informer
  gen_resource :: "string \<times> string"

definition genericInformer_Informer :: "generic_informer \<Rightarrow> informer" where
  "genericInformer_Informer g = gen_informer g"

definition genericInformer_Lister ::
    "('ix \<Rightarrow> string \<times> string \<Rightarrow> 'l) \<Rightarrow> (informer \<Rightarrow> 'ix) \<Rightarrow> generic_informer \<Rightarrow> 'l" where
  "genericInformer_Lister newGenericLister getIndexer g =
     newGenericLister (getIndexer (genericInformer_Informer g)) (gen_resource g)"

definition factory_ForResource :: "nat \<Rightarrow> gvr \<Rightarrow> 'c factory \<Rightarrow> (go_error + generic_informer) \<times> 'c factory" where
  "factory_ForResource fresh resource f =
     (if resource = (SchemeGroupVersion, ''greeters'')
      then let (i, f) = greeterInformer_Informer fresh (version_Greeters (group_V1alpha1 (factory_Greeter f))) f
           in (Inr \<lparr>gen_informer = i, gen_resource = (fst (fst resource), snd resource)\<rparr>, f)
      else (Inl ErrNoInformer, f))"

end
