(* ===== verification/FactoryRuns.thy ===== *)
theory FactoryRuns
  imports InformerFactory
begin

text \<open>
  A program that uses one informer factory: any number of goroutines ask for informers, start them,
  close stop channels and shut the factory down, and the goroutines that run the informers end when
  their stop channel is closed. The invariant and the order of the system interpret \<open>monotone_system\<close>.
\<close>

section \<open>Steps\<close>

record 'c world =
  fw_factory :: "'c factory"
  fw_next :: nat
  fw_running :: "(informer \<times> chan) list"
  fw_ended :: "informer list"
  fw_closed :: "chan set"
  fw_waiting :: nat
  fw_returned :: nat

definition init_world :: "'c world \<Rightarrow> bool" where
  "init_world w \<longleftrightarrow> (\<exists>c d opts. w = \<lparr>fw_factory = NewSharedInformerFactoryWithOptions c d opts,
     fw_next = 0, fw_running = [], fw_ended = [], fw_closed = {}, fw_waiting = 0, fw_returned = 0\<rparr> \<and>
     set opts \<subseteq> range WithNamespace \<union> range WithTweakListOptions \<union> range WithCustomResyncConfig)"

text \<open>The order in which \<open>Start\<close> ranges over the informers is any enumeration of them.\<close>

inductive fstep :: "'c world \<Rightarrow> 'c world \<Rightarrow> bool" where
  fs_InformerFor: "(\<And>n c d. inf_id (newFunc n c d) = n) \<Longrightarrow>
    factory_InformerFor (fw_next w) t newFunc (fw_factory w) = (i, f) \<Longrightarrow>
    fstep w (w\<lparr>fw_factory := f, fw_next := fw_next w + 1\<rparr>)"
| fs_Start: "distinct order \<Longrightarrow> set order = dom (fa_informers (fw_factory w)) \<Longrightarrow>
    factory_Start order (fw_factory w) = (f, gos) \<Longrightarrow>
    fstep w (w\<lparr>fw_factory := f, fw_running := fw_running w @ map (\<lambda>i. (i, ch)) gos\<rparr>)"
| fs_Close: "fstep w (w\<lparr>fw_closed := insert ch (fw_closed w)\<rparr>)"
| fs_Done: "fw_running w = xs @ (i, ch) # ys \<Longrightarrow> ch \<in> fw_closed w \<Longrightarrow>
    fstep w (w\<lparr>fw_running := xs @ ys, fw_ended := fw_ended w @ [i],
      fw_factory := (fw_factory w)\<lparr>fa_wg := fa_wg (fw_factory w) - 1\<rparr>\<rparr>)"
| fs_Shutdown: "fstep w (w\<lparr>fw_factory := factory_Shutdown (fw_factory w), fw_waiting := fw_waiting w + 1\<rparr>)"
| fs_Return: "fw_waiting w = Suc n \<Longrightarrow> fa_wg (fw_factory w) = 0 \<Longrightarrow>
    fstep w (w\<lparr>fw_waiting := n, fw_returned := fw_returned w + 1\<rparr>)"

inductive_cases fstep_cases: "fstep w w'"

text \<open>All runs of informers so far.\<close>

definition runs :: "'c world \<Rightarrow> informer list" where
  "runs w = map fst (fw_running w) @ fw_ended w"

section \<open>What the methods do\<close>

lemma start_loop_eq:
  assumes "distinct ts"
  shows "start_loop ts f gos =
    (f\<lparr>fa_wg := fa_wg f + length (filter (\<lambda>t. fa_informers f t \<noteq> None \<and> \<not> is_started f t) ts),
       fa_startedInformers := (\<lambda>t. if t \<in> set ts \<and> fa_informers f t \<noteq> None then Some True
         else fa_startedInformers f t)\<rparr>,
     gos @ map (\<lambda>t. the (fa_informers f t)) (filter (\<lambda>t. fa_informers f t \<noteq> None \<and> \<not> is_started f t) ts))"
  using assms
proof (induction ts arbitrary: f gos)
  case Nil
  then show ?case by simp
next
  case (Cons t ts)
  show ?case
  proof (cases "fa_informers f t = None \<or> is_started f t")
    case True
    with Cons show ?thesis
      by (cases "fa_informers f t") (auto simp: is_started_def fun_eq_iff intro!: factory.equality)
  next
    case False
    let ?f = "f\<lparr>fa_wg := fa_wg f + 1, fa_startedInformers := (fa_startedInformers f)(t \<mapsto> True)\<rparr>"
    have other: "filter (\<lambda>u. fa_informers ?f u \<noteq> None \<and> \<not> is_started ?f u) ts =
        filter (\<lambda>u. fa_informers f u \<noteq> None \<and> \<not> is_started f u) ts"
      using Cons.prems by (intro filter_cong) (auto simp: is_started_def)
    obtain i where i: "fa_informers f t = Some i" using False by auto
    have "start_loop (t # ts) f gos = start_loop ts ?f (gos @ [i])" using False i by simp
    also have "\<dots> = (?f\<lparr>fa_wg := fa_wg ?f + length (filter (\<lambda>u. fa_informers ?f u \<noteq> None \<and> \<not> is_started ?f u) ts),
        fa_startedInformers := (\<lambda>u. if u \<in> set ts \<and> fa_informers ?f u \<noteq> None then Some True
          else fa_startedInformers ?f u)\<rparr>,
      (gos @ [i]) @ map (\<lambda>u. the (fa_informers ?f u)) (filter (\<lambda>u. fa_informers ?f u \<noteq> None \<and> \<not> is_started ?f u) ts))"
      using Cons.prems by (intro Cons.IH) simp
    finally show ?thesis
      unfolding other using False i by (auto simp: fun_eq_iff intro!: factory.equality)
  qed
qed

lemma InformerFor_cases:
  assumes "factory_InformerFor fresh t newFunc f = (i, f')"
  shows "(fa_informers f t = Some i \<and> f' = f) \<or>
    (fa_informers f t = None \<and> f' = f\<lparr>fa_informers := (fa_informers f)(t \<mapsto> i)\<rparr> \<and>
     i = newFunc fresh (fa_client f) (case fa_customResync f t of None \<Rightarrow> fa_defaultResync f | Some d \<Rightarrow> d))"
  using assms by (auto simp: factory_InformerFor_def Let_def split: option.splits)

lemma options_fresh:
  assumes "set opts \<subseteq> range WithNamespace \<union> range WithTweakListOptions \<union> range WithCustomResyncConfig"
  shows "fa_informers (foldl (\<lambda>f opt. opt f) f opts) = fa_informers f"
    and "fa_startedInformers (foldl (\<lambda>f opt. opt f) f opts) = fa_startedInformers f"
    and "fa_wg (foldl (\<lambda>f opt. opt f) f opts) = fa_wg f"
    and "fa_shuttingDown (foldl (\<lambda>f opt. opt f) f opts) = fa_shuttingDown f"
proof (atomize (full), use assms in \<open>induction opts arbitrary: f\<close>)
  case (Cons opt opts)
  then show ?case
    by (auto simp: WithNamespace_def WithTweakListOptions_def WithCustomResyncConfig_def)
qed simp

section \<open>The invariant\<close>

definition finv :: "'c world \<Rightarrow> bool" where
  "finv w \<longleftrightarrow> (let f = fw_factory w in
     fa_wg f = length (fw_running w) \<and>
     (\<forall>t i. fa_informers f t = Some i \<longrightarrow> inf_id i < fw_next w) \<and>
     (\<forall>t u i j. fa_informers f t = Some i \<longrightarrow> fa_informers f u = Some j \<longrightarrow> inf_id i = inf_id j \<longrightarrow> t = u) \<and>
     distinct (map inf_id (runs w)) \<and>
     (\<forall>i. i \<in> set (runs w) \<longleftrightarrow> (\<exists>t. fa_informers f t = Some i \<and> is_started f t)) \<and>
     (\<forall>t. is_started f t \<longrightarrow> fa_informers f t \<noteq> None) \<and>
     (0 < fw_waiting w + fw_returned w \<longrightarrow> fa_shuttingDown f) \<and>
     (0 < fw_returned w \<longrightarrow> fw_running w = []))"

lemma finvD:
  assumes "finv w"
  shows "fa_wg (fw_factory w) = length (fw_running w)"
    and "fa_informers (fw_factory w) t = Some i \<Longrightarrow> inf_id i < fw_next w"
    and "fa_informers (fw_factory w) t = Some i \<Longrightarrow> fa_informers (fw_factory w) u = Some j \<Longrightarrow>
      inf_id i = inf_id j \<Longrightarrow> t = u"
    and "distinct (map inf_id (runs w))"
    and "i \<in> set (runs w) \<longleftrightarrow> (\<exists>t. fa_informers (fw_factory w) t = Some i \<and> is_started (fw_factory w) t)"
    and "is_started (fw_factory w) t \<Longrightarrow> fa_informers (fw_factory w) t \<noteq> None"
    and "0 < fw_waiting w + fw_returned w \<Longrightarrow> fa_shuttingDown (fw_factory w)"
    and "0 < fw_returned w \<Longrightarrow> fw_running w = []"
proof -
  note a = assms [unfolded finv_def Let_def]
  show "fa_wg (fw_factory w) = length (fw_running w)"
    by (rule a [THEN conjunct1, rule_format])
  show "fa_informers (fw_factory w) t = Some i \<Longrightarrow> inf_id i < fw_next w"
    by (rule a [THEN conjunct2, THEN conjunct1, rule_format])
  show "fa_informers (fw_factory w) t = Some i \<Longrightarrow> fa_informers (fw_factory w) u = Some j \<Longrightarrow>
      inf_id i = inf_id j \<Longrightarrow> t = u"
    by (rule a [THEN conjunct2, THEN conjunct2, THEN conjunct1, rule_format])
  show "distinct (map inf_id (runs w))"
    by (rule a [THEN conjunct2, THEN conjunct2, THEN conjunct2, THEN conjunct1, rule_format])
  show "i \<in> set (runs w) \<longleftrightarrow> (\<exists>t. fa_informers (fw_factory w) t = Some i \<and> is_started (fw_factory w) t)"
    by (rule a [THEN conjunct2, THEN conjunct2, THEN conjunct2, THEN conjunct2, THEN conjunct1, rule_format])
  show "is_started (fw_factory w) t \<Longrightarrow> fa_informers (fw_factory w) t \<noteq> None"
    by (rule a [THEN conjunct2, THEN conjunct2, THEN conjunct2, THEN conjunct2, THEN conjunct2, THEN conjunct1, rule_format])
  show "0 < fw_waiting w + fw_returned w \<Longrightarrow> fa_shuttingDown (fw_factory w)"
    by (rule a [THEN conjunct2, THEN conjunct2, THEN conjunct2, THEN conjunct2, THEN conjunct2, THEN conjunct2, THEN conjunct1, rule_format])
  show "0 < fw_returned w \<Longrightarrow> fw_running w = []"
    by (rule a [THEN conjunct2, THEN conjunct2, THEN conjunct2, THEN conjunct2, THEN conjunct2, THEN conjunct2, THEN conjunct2, rule_format])
qed

lemma finvI:
  assumes "fa_wg (fw_factory w) = length (fw_running w)"
    and "\<And>t i. fa_informers (fw_factory w) t = Some i \<Longrightarrow> inf_id i < fw_next w"
    and "\<And>t u i j. fa_informers (fw_factory w) t = Some i \<Longrightarrow> fa_informers (fw_factory w) u = Some j \<Longrightarrow>
      inf_id i = inf_id j \<Longrightarrow> t = u"
    and "distinct (map inf_id (runs w))"
    and "\<And>i. i \<in> set (runs w) \<longleftrightarrow> (\<exists>t. fa_informers (fw_factory w) t = Some i \<and> is_started (fw_factory w) t)"
    and "\<And>t. is_started (fw_factory w) t \<Longrightarrow> fa_informers (fw_factory w) t \<noteq> None"
    and "0 < fw_waiting w + fw_returned w \<Longrightarrow> fa_shuttingDown (fw_factory w)"
    and "0 < fw_returned w \<Longrightarrow> fw_running w = []"
  shows "finv w"
  unfolding finv_def Let_def using assms by blast

lemma finv_init: "init_world w \<Longrightarrow> finv w"
  by (auto simp: init_world_def finv_def NewSharedInformerFactoryWithOptions_def options_fresh runs_def is_started_def)

lemma finv_InformerFor:
  assumes inv: "finv w" and new: "\<And>n c d. inf_id (newFunc n c d) = n"
    and r: "factory_InformerFor (fw_next w) t newFunc (fw_factory w) = (i, f)"
  shows "finv (w\<lparr>fw_factory := f, fw_next := fw_next w + 1\<rparr>)"
  using InformerFor_cases [OF r]
proof (elim disjE conjE)
  assume "f = fw_factory w"
  with inv show ?thesis by (auto simp: finv_def Let_def runs_def less_Suc_eq)
next
  let ?g = "fw_factory w" and ?w = "w\<lparr>fw_factory := f, fw_next := fw_next w + 1\<rparr>"
  assume n: "fa_informers ?g t = None" and f: "f = ?g\<lparr>fa_informers := (fa_informers ?g)(t \<mapsto> i)\<rparr>"
    and i: "i = newFunc (fw_next w) (fa_client ?g)
      (case fa_customResync ?g t of None \<Rightarrow> fa_defaultResync ?g | Some d \<Rightarrow> d)"
  have id: "inf_id i = fw_next w" using new i by simp
  note old = finvD(2) [OF inv]
  have st: "\<not> is_started ?g t" using finvD(6) [OF inv] n by blast
  have runs: "runs ?w = runs w" by (simp add: runs_def)
  have started: "is_started f u = is_started ?g u" for u by (simp add: f is_started_def)
  show ?thesis
  proof (rule finvI)
    fix u j assume "fa_informers (fw_factory ?w) u = Some j"
    then show "inf_id j < fw_next ?w" using old [of u j] id by (auto simp: f split: if_splits)
  next
    fix u v j k
    assume "fa_informers (fw_factory ?w) u = Some j" "fa_informers (fw_factory ?w) v = Some k" "inf_id j = inf_id k"
    then show "u = v"
      using id finvD(3) [OF inv, of u j v k] old [of u j] old [of v k] by (auto simp: f split: if_splits)
  next
    fix j
    show "j \<in> set (runs ?w) \<longleftrightarrow> (\<exists>t. fa_informers (fw_factory ?w) t = Some j \<and> is_started (fw_factory ?w) t)"
      unfolding runs finvD(5) [OF inv, of j] using st n by (auto simp: f is_started_def)
  next
    fix u assume "is_started (fw_factory ?w) u"
    then show "fa_informers (fw_factory ?w) u \<noteq> None"
      using finvD(6) [OF inv, of u] by (simp add: f is_started_def)
  qed (use finvD(1,4,7,8) [OF inv] in \<open>simp_all add: f runs_def\<close>)
qed

lemma finv_Start:
  assumes inv: "finv w" and o: "distinct order" "set order = dom (fa_informers (fw_factory w))"
    and r: "factory_Start order (fw_factory w) = (f, gos)"
  shows "finv (w\<lparr>fw_factory := f, fw_running := fw_running w @ map (\<lambda>i. (i, ch)) gos\<rparr>)"
proof (cases "fa_shuttingDown (fw_factory w)")
  case True
  with r inv show ?thesis by (simp add: factory_Start_def finv_def runs_def)
next
  case False
  let ?g = "fw_factory w"
  let ?new = "filter (\<lambda>t. fa_informers ?g t \<noteq> None \<and> \<not> is_started ?g t) order"
  have f: "f = ?g\<lparr>fa_wg := fa_wg ?g + length ?new, fa_startedInformers :=
        (\<lambda>t. if t \<in> set order \<and> fa_informers ?g t \<noteq> None then Some True else fa_startedInformers ?g t)\<rparr>"
    and gos: "gos = map (\<lambda>t. the (fa_informers ?g t)) ?new"
    using r False unfolding factory_Start_def start_loop_eq [OF o(1)] by auto
  have started: "is_started f t = (fa_informers ?g t \<noteq> None)" for t
    using finvD(6) [OF inv, of t] o(2) by (auto simp: f is_started_def)
  have inj: "t = u" if "fa_informers ?g t = Some i" "fa_informers ?g u = Some j" "inf_id i = inf_id j" for t u i j
    by (rule finvD(3) [OF inv that])
  have runs: "i \<in> set (runs w) \<longleftrightarrow> (\<exists>t. fa_informers ?g t = Some i \<and> is_started ?g t)" for i
    by (rule finvD(5) [OF inv])
  have dgos: "distinct (map inf_id gos)"
    unfolding gos map_map distinct_map
  proof
    show "inj_on (inf_id \<circ> (\<lambda>t. the (fa_informers ?g t))) (set ?new)"
    proof (rule inj_onI)
      fix t u assume "t \<in> set ?new" "u \<in> set ?new"
        and same: "(inf_id \<circ> (\<lambda>t. the (fa_informers ?g t))) t = (inf_id \<circ> (\<lambda>t. the (fa_informers ?g t))) u"
      then obtain i j where "fa_informers ?g t = Some i" "fa_informers ?g u = Some j" by auto
      with same show "t = u" using inj [of t i u j] by simp
    qed
  qed (use o(1) in simp)
  have sep: "inf_id i \<noteq> inf_id j" if a: "i \<in> set (runs w)" and b: "j \<in> set gos" for i j
  proof
    assume same: "inf_id i = inf_id j"
    obtain t where t: "fa_informers ?g t = Some i" "is_started ?g t" using a runs [of i] by blast
    obtain u where "u \<in> set ?new" and j: "j = the (fa_informers ?g u)"
      using b unfolding gos set_map by blast
    then have u: "fa_informers ?g u = Some j" "\<not> is_started ?g u" unfolding j by auto
    from inj [OF t(1) u(1) same] t(2) u(2) show False by simp
  qed
  let ?w = "w\<lparr>fw_factory := f, fw_running := fw_running w @ map (\<lambda>i. (i, ch)) gos\<rparr>"
  have "mset (runs ?w) = mset (runs w @ gos)" by (simp add: runs_def comp_def)
  then have m: "mset (map inf_id (runs ?w)) = mset (map inf_id (runs w @ gos))" and s: "set (runs ?w) = set (runs w @ gos)"
    by (metis mset_map, metis set_mset_mset)
  have "distinct (map inf_id (runs w @ gos))"
    using finvD(4) [OF inv] dgos sep by (force simp: disjoint_iff)
  then have d: "distinct (map inf_id (runs ?w))" using m mset_eq_imp_distinct_iff by blast
  have iff: "i \<in> set (runs ?w) \<longleftrightarrow> (\<exists>t. fa_informers f t = Some i \<and> is_started f t)" for i
  proof -
    have "i \<in> set gos \<longleftrightarrow> (\<exists>t. fa_informers ?g t = Some i \<and> \<not> is_started ?g t)"
      unfolding gos set_map set_filter o(2) by (force simp: image_iff)
    moreover have "fa_informers f = fa_informers ?g" by (simp add: f)
    ultimately show ?thesis unfolding s set_append Un_iff runs started by auto
  qed
  have "\<not> 0 < fw_waiting w + fw_returned w" using finvD(7) [OF inv] False by blast
  then have z: "fw_waiting w = 0" "fw_returned w = 0" by simp_all
  show ?thesis
  proof (rule finvI)
    show "distinct (map inf_id (runs ?w))" by (rule d)
    show "i \<in> set (runs ?w) \<longleftrightarrow> (\<exists>t. fa_informers (fw_factory ?w) t = Some i \<and> is_started (fw_factory ?w) t)" for i
      using iff [of i] by simp
    show "t = u" if "fa_informers (fw_factory ?w) t = Some i" "fa_informers (fw_factory ?w) u = Some j"
        "inf_id i = inf_id j" for t u i j
      using that by (auto simp: f intro: inj)
    show "fa_wg (fw_factory ?w) = length (fw_running ?w)"
      using finvD(1) [OF inv] by (simp add: f gos)
    show "inf_id i < fw_next ?w" if "fa_informers (fw_factory ?w) t = Some i" for t i
      using that finvD(2) [OF inv, of t i] by (simp add: f)
    show "fa_informers (fw_factory ?w) t \<noteq> None" if "is_started (fw_factory ?w) t" for t
    proof -
      from that started [of t] have "fa_informers ?g t \<noteq> None" by simp
      then show ?thesis by (simp add: f)
    qed
  qed (use z in simp_all)
qed

lemma finv_step:
  assumes "finv w" and "fstep w w'"
  shows "finv w'"
  using assms(2)
proof (cases rule: fstep.cases)
  case (fs_InformerFor newFunc t i f)
  then show ?thesis using finv_InformerFor [OF assms(1)] by blast
next
  case (fs_Start order f gos ch)
  then show ?thesis using finv_Start [OF assms(1)] by blast
next
  case (fs_Close ch)
  with assms(1) show ?thesis by (simp add: finv_def runs_def)
next
  case (fs_Done xs i ch ys)
  with assms(1) have "mset (runs w') = mset (runs w)" by (simp add: runs_def)
  then have "set (runs w') = set (runs w)" and "distinct (map inf_id (runs w')) = distinct (map inf_id (runs w))"
    by (metis set_mset_mset, metis mset_eq_imp_distinct_iff mset_map)
  with assms(1) fs_Done show ?thesis by (auto simp: finv_def Let_def is_started_def)
next
  case fs_Shutdown
  with assms(1) show ?thesis by (simp add: finv_def runs_def factory_Shutdown_def is_started_def Let_def)
next
  case (fs_Return n)
  with assms(1) show ?thesis by (auto simp: finv_def runs_def Let_def)
qed

section \<open>The future of a state\<close>

definition ford :: "'c world \<Rightarrow> 'c world \<Rightarrow> bool" where
  "ford w w' \<longleftrightarrow> (fa_informers (fw_factory w) \<subseteq>\<^sub>m fa_informers (fw_factory w')) \<and>
     set (runs w) \<subseteq> set (runs w') \<and> fw_returned w \<le> fw_returned w' \<and>
     (fa_shuttingDown (fw_factory w) \<longrightarrow> fa_shuttingDown (fw_factory w') \<and>
        mset (runs w') = mset (runs w) \<and> fa_wg (fw_factory w') \<le> fa_wg (fw_factory w))"

lemma ford_step:
  assumes "finv w" and "fstep w w'"
  shows "ford w w'"
  using assms(2)
proof (cases rule: fstep.cases)
  case (fs_InformerFor newFunc t i f)
  from InformerFor_cases [OF fs_InformerFor(3)] fs_InformerFor(1) show ?thesis
    by (auto simp: ford_def runs_def map_le_def)
next
  case (fs_Start order f gos ch)
  then show ?thesis
    by (auto simp: ford_def runs_def factory_Start_def start_loop_eq [OF fs_Start(2)] split: if_splits)
qed (auto simp: ford_def runs_def factory_Shutdown_def)

interpretation fac: monotone_system init_world fstep finv ford
proof
  show "ford w w" for w :: "'a world" by (simp add: ford_def)
  show "ford w u" if "ford w v" "ford v u" for w v u :: "'a world"
    using that unfolding ford_def by (auto intro: map_le_trans)
qed (auto intro: finv_init finv_step ford_step)

section \<open>What users of a factory can rely on\<close>

text \<open>C33: In every state that a program using the factory can reach, no informer has been run twice,
  however often and from however many goroutines \<open>Start\<close> was called; those that have been run are
  exactly the started ones, and those are the ones \<open>WaitForCacheSync\<close> waits for; the wait group counts
  the goroutines that are running; and once \<open>Shutdown\<close> has returned nothing is running.\<close>

theorem factory_runs_once:
  assumes "reachable init_world fstep w"
  shows "distinct (map inf_id (runs w)) \<and>
    (\<forall>i. i \<in> set (runs w) \<longleftrightarrow> (\<exists>t. started_informers (fw_factory w) t = Some i)) \<and>
    dom (factory_WaitForCacheSync synced (fw_factory w)) = {t. is_started (fw_factory w) t} \<and>
    fa_wg (fw_factory w) = length (fw_running w) \<and>
    (0 < fw_returned w \<longrightarrow> fw_running w = [])"
proof -
  note inv = fac.reachable_inv [OF assms]
  have "dom (factory_WaitForCacheSync synced (fw_factory w)) = {t. is_started (fw_factory w) t}"
    using finvD(6) [OF inv]
    by (auto simp: factory_WaitForCacheSync_def started_informers_def split: if_splits)
  moreover have "i \<in> set (runs w) \<longleftrightarrow> (\<exists>t. started_informers (fw_factory w) t = Some i)" for i
    unfolding finvD(5) [OF inv] started_informers_def by (metis option.distinct(1))
  ultimately show ?thesis using finvD(1,4,8) [OF inv] by blast
qed

text \<open>C34: An informer of the factory is shared: once asked for, every later \<open>InformerFor\<close> of its type
  returns that very informer, whatever function it is given. And once \<open>Shutdown\<close> was called nothing is
  started any more: \<open>Start\<close> does nothing, the factory stays shut down, and the informers that were ever
  run stay the same.\<close>

theorem factory_shared_until_shutdown:
  assumes "reachable init_world fstep w" and "fstep\<^sup>*\<^sup>* w w'"
  shows "(\<forall>t i. fa_informers (fw_factory w) t = Some i \<longrightarrow>
      factory_InformerFor n t newFunc (fw_factory w') = (i, fw_factory w')) \<and>
    (fa_shuttingDown (fw_factory w) \<longrightarrow>
      fa_shuttingDown (fw_factory w') \<and> factory_Start order (fw_factory w') = (fw_factory w', []) \<and>
      mset (runs w') = mset (runs w))"
proof -
  have ord: "ford w w'" using fac.future_ord [OF assms(2,1)] .
  have "factory_InformerFor n t newFunc (fw_factory w') = (i, fw_factory w')"
    if "fa_informers (fw_factory w) t = Some i" for t i
  proof -
    have "fa_informers (fw_factory w') t = Some i"
      using ord that by (auto simp: ford_def map_le_def dom_def)
    then show ?thesis by (simp add: factory_InformerFor_def)
  qed
  then show ?thesis using ord by (simp add: ford_def factory_Start_def)
qed

text \<open>The goroutines end one after the other.\<close>

lemma goroutines_end:
  assumes "finv w" and "snd ` set (fw_running w) \<subseteq> fw_closed w"
  shows "\<exists>w'. (fstep ^^ length (fw_running w)) w w' \<and> fw_running w' = [] \<and> finv w' \<and>
    fw_waiting w' = fw_waiting w \<and> fw_returned w' = fw_returned w"
  using assms
proof (induction "fw_running w" arbitrary: w)
  case Nil
  then show ?case by (intro exI [of _ w]) simp
next
  case (Cons ic rest)
  obtain i ch where ic: "ic = (i, ch)" by (cases ic)
  let ?w = "w\<lparr>fw_running := rest, fw_ended := fw_ended w @ [i],
    fw_factory := (fw_factory w)\<lparr>fa_wg := fa_wg (fw_factory w) - 1\<rparr>\<rparr>"
  have run: "fw_running w = [] @ (i, ch) # rest" using Cons.hyps(2) ic by simp
  have ch: "ch \<in> fw_closed w" using Cons.prems(2) run by auto
  have step: "fstep w ?w" using fs_Done [OF run ch] by simp
  then have "finv ?w" using finv_step Cons.prems(1) by blast
  moreover have "snd ` set (fw_running ?w) \<subseteq> fw_closed ?w" using Cons.prems(2) run by auto
  ultimately obtain w' where w': "(fstep ^^ length rest) ?w w'" "fw_running w' = []" "finv w'"
      "fw_waiting w' = fw_waiting w" "fw_returned w' = fw_returned w"
    using Cons.hyps(1) [of ?w] by auto
  have "(fstep ^^ length (fw_running w)) w w'"
    unfolding run using relpowp_Suc_I2 [of fstep, OF step w'(1)] by simp
  with w' show ?case by blast
qed


section \<open>A run\<close>

text \<open>A factory for the namespace default, from which the Greeter informer is asked for and started
  twice, and which is then shut down.\<close>

definition f0 :: "unit factory" where
  "f0 = NewSharedInformerFactoryWithOptions () 30 [WithNamespace ''default'']"

definition greeter_inf :: informer where
  "greeter_inf = \<lparr>inf_id = 0, inf_type = ''*v1alpha1.Greeter'', inf_namespace = ''default'',
     inf_resync = 30, inf_tweak = None\<rparr>"

definition world_of :: "unit factory \<Rightarrow> nat \<Rightarrow> (informer \<times> chan) list \<Rightarrow> chan set \<Rightarrow> nat \<Rightarrow> unit world" where
  "world_of f n r cl wt = \<lparr>fw_factory = f, fw_next = n, fw_running = r, fw_ended = [],
     fw_closed = cl, fw_waiting = wt, fw_returned = 0\<rparr>"

definition f1 :: "unit factory" where
  "f1 = f0\<lparr>fa_informers := [''*v1alpha1.Greeter'' \<mapsto> greeter_inf]\<rparr>"

definition f2 :: "unit factory" where
  "f2 = f1\<lparr>fa_wg := 1, fa_startedInformers := [''*v1alpha1.Greeter'' \<mapsto> True]\<rparr>"

lemmas f_defs = f0_def f1_def f2_def NewSharedInformerFactoryWithOptions_def WithNamespace_def

lemma ask_greeter:
  "greeterInformer_Informer 0 (version_Greeters (group_V1alpha1 (factory_Greeter f0))) f0 = (greeter_inf, f1)"
  by (simp add: f_defs greeterInformer_Informer_def version_Greeters_def group_V1alpha1_def
      factory_Greeter_def new_group_def new_version_def factory_InformerFor_def greeter_inf_def
      greeterInformer_defaultInformer_def NewFilteredGreeterInformer_def Let_def)

lemma start_greeter:
  "factory_Start [''*v1alpha1.Greeter''] f1 = (f2, [greeter_inf])"
  "factory_Start [''*v1alpha1.Greeter''] f2 = (f2, [])"
  by (auto simp: f_defs factory_Start_def is_started_def greeter_inf_def fun_eq_iff)

lemma run_reachable:
  "reachable init_world fstep (world_of f2 1 [(greeter_inf, 7)] {} 0)"
  "reachable init_world fstep (world_of (factory_Shutdown f2) 1 [(greeter_inf, 7)] {7} 1)"
proof -
  have "init_world (world_of f0 0 [] {} 0)"
    unfolding init_world_def world_of_def f0_def by (intro exI conjI) (rule refl, simp)
  then have r0: "reachable init_world fstep (world_of f0 0 [] {} 0)" by (rule reach_init)
  let ?gi = "version_Greeters (group_V1alpha1 (factory_Greeter f0))"
  have "fstep (world_of f0 0 [] {} 0) ((world_of f0 0 [] {} 0)\<lparr>fw_factory := f1, fw_next := fw_next (world_of f0 0 [] {} 0) + 1\<rparr>)"
    by (rule fs_InformerFor [of "greeterInformer_defaultInformer ?gi" _ "''*v1alpha1.Greeter''" greeter_inf])
       (use ask_greeter in \<open>simp_all add: greeterInformer_Informer_def world_of_def
          greeterInformer_defaultInformer_def NewFilteredGreeterInformer_def\<close>)
  then have r1: "reachable init_world fstep (world_of f1 1 [] {} 0)"
    using r0 by (auto simp: world_of_def intro: reach_step)
  have "fstep (world_of f1 1 [] {} 0) ((world_of f1 1 [] {} 0)\<lparr>fw_factory := f2,
      fw_running := fw_running (world_of f1 1 [] {} 0) @ map (\<lambda>i. (i, 7)) [greeter_inf]\<rparr>)"
    by (rule fs_Start [of "[''*v1alpha1.Greeter'']"])
       (use start_greeter in \<open>simp_all add: world_of_def f1_def\<close>)
  then show r2: "reachable init_world fstep (world_of f2 1 [(greeter_inf, 7)] {} 0)"
    using r1 by (auto simp: world_of_def intro: reach_step)
  have "reachable init_world fstep ((world_of f2 1 [(greeter_inf, 7)] {} 0)\<lparr>fw_closed := insert 7 (fw_closed (world_of f2 1 [(greeter_inf, 7)] {} 0))\<rparr>)"
    by (rule reach_step [OF r2 fs_Close])
  from reach_step [OF this fs_Shutdown]
  show "reachable init_world fstep (world_of (factory_Shutdown f2) 1 [(greeter_inf, 7)] {7} 1)"
    by (simp add: world_of_def)
qed

theorem factory_runs_once_witness:
  "distinct (map inf_id (runs (world_of f2 1 [(greeter_inf, 7)] {} 0))) \<and>
   dom (factory_WaitForCacheSync (\<lambda>_. True) f2) = {t. is_started f2 t} \<and> fa_wg f2 = 1"
  using factory_runs_once [OF run_reachable(1), of "\<lambda>_. True"] by (simp add: world_of_def)

theorem factory_shared_until_shutdown_witness:
  "fst (factory_InformerFor 5 ''*v1alpha1.Greeter'' (\<lambda>n c d. greeter_inf\<lparr>inf_id := n\<rparr>) (factory_Shutdown f2)) = greeter_inf \<and>
   factory_Start [''*v1alpha1.Greeter''] (factory_Shutdown f2) = (factory_Shutdown f2, [])"
  using factory_shared_until_shutdown [OF run_reachable(2) rtranclp.rtrancl_refl, of 5
      "\<lambda>n c d. greeter_inf\<lparr>inf_id := n\<rparr>" "[''*v1alpha1.Greeter'']"]
  by (simp add: world_of_def factory_Shutdown_def f_defs)


end
