(* ===== verification/ClientSet.thy ===== *)
theory ClientSet
  imports GreeterAPI SampleAPI Complex_Main
begin

text \<open>
  How clients are made from a configuration: the clients of the API groups
  (\<open>typed/greeter/v1alpha1/greeter_client.go\<close>, \<open>typed/sample/*/sample_client.go\<close>) and the clientsets
  (\<open>clientset.go\<close>). Transport, REST and discovery clients and the token bucket are client-go's and
  are the fields of a record; a configuration has the fields this code reads or sets. \<open>QPS\<close> is a
  \<open>float32\<close>, of which only the sign is looked at.
\<close>

section \<open>Configurations\<close>

record 'lim rest_config =
  cfg_groupVersion :: "(string \<times> string) option"
  cfg_apiPath :: string
  cfg_negotiatedSerializer :: string
  cfg_userAgent :: string
  cfg_rateLimiter :: "'lim option"
  cfg_qps :: rat
  cfg_burst :: int

record ('h, 'rc, 'd, 'lim) net_lib =
  nl_defaultUserAgent :: string
  nl_httpClientFor :: "'lim rest_config \<Rightarrow> go_error + 'h"
  nl_restClientFor :: "'lim rest_config \<Rightarrow> 'h \<Rightarrow> go_error + 'rc"
  nl_discoveryFor :: "'lim rest_config \<Rightarrow> 'h \<Rightarrow> go_error + 'd"
  nl_newDiscovery :: "'rc \<Rightarrow> 'd"
  nl_tokenBucket :: "rat \<Rightarrow> int \<Rightarrow> 'lim"

text \<open>\<open>NewForConfigOrDie\<close> and its like panic with the error.\<close>

definition or_die :: "go_error + 'a \<Rightarrow> 'a go_out" where
  "or_die r = (case r of Inl err \<Rightarrow> Panic ''error in the config'' | Inr x \<Rightarrow> Ret x)"

section \<open>The client of Greeter v1alpha1\<close>

record 'rc greeterV1_client =
  greeterV1_restClient :: 'rc

definition greeterV1_setConfigDefaults :: "('h, 'rc, 'd, 'lim) net_lib \<Rightarrow> 'lim rest_config \<Rightarrow> 'lim rest_config" where
  "greeterV1_setConfigDefaults lib config =
     (let gv = SchemeGroupVersion;
          config = config\<lparr>cfg_groupVersion := Some gv\<rparr>;
          config = config\<lparr>cfg_apiPath := ''/apis''\<rparr>;
          config = config\<lparr>cfg_negotiatedSerializer := ''WithoutConversion''\<rparr>
      in if cfg_userAgent config = '''' then config\<lparr>cfg_userAgent := nl_defaultUserAgent lib\<rparr> else config)"

definition greeterV1_NewForConfigAndClient ::
    "('h, 'rc, 'd, 'lim) net_lib \<Rightarrow> 'lim rest_config \<Rightarrow> 'h \<Rightarrow> go_error + 'rc greeterV1_client" where
  "greeterV1_NewForConfigAndClient lib c h =
     (let config = greeterV1_setConfigDefaults lib c
      in case nl_restClientFor lib config h of
           Inl err \<Rightarrow> Inl err
         | Inr client \<Rightarrow> Inr \<lparr>greeterV1_restClient = client\<rparr>)"

definition greeterV1_NewForConfig ::
    "('h, 'rc, 'd, 'lim) net_lib \<Rightarrow> 'lim rest_config \<Rightarrow> go_error + 'rc greeterV1_client" where
  "greeterV1_NewForConfig lib c =
     (let config = greeterV1_setConfigDefaults lib c
      in case nl_httpClientFor lib config of
           Inl err \<Rightarrow> Inl err
         | Inr httpClient \<Rightarrow> greeterV1_NewForConfigAndClient lib config httpClient)"

definition greeterV1_NewForConfigOrDie ::
    "('h, 'rc, 'd, 'lim) net_lib \<Rightarrow> 'lim rest_config \<Rightarrow> 'rc greeterV1_client go_out" where
  "greeterV1_NewForConfigOrDie lib c = or_die (greeterV1_NewForConfig lib c)"

definition greeterV1_New :: "'rc \<Rightarrow> 'rc greeterV1_client" where
  "greeterV1_New c = \<lparr>greeterV1_restClient = c\<rparr>"

text \<open>A nil client has a nil REST client.\<close>

definition greeterV1_RESTClient :: "'rc greeterV1_client option \<Rightarrow> 'rc option" where
  "greeterV1_RESTClient c = (case c of None \<Rightarrow> None | Some c \<Rightarrow> Some (greeterV1_restClient c))"

lemma greeterV1_defaults:
  "cfg_groupVersion (greeterV1_setConfigDefaults lib c) = Some SchemeGroupVersion"
  "cfg_apiPath (greeterV1_setConfigDefaults lib c) = ''/apis''"
  "cfg_rateLimiter (greeterV1_setConfigDefaults lib c) = cfg_rateLimiter c"
  "cfg_userAgent (greeterV1_setConfigDefaults lib c) =
     (if cfg_userAgent c = '''' then nl_defaultUserAgent lib else cfg_userAgent c)"
  "greeterV1_setConfigDefaults lib (greeterV1_setConfigDefaults lib c) = greeterV1_setConfigDefaults lib c"
  by (auto simp: greeterV1_setConfigDefaults_def Let_def)

section \<open>The client of the sample API, v1alpha1\<close>

record 'rc sampleV1_client =
  sampleV1_restClient :: 'rc

definition sampleV1_setConfigDefaults :: "('h, 'rc, 'd, 'lim) net_lib \<Rightarrow> 'lim rest_config \<Rightarrow> 'lim rest_config" where
  "sampleV1_setConfigDefaults lib config =
     (let gv = sampleV1_SchemeGroupVersion;
          config = config\<lparr>cfg_groupVersion := Some gv\<rparr>;
          config = config\<lparr>cfg_apiPath := ''/apis''\<rparr>;
          config = config\<lparr>cfg_negotiatedSerializer := ''WithoutConversion''\<rparr>
      in if cfg_userAgent config = '''' then config\<lparr>cfg_userAgent := nl_defaultUserAgent lib\<rparr> else config)"

definition sampleV1_NewForConfigAndClient ::
    "('h, 'rc, 'd, 'lim) net_lib \<Rightarrow> 'lim rest_config \<Rightarrow> 'h \<Rightarrow> go_error + 'rc sampleV1_client" where
  "sampleV1_NewForConfigAndClient lib c h =
     (let config = sampleV1_setConfigDefaults lib c
      in case nl_restClientFor lib config h of
           Inl err \<Rightarrow> Inl err
         | Inr client \<Rightarrow> Inr \<lparr>sampleV1_restClient = client\<rparr>)"

definition sampleV1_NewForConfig ::
    "('h, 'rc, 'd, 'lim) net_lib \<Rightarrow> 'lim rest_config \<Rightarrow> go_error + 'rc sampleV1_client" where
  "sampleV1_NewForConfig lib c =
     (let config = sampleV1_setConfigDefaults lib c
      in case nl_httpClientFor lib config of
           Inl err \<Rightarrow> Inl err
         | Inr httpClient \<Rightarrow> sampleV1_NewForConfigAndClient lib config httpClient)"

definition sampleV1_NewForConfigOrDie ::
    "('h, 'rc, 'd, 'lim) net_lib \<Rightarrow> 'lim rest_config \<Rightarrow> 'rc sampleV1_client go_out" where
  "sampleV1_NewForConfigOrDie lib c = or_die (sampleV1_NewForConfig lib c)"

definition sampleV1_New :: "'rc \<Rightarrow> 'rc sampleV1_client" where
  "sampleV1_New c = \<lparr>sampleV1_restClient = c\<rparr>"

text \<open>A nil client has a nil REST client.\<close>

definition sampleV1_RESTClient :: "'rc sampleV1_client option \<Rightarrow> 'rc option" where
  "sampleV1_RESTClient c = (case c of None \<Rightarrow> None | Some c \<Rightarrow> Some (sampleV1_restClient c))"

lemma sampleV1_defaults:
  "cfg_groupVersion (sampleV1_setConfigDefaults lib c) = Some sampleV1_SchemeGroupVersion"
  "cfg_apiPath (sampleV1_setConfigDefaults lib c) = ''/apis''"
  "cfg_rateLimiter (sampleV1_setConfigDefaults lib c) = cfg_rateLimiter c"
  "cfg_userAgent (sampleV1_setConfigDefaults lib c) =
     (if cfg_userAgent c = '''' then nl_defaultUserAgent lib else cfg_userAgent c)"
  "sampleV1_setConfigDefaults lib (sampleV1_setConfigDefaults lib c) = sampleV1_setConfigDefaults lib c"
  by (auto simp: sampleV1_setConfigDefaults_def Let_def)

section \<open>The client of the sample API, v1alpha2\<close>

record 'rc sampleV2_client =
  sampleV2_restClient :: 'rc

definition sampleV2_setConfigDefaults :: "('h, 'rc, 'd, 'lim) net_lib \<Rightarrow> 'lim rest_config \<Rightarrow> 'lim rest_config" where
  "sampleV2_setConfigDefaults lib config =
     (let gv = sampleV2_SchemeGroupVersion;
          config = config\<lparr>cfg_groupVersion := Some gv\<rparr>;
          config = config\<lparr>cfg_apiPath := ''/apis''\<rparr>;
          config = config\<lparr>cfg_negotiatedSerializer := ''WithoutConversion''\<rparr>
      in if cfg_userAgent config = '''' then config\<lparr>cfg_userAgent := nl_defaultUserAgent lib\<rparr> else config)"

definition sampleV2_NewForConfigAndClient ::
    "('h, 'rc, 'd, 'lim) net_lib \<Rightarrow> 'lim rest_config \<Rightarrow> 'h \<Rightarrow> go_error + 'rc sampleV2_client" where
  "sampleV2_NewForConfigAndClient lib c h =
     (let config = sampleV2_setConfigDefaults lib c
      in case nl_restClientFor lib config h of
           Inl err \<Rightarrow> Inl err
         | Inr client \<Rightarrow> Inr \<lparr>sampleV2_restClient = client\<rparr>)"

definition sampleV2_NewForConfig ::
    "('h, 'rc, 'd, 'lim) net_lib \<Rightarrow> 'lim rest_config \<Rightarrow> go_error + 'rc sampleV2_client" where
  "sampleV2_NewForConfig lib c =
     (let config = sampleV2_setConfigDefaults lib c
      in case nl_httpClientFor lib config of
           Inl err \<Rightarrow> Inl err
         | Inr httpClient \<Rightarrow> sampleV2_NewForConfigAndClient lib config httpClient)"

definition sampleV2_NewForConfigOrDie ::
    "('h, 'rc, 'd, 'lim) net_lib \<Rightarrow> 'lim rest_config \<Rightarrow> 'rc sampleV2_client go_out" where
  "sampleV2_NewForConfigOrDie lib c = or_die (sampleV2_NewForConfig lib c)"

definition sampleV2_New :: "'rc \<Rightarrow> 'rc sampleV2_client" where
  "sampleV2_New c = \<lparr>sampleV2_restClient = c\<rparr>"

text \<open>A nil client has a nil REST client.\<close>

definition sampleV2_RESTClient :: "'rc sampleV2_client option \<Rightarrow> 'rc option" where
  "sampleV2_RESTClient c = (case c of None \<Rightarrow> None | Some c \<Rightarrow> Some (sampleV2_restClient c))"

lemma sampleV2_defaults:
  "cfg_groupVersion (sampleV2_setConfigDefaults lib c) = Some sampleV2_SchemeGroupVersion"
  "cfg_apiPath (sampleV2_setConfigDefaults lib c) = ''/apis''"
  "cfg_rateLimiter (sampleV2_setConfigDefaults lib c) = cfg_rateLimiter c"
  "cfg_userAgent (sampleV2_setConfigDefaults lib c) =
     (if cfg_userAgent c = '''' then nl_defaultUserAgent lib else cfg_userAgent c)"
  "sampleV2_setConfigDefaults lib (sampleV2_setConfigDefaults lib c) = sampleV2_setConfigDefaults lib c"
  by (auto simp: sampleV2_setConfigDefaults_def Let_def)

section \<open>The clientset of Greeter\<close>

record ('rc, 'd) greeter_clientset =
  gcs_discovery :: 'd
  gcs_greeterV1alpha1 :: "'rc greeterV1_client"

definition greeterSet_GreeterV1alpha1 :: "('rc, 'd) greeter_clientset \<Rightarrow> 'rc greeterV1_client" where
  "greeterSet_GreeterV1alpha1 cs = gcs_greeterV1alpha1 cs"

definition greeterSet_Discovery :: "('rc, 'd) greeter_clientset option \<Rightarrow> 'd option" where
  "greeterSet_Discovery c = (case c of None \<Rightarrow> None | Some c \<Rightarrow> Some (gcs_discovery c))"

definition greeterSet_NewForConfigAndClient ::
    "('h, 'rc, 'd, 'lim) net_lib \<Rightarrow> 'lim rest_config \<Rightarrow> 'h \<Rightarrow> go_error + ('rc, 'd) greeter_clientset" where
  "greeterSet_NewForConfigAndClient lib c httpClient =
     (if cfg_rateLimiter c = None \<and> cfg_qps c > 0 \<and> cfg_burst c \<le> 0 then Inl ErrBurst
      else
        let config = (if cfg_rateLimiter c = None \<and> cfg_qps c > 0
              then c\<lparr>cfg_rateLimiter := Some (nl_tokenBucket lib (cfg_qps c) (cfg_burst c))\<rparr> else c)
        in
          case greeterV1_NewForConfigAndClient lib config httpClient of
             Inl err \<Rightarrow> Inl err
           | Inr c0 \<Rightarrow>
               (case nl_discoveryFor lib config httpClient of
                  Inl err \<Rightarrow> Inl err
                | Inr d \<Rightarrow> Inr \<lparr>gcs_discovery = d, gcs_greeterV1alpha1 = c0\<rparr>))"

definition greeterSet_NewForConfig ::
    "('h, 'rc, 'd, 'lim) net_lib \<Rightarrow> 'lim rest_config \<Rightarrow> go_error + ('rc, 'd) greeter_clientset" where
  "greeterSet_NewForConfig lib c =
     (let config = (if cfg_userAgent c = '''' then c\<lparr>cfg_userAgent := nl_defaultUserAgent lib\<rparr> else c)
      in case nl_httpClientFor lib config of
           Inl err \<Rightarrow> Inl err
         | Inr httpClient \<Rightarrow> greeterSet_NewForConfigAndClient lib config httpClient)"

definition greeterSet_NewForConfigOrDie ::
    "('h, 'rc, 'd, 'lim) net_lib \<Rightarrow> 'lim rest_config \<Rightarrow> ('rc, 'd) greeter_clientset go_out" where
  "greeterSet_NewForConfigOrDie lib c = or_die (greeterSet_NewForConfig lib c)"

definition greeterSet_New :: "('h, 'rc, 'd, 'lim) net_lib \<Rightarrow> 'rc \<Rightarrow> ('rc, 'd) greeter_clientset" where
  "greeterSet_New lib c = \<lparr>gcs_discovery = nl_newDiscovery lib c, gcs_greeterV1alpha1 = greeterV1_New c\<rparr>"

section \<open>The clientset of the sample API\<close>

record ('rc, 'd) sample_clientset =
  scs_discovery :: 'd
  scs_sampleV1alpha1 :: "'rc sampleV1_client"
  scs_sampleV1alpha2 :: "'rc sampleV2_client"

definition sampleSet_SampleV1alpha1 :: "('rc, 'd) sample_clientset \<Rightarrow> 'rc sampleV1_client" where
  "sampleSet_SampleV1alpha1 cs = scs_sampleV1alpha1 cs"

definition sampleSet_SampleV1alpha2 :: "('rc, 'd) sample_clientset \<Rightarrow> 'rc sampleV2_client" where
  "sampleSet_SampleV1alpha2 cs = scs_sampleV1alpha2 cs"

definition sampleSet_Discovery :: "('rc, 'd) sample_clientset option \<Rightarrow> 'd option" where
  "sampleSet_Discovery c = (case c of None \<Rightarrow> None | Some c \<Rightarrow> Some (scs_discovery c))"

definition sampleSet_NewForConfigAndClient ::
    "('h, 'rc, 'd, 'lim) net_lib \<Rightarrow> 'lim rest_config \<Rightarrow> 'h \<Rightarrow> go_error + ('rc, 'd) sample_clientset" where
  "sampleSet_NewForConfigAndClient lib c httpClient =
     (if cfg_rateLimiter c = None \<and> cfg_qps c > 0 \<and> cfg_burst c \<le> 0 then Inl ErrBurst
      else
        let config = (if cfg_rateLimiter c = None \<and> cfg_qps c > 0
              then c\<lparr>cfg_rateLimiter := Some (nl_tokenBucket lib (cfg_qps c) (cfg_burst c))\<rparr> else c)
        in
          case sampleV1_NewForConfigAndClient lib config httpClient of
             Inl err \<Rightarrow> Inl err
           | Inr c0 \<Rightarrow>
               (case sampleV2_NewForConfigAndClient lib config httpClient of
                  Inl err \<Rightarrow> Inl err
                | Inr c1 \<Rightarrow>
                    (case nl_discoveryFor lib config httpClient of
                       Inl err \<Rightarrow> Inl err
                     | Inr d \<Rightarrow> Inr \<lparr>scs_discovery = d, scs_sampleV1alpha1 = c0, scs_sampleV1alpha2 = c1\<rparr>)))"

definition sampleSet_NewForConfig ::
    "('h, 'rc, 'd, 'lim) net_lib \<Rightarrow> 'lim rest_config \<Rightarrow> go_error + ('rc, 'd) sample_clientset" where
  "sampleSet_NewForConfig lib c =
     (let config = (if cfg_userAgent c = '''' then c\<lparr>cfg_userAgent := nl_defaultUserAgent lib\<rparr> else c)
      in case nl_httpClientFor lib config of
           Inl err \<Rightarrow> Inl err
         | Inr httpClient \<Rightarrow> sampleSet_NewForConfigAndClient lib config httpClient)"

definition sampleSet_NewForConfigOrDie ::
    "('h, 'rc, 'd, 'lim) net_lib \<Rightarrow> 'lim rest_config \<Rightarrow> ('rc, 'd) sample_clientset go_out" where
  "sampleSet_NewForConfigOrDie lib c = or_die (sampleSet_NewForConfig lib c)"

definition sampleSet_New :: "('h, 'rc, 'd, 'lim) net_lib \<Rightarrow> 'rc \<Rightarrow> ('rc, 'd) sample_clientset" where
  "sampleSet_New lib c = \<lparr>scs_discovery = nl_newDiscovery lib c, scs_sampleV1alpha1 = sampleV1_New c, scs_sampleV1alpha2 = sampleV2_New c\<rparr>"

section \<open>The limits of a clientset\<close>

text \<open>The rate limiter a configuration stands for, and whether it is refused.\<close>

definition effective_limiter :: "('h, 'rc, 'd, 'lim) net_lib \<Rightarrow> 'lim rest_config \<Rightarrow> 'lim option" where
  "effective_limiter lib c =
     (case cfg_rateLimiter c of
        Some l \<Rightarrow> Some l
      | None \<Rightarrow> if 0 < cfg_qps c then Some (nl_tokenBucket lib (cfg_qps c) (cfg_burst c)) else None)"

definition refused :: "'lim rest_config \<Rightarrow> bool" where
  "refused c \<longleftrightarrow> cfg_rateLimiter c = None \<and> 0 < cfg_qps c \<and> cfg_burst c \<le> 0"

text \<open>A group client that was made with the limiter of the clientset.\<close>

definition made_with :: "('h, 'rc, 'd, 'lim) net_lib \<Rightarrow> 'h \<Rightarrow> 'lim rest_config \<Rightarrow> string \<times> string \<Rightarrow> 'rc \<Rightarrow> bool" where
  "made_with lib h c gv rc \<longleftrightarrow> (\<exists>d. nl_restClientFor lib d h = Inr rc \<and> cfg_groupVersion d = Some gv \<and>
     cfg_apiPath d = ''/apis'' \<and> cfg_rateLimiter d = effective_limiter lib c \<and>
     cfg_userAgent d = (if cfg_userAgent c = '''' then nl_defaultUserAgent lib else cfg_userAgent c))"

definition discovers_with :: "('h, 'rc, 'd, 'lim) net_lib \<Rightarrow> 'h \<Rightarrow> 'lim rest_config \<Rightarrow> 'd \<Rightarrow> bool" where
  "discovers_with lib h c d \<longleftrightarrow> (\<exists>e. nl_discoveryFor lib e h = Inr d \<and> cfg_rateLimiter e = effective_limiter lib c)"

lemma limited_config:
  "\<not> refused c \<Longrightarrow> cfg_rateLimiter (if cfg_rateLimiter c = None \<and> 0 < cfg_qps c
     then c\<lparr>cfg_rateLimiter := Some (nl_tokenBucket lib (cfg_qps c) (cfg_burst c))\<rparr> else c) = effective_limiter lib c"
  by (auto simp: effective_limiter_def split: option.splits)

lemma effective_limiter_agent:
  "effective_limiter lib (if cfg_userAgent c = '''' then c\<lparr>cfg_userAgent := u\<rparr> else c) = effective_limiter lib c"
  by (simp add: effective_limiter_def split: option.splits)

lemma group_client_made:
  "greeterV1_NewForConfigAndClient lib e h = Inr g \<Longrightarrow> cfg_rateLimiter e = effective_limiter lib c \<Longrightarrow>
    cfg_userAgent e = (if cfg_userAgent c = '''' then nl_defaultUserAgent lib else cfg_userAgent c) \<Longrightarrow>
    made_with lib h c SchemeGroupVersion (greeterV1_restClient g)"
  "sampleV1_NewForConfigAndClient lib e h = Inr g1 \<Longrightarrow> cfg_rateLimiter e = effective_limiter lib c \<Longrightarrow>
    cfg_userAgent e = (if cfg_userAgent c = '''' then nl_defaultUserAgent lib else cfg_userAgent c) \<Longrightarrow>
    made_with lib h c sampleV1_SchemeGroupVersion (sampleV1_restClient g1)"
  "sampleV2_NewForConfigAndClient lib e h = Inr g2 \<Longrightarrow> cfg_rateLimiter e = effective_limiter lib c \<Longrightarrow>
    cfg_userAgent e = (if cfg_userAgent c = '''' then nl_defaultUserAgent lib else cfg_userAgent c) \<Longrightarrow>
    made_with lib h c sampleV2_SchemeGroupVersion (sampleV2_restClient g2)"
  by (auto simp: made_with_def greeterV1_NewForConfigAndClient_def sampleV1_NewForConfigAndClient_def
      sampleV2_NewForConfigAndClient_def greeterV1_defaults sampleV1_defaults sampleV2_defaults Let_def
      split: sum.splits intro!: exI conjI)

lemma greeterSet_limits:
  assumes "greeterSet_NewForConfig lib c = Inr cs"
  shows "\<not> refused c \<and> (\<exists>h. made_with lib h c SchemeGroupVersion (greeterV1_restClient (greeterSet_GreeterV1alpha1 cs)) \<and>
    discovers_with lib h c (gcs_discovery cs))"
proof -
  let ?c = "if cfg_userAgent c = '''' then c\<lparr>cfg_userAgent := nl_defaultUserAgent lib\<rparr> else c"
  let ?e = "if cfg_rateLimiter ?c = None \<and> 0 < cfg_qps ?c
     then ?c\<lparr>cfg_rateLimiter := Some (nl_tokenBucket lib (cfg_qps ?c) (cfg_burst ?c))\<rparr> else ?c"
  from assms obtain h where h: "greeterSet_NewForConfigAndClient lib ?c h = Inr cs"
    by (auto simp: greeterSet_NewForConfig_def Let_def split: sum.splits)
  have r: "\<not> refused c" using h by (auto simp: greeterSet_NewForConfigAndClient_def refused_def split: if_splits)
  then have r': "\<not> refused ?c" by (simp add: refused_def)
  from h r' obtain g d where g: "greeterV1_NewForConfigAndClient lib ?e h = Inr g"
      and d: "nl_discoveryFor lib ?e h = Inr d" and cs: "cs = \<lparr>gcs_discovery = d, gcs_greeterV1alpha1 = g\<rparr>"
    unfolding greeterSet_NewForConfigAndClient_def Let_def refused_def by (auto split: sum.splits if_splits)
  have l: "cfg_rateLimiter ?e = effective_limiter lib c"
    by (rule trans [OF limited_config [OF r'] effective_limiter_agent])
  have u: "cfg_userAgent ?e = (if cfg_userAgent c = '''' then nl_defaultUserAgent lib else cfg_userAgent c)" by simp
  show ?thesis
    using r group_client_made(1) [OF g l u] d l by (auto simp: cs greeterSet_GreeterV1alpha1_def discovers_with_def)
qed

lemma sampleSet_limits:
  assumes "sampleSet_NewForConfig lib c = Inr cs"
  shows "\<not> refused c \<and> (\<exists>h. made_with lib h c sampleV1_SchemeGroupVersion (sampleV1_restClient (sampleSet_SampleV1alpha1 cs)) \<and>
    made_with lib h c sampleV2_SchemeGroupVersion (sampleV2_restClient (sampleSet_SampleV1alpha2 cs)) \<and>
    discovers_with lib h c (scs_discovery cs))"
proof -
  let ?c = "if cfg_userAgent c = '''' then c\<lparr>cfg_userAgent := nl_defaultUserAgent lib\<rparr> else c"
  let ?e = "if cfg_rateLimiter ?c = None \<and> 0 < cfg_qps ?c
     then ?c\<lparr>cfg_rateLimiter := Some (nl_tokenBucket lib (cfg_qps ?c) (cfg_burst ?c))\<rparr> else ?c"
  from assms obtain h where h: "sampleSet_NewForConfigAndClient lib ?c h = Inr cs"
    by (auto simp: sampleSet_NewForConfig_def Let_def split: sum.splits)
  have r: "\<not> refused c" using h by (auto simp: sampleSet_NewForConfigAndClient_def refused_def split: if_splits)
  then have r': "\<not> refused ?c" by (simp add: refused_def)
  from h r' obtain g1 g2 d where g: "sampleV1_NewForConfigAndClient lib ?e h = Inr g1"
      "sampleV2_NewForConfigAndClient lib ?e h = Inr g2"
      and d: "nl_discoveryFor lib ?e h = Inr d"
      and cs: "cs = \<lparr>scs_discovery = d, scs_sampleV1alpha1 = g1, scs_sampleV1alpha2 = g2\<rparr>"
    unfolding sampleSet_NewForConfigAndClient_def Let_def refused_def by (auto split: sum.splits if_splits)
  have l: "cfg_rateLimiter ?e = effective_limiter lib c"
    by (rule trans [OF limited_config [OF r'] effective_limiter_agent])
  have u: "cfg_userAgent ?e = (if cfg_userAgent c = '''' then nl_defaultUserAgent lib else cfg_userAgent c)" by simp
  show ?thesis
    using r group_client_made(2) [OF g(1) l u] group_client_made(3) [OF g(2) l u] d l
    by (auto simp: cs sampleSet_SampleV1alpha1_def sampleSet_SampleV1alpha2_def discovers_with_def)
qed


end
