(* ===== verification/Whoami.thy ===== *)
theory Whoami
  imports Transitions "HOL-Library.List_Lexorder" "HOL-Library.Char_ord"
begin

text \<open>
  The server of the two \<open>http-whoami\<close> directories (one file, twice): the settings it reads from the
  environment, with what it uses of \<open>net\<close> and \<open>strconv\<close>, its handler, and the handler as the server
  runs it, in a goroutine for each request and with a counter that no lock protects.
\<close>

section \<open>Settings\<close>

text \<open>\<open>net.SplitHostPort\<close>, as far as it fails.\<close>

fun index_of :: "char \<Rightarrow> string \<Rightarrow> nat option" where
  "index_of c [] = None"
| "index_of c (d # s) = (if c = d then Some 0 else map_option Suc (index_of c s))"

definition last_index_of :: "char \<Rightarrow> string \<Rightarrow> nat option" where
  "last_index_of c s = map_option (\<lambda>i. length s - 1 - i) (index_of c (rev s))"

definition splitHostPort_ok :: "string \<Rightarrow> bool" where
  "splitHostPort_ok s =
     (case last_index_of (CHR '':'') s of
        None \<Rightarrow> False
      | Some i \<Rightarrow>
          if hd s = CHR ''['' then
            (case index_of (CHR '']'') s of
               None \<Rightarrow> False
             | Some e \<Rightarrow> e + 1 = i \<and> CHR ''['' \<notin> set (drop 1 s) \<and> CHR '']'' \<notin> set (drop (e + 1) s))
          else CHR '':'' \<notin> set (take i s) \<and> CHR ''['' \<notin> set s \<and> CHR '']'' \<notin> set s)"

text \<open>\<open>strconv.Atoi\<close>: an optional sign and decimal digits, in 64 bits.\<close>

fun digits_value :: "int \<Rightarrow> string \<Rightarrow> int option" where
  "digits_value n [] = Some n"
| "digits_value n (c # s) =
     (if of_char c \<ge> (48 :: nat) \<and> of_char c \<le> (57 :: nat)
      then digits_value (10 * n + int (of_char c) - 48) s else None)"

definition go_atoi :: "string \<Rightarrow> int option" where
  "go_atoi s =
     (let neg = (s \<noteq> [] \<and> hd s = CHR ''-'');
          s' = (if s \<noteq> [] \<and> (hd s = CHR ''-'' \<or> hd s = CHR ''+'') then tl s else s)
      in if s' = [] then None
         else (case digits_value 0 s' of
                 None \<Rightarrow> None
               | Some n \<Rightarrow>
                   let n = (if neg then - n else n)
                   in if min_int64 \<le> n \<and> n \<le> max_int64 then Some n else None))"

text \<open>\<open>init\<close>: the address and the count, or the program ends.\<close>

definition whoami_init :: "(string \<Rightarrow> string) \<Rightarrow> (string \<times> int) option" where
  "whoami_init getenv =
     (let addr = getenv ''SERVICE_LISTEN_ADDR'';
          count = getenv ''SERVICE_HEALTHY_COUNT'';
          healthy = (if count \<noteq> '''' then (case go_atoi count of Some num \<Rightarrow> num | None \<Rightarrow> -1) else -1)
      in if addr \<noteq> '''' then
           (if splitHostPort_ok addr then Some (addr, healthy) else None)
         else Some ('':8080'', healthy))"

section \<open>The handler\<close>

datatype body_part =
    HitLine string string
  | HeaderLine string string
  | ErrorLine go_error

record response =
  rsp_status :: nat
  rsp_body :: "body_part list"

text \<open>\<open>SortHeaderMap\<close>: the keys in the order of the range over the map, then sorted.\<close>

definition SortHeaderMap :: "(string \<rightharpoonup> string list) \<Rightarrow> string list \<Rightarrow> (string \<times> string list) list" where
  "SortHeaderMap header order = map (\<lambda>k. (k, the (header k))) (sort order)"

fun write_headers :: "(string \<times> string list) list \<Rightarrow> body_part list \<Rightarrow> body_part list go_out" where
  "write_headers [] out = Ret out"
| "write_headers ((k, v) # kvs) out =
     (case v of [] \<Rightarrow> Panic ''index out of range''
      | x # _ \<Rightarrow> write_headers kvs (out @ [HeaderLine k x]))"

text \<open>The answer after the counter was looked at.\<close>

definition whoami_body ::
    "go_error + string \<Rightarrow> string \<Rightarrow> (string \<rightharpoonup> string list) \<Rightarrow> string list \<Rightarrow> response go_out" where
  "whoami_body hostname remote header order =
     (case hostname of
        Inl err \<Rightarrow> Ret \<lparr>rsp_status = 500, rsp_body = [ErrorLine err]\<rparr>
      | Inr host \<Rightarrow>
          (case write_headers (SortHeaderMap header order) [HitLine host remote] of
             Panic p \<Rightarrow> Panic p
           | Ret body \<Rightarrow> Ret \<lparr>rsp_status = 200, rsp_body = body\<rparr>))"

definition whoami_handle ::
    "go_error + string \<Rightarrow> string \<Rightarrow> (string \<rightharpoonup> string list) \<Rightarrow> string list \<Rightarrow> int \<Rightarrow> response go_out \<times> int" where
  "whoami_handle hostname remote header order healthy =
     (if healthy > 0 then (whoami_body hostname remote header order, healthy - 1)
      else if healthy = 0 then (Ret \<lparr>rsp_status = 500, rsp_body = []\<rparr>, healthy)
      else (whoami_body hostname remote header order, healthy))"

text \<open>The answer does not depend on the order in which the map is ranged over.\<close>

lemma SortHeaderMap_order: "mset ks = mset ls \<Longrightarrow> SortHeaderMap header ks = SortHeaderMap header ls"
  by (simp add: SortHeaderMap_def properties_for_sort [of "sort ls" ks])

lemma write_headers_values:
  "\<forall>(k, v) \<in> set kvs. v \<noteq> [] \<Longrightarrow> write_headers kvs out = Ret (out @ map (\<lambda>(k, v). HeaderLine k (hd v)) kvs)"
  by (induction kvs out rule: write_headers.induct) (auto split: list.splits)

section \<open>One request at a time\<close>

fun whoami_serve :: "nat \<Rightarrow> int \<Rightarrow> bool list \<times> int" where
  "whoami_serve 0 healthy = ([], healthy)"
| "whoami_serve (Suc k) healthy =
     (let (r, healthy) = whoami_handle (Inr ''host'') ''peer'' Map.empty [] healthy;
          (rs, healthy) = whoami_serve k healthy
      in ((case r of Ret x \<Rightarrow> rsp_status x = 200 | Panic _ \<Rightarrow> False) # rs, healthy))"

lemma handle_status:
  "whoami_handle (Inr ''host'') ''peer'' Map.empty [] healthy =
     (if healthy = 0 then (Ret \<lparr>rsp_status = 500, rsp_body = []\<rparr>, 0)
      else (Ret \<lparr>rsp_status = 200, rsp_body = [HitLine ''host'' ''peer'']\<rparr>, if healthy > 0 then healthy - 1 else healthy))"
  by (simp add: whoami_handle_def whoami_body_def SortHeaderMap_def)

lemma serve_counts:
  "whoami_serve k (int n) = (replicate (min n k) True @ replicate (k - n) False, int (n - k))"
proof (induction k arbitrary: n)
  case (Suc k)
  then show ?case
    using Suc.IH [of 0] Suc.IH [of "n - 1"] by (cases n) (simp_all add: handle_status)
qed simp

lemma serve_forever: "h < 0 \<Longrightarrow> whoami_serve k h = (replicate k True, h)"
  by (induction k) (simp_all add: handle_status)

section \<open>Requests at the same time\<close>

text \<open>Each goroutine reads the counter for the first test, then either reads it again and writes it
  back one lower, or reads it for the second test.\<close>

datatype whoami_pc = Arrived | Positive | Loaded int | NotPositive | Counted | Served | Refused

type_synonym whoami_state = "int \<times> whoami_pc list"

inductive wstep :: "whoami_state \<Rightarrow> whoami_state \<Rightarrow> bool" where
  ws_positive: "i < length ps \<Longrightarrow> ps ! i = Arrived \<Longrightarrow> h > 0 \<Longrightarrow> wstep (h, ps) (h, ps[i := Positive])"
| ws_not: "i < length ps \<Longrightarrow> ps ! i = Arrived \<Longrightarrow> h \<le> 0 \<Longrightarrow> wstep (h, ps) (h, ps[i := NotPositive])"
| ws_load: "i < length ps \<Longrightarrow> ps ! i = Positive \<Longrightarrow> wstep (h, ps) (h, ps[i := Loaded h])"
| ws_store: "i < length ps \<Longrightarrow> ps ! i = Loaded v \<Longrightarrow> wstep (h, ps) (v - 1, ps[i := Counted])"
| ws_refuse: "i < length ps \<Longrightarrow> ps ! i = NotPositive \<Longrightarrow> h = 0 \<Longrightarrow> wstep (h, ps) (h, ps[i := Refused])"
| ws_serve: "i < length ps \<Longrightarrow> ps ! i = NotPositive \<Longrightarrow> h \<noteq> 0 \<Longrightarrow> wstep (h, ps) (h, ps[i := Served])"

definition counted :: "whoami_pc list \<Rightarrow> nat" where
  "counted ps = length (filter (\<lambda>p. p = Counted) ps)"

lemma counted_le: "counted ps \<le> length ps"
  by (simp add: counted_def)

lemma counted_update:
  "i < length ps \<Longrightarrow> ps ! i \<noteq> Counted \<Longrightarrow>
    counted (ps[i := p]) = counted ps + (if p = Counted then 1 else 0)"
  unfolding counted_def
  by (induction ps arbitrary: i) (auto simp: nth_Cons split: nat.splits)

text \<open>The counter, and what was read of it, is never above the start, and below it by no more than the
  number of decrements.\<close>

definition within :: "int \<Rightarrow> whoami_state \<Rightarrow> bool" where
  "within h0 s \<longleftrightarrow> h0 - int (counted (snd s)) \<le> fst s \<and> fst s \<le> h0 \<and>
     (\<forall>v. Loaded v \<in> set (snd s) \<longrightarrow> h0 - int (counted (snd s)) \<le> v \<and> v \<le> h0)"

definition arrivals :: "int \<Rightarrow> nat \<Rightarrow> whoami_state \<Rightarrow> bool" where
  "arrivals h0 n s \<longleftrightarrow> s = (h0, replicate n Arrived)"

lemma Loaded_update: "Loaded v \<in> set (ps[i := p]) \<Longrightarrow> Loaded v \<in> set ps \<or> p = Loaded v"
  using set_update_subset_insert [of ps i p] by auto

lemma within_step: "within h0 s \<Longrightarrow> wstep s t \<Longrightarrow> within h0 t"
proof (erule wstep.cases; clarsimp)
  fix i ps v and h :: int
  assume w: "within h0 (h, ps)" and i: "i < length ps" and l: "ps ! i = Loaded v"
  then have "Loaded v \<in> set ps" by (metis nth_mem)
  with w have v: "h0 - int (counted ps) \<le> v" "v \<le> h0" by (auto simp: within_def)
  show "within h0 (v - 1, ps[i := Counted])"
    using w v i l unfolding within_def fst_conv snd_conv
    by (auto simp: counted_update dest!: Loaded_update)
qed (auto simp: within_def counted_update dest!: Loaded_update)

interpretation whoami: inv_system "arrivals h0 n" wstep "\<lambda>s. within h0 s \<and> length (snd s) = n" for h0 n
proof
  show "within h0 s \<and> length (snd s) = n" if "arrivals h0 n s" for s
    using that by (auto simp: arrivals_def within_def counted_def)
  show "within h0 t \<and> length (snd t) = n" if s: "within h0 s \<and> length (snd s) = n" and t: "wstep s t" for s t
  proof
    show "within h0 t" using within_step s t by blast
    show "length (snd t) = n" using t s by cases simp_all
  qed
qed

lemma race: "wstep\<^sup>*\<^sup>* (1, [Arrived, Arrived]) (-1, [Counted, Counted])"
proof -
  have "wstep (1, [Arrived, Arrived]) (1, [Positive, Arrived])"
    using ws_positive [of 0 "[Arrived, Arrived]" 1] by simp
  moreover have "wstep (1, [Positive, Arrived]) (1, [Positive, Positive])"
    using ws_positive [of 1 "[Positive, Arrived]" 1] by simp
  moreover have "wstep (1, [Positive, Positive]) (1, [Loaded 1, Positive])"
    using ws_load [of 0 "[Positive, Positive]" 1] by simp
  moreover have "wstep (1, [Loaded 1, Positive]) (0, [Counted, Positive])"
    using ws_store [of 0 "[Loaded 1, Positive]" 1 1] by simp
  moreover have "wstep (0, [Counted, Positive]) (0, [Counted, Loaded 0])"
    using ws_load [of 1 "[Counted, Positive]" 0] by simp
  moreover have "wstep (0, [Counted, Loaded 0]) (-1, [Counted, Counted])"
    using ws_store [of 1 "[Counted, Loaded 0]" 0 0] by simp
  ultimately show ?thesis by (meson converse_rtranclp_into_rtranclp rtranclp.rtrancl_refl)
qed

text \<open>C37: Handled one after the other, requests to a server with a healthy count of \<open>n\<close> are answered as
  the count promises: the first \<open>n\<close> of \<open>k\<close> succeed and all others get a 500. Handled at the same time
  they are not: with a count of 1 two requests can both pass the test and both be counted, which
  leaves the counter at -1, after which every request succeeds for ever. In every interleaving of \<open>m\<close>
  requests the counter stays between \<open>n - m\<close> and \<open>n\<close>.\<close>

theorem whoami_counts:
  "fst (whoami_serve k (int n)) = replicate (min n k) True @ replicate (k - n) False \<and>
   wstep\<^sup>*\<^sup>* (1, [Arrived, Arrived]) (-1, [Counted, Counted]) \<and>
   fst (whoami_serve k (-1)) = replicate k True \<and>
   {h. \<exists>ps. reachable (arrivals (int n) m) wstep (h, ps)} \<subseteq> {int n - int m .. int n}"
proof (intro conjI)
  show "{h. \<exists>ps. reachable (arrivals (int n) m) wstep (h, ps)} \<subseteq> {int n - int m .. int n}"
  proof safe
    fix h ps assume "reachable (arrivals (int n) m) wstep (h, ps)"
    from whoami.reachable_inv [OF this] counted_le [of ps]
    show "h \<in> {int n - int m .. int n}" by (auto simp: within_def)
  qed
qed (simp_all add: serve_counts serve_forever race)

end
