(* ===== verification/GoPath.thy ===== *)
theory GoPath
  imports Prelude
begin

text \<open>
  The path operations of Go's standard library that the programs call to find a kubeconfig file
  (\<open>filepath.Join\<close>, which cleans what it joined), on slash-separated paths.
\<close>

section \<open>Clean and Join\<close>

fun split_slash :: "string \<Rightarrow> string list" where
  "split_slash [] = [[]]"
| "split_slash (c # cs) =
     (if c = CHR ''/'' then [] # split_slash cs
      else (case split_slash cs of [] \<Rightarrow> [[c]] | d # ds \<Rightarrow> (c # d) # ds))"

fun join_slash :: "string list \<Rightarrow> string" where
  "join_slash [] = ''''"
| "join_slash [d] = d"
| "join_slash (d # ds) = d @ ''/'' @ join_slash ds"

text \<open>The elements kept so far and the next one: empty ones and \<open>.\<close> go, \<open>..\<close> takes the last one away
  unless there is none to take.\<close>

definition clean_step :: "bool \<Rightarrow> string list \<Rightarrow> string \<Rightarrow> string list" where
  "clean_step rooted out d =
     (if d = '''' \<or> d = ''.'' then out
      else if d = ''..'' then
        (if out \<noteq> [] \<and> last out \<noteq> ''..'' then butlast out else if rooted then out else out @ [d])
      else out @ [d])"

definition path_Clean :: "string \<Rightarrow> string" where
  "path_Clean p =
     (if p = '''' then ''.''
      else let rooted = (hd p = CHR ''/''); ds = foldl (clean_step rooted) [] (split_slash p)
           in if rooted then ''/'' @ join_slash ds
              else if ds = [] then ''.'' else join_slash ds)"

definition filepath_Join :: "string list \<Rightarrow> string" where
  "filepath_Join elems =
     (case dropWhile (\<lambda>d. d = '''') elems of [] \<Rightarrow> '''' | ds \<Rightarrow> path_Clean (join_slash ds))"

section \<open>Names of directories\<close>

definition dir_name :: "string \<Rightarrow> bool" where
  "dir_name d \<longleftrightarrow> d \<noteq> '''' \<and> d \<noteq> ''.'' \<and> d \<noteq> ''..'' \<and> CHR ''/'' \<notin> set d"

lemma split_slash_name: "CHR ''/'' \<notin> set d \<Longrightarrow> split_slash d = [d]"
  by (induction d) auto

lemma split_slash_append: "CHR ''/'' \<notin> set d \<Longrightarrow> split_slash (d @ ''/'' @ p) = d # split_slash p"
  by (induction d) auto

lemma split_join_slash:
  assumes "\<forall>d\<in>set ds. CHR ''/'' \<notin> set d" and "ds \<noteq> []"
  shows "split_slash (join_slash ds) = ds"
  using assms
proof (induction ds rule: join_slash.induct)
  case (3 d e ds)
  then show ?case using split_slash_append [of d "join_slash (e # ds)"] by simp
qed (simp_all add: split_slash_name)

lemma clean_names:
  assumes "\<forall>d\<in>set ds. dir_name d"
  shows "foldl (clean_step rooted) out ds = out @ ds"
  using assms by (induction ds arbitrary: out) (auto simp: clean_step_def dir_name_def)

lemma join_slash_append: "ds \<noteq> [] \<Longrightarrow> es \<noteq> [] \<Longrightarrow> join_slash (ds @ es) = join_slash ds @ ''/'' @ join_slash es"
proof (induction ds rule: join_slash.induct)
  case (2 d)
  then show ?case by (cases es) simp_all
qed simp_all

text \<open>Joining more names to a directory adds them, whether or not its path ends in a slash.\<close>

lemma filepath_Join_dir:
  assumes "\<forall>d\<in>set ds. dir_name d" and "\<forall>e\<in>set es. dir_name e" and "es \<noteq> []"
    and "home = ''/'' @ join_slash ds \<or> home = ''/'' @ join_slash ds @ ''/''"
  shows "filepath_Join (home # es) = ''/'' @ join_slash (ds @ es)"
proof -
  have slashes: "\<forall>d\<in>set (ds @ es). CHR ''/'' \<notin> set d" using assms(1,2) by (auto simp: dir_name_def)
  obtain e es' where es: "es = e # es'" using assms(3) by (cases es) auto
  have tail: "split_slash (join_slash es) = es" using split_join_slash [of es] slashes assms(3) by simp
  have home: "hd home = CHR ''/''" "home \<noteq> ''''" using assms(4) by auto
  have joined: "join_slash (home # es) = home @ ''/'' @ join_slash es" using es by simp
  have dir: "foldl (clean_step True) [] (split_slash (join_slash ds @ ''/'' @ p)) =
      foldl (clean_step True) ds (split_slash p)" for p
  proof (cases "ds = []")
    case True
    then show ?thesis by (simp add: clean_step_def)
  next
    case False
    have "split_slash (join_slash ds @ ''/'' @ p) = ds @ split_slash p"
      using slashes False
    proof (induction ds rule: join_slash.induct)
      case (2 d)
      then show ?case using split_slash_append [of d p] by simp
    next
      case (3 d e ds)
      then show ?case using split_slash_append [of d "join_slash (e # ds) @ ''/'' @ p"] by simp
    qed simp
    then show ?thesis using clean_names [OF assms(1), of True "[]"] by simp
  qed
  have "foldl (clean_step True) [] (split_slash (home @ ''/'' @ join_slash es)) = ds @ es"
    using assms(4)
  proof
    assume "home = ''/'' @ join_slash ds"
    then show ?thesis
      using dir [of "join_slash es"] clean_names [OF assms(2), of True ds] tail by (simp add: clean_step_def)
  next
    assume "home = ''/'' @ join_slash ds @ ''/''"
    then show ?thesis
      using dir [of "''/'' @ join_slash es"] clean_names [OF assms(2), of True ds] tail
      by (simp add: clean_step_def)
  qed
  then show ?thesis
    using home joined by (simp add: filepath_Join_def path_Clean_def)
qed

end
