(* ===== verification/GreeterRun.thy ===== *)
theory GreeterRun
  imports GreeterSync FactoryRuns ClientSet GoPath
begin

text \<open>
  How the Greeter controller is put together and run (\<open>NewController\<close> and \<open>Run\<close> of \<open>controller.go\<close>,
  \<open>greeter/main.go\<close>): what it asks of the informer factories, which handlers it registers, when it
  starts its workers and when it shuts the work queue down.
\<close>

section \<open>NewController\<close>

datatype setup_action =
    SAddToScheme
  | SStartRecording
  | SNewRecorder string
  | SNewQueue string
  | SGreeterHandler informer
  | SPodHandler
  | SExit int

record greeter_controller =
  ctl_informer :: informer
  ctl_agent :: string
  ctl_queue :: string

definition controllerAgentName :: string where
  "controllerAgentName = ''greeter-controller''"

text \<open>\<open>addErr\<close>, \<open>greeterErr\<close> and \<open>podErr\<close> are what \<open>AddToScheme\<close> and the two \<open>AddEventHandler\<close> answer.
  Each of \<open>Lister\<close>, \<open>HasSynced\<close> and \<open>AddEventHandler\<close> asks the factory for the informer again. A process
  that exits has no controller.\<close>

definition NewController ::
    "go_error option \<Rightarrow> go_error option \<Rightarrow> go_error option \<Rightarrow> nat \<Rightarrow> greeter_informer \<Rightarrow> 'c factory \<Rightarrow>
     greeter_controller option go_out \<times> setup_action list \<times> 'c factory" where
  "NewController addErr greeterErr podErr fresh gi f =
     (case addErr of
        Some _ \<Rightarrow> (Panic ''AddToScheme'', [SAddToScheme], f)
      | None \<Rightarrow>
          let acts = [SAddToScheme, SStartRecording, SNewRecorder controllerAgentName];
              (lister, f) = greeterInformer_Informer fresh gi f;
              (synced, f) = greeterInformer_Informer (fresh + 1) gi f;
              controller = \<lparr>ctl_informer = lister, ctl_agent = controllerAgentName, ctl_queue = ''Greeters''\<rparr>;
              acts = acts @ [SNewQueue ''Greeters''];
              (handled, f) = greeterInformer_Informer (fresh + 2) gi f;
              acts = acts @ [SGreeterHandler handled]
          in case greeterErr of
               Some _ \<Rightarrow> (Ret None, acts @ [SExit 1], f)
             | None \<Rightarrow>
                 let acts = acts @ [SPodHandler]
                 in case podErr of
                      Some _ \<Rightarrow> (Ret None, acts @ [SExit 1], f)
                    | None \<Rightarrow> (Ret (Some controller), acts, f))"

section \<open>Run\<close>

datatype run_action = RWaitForSync | RStartWorker | RWaitForStop | RShutDownQueue

text \<open>The loop that starts the workers; the number is an \<open>int\<close> that may be negative.\<close>

function start_workers :: "int \<Rightarrow> int \<Rightarrow> run_action list \<Rightarrow> run_action list" where
  "start_workers i workers acts =
     (if i < workers then start_workers (i + 1) workers (acts @ [RStartWorker]) else acts)"
  by pat_completeness auto
termination by (relation "measure (\<lambda>(i, workers, _). nat (workers - i))") auto

declare start_workers.simps [simp del]

text \<open>The shut-down of the queue is deferred, so it comes last on each way out.\<close>

definition controller_Run :: "bool \<Rightarrow> int \<Rightarrow> run_action list \<times> go_error option" where
  "controller_Run synced workers =
     (let acts = [RWaitForSync]
      in if \<not> synced then (acts @ [RShutDownQueue], Some ErrCacheSync)
         else (start_workers 0 workers acts @ [RWaitForStop] @ [RShutDownQueue], None))"

section \<open>main\<close>

text \<open>\<open>greeter/main.go\<close>: the exit code, \<open>None\<close> when \<open>main\<close> returns, and the goroutines the factory of this
  repository started. The kubernetes clientset and its factory are client-go's.\<close>

record greeter_flags =
  gf_masterURL :: string
  gf_kubeconfig :: string

text \<open>\<open>init\<close> sets the flags to their defaults; \<open>me_parse\<close> is what the command line makes of them.\<close>

definition greeter_init :: "string \<Rightarrow> greeter_flags" where
  "greeter_init home =
     (let defaultKubeConfig = (if home \<noteq> '''' then filepath_Join [home, ''.kube'', ''config''] else '''')
      in \<lparr>gf_masterURL = '''', gf_kubeconfig = defaultKubeConfig\<rparr>)"

record ('h, 'rc, 'd, 'lim) main_env =
  me_home :: string
  me_parse :: "greeter_flags \<Rightarrow> greeter_flags"
  me_buildConfig :: "string \<Rightarrow> string \<Rightarrow> go_error + 'lim rest_config"
  me_kubeErr :: "go_error option"
  me_lib :: "('h, 'rc, 'd, 'lim) net_lib"
  me_addErr :: "go_error option"
  me_greeterErr :: "go_error option"
  me_podErr :: "go_error option"
  me_synced :: bool

definition greeter_main ::
    "('h, 'rc, 'd, 'lim) main_env \<Rightarrow> string list \<Rightarrow> int option go_out \<times> informer list \<times> run_action list" where
  "greeter_main E order =
     (let flags = me_parse E (greeter_init (me_home E)) in
      case me_buildConfig E (gf_masterURL flags) (gf_kubeconfig flags) of
        Inl _ \<Rightarrow> (Ret (Some 1), [], [])
      | Inr cfg \<Rightarrow>
     (case me_kubeErr E of
        Some _ \<Rightarrow> (Ret (Some 1), [], [])
      | None \<Rightarrow>
     (case greeterSet_NewForConfig (me_lib E) cfg of
        Inl _ \<Rightarrow> (Ret (Some 1), [], [])
      | Inr greeterClientset \<Rightarrow>
          let f = NewSharedInformerFactory greeterClientset (30 * Second);
              gi = version_Greeters (group_V1alpha1 (factory_Greeter f))
          in case NewController (me_addErr E) (me_greeterErr E) (me_podErr E) 0 gi f of
               (Panic p, _, _) \<Rightarrow> (Panic p, [], [])
             | (Ret None, _, _) \<Rightarrow> (Ret (Some 1), [], [])
             | (Ret (Some controller), _, f) \<Rightarrow>
                 let (f, gos) = factory_Start order f;
                     (acts, err) = controller_Run (me_synced E) 2
                 in (Ret (if err \<noteq> None then Some 1 else None), gos, acts))))"

section \<open>What they guarantee\<close>

lemma start_workers_eq: "start_workers i workers acts = acts @ replicate (nat (workers - i)) RStartWorker"
proof (induction i workers acts rule: start_workers.induct)
  case (1 i workers acts)
  then show ?case
  proof (cases "i < workers")
    case True
    then have "nat (workers - i) = Suc (nat (workers - (i + 1)))" by simp
    with 1 True show ?thesis by (subst start_workers.simps) (simp add: replicate_append_same)
  qed (simp add: start_workers.simps)
qed

text \<open>However often it asks, the controller has one informer, and the handler is on that informer.\<close>

lemma NewController_one_informer:
  assumes "NewController addErr greeterErr podErr fresh gi f = (Ret (Some ctl), acts, f')"
  shows "fa_informers f' ''*v1alpha1.Greeter'' = Some (ctl_informer ctl) \<and>
    SGreeterHandler (ctl_informer ctl) \<in> set acts \<and>
    (fa_informers f ''*v1alpha1.Greeter'' = None \<longrightarrow> inf_id (ctl_informer ctl) = fresh)"
proof (cases "fa_informers f ''*v1alpha1.Greeter''")
  case None
  with assms show ?thesis
    by (auto simp: NewController_def greeterInformer_Informer_def factory_InformerFor_def Let_def
        greeterInformer_defaultInformer_def NewFilteredGreeterInformer_def split: option.splits)
next
  case (Some i)
  with assms show ?thesis
    by (auto simp: NewController_def greeterInformer_Informer_def factory_InformerFor_def Let_def split: option.splits)
qed

lemma Run_shuts_down: "last (fst (controller_Run synced workers)) = RShutDownQueue"
  by (simp add: controller_Run_def Let_def)

lemma Run_workers_after_sync:
  "controller_Run True workers =
    (RWaitForSync # replicate (nat workers) RStartWorker @ [RWaitForStop, RShutDownQueue], None)"
  "RStartWorker \<notin> set (fst (controller_Run False workers))"
  by (simp_all add: controller_Run_def start_workers_eq Let_def)

text \<open>A program that comes to run its controller has started exactly one informer of this repository,
  that of the controller, over all namespaces and with a resync of thirty seconds.\<close>

lemma main_starts_informer:
  assumes "greeter_main E order = (Ret None, gos, acts)" and "order = [''*v1alpha1.Greeter'']"
  shows "gos = [\<lparr>inf_id = 0, inf_type = ''*v1alpha1.Greeter'', inf_namespace = '''',
    inf_resync = 30 * Second, inf_tweak = None\<rparr>] \<and> me_synced E"
  using assms
  by (auto simp: greeter_main_def NewController_def NewSharedInformerFactory_def
      NewSharedInformerFactoryWithOptions_def greeterInformer_Informer_def factory_InformerFor_def
      greeterInformer_defaultInformer_def NewFilteredGreeterInformer_def factory_Start_def is_started_def
      factory_Greeter_def new_group_def group_V1alpha1_def new_version_def version_Greeters_def
      controller_Run_def Let_def split: sum.splits option.splits prod.splits if_splits)

end
