(* ===== verification/Demos.thy ===== *)
theory Demos
  imports GreeterAPI GoPath
begin

text \<open>
  The small programs \<open>machinery\<close>, \<open>watcher\<close>, \<open>quickstart\<close> and \<open>informer\<close>: how they find a configuration,
  and what their loops and handlers do with what the cluster answers. What they print is a list of
  lines; the cluster's answers are arguments.
\<close>

section \<open>machinery\<close>

text \<open>\<open>LoadConfig\<close>: in the cluster, or from the kubeconfig the flag names, whose default is in the home
  directory (\<open>flag\<close> is what parsing makes of the default).\<close>

definition LoadConfig :: "go_error + 'c \<Rightarrow> string \<Rightarrow> (string \<Rightarrow> string) \<Rightarrow> (string \<Rightarrow> go_error + 'c) \<Rightarrow> go_error + 'c" where
  "LoadConfig inCluster home flag buildConfig =
     (case inCluster of
        Inr config \<Rightarrow> Inr config
      | Inl _ \<Rightarrow>
          let kubeconfig = (if home \<noteq> '''' then flag (filepath_Join [home, ''.kube'', ''config'']) else flag '''')
          in buildConfig kubeconfig)"

definition NewClientset :: "go_error + 'c \<Rightarrow> ('c \<Rightarrow> go_error + 'k) \<Rightarrow> go_error + 'k" where
  "NewClientset config newForConfig =
     (case config of Inl err \<Rightarrow> Inl err | Inr c \<Rightarrow> newForConfig c)"

text \<open>Outside the cluster the default is \<open>.kube/config\<close> under the home directory.\<close>

lemma LoadConfig_home:
  assumes "\<forall>d\<in>set ds. dir_name d"
  shows "LoadConfig (Inl err) (''/'' @ join_slash ds) (\<lambda>default. default) buildConfig =
    buildConfig (''/'' @ join_slash (ds @ [''.kube'', ''config'']))"
  using filepath_Join_dir [of ds "[''.kube'', ''config'']" "''/'' @ join_slash ds"] assms
  by (simp add: LoadConfig_def dir_name_def)

section \<open>Lines and assertions\<close>

datatype line =
    EventLine string string string
  | PodsLine nat
  | PodLine string string go_map
  | PodAdded string string
  | PodModified string string
  | PodDeleted string string

fun assert_pod :: "informer_obj \<Rightarrow> pod go_out" where
  "assert_pod (OPod p) = Ret p"
| "assert_pod _ = Panic ''interface conversion''"

fun is_pod :: "informer_obj \<Rightarrow> bool" where
  "is_pod (OPod _) = True"
| "is_pod _ = False"

definition pod_name :: "pod \<Rightarrow> string" where
  "pod_name p = om_name (p_meta p)"

definition pod_namespace :: "pod \<Rightarrow> string" where
  "pod_namespace p = om_namespace (p_meta p)"

section \<open>watcher\<close>

text \<open>The events the watch delivers until its channel is closed, each with its type.\<close>

fun watcher_loop :: "(string \<times> informer_obj) list \<Rightarrow> line list \<Rightarrow> unit go_out \<times> line list" where
  "watcher_loop [] out = (Ret (), out)"
| "watcher_loop ((t, object) # evs) out =
     (case assert_pod object of
        Panic s \<Rightarrow> (Panic s, out)
      | Ret p \<Rightarrow> watcher_loop evs (out @ [EventLine t (pod_name p) (pod_namespace p)]))"

text \<open>The third part says whether the watch was stopped, which is deferred.\<close>

definition watcher_main ::
    "go_error + 'k \<Rightarrow> ('k \<Rightarrow> go_error + (string \<times> informer_obj) list) \<Rightarrow> unit go_out \<times> line list \<times> bool" where
  "watcher_main clientset watch =
     (case clientset of
        Inl _ \<Rightarrow> (Panic ''error'', [], False)
      | Inr k \<Rightarrow>
          (case watch k of
             Inl _ \<Rightarrow> (Panic ''error'', [], False)
           | Inr evs \<Rightarrow> (let (r, out) = watcher_loop evs [] in (r, out, True))))"

section \<open>quickstart\<close>

text \<open>A round of the loop, with what it printed: \<open>rand.Intn\<close> of a number that is not positive panics.\<close>

definition quickstart_round ::
    "go_error + pod list \<Rightarrow> nat \<Rightarrow> (string \<Rightarrow> string \<Rightarrow> go_error + pod) \<Rightarrow> unit go_out \<times> line list" where
  "quickstart_round pods rand get =
     (case pods of
        Inl _ \<Rightarrow> (Panic ''error'', [])
      | Inr items \<Rightarrow>
          let out = [PodsLine (length items)]
          in if items = [] then (Panic ''invalid argument to Intn'', out)
             else let p = items ! (rand mod length items)
                  in case get (pod_namespace p) (pod_name p) of
                       Inl _ \<Rightarrow> (Panic ''error'', out)
                     | Inr q \<Rightarrow> (Ret (), out @ [PodLine (pod_name q) (pod_namespace q) (om_labels (p_meta q))]))"

text \<open>The loop has no end but a panic: \<open>Ret ()\<close> after \<open>n\<close> rounds says that it goes on. The cluster may
  answer differently in each round.\<close>

fun quickstart_loop ::
    "nat \<Rightarrow> (nat \<Rightarrow> go_error + pod list) \<Rightarrow> (nat \<Rightarrow> nat) \<Rightarrow> (nat \<Rightarrow> string \<Rightarrow> string \<Rightarrow> go_error + pod) \<Rightarrow>
     unit go_out \<times> line list" where
  "quickstart_loop 0 pods rand get = (Ret (), [])"
| "quickstart_loop (Suc n) pods rand get =
     (case quickstart_loop n pods rand get of
        (Panic s, out) \<Rightarrow> (Panic s, out)
      | (Ret _, out) \<Rightarrow>
          (let (r, new) = quickstart_round (pods n) (rand n) (get n) in (r, out @ new)))"

definition quickstart_main ::
    "string \<Rightarrow> (string \<Rightarrow> string) \<Rightarrow> (string \<Rightarrow> go_error + 'c) \<Rightarrow> ('c \<Rightarrow> go_error + 'k) \<Rightarrow> nat \<Rightarrow>
     ('k \<Rightarrow> nat \<Rightarrow> go_error + pod list) \<Rightarrow> (nat \<Rightarrow> nat) \<Rightarrow> ('k \<Rightarrow> nat \<Rightarrow> string \<Rightarrow> string \<Rightarrow> go_error + pod) \<Rightarrow>
     unit go_out \<times> line list" where
  "quickstart_main home flag buildConfig newForConfig n pods rand get =
     (let kubeconfig = (if home \<noteq> '''' then flag (filepath_Join [home, ''.kube'', ''config'']) else flag '''')
      in case buildConfig kubeconfig of
           Inl _ \<Rightarrow> (Panic ''error'', [])
         | Inr config \<Rightarrow>
             (case newForConfig config of
                Inl _ \<Rightarrow> (Panic ''error'', [])
              | Inr clientset \<Rightarrow> quickstart_loop n (pods clientset) rand (get clientset)))"

section \<open>informer\<close>

fun informerDemo_handler :: "informer_event \<Rightarrow> line list go_out" where
  "informerDemo_handler (Added obj) =
     (case assert_pod obj of Panic s \<Rightarrow> Panic s | Ret p \<Rightarrow> Ret [PodAdded (pod_name p) (pod_namespace p)])"
| "informerDemo_handler (Updated oldObj newObj) =
     (case assert_pod newObj of Panic s \<Rightarrow> Panic s | Ret p \<Rightarrow> Ret [PodModified (pod_name p) (pod_namespace p)])"
| "informerDemo_handler (Deleted obj) =
     (case assert_pod obj of Panic s \<Rightarrow> Panic s | Ret p \<Rightarrow> Ret [PodDeleted (pod_name p) (pod_namespace p)])"

text \<open>The loop over successive answers of the lister: it ends at the first error.\<close>

fun informerDemo_loop :: "(go_error + pod list) list \<Rightarrow> line list \<Rightarrow> go_error option \<times> line list" where
  "informerDemo_loop [] out = (None, out)"
| "informerDemo_loop (answer # answers) out =
     (case answer of
        Inl err \<Rightarrow> (Some err, out)
      | Inr pods \<Rightarrow> informerDemo_loop answers (out @ [PodsLine (length pods)]))"

definition informerDemo_main ::
    "go_error + 'k \<Rightarrow> bool \<Rightarrow> go_error option \<Rightarrow> (go_error + pod list) list \<Rightarrow>
     unit go_out \<times> go_error option \<times> line list" where
  "informerDemo_main clientset synced handlerErr answers =
     (case clientset of
        Inl _ \<Rightarrow> (Panic ''error'', None, [])
      | Inr _ \<Rightarrow>
          if \<not> synced then (Ret (), Some ErrCacheSync, [])
          else (case handlerErr of
                  Some err \<Rightarrow> (Ret (), Some err, [])
                | None \<Rightarrow> (let (err, out) = informerDemo_loop answers [] in (Ret (), err, out))))"

section \<open>Where they end in a panic\<close>

fun delivered :: "informer_event \<Rightarrow> informer_obj" where
  "delivered (Added obj) = obj"
| "delivered (Updated _ obj) = obj"
| "delivered (Deleted obj) = obj"

lemma assert_pod_panic [simp]: "is_panic (assert_pod obj) \<longleftrightarrow> \<not> is_pod obj"
  by (cases obj) simp_all

lemma watcher_loop_eq:
  "watcher_loop evs out =
     (if list_all (\<lambda>e. is_pod (snd e)) evs then Ret () else Panic ''interface conversion'',
      out @ map (\<lambda>(t, obj). case obj of OPod p \<Rightarrow> EventLine t (pod_name p) (pod_namespace p))
        (takeWhile (\<lambda>e. is_pod (snd e)) evs))"
proof (induction evs arbitrary: out)
  case (Cons e evs)
  then show ?case by (cases e; cases "snd e") simp_all
qed simp

lemma quickstart_round_panics:
  "is_panic (fst (quickstart_round answer rand get)) \<longleftrightarrow>
     (case answer of
        Inl _ \<Rightarrow> True
      | Inr pods \<Rightarrow> pods = [] \<or>
          (let p = pods ! (rand mod length pods) in isl (get (pod_namespace p) (pod_name p))))"
  by (auto simp: quickstart_round_def Let_def split: sum.splits)

text \<open>\<open>quickstart\<close> goes on for as long as every round does.\<close>

lemma quickstart_loop_panics:
  "is_panic (fst (quickstart_loop n pods rand get)) \<longleftrightarrow>
     (\<exists>k<n. is_panic (fst (quickstart_round (pods k) (rand k) (get k))))"
  by (induction n) (auto simp: less_Suc_eq split: prod.splits go_out.splits)

text \<open>C38: Where the small programs panic. \<open>watcher\<close> prints a line for each pod and panics at the first
  event that carries no pod, as every event of an error does, with the watch stopped in any case.
  The handlers of \<open>informer\<close> panic for everything that is not a pod, so for the tombstone an informer
  hands to them when it missed a deletion. \<open>quickstart\<close> ends, with a panic, in the first round for which
  the cluster has no pods, when it asks for a random number below 0, or answers with an error.\<close>

theorem demos_panic:
  "watcher_main (Inr k) (\<lambda>_. Inr evs) =
     (if list_all (\<lambda>e. is_pod (snd e)) evs then Ret () else Panic ''interface conversion'',
      map (\<lambda>(t, obj). case obj of OPod p \<Rightarrow> EventLine t (pod_name p) (pod_namespace p))
        (takeWhile (\<lambda>e. is_pod (snd e)) evs), True) \<and>
   (is_panic (informerDemo_handler ev) \<longleftrightarrow> \<not> is_pod (delivered ev)) \<and>
   is_panic (informerDemo_handler (Deleted (OTombstone key (OPod p)))) \<and>
   (is_panic (fst (quickstart_loop n answers rand get)) \<longleftrightarrow>
      (\<exists>k<n. case answers k of
         Inl _ \<Rightarrow> True
       | Inr pods \<Rightarrow> pods = [] \<or>
           (let p = pods ! (rand k mod length pods) in isl (get k (pod_namespace p) (pod_name p)))))"
proof (intro conjI)
  show "is_panic (informerDemo_handler ev) \<longleftrightarrow> \<not> is_pod (delivered ev)"
    by (cases ev rule: informerDemo_handler.cases; cases "delivered ev") simp_all
qed (simp_all add: watcher_main_def watcher_loop_eq quickstart_loop_panics quickstart_round_panics)

end
