(* ===== verification/SampleShared.thy ===== *)
theory SampleShared
  imports FactoryRuns
begin

text \<open>
  The shared informer factory of the sample API
  (\<open>sample-controller/pkg/informers/externalversions/factory.go\<close>), generated like the Greeter's: the
  same state, one definition per option and method. Each of them is proved to be the method of the
  Greeter's factory, so what theory \<open>FactoryRuns\<close> shows of programs that use that factory holds of
  programs that use this one.
\<close>

section \<open>Making a factory\<close>

text \<open>The state has the fields of the Greeter's factory, an option changes it.\<close>

type_synonym 'c sample_shared_factory = "'c factory"

type_synonym 'c sample_factory_option = "'c sample_shared_factory \<Rightarrow> 'c sample_shared_factory"

definition sample_WithCustomResyncConfig :: "(string \<times> int) list \<Rightarrow> 'c sample_factory_option" where
  "sample_WithCustomResyncConfig resyncConfig f =
     f\<lparr>fa_customResync := range_assign (fa_customResync f) resyncConfig\<rparr>"

definition sample_WithTweakListOptions :: "tweak option \<Rightarrow> 'c sample_factory_option" where
  "sample_WithTweakListOptions tweakListOptions f = f\<lparr>fa_tweakListOptions := tweakListOptions\<rparr>"

definition sample_WithNamespace :: "string \<Rightarrow> 'c sample_factory_option" where
  "sample_WithNamespace namespace f = f\<lparr>fa_namespace := namespace\<rparr>"

definition sample_NewSharedInformerFactoryWithOptions ::
    "'c \<Rightarrow> int \<Rightarrow> 'c sample_factory_option list \<Rightarrow> 'c sample_shared_factory" where
  "sample_NewSharedInformerFactoryWithOptions client defaultResync options =
     foldl (\<lambda>f opt. opt f)
       \<lparr>fa_client = client, fa_namespace = '''', fa_tweakListOptions = None,
        fa_defaultResync = defaultResync, fa_customResync = Map.empty, fa_informers = Map.empty,
        fa_startedInformers = Map.empty, fa_wg = 0, fa_shuttingDown = False\<rparr> options"

definition sample_NewSharedInformerFactory :: "'c \<Rightarrow> int \<Rightarrow> 'c sample_shared_factory" where
  "sample_NewSharedInformerFactory client defaultResync =
     sample_NewSharedInformerFactoryWithOptions client defaultResync []"

definition sample_NewFilteredSharedInformerFactory :: "'c \<Rightarrow> int \<Rightarrow> string \<Rightarrow> tweak option \<Rightarrow> 'c sample_shared_factory" where
  "sample_NewFilteredSharedInformerFactory client defaultResync namespace tweakListOptions =
     sample_NewSharedInformerFactoryWithOptions client defaultResync
       [sample_WithNamespace namespace, sample_WithTweakListOptions tweakListOptions]"

section \<open>The methods\<close>

fun sample_start_loop :: "string list \<Rightarrow> 'c sample_shared_factory \<Rightarrow> informer list \<Rightarrow> 'c sample_shared_factory \<times> informer list" where
  "sample_start_loop [] f gos = (f, gos)"
| "sample_start_loop (t # ts) f gos =
     (case fa_informers f t of
        None \<Rightarrow> sample_start_loop ts f gos
      | Some informer \<Rightarrow>
          if fa_startedInformers f t \<noteq> Some True
          then sample_start_loop ts
            (f\<lparr>fa_wg := fa_wg f + 1, fa_startedInformers := (fa_startedInformers f)(t \<mapsto> True)\<rparr>)
            (gos @ [informer])
          else sample_start_loop ts f gos)"

definition sampleFactory_Start :: "string list \<Rightarrow> 'c sample_shared_factory \<Rightarrow> 'c sample_shared_factory \<times> informer list" where
  "sampleFactory_Start order f = (if fa_shuttingDown f then (f, []) else sample_start_loop order f [])"

definition sampleFactory_Shutdown :: "'c sample_shared_factory \<Rightarrow> 'c sample_shared_factory" where
  "sampleFactory_Shutdown f = f\<lparr>fa_shuttingDown := True\<rparr>"

definition sample_started_informers :: "'c sample_shared_factory \<Rightarrow> string \<rightharpoonup> informer" where
  "sample_started_informers f t = (if fa_startedInformers f t = Some True then fa_informers f t else None)"

definition sampleFactory_WaitForCacheSync :: "(informer \<Rightarrow> bool) \<Rightarrow> 'c sample_shared_factory \<Rightarrow> string \<rightharpoonup> bool" where
  "sampleFactory_WaitForCacheSync synced f t = map_option synced (sample_started_informers f t)"

definition sampleFactory_InformerFor ::
    "nat \<Rightarrow> string \<Rightarrow> 'c new_informer \<Rightarrow> 'c sample_shared_factory \<Rightarrow> informer \<times> 'c sample_shared_factory" where
  "sampleFactory_InformerFor fresh informerType newFunc f =
     (case fa_informers f informerType of
        Some informer \<Rightarrow> (informer, f)
      | None \<Rightarrow>
          let resyncPeriod = (case fa_customResync f informerType of
                 None \<Rightarrow> fa_defaultResync f | Some d \<Rightarrow> d);
              informer = newFunc fresh (fa_client f) resyncPeriod
          in (informer, f\<lparr>fa_informers := (fa_informers f)(informerType \<mapsto> informer)\<rparr>))"

section \<open>The two factories are one program\<close>

lemma sample_start_loop_same [simp]: "sample_start_loop order f gos = start_loop order f gos"
  by (induction order arbitrary: f gos) (simp_all add: is_started_def split: option.split)

lemma sample_factory_options [simp]:
  "sample_WithCustomResyncConfig = WithCustomResyncConfig"
  "sample_WithTweakListOptions = WithTweakListOptions"
  "sample_WithNamespace = WithNamespace"
  "sample_NewSharedInformerFactoryWithOptions = NewSharedInformerFactoryWithOptions"
  by (simp_all add: fun_eq_iff sample_WithCustomResyncConfig_def WithCustomResyncConfig_def
      sample_WithTweakListOptions_def WithTweakListOptions_def sample_WithNamespace_def WithNamespace_def
      sample_NewSharedInformerFactoryWithOptions_def NewSharedInformerFactoryWithOptions_def)

lemma sample_factory_new [simp]:
  "sample_NewSharedInformerFactory = NewSharedInformerFactory"
  "sample_NewFilteredSharedInformerFactory = NewFilteredSharedInformerFactory"
  by (simp_all add: fun_eq_iff sample_NewSharedInformerFactory_def NewSharedInformerFactory_def
      sample_NewFilteredSharedInformerFactory_def NewFilteredSharedInformerFactory_def)

lemma sample_factory_methods [simp]:
  "sampleFactory_Start = factory_Start"
  "sampleFactory_Shutdown = factory_Shutdown"
  "sampleFactory_WaitForCacheSync = factory_WaitForCacheSync"
  "sampleFactory_InformerFor = factory_InformerFor"
  by (simp_all add: fun_eq_iff sampleFactory_Start_def factory_Start_def sampleFactory_Shutdown_def
      factory_Shutdown_def sampleFactory_WaitForCacheSync_def factory_WaitForCacheSync_def
      sample_started_informers_def started_informers_def is_started_def sampleFactory_InformerFor_def
      factory_InformerFor_def)

end
