(* ===== verification/SampleLister.thy ===== *)
theory SampleLister
  imports SampleAPI
begin

text \<open>
  The generated listers of the sample API (\<open>sample-controller/pkg/listers/sample\<close>), in both versions,
  over a \<open>cache.Indexer\<close>: its reads are the fields of a record. It holds values of any type, so every
  read asserts the type. A resource of the cluster is found by its name alone, one of a namespace by
  \<open>namespace/name\<close>.
\<close>

datatype sample_obj =
    OClusterV1 clusterV1
  | ONamespacedV1 namespacedV1
  | OClusterV2 clusterV2
  | ONamespacedV2 namespacedV2
  | OUnknown string

record sample_indexer =
  sx_getByKey :: "string \<Rightarrow> go_error + sample_obj option"
  sx_listAll :: "string \<Rightarrow> sample_obj list \<times> go_error option"
  sx_listByNamespace :: "string \<Rightarrow> string \<Rightarrow> sample_obj list \<times> go_error option"

text \<open>The callback \<open>ret = append(ret, m.(T))\<close> for a type assertion to \<open>T\<close>.\<close>

fun append_asserted :: "(sample_obj \<Rightarrow> 'a go_out) \<Rightarrow> sample_obj list \<Rightarrow> 'a list \<Rightarrow> 'a list go_out" where
  "append_asserted assert [] ret = Ret ret"
| "append_asserted assert (m # ms) ret =
     (case assert m of Panic p \<Rightarrow> Panic p | Ret x \<Rightarrow> append_asserted assert ms (ret @ [x]))"

text \<open>What a lister of one type promises over a store of that type: the contract of a lookup.\<close>

locale asserted_type =
  fixes assert :: "sample_obj \<Rightarrow> 'a go_out" and inj :: "'a \<Rightarrow> sample_obj"
  assumes assert_inj: "assert (inj x) = Ret x"
    and assert_Ret: "assert m = Ret x \<Longrightarrow> m = inj x"
begin

lemma append_map: "append_asserted assert (map inj xs) ret = Ret (ret @ xs)"
  by (induction xs arbitrary: ret) (simp_all add: assert_inj)

lemma append_Ret: "append_asserted assert ms ret = Ret ys \<longleftrightarrow> (\<exists>xs. ms = map inj xs \<and> ys = ret @ xs)"
proof
  assume "append_asserted assert ms ret = Ret ys"
  then show "\<exists>xs. ms = map inj xs \<and> ys = ret @ xs"
  proof (induction ms arbitrary: ret)
    case (Cons m ms)
    then obtain x where x: "assert m = Ret x" and r: "append_asserted assert ms (ret @ [x]) = Ret ys"
      by (auto split: go_out.splits)
    from Cons.IH [OF r] obtain xs where "ms = map inj xs" "ys = (ret @ [x]) @ xs" by blast
    with assert_Ret [OF x] show ?case by (intro exI [of _ "x # xs"]) simp
  qed simp
qed (auto simp: append_map)

lemma append_outcome:
  "case append_asserted assert ms [] of Panic p \<Rightarrow> \<not> set ms \<subseteq> range inj | Ret ys \<Rightarrow> ms = map inj ys"
proof (cases "append_asserted assert ms []")
  case (Panic p)
  have "\<not> set ms \<subseteq> range inj"
  proof
    assume "set ms \<subseteq> range inj"
    then obtain xs where "ms = map inj xs" by (metis ex_map_conv image_iff subsetD)
    with Panic append_map [of xs "[]"] show False by simp
  qed
  with Panic show ?thesis by simp
next
  case (Ret ys)
  then show ?thesis by (auto simp: append_Ret append_map)
qed

end

section \<open>ClusterResource of v1alpha1\<close>

fun assert_clusterV1 :: "sample_obj \<Rightarrow> clusterV1 go_out" where
  "assert_clusterV1 (OClusterV1 x) = Ret x"
| "assert_clusterV1 _ = Panic ''interface conversion''"

interpretation clusterV1_type: asserted_type assert_clusterV1 OClusterV1
proof
  show "m = OClusterV1 x" if "assert_clusterV1 m = Ret x" for m x using that by (cases m) simp_all
qed simp

record clusterV1_lister =
  clusterV1Lister_indexer :: sample_indexer

definition NewClusterResourceV1Lister :: "sample_indexer \<Rightarrow> clusterV1_lister" where
  "NewClusterResourceV1Lister indexer = \<lparr>clusterV1Lister_indexer = indexer\<rparr>"

definition clusterV1Lister_List :: "clusterV1_lister \<Rightarrow> string \<Rightarrow> (clusterV1 list \<times> go_error option) go_out" where
  "clusterV1Lister_List s sel =
     (let (ms, err) = sx_listAll (clusterV1Lister_indexer s) sel
      in case append_asserted assert_clusterV1 ms [] of Panic p \<Rightarrow> Panic p | Ret ret \<Rightarrow> Ret (ret, err))"

definition clusterV1Lister_Get :: "kube_lib \<Rightarrow> clusterV1_lister \<Rightarrow> string \<Rightarrow> (go_error + clusterV1) go_out" where
  "clusterV1Lister_Get L s name =
     (case sx_getByKey (clusterV1Lister_indexer s) name of
        Inl err \<Rightarrow> Ret (Inl err)
      | Inr None \<Rightarrow> Ret (Inl (kl_newNotFound L (sampleV1_Resource ''clusterresource'') name))
      | Inr (Some obj) \<Rightarrow>
          (case assert_clusterV1 obj of Panic p \<Rightarrow> Panic p | Ret x \<Rightarrow> Ret (Inr x)))"

section \<open>NamespacedResource of v1alpha1\<close>

fun assert_namespacedV1 :: "sample_obj \<Rightarrow> namespacedV1 go_out" where
  "assert_namespacedV1 (ONamespacedV1 x) = Ret x"
| "assert_namespacedV1 _ = Panic ''interface conversion''"

interpretation namespacedV1_type: asserted_type assert_namespacedV1 ONamespacedV1
proof
  show "m = ONamespacedV1 x" if "assert_namespacedV1 m = Ret x" for m x using that by (cases m) simp_all
qed simp

record namespacedV1_lister =
  namespacedV1Lister_indexer :: sample_indexer

definition NewNamespacedResourceV1Lister :: "sample_indexer \<Rightarrow> namespacedV1_lister" where
  "NewNamespacedResourceV1Lister indexer = \<lparr>namespacedV1Lister_indexer = indexer\<rparr>"

definition namespacedV1Lister_List :: "namespacedV1_lister \<Rightarrow> string \<Rightarrow> (namespacedV1 list \<times> go_error option) go_out" where
  "namespacedV1Lister_List s sel =
     (let (ms, err) = sx_listAll (namespacedV1Lister_indexer s) sel
      in case append_asserted assert_namespacedV1 ms [] of Panic p \<Rightarrow> Panic p | Ret ret \<Rightarrow> Ret (ret, err))"

record namespacedV1_namespace_lister =
  namespacedV1NamespaceLister_indexer :: sample_indexer
  namespacedV1NamespaceLister_namespace :: string

definition namespacedV1Lister_NamespacedResources :: "namespacedV1_lister \<Rightarrow> string \<Rightarrow> namespacedV1_namespace_lister" where
  "namespacedV1Lister_NamespacedResources s namespace =
     \<lparr>namespacedV1NamespaceLister_indexer = namespacedV1Lister_indexer s, namespacedV1NamespaceLister_namespace = namespace\<rparr>"

definition namespacedV1NamespaceLister_List ::
    "namespacedV1_namespace_lister \<Rightarrow> string \<Rightarrow> (namespacedV1 list \<times> go_error option) go_out" where
  "namespacedV1NamespaceLister_List s sel =
     (let (ms, err) = sx_listByNamespace (namespacedV1NamespaceLister_indexer s) (namespacedV1NamespaceLister_namespace s) sel
      in case append_asserted assert_namespacedV1 ms [] of Panic p \<Rightarrow> Panic p | Ret ret \<Rightarrow> Ret (ret, err))"

definition namespacedV1NamespaceLister_Get ::
    "kube_lib \<Rightarrow> namespacedV1_namespace_lister \<Rightarrow> string \<Rightarrow> (go_error + namespacedV1) go_out" where
  "namespacedV1NamespaceLister_Get L s name =
     (case sx_getByKey (namespacedV1NamespaceLister_indexer s) (namespacedV1NamespaceLister_namespace s @ ''/'' @ name) of
        Inl err \<Rightarrow> Ret (Inl err)
      | Inr None \<Rightarrow> Ret (Inl (kl_newNotFound L (sampleV1_Resource ''namespacedresource'') name))
      | Inr (Some obj) \<Rightarrow>
          (case assert_namespacedV1 obj of Panic p \<Rightarrow> Panic p | Ret x \<Rightarrow> Ret (Inr x)))"

section \<open>ClusterResource of v1alpha2\<close>

fun assert_clusterV2 :: "sample_obj \<Rightarrow> clusterV2 go_out" where
  "assert_clusterV2 (OClusterV2 x) = Ret x"
| "assert_clusterV2 _ = Panic ''interface conversion''"

interpretation clusterV2_type: asserted_type assert_clusterV2 OClusterV2
proof
  show "m = OClusterV2 x" if "assert_clusterV2 m = Ret x" for m x using that by (cases m) simp_all
qed simp

record clusterV2_lister =
  clusterV2Lister_indexer :: sample_indexer

definition NewClusterResourceV2Lister :: "sample_indexer \<Rightarrow> clusterV2_lister" where
  "NewClusterResourceV2Lister indexer = \<lparr>clusterV2Lister_indexer = indexer\<rparr>"

definition clusterV2Lister_List :: "clusterV2_lister \<Rightarrow> string \<Rightarrow> (clusterV2 list \<times> go_error option) go_out" where
  "clusterV2Lister_List s sel =
     (let (ms, err) = sx_listAll (clusterV2Lister_indexer s) sel
      in case append_asserted assert_clusterV2 ms [] of Panic p \<Rightarrow> Panic p | Ret ret \<Rightarrow> Ret (ret, err))"

definition clusterV2Lister_Get :: "kube_lib \<Rightarrow> clusterV2_lister \<Rightarrow> string \<Rightarrow> (go_error + clusterV2) go_out" where
  "clusterV2Lister_Get L s name =
     (case sx_getByKey (clusterV2Lister_indexer s) name of
        Inl err \<Rightarrow> Ret (Inl err)
      | Inr None \<Rightarrow> Ret (Inl (kl_newNotFound L (sampleV2_Resource ''clusterresource'') name))
      | Inr (Some obj) \<Rightarrow>
          (case assert_clusterV2 obj of Panic p \<Rightarrow> Panic p | Ret x \<Rightarrow> Ret (Inr x)))"

section \<open>NamespacedResource of v1alpha2\<close>

fun assert_namespacedV2 :: "sample_obj \<Rightarrow> namespacedV2 go_out" where
  "assert_namespacedV2 (ONamespacedV2 x) = Ret x"
| "assert_namespacedV2 _ = Panic ''interface conversion''"

interpretation namespacedV2_type: asserted_type assert_namespacedV2 ONamespacedV2
proof
  show "m = ONamespacedV2 x" if "assert_namespacedV2 m = Ret x" for m x using that by (cases m) simp_all
qed simp

record namespacedV2_lister =
  namespacedV2Lister_indexer :: sample_indexer

definition NewNamespacedResourceV2Lister :: "sample_indexer \<Rightarrow> namespacedV2_lister" where
  "NewNamespacedResourceV2Lister indexer = \<lparr>namespacedV2Lister_indexer = indexer\<rparr>"

definition namespacedV2Lister_List :: "namespacedV2_lister \<Rightarrow> string \<Rightarrow> (namespacedV2 list \<times> go_error option) go_out" where
  "namespacedV2Lister_List s sel =
     (let (ms, err) = sx_listAll (namespacedV2Lister_indexer s) sel
      in case append_asserted assert_namespacedV2 ms [] of Panic p \<Rightarrow> Panic p | Ret ret \<Rightarrow> Ret (ret, err))"

record namespacedV2_namespace_lister =
  namespacedV2NamespaceLister_indexer :: sample_indexer
  namespacedV2NamespaceLister_namespace :: string

definition namespacedV2Lister_NamespacedResources :: "namespacedV2_lister \<Rightarrow> string \<Rightarrow> namespacedV2_namespace_lister" where
  "namespacedV2Lister_NamespacedResources s namespace =
     \<lparr>namespacedV2NamespaceLister_indexer = namespacedV2Lister_indexer s, namespacedV2NamespaceLister_namespace = namespace\<rparr>"

definition namespacedV2NamespaceLister_List ::
    "namespacedV2_namespace_lister \<Rightarrow> string \<Rightarrow> (namespacedV2 list \<times> go_error option) go_out" where
  "namespacedV2NamespaceLister_List s sel =
     (let (ms, err) = sx_listByNamespace (namespacedV2NamespaceLister_indexer s) (namespacedV2NamespaceLister_namespace s) sel
      in case append_asserted assert_namespacedV2 ms [] of Panic p \<Rightarrow> Panic p | Ret ret \<Rightarrow> Ret (ret, err))"

definition namespacedV2NamespaceLister_Get ::
    "kube_lib \<Rightarrow> namespacedV2_namespace_lister \<Rightarrow> string \<Rightarrow> (go_error + namespacedV2) go_out" where
  "namespacedV2NamespaceLister_Get L s name =
     (case sx_getByKey (namespacedV2NamespaceLister_indexer s) (namespacedV2NamespaceLister_namespace s @ ''/'' @ name) of
        Inl err \<Rightarrow> Ret (Inl err)
      | Inr None \<Rightarrow> Ret (Inl (kl_newNotFound L (sampleV2_Resource ''namespacedresource'') name))
      | Inr (Some obj) \<Rightarrow>
          (case assert_namespacedV2 obj of Panic p \<Rightarrow> Panic p | Ret x \<Rightarrow> Ret (Inr x)))"

end
