(* ===== verification/SampleFactory.thy ===== *)
theory SampleFactory
  imports SampleShared SampleLister
begin

text \<open>
  The informers of the sample API (\<open>sample-controller/pkg/informers/externalversions\<close>) on the shared
  informer factory of theory \<open>SampleShared\<close>: the access by group, version and resource, and the
  generic access by \<open>ForResource\<close>. The informer of a resource of the cluster takes no namespace:
  it ignores the one the factory is restricted to.
\<close>

section \<open>The group\<close>

record sample_group =
  sga_namespace :: string
  sga_tweak :: "tweak option"

record sampleV1_version =
  sv1_namespace :: string
  sv1_tweak :: "tweak option"

record sampleV2_version =
  sv2_namespace :: string
  sv2_tweak :: "tweak option"

definition new_sample_group :: "string \<Rightarrow> tweak option \<Rightarrow> sample_group" where
  "new_sample_group namespace tweakListOptions = \<lparr>sga_namespace = namespace, sga_tweak = tweakListOptions\<rparr>"

definition factory_Sample :: "'c factory \<Rightarrow> sample_group" where
  "factory_Sample f = new_sample_group (fa_namespace f) (fa_tweakListOptions f)"

definition new_sampleV1_version :: "string \<Rightarrow> tweak option \<Rightarrow> sampleV1_version" where
  "new_sampleV1_version namespace tweakListOptions = \<lparr>sv1_namespace = namespace, sv1_tweak = tweakListOptions\<rparr>"

definition sampleGroup_V1alpha1 :: "sample_group \<Rightarrow> sampleV1_version" where
  "sampleGroup_V1alpha1 g = new_sampleV1_version (sga_namespace g) (sga_tweak g)"

definition new_sampleV2_version :: "string \<Rightarrow> tweak option \<Rightarrow> sampleV2_version" where
  "new_sampleV2_version namespace tweakListOptions = \<lparr>sv2_namespace = namespace, sv2_tweak = tweakListOptions\<rparr>"

definition sampleGroup_V1alpha2 :: "sample_group \<Rightarrow> sampleV2_version" where
  "sampleGroup_V1alpha2 g = new_sampleV2_version (sga_namespace g) (sga_tweak g)"

section \<open>ClusterResource of v1alpha1\<close>

record clusterV1_informer =
  ci1_tweak :: "tweak option"

definition versionV1_ClusterResources :: "sampleV1_version \<Rightarrow> clusterV1_informer" where
  "versionV1_ClusterResources v = \<lparr>ci1_tweak = sv1_tweak v\<rparr>"

definition NewFilteredClusterResourceV1Informer :: "nat \<Rightarrow> int \<Rightarrow> tweak option \<Rightarrow> informer" where
  "NewFilteredClusterResourceV1Informer fresh resyncPeriod tweakListOptions =
     \<lparr>inf_id = fresh, inf_type = ''*v1alpha1.ClusterResource'', inf_namespace = '''',
      inf_resync = resyncPeriod, inf_tweak = tweakListOptions\<rparr>"

definition NewClusterResourceV1Informer :: "nat \<Rightarrow> int \<Rightarrow> informer" where
  "NewClusterResourceV1Informer fresh resyncPeriod = NewFilteredClusterResourceV1Informer fresh resyncPeriod None"

definition clusterV1Informer_defaultInformer :: "clusterV1_informer \<Rightarrow> 'c new_informer" where
  "clusterV1Informer_defaultInformer ri fresh client resyncPeriod =
     NewFilteredClusterResourceV1Informer fresh resyncPeriod (ci1_tweak ri)"

definition clusterV1Informer_Informer :: "nat \<Rightarrow> clusterV1_informer \<Rightarrow> 'c factory \<Rightarrow> informer \<times> 'c factory" where
  "clusterV1Informer_Informer fresh ri f =
     sampleFactory_InformerFor fresh ''*v1alpha1.ClusterResource'' (clusterV1Informer_defaultInformer ri) f"

text \<open>A lister reads the indexer of the shared informer.\<close>

definition clusterV1Informer_Lister ::
    "(informer \<Rightarrow> sample_indexer) \<Rightarrow> nat \<Rightarrow> clusterV1_informer \<Rightarrow> 'c factory \<Rightarrow> clusterV1_lister \<times> 'c factory" where
  "clusterV1Informer_Lister getIndexer fresh ri f =
     (let (i, f) = clusterV1Informer_Informer fresh ri f in (NewClusterResourceV1Lister (getIndexer i), f))"

section \<open>NamespacedResource of v1alpha1\<close>

record namespacedV1_informer =
  ni1_namespace :: string
  ni1_tweak :: "tweak option"

definition versionV1_NamespacedResources :: "sampleV1_version \<Rightarrow> namespacedV1_informer" where
  "versionV1_NamespacedResources v = \<lparr>ni1_namespace = sv1_namespace v, ni1_tweak = sv1_tweak v\<rparr>"

definition NewFilteredNamespacedResourceV1Informer :: "nat \<Rightarrow> string \<Rightarrow> int \<Rightarrow> tweak option \<Rightarrow> informer" where
  "NewFilteredNamespacedResourceV1Informer fresh namespace resyncPeriod tweakListOptions =
     \<lparr>inf_id = fresh, inf_type = ''*v1alpha1.NamespacedResource'', inf_namespace = namespace,
      inf_resync = resyncPeriod, inf_tweak = tweakListOptions\<rparr>"

definition NewNamespacedResourceV1Informer :: "nat \<Rightarrow> string \<Rightarrow> int \<Rightarrow> informer" where
  "NewNamespacedResourceV1Informer fresh namespace resyncPeriod = NewFilteredNamespacedResourceV1Informer fresh namespace resyncPeriod None"

definition namespacedV1Informer_defaultInformer :: "namespacedV1_informer \<Rightarrow> 'c new_informer" where
  "namespacedV1Informer_defaultInformer ri fresh client resyncPeriod =
     NewFilteredNamespacedResourceV1Informer fresh (ni1_namespace ri) resyncPeriod (ni1_tweak ri)"

definition namespacedV1Informer_Informer :: "nat \<Rightarrow> namespacedV1_informer \<Rightarrow> 'c factory \<Rightarrow> informer \<times> 'c factory" where
  "namespacedV1Informer_Informer fresh ri f =
     sampleFactory_InformerFor fresh ''*v1alpha1.NamespacedResource'' (namespacedV1Informer_defaultInformer ri) f"

text \<open>A lister reads the indexer of the shared informer.\<close>

definition namespacedV1Informer_Lister ::
    "(informer \<Rightarrow> sample_indexer) \<Rightarrow> nat \<Rightarrow> namespacedV1_informer \<Rightarrow> 'c factory \<Rightarrow> namespacedV1_lister \<times> 'c factory" where
  "namespacedV1Informer_Lister getIndexer fresh ri f =
     (let (i, f) = namespacedV1Informer_Informer fresh ri f in (NewNamespacedResourceV1Lister (getIndexer i), f))"

section \<open>ClusterResource of v1alpha2\<close>

record clusterV2_informer =
  ci2_tweak :: "tweak option"

definition versionV2_ClusterResources :: "sampleV2_version \<Rightarrow> clusterV2_informer" where
  "versionV2_ClusterResources v = \<lparr>ci2_tweak = sv2_tweak v\<rparr>"

definition NewFilteredClusterResourceV2Informer :: "nat \<Rightarrow> int \<Rightarrow> tweak option \<Rightarrow> informer" where
  "NewFilteredClusterResourceV2Informer fresh resyncPeriod tweakListOptions =
     \<lparr>inf_id = fresh, inf_type = ''*v1alpha2.ClusterResource'', inf_namespace = '''',
      inf_resync = resyncPeriod, inf_tweak = tweakListOptions\<rparr>"

definition NewClusterResourceV2Informer :: "nat \<Rightarrow> int \<Rightarrow> informer" where
  "NewClusterResourceV2Informer fresh resyncPeriod = NewFilteredClusterResourceV2Informer fresh resyncPeriod None"

definition clusterV2Informer_defaultInformer :: "clusterV2_informer \<Rightarrow> 'c new_informer" where
  "clusterV2Informer_defaultInformer ri fresh client resyncPeriod =
     NewFilteredClusterResourceV2Informer fresh resyncPeriod (ci2_tweak ri)"

definition clusterV2Informer_Informer :: "nat \<Rightarrow> clusterV2_informer \<Rightarrow> 'c factory \<Rightarrow> informer \<times> 'c factory" where
  "clusterV2Informer_Informer fresh ri f =
     sampleFactory_InformerFor fresh ''*v1alpha2.ClusterResource'' (clusterV2Informer_defaultInformer ri) f"

text \<open>A lister reads the indexer of the shared informer.\<close>

definition clusterV2Informer_Lister ::
    "(informer \<Rightarrow> sample_indexer) \<Rightarrow> nat \<Rightarrow> clusterV2_informer \<Rightarrow> 'c factory \<Rightarrow> clusterV2_lister \<times> 'c factory" where
  "clusterV2Informer_Lister getIndexer fresh ri f =
     (let (i, f) = clusterV2Informer_Informer fresh ri f in (NewClusterResourceV2Lister (getIndexer i), f))"

section \<open>NamespacedResource of v1alpha2\<close>

record namespacedV2_informer =
  ni2_namespace :: string
  ni2_tweak :: "tweak option"

definition versionV2_NamespacedResources :: "sampleV2_version \<Rightarrow> namespacedV2_informer" where
  "versionV2_NamespacedResources v = \<lparr>ni2_namespace = sv2_namespace v, ni2_tweak = sv2_tweak v\<rparr>"

definition NewFilteredNamespacedResourceV2Informer :: "nat \<Rightarrow> string \<Rightarrow> int \<Rightarrow> tweak option \<Rightarrow> informer" where
  "NewFilteredNamespacedResourceV2Informer fresh namespace resyncPeriod tweakListOptions =
     \<lparr>inf_id = fresh, inf_type = ''*v1alpha2.NamespacedResource'', inf_namespace = namespace,
      inf_resync = resyncPeriod, inf_tweak = tweakListOptions\<rparr>"

definition NewNamespacedResourceV2Informer :: "nat \<Rightarrow> string \<Rightarrow> int \<Rightarrow> informer" where
  "NewNamespacedResourceV2Informer fresh namespace resyncPeriod = NewFilteredNamespacedResourceV2Informer fresh namespace resyncPeriod None"

definition namespacedV2Informer_defaultInformer :: "namespacedV2_informer \<Rightarrow> 'c new_informer" where
  "namespacedV2Informer_defaultInformer ri fresh client resyncPeriod =
     NewFilteredNamespacedResourceV2Informer fresh (ni2_namespace ri) resyncPeriod (ni2_tweak ri)"

definition namespacedV2Informer_Informer :: "nat \<Rightarrow> namespacedV2_informer \<Rightarrow> 'c factory \<Rightarrow> informer \<times> 'c factory" where
  "namespacedV2Informer_Informer fresh ri f =
     sampleFactory_InformerFor fresh ''*v1alpha2.NamespacedResource'' (namespacedV2Informer_defaultInformer ri) f"

text \<open>A lister reads the indexer of the shared informer.\<close>

definition namespacedV2Informer_Lister ::
    "(informer \<Rightarrow> sample_indexer) \<Rightarrow> nat \<Rightarrow> namespacedV2_informer \<Rightarrow> 'c factory \<Rightarrow> namespacedV2_lister \<times> 'c factory" where
  "namespacedV2Informer_Lister getIndexer fresh ri f =
     (let (i, f) = namespacedV2Informer_Informer fresh ri f in (NewNamespacedResourceV2Lister (getIndexer i), f))"

section \<open>Generic access\<close>

definition sampleGeneric_Informer :: "generic_informer \<Rightarrow> informer" where
  "sampleGeneric_Informer g = gen_informer g"

definition sampleGeneric_Lister ::
    "('ix \<Rightarrow> string \<times> string \<Rightarrow> 'l) \<Rightarrow> (informer \<Rightarrow> 'ix) \<Rightarrow> generic_informer \<Rightarrow> 'l" where
  "sampleGeneric_Lister newGenericLister getIndexer g =
     newGenericLister (getIndexer (sampleGeneric_Informer g)) (gen_resource g)"

definition sampleFactory_ForResource :: "nat \<Rightarrow> gvr \<Rightarrow> 'c factory \<Rightarrow> (go_error + generic_informer) \<times> 'c factory" where
  "sampleFactory_ForResource fresh resource f =
     (if resource = (sampleV1_SchemeGroupVersion, ''clusterresources'')
      then let (i, f) = clusterV1Informer_Informer fresh (versionV1_ClusterResources (sampleGroup_V1alpha1 (factory_Sample f))) f
           in (Inr \<lparr>gen_informer = i, gen_resource = (fst (fst resource), snd resource)\<rparr>, f)
      else if resource = (sampleV1_SchemeGroupVersion, ''namespacedresources'')
      then let (i, f) = namespacedV1Informer_Informer fresh (versionV1_NamespacedResources (sampleGroup_V1alpha1 (factory_Sample f))) f
           in (Inr \<lparr>gen_informer = i, gen_resource = (fst (fst resource), snd resource)\<rparr>, f)
      else if resource = (sampleV2_SchemeGroupVersion, ''clusterresources'')
      then let (i, f) = clusterV2Informer_Informer fresh (versionV2_ClusterResources (sampleGroup_V1alpha2 (factory_Sample f))) f
           in (Inr \<lparr>gen_informer = i, gen_resource = (fst (fst resource), snd resource)\<rparr>, f)
      else if resource = (sampleV2_SchemeGroupVersion, ''namespacedresources'')
      then let (i, f) = namespacedV2Informer_Informer fresh (versionV2_NamespacedResources (sampleGroup_V1alpha2 (factory_Sample f))) f
           in (Inr \<lparr>gen_informer = i, gen_resource = (fst (fst resource), snd resource)\<rparr>, f)
      else (Inl ErrNoInformer, f))"

section \<open>What the accesses share\<close>

text \<open>The type an informer of a resource is filed under.\<close>

definition resource_types :: "(gvr \<times> string) list" where
  "resource_types =
     [((sampleV1_SchemeGroupVersion, ''clusterresources''), ''*v1alpha1.ClusterResource''),
      ((sampleV1_SchemeGroupVersion, ''namespacedresources''), ''*v1alpha1.NamespacedResource''),
      ((sampleV2_SchemeGroupVersion, ''clusterresources''), ''*v1alpha2.ClusterResource''),
      ((sampleV2_SchemeGroupVersion, ''namespacedresources''), ''*v1alpha2.NamespacedResource'')]"

text \<open>The informer a type has after it was asked for: the one that is there, or a new one.\<close>

definition shared_or_new :: "'c factory \<Rightarrow> nat \<Rightarrow> string \<Rightarrow> string \<Rightarrow> informer" where
  "shared_or_new f fresh t ns =
     (case fa_informers f t of
        Some i \<Rightarrow> i
      | None \<Rightarrow> \<lparr>inf_id = fresh, inf_type = t, inf_namespace = ns,
          inf_resync = (case fa_customResync f t of None \<Rightarrow> fa_defaultResync f | Some d \<Rightarrow> d),
          inf_tweak = fa_tweakListOptions f\<rparr>)"

definition filed :: "'c factory \<Rightarrow> string \<Rightarrow> informer \<Rightarrow> 'c factory" where
  "filed f t i = (case fa_informers f t of Some _ \<Rightarrow> f | None \<Rightarrow> f\<lparr>fa_informers := (fa_informers f)(t \<mapsto> i)\<rparr>)"

lemma filed_simps [simp]:
  "fa_informers (filed f t i) = (fa_informers f)(t \<mapsto> (case fa_informers f t of None \<Rightarrow> i | Some j \<Rightarrow> j))"
  "fa_namespace (filed f t i) = fa_namespace f" "fa_tweakListOptions (filed f t i) = fa_tweakListOptions f"
  "fa_customResync (filed f t i) = fa_customResync f" "fa_defaultResync (filed f t i) = fa_defaultResync f"
  "fa_startedInformers (filed f t i) = fa_startedInformers f" "fa_shuttingDown (filed f t i) = fa_shuttingDown f"
  "fa_wg (filed f t i) = fa_wg f" "fa_client (filed f t i) = fa_client f"
  by (auto simp: filed_def fun_eq_iff split: option.splits)

text \<open>Each resource through its typed access: its type, and the namespace of the factory for the two
  resources of a namespace.\<close>

lemma typed_access:
  "clusterV1Informer_Informer n (versionV1_ClusterResources (sampleGroup_V1alpha1 (factory_Sample f))) f =
     (let i = shared_or_new f n ''*v1alpha1.ClusterResource'' '''' in (i, filed f ''*v1alpha1.ClusterResource'' i))"
  "namespacedV1Informer_Informer n (versionV1_NamespacedResources (sampleGroup_V1alpha1 (factory_Sample f))) f =
     (let i = shared_or_new f n ''*v1alpha1.NamespacedResource'' (fa_namespace f)
      in (i, filed f ''*v1alpha1.NamespacedResource'' i))"
  "clusterV2Informer_Informer n (versionV2_ClusterResources (sampleGroup_V1alpha2 (factory_Sample f))) f =
     (let i = shared_or_new f n ''*v1alpha2.ClusterResource'' '''' in (i, filed f ''*v1alpha2.ClusterResource'' i))"
  "namespacedV2Informer_Informer n (versionV2_NamespacedResources (sampleGroup_V1alpha2 (factory_Sample f))) f =
     (let i = shared_or_new f n ''*v1alpha2.NamespacedResource'' (fa_namespace f)
      in (i, filed f ''*v1alpha2.NamespacedResource'' i))"
  unfolding clusterV1Informer_Informer_def namespacedV1Informer_Informer_def clusterV2Informer_Informer_def
    namespacedV2Informer_Informer_def sampleFactory_InformerFor_def shared_or_new_def filed_def
  by (auto simp: clusterV1Informer_defaultInformer_def namespacedV1Informer_defaultInformer_def
      clusterV2Informer_defaultInformer_def namespacedV2Informer_defaultInformer_def
      NewFilteredClusterResourceV1Informer_def NewFilteredNamespacedResourceV1Informer_def
      NewFilteredClusterResourceV2Informer_def NewFilteredNamespacedResourceV2Informer_def
      versionV1_ClusterResources_def versionV1_NamespacedResources_def versionV2_ClusterResources_def
      versionV2_NamespacedResources_def sampleGroup_V1alpha1_def sampleGroup_V1alpha2_def
      new_sampleV1_version_def new_sampleV2_version_def factory_Sample_def new_sample_group_def
      Let_def split: option.splits)

text \<open>The generic access knows exactly the four resources and files the informer under the same type.\<close>

lemma ForResource_eq:
  "sampleFactory_ForResource n r f =
     (case map_of resource_types r of
        None \<Rightarrow> (Inl ErrNoInformer, f)
      | Some t \<Rightarrow>
          let i = shared_or_new f n t (if snd r = ''clusterresources'' then '''' else fa_namespace f)
          in (Inr \<lparr>gen_informer = i, gen_resource = (fst (fst r), snd r)\<rparr>, filed f t i))"
proof -
  have v: "sampleV1_SchemeGroupVersion \<noteq> sampleV2_SchemeGroupVersion"
    by (simp add: sampleV1_consts sampleV2_consts)
  consider "r = (sampleV1_SchemeGroupVersion, ''clusterresources'')"
    | "r = (sampleV1_SchemeGroupVersion, ''namespacedresources'')"
    | "r = (sampleV2_SchemeGroupVersion, ''clusterresources'')"
    | "r = (sampleV2_SchemeGroupVersion, ''namespacedresources'')"
    | "r \<notin> fst ` set resource_types"
    by (auto simp: resource_types_def)
  then show ?thesis
  proof cases
    case 5
    then have "map_of resource_types r = None" by (simp add: map_of_eq_None_iff)
    with 5 show ?thesis by (auto simp: sampleFactory_ForResource_def resource_types_def)
  qed (use v v [symmetric] in \<open>simp_all add: sampleFactory_ForResource_def resource_types_def typed_access Let_def\<close>)
qed

lemma shared_after: "shared_or_new (filed f t (shared_or_new f n t ns)) m t ns' = shared_or_new f n t ns"
  "filed (filed f t i) t j = filed f t i"
  by (auto simp: shared_or_new_def filed_def split: option.splits)

end
