(* ===== verification/SampleRun.thy ===== *)
theory SampleRun
  imports SampleFactory ClientSet Demos
begin

text \<open>
  The program \<open>sample-controller/cmd/sample_controller/main.go\<close>: it makes a clientset and an informer
  factory, asks for two informers of different versions, starts them, and prints how many resources
  their caches hold.
\<close>

section \<open>main\<close>

datatype sample_line = ClusterResourceCount nat | NamespacedResourceCount nat

text \<open>What the program asks its surroundings for. \<open>sm_synced\<close> is the answer of \<open>cache.WaitForCacheSync\<close>,
  \<open>sm_getIndexer\<close> the indexer of an informer once it has synced.\<close>

record ('h, 'rc, 'd, 'lim) sample_env =
  sm_inCluster :: "go_error + 'lim rest_config"
  sm_home :: string
  sm_flag :: "string \<Rightarrow> string"
  sm_buildConfig :: "string \<Rightarrow> go_error + 'lim rest_config"
  sm_lib :: "('h, 'rc, 'd, 'lim) net_lib"
  sm_synced :: "informer list \<Rightarrow> bool"
  sm_getIndexer :: "informer \<Rightarrow> sample_indexer"
  sm_everything :: string

text \<open>How the program ended, the errors it gave to \<open>HandleError\<close>, what it printed, and the informers
  that run.\<close>

type_synonym sample_end = "unit go_out \<times> go_error list \<times> sample_line list \<times> informer list"

definition sample_lists :: "string \<Rightarrow> clusterV1_lister \<Rightarrow> namespacedV2_lister \<Rightarrow> informer list \<Rightarrow> sample_end" where
  "sample_lists everything clusterResourceLister namespacedResourceLister gos =
     (case clusterV1Lister_List clusterResourceLister everything of
        Panic p \<Rightarrow> (Panic p, [], [], gos)
      | Ret (crs, Some err) \<Rightarrow> (Ret (), [err], [], gos)
      | Ret (crs, None) \<Rightarrow>
     (let out = [ClusterResourceCount (length crs)]
      in case namespacedV2Lister_List namespacedResourceLister everything of
           Panic p \<Rightarrow> (Panic p, [], out, gos)
         | Ret (nrs, Some err) \<Rightarrow> (Ret (), [err], out, gos)
         | Ret (nrs, None) \<Rightarrow> (Ret (), [], out @ [NamespacedResourceCount (length nrs)], gos)))"

definition sample_main :: "('h, 'rc, 'd, 'lim) sample_env \<Rightarrow> string list \<Rightarrow> sample_end" where
  "sample_main E order =
     (case LoadConfig (sm_inCluster E) (sm_home E) (sm_flag E) (sm_buildConfig E) of
        Inl _ \<Rightarrow> (Panic ''error'', [], [], [])
      | Inr config \<Rightarrow>
     (case sampleSet_NewForConfig (sm_lib E) config of
        Inl _ \<Rightarrow> (Panic ''error'', [], [], [])
      | Inr clientset \<Rightarrow>
          let f = sample_NewSharedInformerFactory clientset (60 * Second);
              (clusterResourceLister, f) = clusterV1Informer_Lister (sm_getIndexer E) 0
                (versionV1_ClusterResources (sampleGroup_V1alpha1 (factory_Sample f))) f;
              (clusterResourceInformer, f) = clusterV1Informer_Informer 1
                (versionV1_ClusterResources (sampleGroup_V1alpha1 (factory_Sample f))) f;
              (namespacedResourceLister, f) = namespacedV2Informer_Lister (sm_getIndexer E) 2
                (versionV2_NamespacedResources (sampleGroup_V1alpha2 (factory_Sample f))) f;
              (namespacedResourceInformer, f) = namespacedV2Informer_Informer 3
                (versionV2_NamespacedResources (sampleGroup_V1alpha2 (factory_Sample f))) f;
              (f, gos) = sampleFactory_Start order f
          in if \<not> sm_synced E [clusterResourceInformer, namespacedResourceInformer]
             then (Ret (), [ErrCacheSync], [], gos)
             else sample_lists (sm_everything E) clusterResourceLister namespacedResourceLister gos))"

section \<open>What it starts and prints\<close>

text \<open>The two informers the program works with: all namespaces, a resync every minute.\<close>

definition cluster_informer :: informer where
  "cluster_informer = \<lparr>inf_id = 0, inf_type = ''*v1alpha1.ClusterResource'', inf_namespace = '''',
     inf_resync = 60 * Second, inf_tweak = None\<rparr>"

definition namespaced_informer :: informer where
  "namespaced_informer = \<lparr>inf_id = 2, inf_type = ''*v1alpha2.NamespacedResource'', inf_namespace = '''',
     inf_resync = 60 * Second, inf_tweak = None\<rparr>"

definition sample_factory :: "'c \<Rightarrow> 'c factory" where
  "sample_factory c = (NewSharedInformerFactory c (60 * Second))\<lparr>fa_informers :=
     [''*v1alpha1.ClusterResource'' \<mapsto> cluster_informer, ''*v1alpha2.NamespacedResource'' \<mapsto> namespaced_informer]\<rparr>"

text \<open>The factory is asked four times and makes two informers; the lister of a resource reads the cache
  of the very informer that is started and waited for.\<close>

lemma sample_main_eq:
  assumes "LoadConfig (sm_inCluster E) (sm_home E) (sm_flag E) (sm_buildConfig E) = Inr config"
    and "sampleSet_NewForConfig (sm_lib E) config = Inr cs"
  shows "sample_main E order =
    (let gos = snd (factory_Start order (sample_factory cs))
     in if \<not> sm_synced E [cluster_informer, namespaced_informer] then (Ret (), [ErrCacheSync], [], gos)
        else sample_lists (sm_everything E) (NewClusterResourceV1Lister (sm_getIndexer E cluster_informer))
          (NewNamespacedResourceV2Lister (sm_getIndexer E namespaced_informer)) gos)"
proof -
  let ?f = "NewSharedInformerFactory cs (60 * Second)"
  let ?c = "''*v1alpha1.ClusterResource''" and ?n = "''*v1alpha2.NamespacedResource''"
  have c: "shared_or_new ?f 0 ?c '''' = cluster_informer"
    by (simp add: shared_or_new_def cluster_informer_def NewSharedInformerFactory_def NewSharedInformerFactoryWithOptions_def)
  let ?g = "filed ?f ?c cluster_informer"
  have c': "shared_or_new ?g m ?c ns = cluster_informer" "filed ?g ?c j = ?g" for m ns j
    using shared_after(1) [of ?f ?c 0 "''''"] shared_after(2) unfolding c by auto
  have ns: "fa_namespace ?f = ''''"
    by (simp add: NewSharedInformerFactory_def NewSharedInformerFactoryWithOptions_def)
  have n: "shared_or_new ?g 2 ?n '''' = namespaced_informer"
    by (simp add: shared_or_new_def namespaced_informer_def NewSharedInformerFactory_def
        NewSharedInformerFactoryWithOptions_def)
  let ?h = "filed ?g ?n namespaced_informer"
  have n': "shared_or_new ?h m ?n ns' = namespaced_informer" "filed ?h ?n j = ?h" for m ns' j
    using shared_after(1) [of ?g ?n 2 "''''"] shared_after(2) unfolding n by auto
  have h: "?h = sample_factory cs"
    by (simp add: filed_def sample_factory_def NewSharedInformerFactory_def NewSharedInformerFactoryWithOptions_def)
  show ?thesis
    using assms
    by (simp add: sample_main_def clusterV1Informer_Lister_def namespacedV2Informer_Lister_def typed_access
        c c' ns n n' [unfolded h] h Let_def split: prod.splits)
qed

text \<open>\<open>factory_Start\<close> starts both of them, once.\<close>

lemma both_started:
  assumes "distinct order" and "set order = {''*v1alpha1.ClusterResource'', ''*v1alpha2.NamespacedResource''}"
  shows "mset (snd (factory_Start order (sample_factory c))) = {#cluster_informer, namespaced_informer#}"
proof -
  let ?f = "sample_factory c"
  have all: "filter (\<lambda>t. fa_informers ?f t \<noteq> None \<and> \<not> is_started ?f t) order = order"
    using assms(2) by (intro filter_True)
      (auto simp: sample_factory_def is_started_def NewSharedInformerFactory_def NewSharedInformerFactoryWithOptions_def)
  have "mset order = {#''*v1alpha1.ClusterResource'', ''*v1alpha2.NamespacedResource''#}"
    using assms set_eq_iff_mset_eq_distinct [of order "[''*v1alpha1.ClusterResource'', ''*v1alpha2.NamespacedResource'']"]
    by simp
  then have "mset (map (\<lambda>t. the (fa_informers ?f t)) order) = {#cluster_informer, namespaced_informer#}"
    by (simp add: sample_factory_def)
  moreover have "\<not> fa_shuttingDown ?f"
    by (simp add: sample_factory_def NewSharedInformerFactory_def NewSharedInformerFactoryWithOptions_def)
  moreover have "snd (factory_Start order ?f) = map (\<lambda>t. the (fa_informers ?f t)) order"
    if "\<not> fa_shuttingDown ?f"
    unfolding factory_Start_def start_loop_eq [OF assms(1)] all using that by simp
  ultimately show ?thesis by simp
qed

text \<open>What the lists come to, for caches of any content.\<close>

lemma sample_lists_cases:
  assumes "sx_listAll cl sel = (ms, e1)" and "sx_listAll nl sel = (ns, e2)"
  shows "case sample_lists sel (NewClusterResourceV1Lister cl) (NewNamespacedResourceV2Lister nl) gos of (r, errs, out, gos') \<Rightarrow>
    gos' = gos \<and> (is_panic r \<longleftrightarrow> \<not> set ms \<subseteq> range OClusterV1 \<or> e1 = None \<and> \<not> set ns \<subseteq> range ONamespacedV2) \<and>
    (\<not> is_panic r \<longrightarrow> (errs, out) =
      (case (e1, e2) of
         (Some err, _) \<Rightarrow> ([err], [])
       | (None, Some err) \<Rightarrow> ([err], [ClusterResourceCount (length ms)])
       | (None, None) \<Rightarrow> ([], [ClusterResourceCount (length ms), NamespacedResourceCount (length ns)])))"
  using clusterV1_type.append_outcome [of ms] namespacedV2_type.append_outcome [of ns]
  by (cases "append_asserted assert_clusterV1 ms []"; cases "append_asserted assert_namespacedV2 ns []"; cases e1; cases e2)
     (auto simp: sample_lists_def clusterV1Lister_List_def namespacedV2Lister_List_def
        NewClusterResourceV1Lister_def NewNamespacedResourceV2Lister_def assms)


text \<open>A cluster with two resources of the first kind and none of the second.\<close>

definition tiny_config :: "unit rest_config" where
  "tiny_config = \<lparr>cfg_groupVersion = None, cfg_apiPath = '''', cfg_negotiatedSerializer = '''',
     cfg_userAgent = ''sample'', cfg_rateLimiter = None, cfg_qps = 0, cfg_burst = 0\<rparr>"

definition tiny_clientset :: "(unit, unit) sample_clientset" where
  "tiny_clientset = \<lparr>scs_discovery = (), scs_sampleV1alpha1 = \<lparr>sampleV1_restClient = ()\<rparr>,
     scs_sampleV1alpha2 = \<lparr>sampleV2_restClient = ()\<rparr>\<rparr>"

definition tiny_cluster :: "sample_obj list" where
  "tiny_cluster = map OClusterV1 (replicate 2 \<lparr>cr1_type = zero_type, cr1_meta = zero_meta,
     cr1_spec = \<lparr>cr1s_name = '''', cr1s_replicas = 0\<rparr>, cr1_status = \<lparr>cr1st_availableReplicas = 0\<rparr>\<rparr>)"

definition tiny_env :: "(unit, unit, unit, unit) sample_env" where
  "tiny_env = \<lparr>sm_inCluster = Inr tiny_config,
     sm_home = '''', sm_flag = (\<lambda>s. s), sm_buildConfig = (\<lambda>_. Inl ErrAtoi),
     sm_lib = \<lparr>nl_defaultUserAgent = '''', nl_httpClientFor = (\<lambda>_. Inr ()), nl_restClientFor = (\<lambda>_ _. Inr ()),
       nl_discoveryFor = (\<lambda>_ _. Inr ()), nl_newDiscovery = (\<lambda>_. ()), nl_tokenBucket = (\<lambda>_ _. ())\<rparr>,
     sm_synced = (\<lambda>_. True),
     sm_getIndexer = (\<lambda>i. \<lparr>sx_getByKey = (\<lambda>_. Inr None),
       sx_listAll = (\<lambda>_. (if inf_id i = 0 then tiny_cluster else [], None)),
       sx_listByNamespace = (\<lambda>_ _. ([], None))\<rparr>),
     sm_everything = ''''\<rparr>"

lemma tiny_facts:
  "LoadConfig (sm_inCluster tiny_env) (sm_home tiny_env) (sm_flag tiny_env) (sm_buildConfig tiny_env) = Inr tiny_config"
  "sampleSet_NewForConfig (sm_lib tiny_env) tiny_config = Inr tiny_clientset"
  "distinct [''*v1alpha1.ClusterResource'', ''*v1alpha2.NamespacedResource'']"
  "set [''*v1alpha1.ClusterResource'', ''*v1alpha2.NamespacedResource''] = dom (fa_informers (sample_factory tiny_clientset))"
  "sx_listAll (sm_getIndexer tiny_env cluster_informer) (sm_everything tiny_env) = (tiny_cluster, None)"
  "sx_listAll (sm_getIndexer tiny_env namespaced_informer) (sm_everything tiny_env) = ([], None)"
  by (auto simp: tiny_env_def tiny_config_def tiny_clientset_def LoadConfig_def sampleSet_NewForConfig_def
      sampleSet_NewForConfigAndClient_def sampleV1_NewForConfigAndClient_def sampleV2_NewForConfigAndClient_def
      Let_def sample_factory_def cluster_informer_def namespaced_informer_def)


end
