(* ===== verification/InformerSource.thy ===== *)
theory InformerSource
  imports SampleFactory ClientProps
begin

text \<open>
  Where an informer gets its objects from: the list and watch functions that the
  \<open>NewFiltered\<close>...\<open>Informer\<close> functions of both generated informer packages close over. They tweak the
  options they are given and call the typed client of the resource, in the namespace of the informer.
  The client is the interface of the clientset, so real or fake.
\<close>

section \<open>The list and watch functions\<close>

definition greeter_ListFunc ::
    "(string \<Rightarrow> (greeter, greeter_list, 'w, 'o, greeter_apply, 's) resource_methods) \<Rightarrow>
     informer \<Rightarrow> list_options \<Rightarrow> 's \<Rightarrow> (greeter_list, 's) call_out" where
  "greeter_ListFunc client i options = rm_List (client (inf_namespace i)) (informer_options i options)"

definition greeter_WatchFunc ::
    "(string \<Rightarrow> (greeter, greeter_list, 'w, 'o, greeter_apply, 's) resource_methods) \<Rightarrow>
     informer \<Rightarrow> list_options \<Rightarrow> 's \<Rightarrow> ('w, 's) call_out" where
  "greeter_WatchFunc client i options = rm_Watch (client (inf_namespace i)) (informer_options i options)"

definition clusterV1_ListFunc ::
    "(clusterV1, clusterV1_list, 'w, 'o, clusterV1_apply, 's) resource_methods \<Rightarrow>
     informer \<Rightarrow> list_options \<Rightarrow> 's \<Rightarrow> (clusterV1_list, 's) call_out" where
  "clusterV1_ListFunc client i options = rm_List client (informer_options i options)"

definition clusterV1_WatchFunc ::
    "(clusterV1, clusterV1_list, 'w, 'o, clusterV1_apply, 's) resource_methods \<Rightarrow>
     informer \<Rightarrow> list_options \<Rightarrow> 's \<Rightarrow> ('w, 's) call_out" where
  "clusterV1_WatchFunc client i options = rm_Watch client (informer_options i options)"

definition namespacedV1_ListFunc ::
    "(string \<Rightarrow> (namespacedV1, namespacedV1_list, 'w, 'o, namespacedV1_apply, 's) resource_methods) \<Rightarrow>
     informer \<Rightarrow> list_options \<Rightarrow> 's \<Rightarrow> (namespacedV1_list, 's) call_out" where
  "namespacedV1_ListFunc client i options = rm_List (client (inf_namespace i)) (informer_options i options)"

definition namespacedV1_WatchFunc ::
    "(string \<Rightarrow> (namespacedV1, namespacedV1_list, 'w, 'o, namespacedV1_apply, 's) resource_methods) \<Rightarrow>
     informer \<Rightarrow> list_options \<Rightarrow> 's \<Rightarrow> ('w, 's) call_out" where
  "namespacedV1_WatchFunc client i options = rm_Watch (client (inf_namespace i)) (informer_options i options)"

definition clusterV2_ListFunc ::
    "(clusterV2, clusterV2_list, 'w, 'o, clusterV2_apply, 's) resource_methods \<Rightarrow>
     informer \<Rightarrow> list_options \<Rightarrow> 's \<Rightarrow> (clusterV2_list, 's) call_out" where
  "clusterV2_ListFunc client i options = rm_List client (informer_options i options)"

definition clusterV2_WatchFunc ::
    "(clusterV2, clusterV2_list, 'w, 'o, clusterV2_apply, 's) resource_methods \<Rightarrow>
     informer \<Rightarrow> list_options \<Rightarrow> 's \<Rightarrow> ('w, 's) call_out" where
  "clusterV2_WatchFunc client i options = rm_Watch client (informer_options i options)"

definition namespacedV2_ListFunc ::
    "(string \<Rightarrow> (namespacedV2, namespacedV2_list, 'w, 'o, namespacedV2_apply, 's) resource_methods) \<Rightarrow>
     informer \<Rightarrow> list_options \<Rightarrow> 's \<Rightarrow> (namespacedV2_list, 's) call_out" where
  "namespacedV2_ListFunc client i options = rm_List (client (inf_namespace i)) (informer_options i options)"

definition namespacedV2_WatchFunc ::
    "(string \<Rightarrow> (namespacedV2, namespacedV2_list, 'w, 'o, namespacedV2_apply, 's) resource_methods) \<Rightarrow>
     informer \<Rightarrow> list_options \<Rightarrow> 's \<Rightarrow> ('w, 's) call_out" where
  "namespacedV2_WatchFunc client i options = rm_Watch (client (inf_namespace i)) (informer_options i options)"

section \<open>What an informer asks the server for\<close>

text \<open>List and watch functions that ask for a resource in a namespace with tweaked options.\<close>

definition asks_for ::
    "('obj, 'lst, 'w, 's) api \<Rightarrow> gvr \<Rightarrow> string \<Rightarrow> ('lst \<Rightarrow> 'v) \<Rightarrow> tweak option \<Rightarrow>
     (list_options \<Rightarrow> 's \<Rightarrow> ('lst, 's) call_out) \<Rightarrow> (list_options \<Rightarrow> 's \<Rightarrow> ('w, 's) call_out) \<Rightarrow> bool" where
  "asks_for api r ns lview tweak listFunc watchFunc \<longleftrightarrow>
     (let tweaked = (\<lambda>opts. case tweak of None \<Rightarrow> opts | Some t \<Rightarrow> t opts) in
      (\<forall>opts s. \<not> lo_watch (tweaked opts) \<longrightarrow>
         answers lview (listFunc opts s) (api_list api (mk_request ''list'' r ns '''' [] (sel_payload (tweaked opts))) s)) \<and>
      (\<forall>opts s. answers id (watchFunc opts s)
         (api_watch api (mk_request ''watch'' r ns '''' [] (sel_payload (tweaked opts))) s)))"

context resource_interface
begin

lemma asks: "asks_for api r ns lview (inf_tweak i)
    (\<lambda>opts. rm_List I (informer_options i opts)) (\<lambda>opts. rm_Watch I (informer_options i opts))"
  using list_ok watch_ok
  by (cases "inf_tweak i") (simp_all add: asks_for_def informer_options_def)

end

lemma new_filtered:
  "fa_informers (NewFilteredSharedInformerFactory c d ns tw) = Map.empty"
  "fa_namespace (NewFilteredSharedInformerFactory c d ns tw) = ns"
  "fa_tweakListOptions (NewFilteredSharedInformerFactory c d ns tw) = tw"
  by (simp_all add: NewFilteredSharedInformerFactory_def NewSharedInformerFactoryWithOptions_def
      WithNamespace_def WithTweakListOptions_def)

lemma greeter_access:
  assumes "fa_informers f ''*v1alpha1.Greeter'' = None"
  shows "inf_namespace (fst (greeterInformer_Informer n (version_Greeters (group_V1alpha1 (factory_Greeter f))) f)) = fa_namespace f"
    and "inf_tweak (fst (greeterInformer_Informer n (version_Greeters (group_V1alpha1 (factory_Greeter f))) f)) = fa_tweakListOptions f"
  using assms
  by (simp_all add: greeterInformer_Informer_def factory_InformerFor_def Let_def greeterInformer_defaultInformer_def
      NewFilteredGreeterInformer_def version_Greeters_def group_V1alpha1_def new_version_def factory_Greeter_def new_group_def)

text \<open>C40: The informers of a factory that is restricted to a namespace and tweaks the list options ask the
  API server for exactly that: each lists and watches the resource of its own type and version, with
  the tweaked options, in the namespace of the factory, and the resources of the cluster in no
  namespace. This holds over any client that keeps the contract of the typed interface, as the real
  and the fake one do, and what the functions return is what the server answered.\<close>

theorem informers_ask_for:
  assumes "\<And>n. resource_interface api1 greetersResource n greeters_name greeters_listed chk1 (client1 n)"
    and "resource_interface api2 clusterResourcesV1Resource '''' clusterResourcesV1_name clusterResourcesV1_listed chk2 client2"
    and "\<And>n. resource_interface api3 namespacedResourcesV1Resource n namespacedResourcesV1_name namespacedResourcesV1_listed chk3 (client3 n)"
    and "resource_interface api4 clusterResourcesV2Resource '''' clusterResourcesV2_name clusterResourcesV2_listed chk4 client4"
    and "\<And>n. resource_interface api5 namespacedResourcesV2Resource n namespacedResourcesV2_name namespacedResourcesV2_listed chk5 (client5 n)"
    and "f = NewFilteredSharedInformerFactory c d ns tw"
  shows "asks_for api1 greetersResource ns greeters_listed tw
      (greeter_ListFunc client1 (fst (greeterInformer_Informer m (version_Greeters (group_V1alpha1 (factory_Greeter f))) f)))
      (greeter_WatchFunc client1 (fst (greeterInformer_Informer m (version_Greeters (group_V1alpha1 (factory_Greeter f))) f))) \<and>
    asks_for api2 clusterResourcesV1Resource '''' clusterResourcesV1_listed tw
      (clusterV1_ListFunc client2 (fst (clusterV1Informer_Informer m (versionV1_ClusterResources (sampleGroup_V1alpha1 (factory_Sample f))) f)))
      (clusterV1_WatchFunc client2 (fst (clusterV1Informer_Informer m (versionV1_ClusterResources (sampleGroup_V1alpha1 (factory_Sample f))) f))) \<and>
    asks_for api3 namespacedResourcesV1Resource ns namespacedResourcesV1_listed tw
      (namespacedV1_ListFunc client3 (fst (namespacedV1Informer_Informer m (versionV1_NamespacedResources (sampleGroup_V1alpha1 (factory_Sample f))) f)))
      (namespacedV1_WatchFunc client3 (fst (namespacedV1Informer_Informer m (versionV1_NamespacedResources (sampleGroup_V1alpha1 (factory_Sample f))) f))) \<and>
    asks_for api4 clusterResourcesV2Resource '''' clusterResourcesV2_listed tw
      (clusterV2_ListFunc client4 (fst (clusterV2Informer_Informer m (versionV2_ClusterResources (sampleGroup_V1alpha2 (factory_Sample f))) f)))
      (clusterV2_WatchFunc client4 (fst (clusterV2Informer_Informer m (versionV2_ClusterResources (sampleGroup_V1alpha2 (factory_Sample f))) f))) \<and>
    asks_for api5 namespacedResourcesV2Resource ns namespacedResourcesV2_listed tw
      (namespacedV2_ListFunc client5 (fst (namespacedV2Informer_Informer m (versionV2_NamespacedResources (sampleGroup_V1alpha2 (factory_Sample f))) f)))
      (namespacedV2_WatchFunc client5 (fst (namespacedV2Informer_Informer m (versionV2_NamespacedResources (sampleGroup_V1alpha2 (factory_Sample f))) f)))"
proof (intro conjI)
  show "asks_for api1 greetersResource ns greeters_listed tw
      (greeter_ListFunc client1 (fst (greeterInformer_Informer m (version_Greeters (group_V1alpha1 (factory_Greeter f))) f)))
      (greeter_WatchFunc client1 (fst (greeterInformer_Informer m (version_Greeters (group_V1alpha1 (factory_Greeter f))) f)))"
    using resource_interface.asks [OF assms(1), where i = "fst (greeterInformer_Informer m (version_Greeters (group_V1alpha1 (factory_Greeter f))) f)"]
    by (simp add: greeter_ListFunc_def [abs_def] greeter_WatchFunc_def [abs_def] greeter_access new_filtered assms(6))
  show "asks_for api2 clusterResourcesV1Resource '''' clusterResourcesV1_listed tw
      (clusterV1_ListFunc client2 (fst (clusterV1Informer_Informer m (versionV1_ClusterResources (sampleGroup_V1alpha1 (factory_Sample f))) f)))
      (clusterV1_WatchFunc client2 (fst (clusterV1Informer_Informer m (versionV1_ClusterResources (sampleGroup_V1alpha1 (factory_Sample f))) f)))"
    using resource_interface.asks [OF assms(2), where i = "fst (clusterV1Informer_Informer m (versionV1_ClusterResources (sampleGroup_V1alpha1 (factory_Sample f))) f)"]
    by (simp add: clusterV1_ListFunc_def [abs_def] clusterV1_WatchFunc_def [abs_def] typed_access shared_or_new_def Let_def new_filtered assms(6))
  show "asks_for api3 namespacedResourcesV1Resource ns namespacedResourcesV1_listed tw
      (namespacedV1_ListFunc client3 (fst (namespacedV1Informer_Informer m (versionV1_NamespacedResources (sampleGroup_V1alpha1 (factory_Sample f))) f)))
      (namespacedV1_WatchFunc client3 (fst (namespacedV1Informer_Informer m (versionV1_NamespacedResources (sampleGroup_V1alpha1 (factory_Sample f))) f)))"
    using resource_interface.asks [OF assms(3), where i = "fst (namespacedV1Informer_Informer m (versionV1_NamespacedResources (sampleGroup_V1alpha1 (factory_Sample f))) f)"]
    by (simp add: namespacedV1_ListFunc_def [abs_def] namespacedV1_WatchFunc_def [abs_def] typed_access shared_or_new_def Let_def new_filtered assms(6))
  show "asks_for api4 clusterResourcesV2Resource '''' clusterResourcesV2_listed tw
      (clusterV2_ListFunc client4 (fst (clusterV2Informer_Informer m (versionV2_ClusterResources (sampleGroup_V1alpha2 (factory_Sample f))) f)))
      (clusterV2_WatchFunc client4 (fst (clusterV2Informer_Informer m (versionV2_ClusterResources (sampleGroup_V1alpha2 (factory_Sample f))) f)))"
    using resource_interface.asks [OF assms(4), where i = "fst (clusterV2Informer_Informer m (versionV2_ClusterResources (sampleGroup_V1alpha2 (factory_Sample f))) f)"]
    by (simp add: clusterV2_ListFunc_def [abs_def] clusterV2_WatchFunc_def [abs_def] typed_access shared_or_new_def Let_def new_filtered assms(6))
  show "asks_for api5 namespacedResourcesV2Resource ns namespacedResourcesV2_listed tw
      (namespacedV2_ListFunc client5 (fst (namespacedV2Informer_Informer m (versionV2_NamespacedResources (sampleGroup_V1alpha2 (factory_Sample f))) f)))
      (namespacedV2_WatchFunc client5 (fst (namespacedV2Informer_Informer m (versionV2_NamespacedResources (sampleGroup_V1alpha2 (factory_Sample f))) f)))"
    using resource_interface.asks [OF assms(5), where i = "fst (namespacedV2Informer_Informer m (versionV2_NamespacedResources (sampleGroup_V1alpha2 (factory_Sample f))) f)"]
    by (simp add: namespacedV2_ListFunc_def [abs_def] namespacedV2_WatchFunc_def [abs_def] typed_access shared_or_new_def Let_def new_filtered assms(6))
qed

text \<open>A factory for the namespace default that lists the label \<open>app=web\<close>, over servers in memory.\<close>

definition web_tweak :: tweak where
  "web_tweak opts = opts\<lparr>lo_labelSelector := ''app=web''\<rparr>"

theorem informers_ask_for_witness:
  "asks_for memory_greeters greetersResource ''default'' greeters_listed (Some web_tweak)
    (greeter_ListFunc (\<lambda>n. greeters_methods memory_greeters_lib (new_greeters (rest_of_api SchemeGroupVersion memory_greeters) n))
      (fst (greeterInformer_Informer 0 (version_Greeters (group_V1alpha1 (factory_Greeter
        (NewFilteredSharedInformerFactory () 30 ''default'' (Some web_tweak)))))
        (NewFilteredSharedInformerFactory () 30 ''default'' (Some web_tweak)))))
    (greeter_WatchFunc (\<lambda>n. greeters_methods memory_greeters_lib (new_greeters (rest_of_api SchemeGroupVersion memory_greeters) n))
      (fst (greeterInformer_Informer 0 (version_Greeters (group_V1alpha1 (factory_Greeter
        (NewFilteredSharedInformerFactory () 30 ''default'' (Some web_tweak)))))
        (NewFilteredSharedInformerFactory () 30 ''default'' (Some web_tweak)))))"
  by (rule informers_ask_for [OF memory_greeters.of_rest.resource_interface_axioms
      memory_clusterResourcesV1.of_rest.resource_interface_axioms
      memory_namespacedResourcesV1.of_rest.resource_interface_axioms
      memory_clusterResourcesV2.of_rest.resource_interface_axioms
      memory_namespacedResourcesV2.of_rest.resource_interface_axioms
      refl, THEN conjunct1])

end
