(* ===== verification/Registration.thy ===== *)
theory Registration
  imports GreeterAPI SampleAPI CronTypes
begin

text \<open>
  How types are registered in a \<open>runtime.Scheme\<close>: the builders of the API packages
  (\<open>zz_generated.register.go\<close>, \<open>groupversion_info.go\<close>), and the schemes that the clientsets and their
  fakes make when the program starts (\<open>scheme/register.go\<close>, \<open>fake/register.go\<close>). A scheme is the list of
  what was asked of it; the builders are apimachinery's and controller-runtime's, the fields of a
  record.
\<close>

section \<open>Builders\<close>

type_synonym registrar = "scheme_call list \<Rightarrow> scheme_call list \<times> go_error option"

record scheme_lib =
  sb_register :: "registrar list \<Rightarrow> registrar \<Rightarrow> registrar list"
  sb_addToScheme :: "registrar list \<Rightarrow> registrar"

text \<open>\<open>SchemeBuilder.Register\<close> appends; \<open>SchemeBuilder.AddToScheme\<close> applies the functions in order and
  gives up at the first error.\<close>

fun apply_registrars :: "registrar list \<Rightarrow> registrar" where
  "apply_registrars [] s = (s, None)"
| "apply_registrars (f # fs) s =
     (case f s of (s, Some err) \<Rightarrow> (s, Some err) | (s, None) \<Rightarrow> apply_registrars fs s)"

definition scheme_lib_ok :: "scheme_lib \<Rightarrow> bool" where
  "scheme_lib_ok L \<longleftrightarrow> (\<forall>fs f. sb_register L fs f = fs @ [f]) \<and> (\<forall>fs s. sb_addToScheme L fs s = apply_registrars fs s)"

text \<open>\<open>utilruntime.Must\<close> panics with the error it gets.\<close>

definition must :: "scheme_call list \<times> go_error option \<Rightarrow> scheme_call list go_out" where
  "must r = (let (s, err) = r in if err \<noteq> None then Panic ''error'' else Ret s)"

section \<open>The API packages\<close>

definition greeter_localSchemeBuilder :: "scheme_lib \<Rightarrow> registrar list" where
  "greeter_localSchemeBuilder L = sb_register L [] addKnownTypes"

definition greeter_AddToScheme :: "scheme_lib \<Rightarrow> registrar" where
  "greeter_AddToScheme L = sb_addToScheme L (greeter_localSchemeBuilder L)"

definition sampleV1_localSchemeBuilder :: "scheme_lib \<Rightarrow> registrar list" where
  "sampleV1_localSchemeBuilder L = sb_register L [] sampleV1_addKnownTypes"

definition sampleV1_AddToScheme :: "scheme_lib \<Rightarrow> registrar" where
  "sampleV1_AddToScheme L = sb_addToScheme L (sampleV1_localSchemeBuilder L)"

definition sampleV2_localSchemeBuilder :: "scheme_lib \<Rightarrow> registrar list" where
  "sampleV2_localSchemeBuilder L = sb_register L [] sampleV2_addKnownTypes"

definition sampleV2_AddToScheme :: "scheme_lib \<Rightarrow> registrar" where
  "sampleV2_AddToScheme L = sb_addToScheme L (sampleV2_localSchemeBuilder L)"

section \<open>The schemes of the clientsets and of their fakes\<close>

definition greeterScheme_localSchemeBuilder :: "scheme_lib \<Rightarrow> registrar list" where
  "greeterScheme_localSchemeBuilder L = [greeter_AddToScheme L]"

definition greeterScheme_AddToScheme :: "scheme_lib \<Rightarrow> registrar" where
  "greeterScheme_AddToScheme L = sb_addToScheme L (greeterScheme_localSchemeBuilder L)"

definition greeterScheme_init :: "scheme_lib \<Rightarrow> scheme_call list go_out" where
  "greeterScheme_init L =
     (let scheme = [];
          scheme = scheme @ [AddToGroupVersion ('''', ''v1'')]
      in must (greeterScheme_AddToScheme L scheme))"

definition greeterFakeScheme_localSchemeBuilder :: "scheme_lib \<Rightarrow> registrar list" where
  "greeterFakeScheme_localSchemeBuilder L = [greeter_AddToScheme L]"

definition greeterFakeScheme_AddToScheme :: "scheme_lib \<Rightarrow> registrar" where
  "greeterFakeScheme_AddToScheme L = sb_addToScheme L (greeterFakeScheme_localSchemeBuilder L)"

definition greeterFakeScheme_init :: "scheme_lib \<Rightarrow> scheme_call list go_out" where
  "greeterFakeScheme_init L =
     (let scheme = [];
          scheme = scheme @ [AddToGroupVersion ('''', ''v1'')]
      in must (greeterFakeScheme_AddToScheme L scheme))"

definition sampleScheme_localSchemeBuilder :: "scheme_lib \<Rightarrow> registrar list" where
  "sampleScheme_localSchemeBuilder L = [sampleV1_AddToScheme L, sampleV2_AddToScheme L]"

definition sampleScheme_AddToScheme :: "scheme_lib \<Rightarrow> registrar" where
  "sampleScheme_AddToScheme L = sb_addToScheme L (sampleScheme_localSchemeBuilder L)"

definition sampleScheme_init :: "scheme_lib \<Rightarrow> scheme_call list go_out" where
  "sampleScheme_init L =
     (let scheme = [];
          scheme = scheme @ [AddToGroupVersion ('''', ''v1'')]
      in must (sampleScheme_AddToScheme L scheme))"

definition sampleFakeScheme_localSchemeBuilder :: "scheme_lib \<Rightarrow> registrar list" where
  "sampleFakeScheme_localSchemeBuilder L = [sampleV1_AddToScheme L, sampleV2_AddToScheme L]"

definition sampleFakeScheme_AddToScheme :: "scheme_lib \<Rightarrow> registrar" where
  "sampleFakeScheme_AddToScheme L = sb_addToScheme L (sampleFakeScheme_localSchemeBuilder L)"

definition sampleFakeScheme_init :: "scheme_lib \<Rightarrow> scheme_call list go_out" where
  "sampleFakeScheme_init L =
     (let scheme = [];
          scheme = scheme @ [AddToGroupVersion ('''', ''v1'')]
      in must (sampleFakeScheme_AddToScheme L scheme))"

section \<open>What the schemes know\<close>

text \<open>Kinds by group and version, as a scheme finds them.\<close>

definition scheme_kinds :: "scheme_call list \<Rightarrow> gvk list" where
  "scheme_kinds s = concat (map (\<lambda>c. case c of
     AddKnownTypes gv kinds \<Rightarrow> map (with_kind gv) kinds | AddToGroupVersion gv \<Rightarrow> []) s)"

definition sample_kinds :: "string list" where
  "sample_kinds = [''ClusterResource'', ''ClusterResourceList'', ''NamespacedResource'', ''NamespacedResourceList'']"

lemma must_None [simp]: "must (s, None) = Ret s"
  by (simp add: must_def)

lemma scheme_lib_okD:
  "scheme_lib_ok L \<Longrightarrow> sb_register L fs f = fs @ [f]"
  "scheme_lib_ok L \<Longrightarrow> sb_addToScheme L fs = apply_registrars fs"
  by (auto simp: scheme_lib_ok_def)

lemmas registration_defs = greeter_localSchemeBuilder_def greeter_AddToScheme_def
  sampleV1_localSchemeBuilder_def sampleV1_AddToScheme_def sampleV2_localSchemeBuilder_def sampleV2_AddToScheme_def
  greeterScheme_localSchemeBuilder_def greeterScheme_AddToScheme_def greeterScheme_init_def
  greeterFakeScheme_localSchemeBuilder_def greeterFakeScheme_AddToScheme_def greeterFakeScheme_init_def
  sampleScheme_localSchemeBuilder_def sampleScheme_AddToScheme_def sampleScheme_init_def
  sampleFakeScheme_localSchemeBuilder_def sampleFakeScheme_AddToScheme_def sampleFakeScheme_init_def

text \<open>No start-up panics, a clientset and its fake have the same scheme, and it knows the kinds of the
  group in each of its versions and no others.\<close>

lemma schemes_complete:
  assumes "scheme_lib_ok L"
  shows "\<exists>s. greeterScheme_init L = Ret s \<and> greeterFakeScheme_init L = Ret s \<and>
      scheme_kinds s = map (with_kind SchemeGroupVersion) [''Greeter'', ''GreeterList'']"
    and "\<exists>s. sampleScheme_init L = Ret s \<and> sampleFakeScheme_init L = Ret s \<and>
      scheme_kinds s = map (with_kind sampleV1_SchemeGroupVersion) sample_kinds @ map (with_kind sampleV2_SchemeGroupVersion) sample_kinds"
  by (simp_all add: sample_kinds_def registration_defs scheme_lib_okD [OF assms] addKnownTypes_def sampleV1_addKnownTypes_def
      sampleV2_addKnownTypes_def scheme_kinds_def Let_def)

section \<open>The CronJob API\<close>

text \<open>The builder of controller-runtime: a group version and the objects registered with it.\<close>

record cron_builder =
  bd_groupVersion :: "string \<times> string"
  bd_objects :: "string list"

definition cron_SchemeBuilder :: cron_builder where
  "cron_SchemeBuilder = \<lparr>bd_groupVersion = cron_GroupVersion, bd_objects = []\<rparr>"

record cron_scheme_lib =
  sc_register :: "cron_builder \<Rightarrow> string list \<Rightarrow> cron_builder"
  sc_addToScheme :: "cron_builder \<Rightarrow> registrar"
  sc_clientgo :: registrar

definition cron_init_builder :: "cron_scheme_lib \<Rightarrow> cron_builder" where
  "cron_init_builder L = sc_register L cron_SchemeBuilder [''CronJob'', ''CronJobList'']"

definition cron_AddToScheme :: "cron_scheme_lib \<Rightarrow> registrar" where
  "cron_AddToScheme L = sc_addToScheme L (cron_init_builder L)"

definition cron_scheme_lib_ok :: "cron_scheme_lib \<Rightarrow> bool" where
  "cron_scheme_lib_ok L \<longleftrightarrow> (\<forall>b ks. sc_register L b ks = b\<lparr>bd_objects := bd_objects b @ ks\<rparr>) \<and>
     (\<forall>b s. sc_addToScheme L b s =
        (s @ [AddKnownTypes (bd_groupVersion b) (bd_objects b), AddToGroupVersion (bd_groupVersion b)], None))"

end
