(* ===== verification/CronManager.thy ===== *)
theory CronManager
  imports Registration CronReconcile
begin

text \<open>
  The manager program of the CronJob controller (\<open>circle/cmd/main.go\<close>): its scheme, its flags, and the
  calls it makes of controller-runtime in order, each of which ends the program when it fails.
\<close>

section \<open>The scheme\<close>

definition manager_init :: "cron_scheme_lib \<Rightarrow> scheme_call list go_out" where
  "manager_init L =
     (case must (sc_clientgo L []) of
        Panic p \<Rightarrow> Panic p
      | Ret scheme \<Rightarrow> must (cron_AddToScheme L scheme))"

section \<open>main\<close>

record manager_flags =
  mf_metricsAddr :: string
  mf_probeAddr :: string
  mf_enableLeaderElection :: bool

definition default_flags :: manager_flags where
  "default_flags = \<lparr>mf_metricsAddr = '':8080'', mf_probeAddr = '':8081'', mf_enableLeaderElection = False\<rparr>"

record manager_options =
  mo_scheme :: "scheme_call list"
  mo_metricsBindAddress :: string
  mo_healthProbeBindAddress :: string
  mo_leaderElection :: bool
  mo_leaderElectionID :: string

datatype manager_call =
    MNewManager manager_options
  | MSetup "clock option" "setup_call list"
  | MAddHealthz string
  | MAddReadyz string
  | MStart

text \<open>\<open>flag.Parse\<close>, and what the calls answer; \<open>GetConfigOrDie\<close> ends the program without a
  configuration.\<close>

record manager_env =
  mg_parse :: "manager_flags \<Rightarrow> manager_flags"
  mg_configErr :: "go_error option"
  mg_newErr :: "manager_options \<Rightarrow> go_error option"
  mg_indexErr :: "go_error option"
  mg_completeErr :: "go_error option"
  mg_healthzErr :: "go_error option"
  mg_readyzErr :: "go_error option"
  mg_startErr :: "go_error option"

definition manager_opts :: "manager_env \<Rightarrow> scheme_call list \<Rightarrow> manager_options" where
  "manager_opts E scheme =
     (let flags = mg_parse E default_flags
      in \<lparr>mo_scheme = scheme, mo_metricsBindAddress = mf_metricsAddr flags,
        mo_healthProbeBindAddress = mf_probeAddr flags, mo_leaderElection = mf_enableLeaderElection flags,
        mo_leaderElectionID = ''79b04120.example.org''\<rparr>)"

text \<open>The exit code, \<open>None\<close> when \<open>main\<close> returns, and the calls. The reconciler is made without a clock.\<close>

definition manager_main :: "manager_env \<Rightarrow> scheme_call list \<Rightarrow> int option \<times> manager_call list" where
  "manager_main E scheme =
     (let opts = manager_opts E scheme
      in if mg_configErr E \<noteq> None then (Some 1, [])
         else
     (let calls = [MNewManager opts]
      in if mg_newErr E opts \<noteq> None then (Some 1, calls)
         else
     (let (clk, setup, err) = SetupWithManager None (mg_indexErr E) (mg_completeErr E);
          calls = calls @ [MSetup clk setup]
      in if err \<noteq> None then (Some 1, calls)
         else
     (let calls = calls @ [MAddHealthz ''healthz'']
      in if mg_healthzErr E \<noteq> None then (Some 1, calls)
         else
     (let calls = calls @ [MAddReadyz ''readyz'']
      in if mg_readyzErr E \<noteq> None then (Some 1, calls)
         else
     (let calls = calls @ [MStart]
      in (if mg_startErr E \<noteq> None then Some 1 else None, calls)))))))"

section \<open>What the program guarantees\<close>

text \<open>It starts the manager only after the index of the pods by owner, the watch of the CronJobs and
  both checks are in place, with the clock of the system, and it returns exactly when no call failed.\<close>

lemma manager_starts_ready:
  "MStart \<in> set (snd (manager_main E s)) \<longleftrightarrow>
     mg_configErr E = None \<and> mg_newErr E (manager_opts E s) = None \<and>
     mg_indexErr E = None \<and> mg_completeErr E = None \<and> mg_healthzErr E = None \<and> mg_readyzErr E = None"
  "MStart \<in> set (snd (manager_main E s)) \<Longrightarrow>
     MSetup (Some RealClock) [IndexField jobOwnerKey, WatchFor ''CronJob''] \<in> set (snd (manager_main E s)) \<and>
     last (snd (manager_main E s)) = MStart"
  "fst (manager_main E s) = None \<longleftrightarrow> MStart \<in> set (snd (manager_main E s)) \<and> mg_startErr E = None"
  by (cases "mg_configErr E"; cases "mg_newErr E (manager_opts E s)"; cases "mg_indexErr E"; cases "mg_completeErr E";
      cases "mg_healthzErr E"; cases "mg_readyzErr E"; simp add: manager_main_def SetupWithManager_def)+

lemma manager_scheme:
  assumes "cron_scheme_lib_ok L" and "sc_clientgo L [] = (s, None)"
  shows "manager_init L = Ret (s @ [AddKnownTypes cron_GroupVersion [''CronJob'', ''CronJobList''],
    AddToGroupVersion cron_GroupVersion])"
  using assms
  by (simp add: manager_init_def cron_AddToScheme_def cron_init_builder_def cron_SchemeBuilder_def cron_scheme_lib_ok_def)

end
