(* ===== verification/ClientsetViews.thy ===== *)
theory ClientsetViews
  imports ClientSet ClientProps HeapCopy
begin

text \<open>
  The clientsets as the programs see them: the clients of the API groups hand out the typed clients
  (\<open>greeter_client.go\<close>, \<open>sample_client.go\<close>), and so do their fakes (\<open>fake_greeter_client.go\<close>,
  \<open>fake_sample_client.go\<close>) and the fake clientsets (\<open>fake/clientset_generated.go\<close>), which sit on an object
  tracker. Tracker, reaction chain and discovery are client-go's, the fields of a record; a tracker and
  a chain are handles on state that the clientset shares.
\<close>

section \<open>The clients of the groups\<close>

definition greeterV1_Greeters :: "(greeter, greeter_list, 'w, 'o, 's) rest_client greeterV1_client \<Rightarrow> string \<Rightarrow> (greeter, greeter_list, 'w, 'o, 's) namespaced_client" where
  "greeterV1_Greeters c namespace = new_greeters (greeterV1_restClient c) namespace"

definition sampleV1_ClusterResources :: "(clusterV1, clusterV1_list, 'w, 'o, 's) rest_client sampleV1_client \<Rightarrow> (clusterV1, clusterV1_list, 'w, 'o, 's) cluster_client" where
  "sampleV1_ClusterResources c = new_clusterResourcesV1 (sampleV1_restClient c)"

definition sampleV1_NamespacedResources :: "(namespacedV1, namespacedV1_list, 'w, 'o, 's) rest_client sampleV1_client \<Rightarrow> string \<Rightarrow> (namespacedV1, namespacedV1_list, 'w, 'o, 's) namespaced_client" where
  "sampleV1_NamespacedResources c namespace = new_namespacedResourcesV1 (sampleV1_restClient c) namespace"

definition sampleV2_ClusterResources :: "(clusterV2, clusterV2_list, 'w, 'o, 's) rest_client sampleV2_client \<Rightarrow> (clusterV2, clusterV2_list, 'w, 'o, 's) cluster_client" where
  "sampleV2_ClusterResources c = new_clusterResourcesV2 (sampleV2_restClient c)"

definition sampleV2_NamespacedResources :: "(namespacedV2, namespacedV2_list, 'w, 'o, 's) rest_client sampleV2_client \<Rightarrow> string \<Rightarrow> (namespacedV2, namespacedV2_list, 'w, 'o, 's) namespaced_client" where
  "sampleV2_NamespacedResources c namespace = new_namespacedResourcesV2 (sampleV2_restClient c) namespace"

section \<open>Their fakes\<close>

record 'f fakeGreeterV1 =
  fakeGreeterV1_Fake :: 'f

definition fakeGreeterV1_Greeters :: "(greeter, greeter_list, 'w, 'o, 'sel, 's) fake_client fakeGreeterV1 \<Rightarrow> string \<Rightarrow> (greeter, greeter_list, 'w, 'o, 'sel, 's) fake_namespaced" where
  "fakeGreeterV1_Greeters c namespace = \<lparr>fn_Fake = fakeGreeterV1_Fake c, fn_ns = namespace\<rparr>"

text \<open>A nil pointer of a type in an interface, which is not the nil interface.\<close>

definition fakeGreeterV1_RESTClient :: "'f fakeGreeterV1 \<Rightarrow> iface" where
  "fakeGreeterV1_RESTClient c = Iface None"

record 'f fakeSampleV1 =
  fakeSampleV1_Fake :: 'f

definition fakeSampleV1_ClusterResources :: "(clusterV1, clusterV1_list, 'w, 'o, 'sel, 's) fake_client fakeSampleV1 \<Rightarrow> (clusterV1, clusterV1_list, 'w, 'o, 'sel, 's) fake_cluster" where
  "fakeSampleV1_ClusterResources c = \<lparr>fc_Fake = fakeSampleV1_Fake c\<rparr>"

definition fakeSampleV1_NamespacedResources :: "(namespacedV1, namespacedV1_list, 'w, 'o, 'sel, 's) fake_client fakeSampleV1 \<Rightarrow> string \<Rightarrow> (namespacedV1, namespacedV1_list, 'w, 'o, 'sel, 's) fake_namespaced" where
  "fakeSampleV1_NamespacedResources c namespace = \<lparr>fn_Fake = fakeSampleV1_Fake c, fn_ns = namespace\<rparr>"

text \<open>A nil pointer of a type in an interface, which is not the nil interface.\<close>

definition fakeSampleV1_RESTClient :: "'f fakeSampleV1 \<Rightarrow> iface" where
  "fakeSampleV1_RESTClient c = Iface None"

record 'f fakeSampleV2 =
  fakeSampleV2_Fake :: 'f

definition fakeSampleV2_ClusterResources :: "(clusterV2, clusterV2_list, 'w, 'o, 'sel, 's) fake_client fakeSampleV2 \<Rightarrow> (clusterV2, clusterV2_list, 'w, 'o, 'sel, 's) fake_cluster" where
  "fakeSampleV2_ClusterResources c = \<lparr>fc_Fake = fakeSampleV2_Fake c\<rparr>"

definition fakeSampleV2_NamespacedResources :: "(namespacedV2, namespacedV2_list, 'w, 'o, 'sel, 's) fake_client fakeSampleV2 \<Rightarrow> string \<Rightarrow> (namespacedV2, namespacedV2_list, 'w, 'o, 'sel, 's) fake_namespaced" where
  "fakeSampleV2_NamespacedResources c namespace = \<lparr>fn_Fake = fakeSampleV2_Fake c, fn_ns = namespace\<rparr>"

text \<open>A nil pointer of a type in an interface, which is not the nil interface.\<close>

definition fakeSampleV2_RESTClient :: "'f fakeSampleV2 \<Rightarrow> iface" where
  "fakeSampleV2_RESTClient c = Iface None"

section \<open>The fake clientsets\<close>

record ('ob, 't, 'f, 'w, 's) tracker_lib =
  tl_newTracker :: "'s \<Rightarrow> 't \<times> 's"
  tl_add :: "'t \<Rightarrow> 'ob \<Rightarrow> 's \<Rightarrow> go_error option \<times> 's"
  tl_watch :: "'t \<Rightarrow> gvr \<Rightarrow> string \<Rightarrow> 's \<Rightarrow> ('w option \<times> go_error option) \<times> 's"
  tl_newFake :: 'f
  tl_addReactor :: "string \<Rightarrow> string \<Rightarrow> 't \<Rightarrow> 'f \<Rightarrow> 'f"
  tl_addWatchReactor ::
    "string \<Rightarrow> (gvr \<Rightarrow> string \<Rightarrow> 's \<Rightarrow> (bool \<times> 'w option \<times> go_error option) \<times> 's) \<Rightarrow> 'f \<Rightarrow> 'f"

record ('t, 'f) fake_clientset =
  fcs_Fake :: 'f
  fcs_discovery :: 'f
  fcs_tracker :: 't

text \<open>The loop that fills the tracker: an object it refuses ends it in a panic.\<close>

fun add_objects :: "('ob, 't, 'f, 'w, 's) tracker_lib \<Rightarrow> 't \<Rightarrow> 'ob list \<Rightarrow> 's \<Rightarrow> unit go_out \<times> 's" where
  "add_objects L tr [] s = (Ret (), s)"
| "add_objects L tr (obj # objs) s =
     (case tl_add L tr obj s of
        (Some err, s) \<Rightarrow> (Panic ''error'', s)
      | (None, s) \<Rightarrow> add_objects L tr objs s)"

text \<open>The watch reactor: an error is not handled, so that the next reactor of the chain is asked.\<close>

definition watch_reaction :: "('ob, 't, 'f, 'w, 's) tracker_lib \<Rightarrow> 't \<Rightarrow> gvr \<Rightarrow> string \<Rightarrow> 's \<Rightarrow>
    (bool \<times> 'w option \<times> go_error option) \<times> 's" where
  "watch_reaction L tr gvr ns s =
     (let ((watch, err), s) = tl_watch L tr gvr ns s
      in if err \<noteq> None then ((False, None, err), s) else ((True, watch, None), s))"

definition greeter_NewSimpleClientset :: "('ob, 't, 'f, 'w, 's) tracker_lib \<Rightarrow> 'ob list \<Rightarrow> 's \<Rightarrow> ('t, 'f) fake_clientset go_out \<times> 's" where
  "greeter_NewSimpleClientset L objects s =
     (let (tr, s) = tl_newTracker L s
      in case add_objects L tr objects s of
           (Panic p, s) \<Rightarrow> (Panic p, s)
         | (Ret _, s) \<Rightarrow>
             let fake = tl_newFake L;
                 fake = tl_addReactor L ''*'' ''*'' tr fake;
                 fake = tl_addWatchReactor L ''*'' (watch_reaction L tr) fake
             in (Ret \<lparr>fcs_Fake = fake, fcs_discovery = fake, fcs_tracker = tr\<rparr>, s))"

definition greeterFakeSet_Discovery :: "('t, 'f) fake_clientset \<Rightarrow> 'f" where
  "greeterFakeSet_Discovery c = fcs_discovery c"

definition greeterFakeSet_Tracker :: "('t, 'f) fake_clientset \<Rightarrow> 't" where
  "greeterFakeSet_Tracker c = fcs_tracker c"

definition greeterFakeSet_GreeterV1alpha1 :: "('t, 'f) fake_clientset \<Rightarrow> 'f fakeGreeterV1" where
  "greeterFakeSet_GreeterV1alpha1 c = \<lparr>fakeGreeterV1_Fake = fcs_Fake c\<rparr>"

definition sample_NewSimpleClientset :: "('ob, 't, 'f, 'w, 's) tracker_lib \<Rightarrow> 'ob list \<Rightarrow> 's \<Rightarrow> ('t, 'f) fake_clientset go_out \<times> 's" where
  "sample_NewSimpleClientset L objects s =
     (let (tr, s) = tl_newTracker L s
      in case add_objects L tr objects s of
           (Panic p, s) \<Rightarrow> (Panic p, s)
         | (Ret _, s) \<Rightarrow>
             let fake = tl_newFake L;
                 fake = tl_addReactor L ''*'' ''*'' tr fake;
                 fake = tl_addWatchReactor L ''*'' (watch_reaction L tr) fake
             in (Ret \<lparr>fcs_Fake = fake, fcs_discovery = fake, fcs_tracker = tr\<rparr>, s))"

definition sampleFakeSet_Discovery :: "('t, 'f) fake_clientset \<Rightarrow> 'f" where
  "sampleFakeSet_Discovery c = fcs_discovery c"

definition sampleFakeSet_Tracker :: "('t, 'f) fake_clientset \<Rightarrow> 't" where
  "sampleFakeSet_Tracker c = fcs_tracker c"

definition sampleFakeSet_SampleV1alpha1 :: "('t, 'f) fake_clientset \<Rightarrow> 'f fakeSampleV1" where
  "sampleFakeSet_SampleV1alpha1 c = \<lparr>fakeSampleV1_Fake = fcs_Fake c\<rparr>"

definition sampleFakeSet_SampleV1alpha2 :: "('t, 'f) fake_clientset \<Rightarrow> 'f fakeSampleV2" where
  "sampleFakeSet_SampleV1alpha2 c = \<lparr>fakeSampleV2_Fake = fcs_Fake c\<rparr>"

section \<open>What they guarantee\<close>

text \<open>A fake clientset is made exactly when the tracker takes every object, each in its turn; the first
  one it refuses ends the construction in a panic.\<close>

lemma add_objects_append:
  "add_objects L tr (xs @ ys) s =
    (case add_objects L tr xs s of (Panic p, s) \<Rightarrow> (Panic p, s) | (Ret _, s) \<Rightarrow> add_objects L tr ys s)"
  by (induction xs arbitrary: s) (auto split: option.splits prod.splits)

lemma new_fake_clientset:
  assumes "tl_newTracker L s = (tr, s')"
  shows "(\<exists>cs. greeter_NewSimpleClientset L objs s = (Ret cs, s'') \<and> greeterFakeSet_Tracker cs = tr) \<longleftrightarrow>
      add_objects L tr objs s' = (Ret (), s'')"
    and "add_objects L tr xs s' = (Ret (), s1) \<Longrightarrow> tl_add L tr x s1 = (Some err, s2) \<Longrightarrow>
      greeter_NewSimpleClientset L (xs @ x # ys) s = (Panic ''error'', s2) \<and>
      sample_NewSimpleClientset L (xs @ x # ys) s = (Panic ''error'', s2)"
    and "sample_NewSimpleClientset L objs s = greeter_NewSimpleClientset L objs s"
  using assms
  by (auto simp: greeter_NewSimpleClientset_def sample_NewSimpleClientset_def greeterFakeSet_Tracker_def
      add_objects_append Let_def split: prod.splits go_out.splits)

text \<open>So whether a program gets its clients from a real clientset or from a fake one, it talks to the same
  interface, as long as both reach the same server.\<close>

lemma greeter_views_agree:
  assumes "rest_backed SchemeGroupVersion api (greeterV1_restClient c)"
    and "fake_backed greeters_name api (fcs_Fake cs)" and "honest_lists greeters_items greeters_labels api (fcs_Fake cs)"
  shows "clients_agree greeters_name greeters_listed (greeters_check lib)
    (greeters_methods lib (greeterV1_Greeters c ns))
    (fakeGreeters_methods lib (fakeGreeterV1_Greeters (greeterFakeSet_GreeterV1alpha1 cs) ns))"
  by (rule greeters_served.same_interface, unfold_locales)
     (use assms in \<open>simp_all add: greeterV1_Greeters_def new_greeters_def fakeGreeterV1_Greeters_def greeterFakeSet_GreeterV1alpha1_def\<close>)

lemma clusterResourcesV1_views_agree:
  assumes "rest_backed sampleV1_SchemeGroupVersion api (sampleV1_restClient c)"
    and "fake_backed clusterResourcesV1_name api (fcs_Fake cs)" and "honest_lists clusterResourcesV1_items clusterResourcesV1_labels api (fcs_Fake cs)"
  shows "clients_agree clusterResourcesV1_name clusterResourcesV1_listed (clusterResourcesV1_check lib)
    (clusterResourcesV1_methods lib (sampleV1_ClusterResources c))
    (fakeClusterResourcesV1_methods lib (fakeSampleV1_ClusterResources (sampleFakeSet_SampleV1alpha1 cs)))"
  by (rule clusterResourcesV1_served.same_interface, unfold_locales)
     (use assms in \<open>simp_all add: sampleV1_ClusterResources_def new_clusterResourcesV1_def fakeSampleV1_ClusterResources_def sampleFakeSet_SampleV1alpha1_def\<close>)

lemma namespacedResourcesV1_views_agree:
  assumes "rest_backed sampleV1_SchemeGroupVersion api (sampleV1_restClient c)"
    and "fake_backed namespacedResourcesV1_name api (fcs_Fake cs)" and "honest_lists namespacedResourcesV1_items namespacedResourcesV1_labels api (fcs_Fake cs)"
  shows "clients_agree namespacedResourcesV1_name namespacedResourcesV1_listed (namespacedResourcesV1_check lib)
    (namespacedResourcesV1_methods lib (sampleV1_NamespacedResources c ns))
    (fakeNamespacedResourcesV1_methods lib (fakeSampleV1_NamespacedResources (sampleFakeSet_SampleV1alpha1 cs) ns))"
  by (rule namespacedResourcesV1_served.same_interface, unfold_locales)
     (use assms in \<open>simp_all add: sampleV1_NamespacedResources_def new_namespacedResourcesV1_def fakeSampleV1_NamespacedResources_def sampleFakeSet_SampleV1alpha1_def\<close>)

lemma clusterResourcesV2_views_agree:
  assumes "rest_backed sampleV2_SchemeGroupVersion api (sampleV2_restClient c)"
    and "fake_backed clusterResourcesV2_name api (fcs_Fake cs)" and "honest_lists clusterResourcesV2_items clusterResourcesV2_labels api (fcs_Fake cs)"
  shows "clients_agree clusterResourcesV2_name clusterResourcesV2_listed (clusterResourcesV2_check lib)
    (clusterResourcesV2_methods lib (sampleV2_ClusterResources c))
    (fakeClusterResourcesV2_methods lib (fakeSampleV2_ClusterResources (sampleFakeSet_SampleV1alpha2 cs)))"
  by (rule clusterResourcesV2_served.same_interface, unfold_locales)
     (use assms in \<open>simp_all add: sampleV2_ClusterResources_def new_clusterResourcesV2_def fakeSampleV2_ClusterResources_def sampleFakeSet_SampleV1alpha2_def\<close>)

lemma namespacedResourcesV2_views_agree:
  assumes "rest_backed sampleV2_SchemeGroupVersion api (sampleV2_restClient c)"
    and "fake_backed namespacedResourcesV2_name api (fcs_Fake cs)" and "honest_lists namespacedResourcesV2_items namespacedResourcesV2_labels api (fcs_Fake cs)"
  shows "clients_agree namespacedResourcesV2_name namespacedResourcesV2_listed (namespacedResourcesV2_check lib)
    (namespacedResourcesV2_methods lib (sampleV2_NamespacedResources c ns))
    (fakeNamespacedResourcesV2_methods lib (fakeSampleV2_NamespacedResources (sampleFakeSet_SampleV1alpha2 cs) ns))"
  by (rule namespacedResourcesV2_served.same_interface, unfold_locales)
     (use assms in \<open>simp_all add: sampleV2_NamespacedResources_def new_namespacedResourcesV2_def fakeSampleV2_NamespacedResources_def sampleFakeSet_SampleV1alpha2_def\<close>)

end
