(* ===== verification/ApplyParser.thy ===== *)
theory ApplyParser
  imports Prelude
begin

text \<open>
  The parser of the apply configurations (\<open>applyconfiguration/internal/internal.go\<close> of both generated
  clients): it is made once, by a \<open>sync.Once\<close>, from a schema in the source. \<open>typed.NewParser\<close> is an
  argument; it is given the schema and returns a parser or nil, and an error.
\<close>

text \<open>The package variables \<open>parserOnce\<close> and \<open>parser\<close>. A \<open>sync.Once\<close> whose function panics counts as
  done.\<close>

record 'p parser_state =
  ps_done :: bool
  ps_parser :: "'p option"

definition parser_start :: "'p parser_state" where
  "parser_start = \<lparr>ps_done = False, ps_parser = None\<rparr>"

definition greeter_Parser ::
    "(string \<Rightarrow> 'p option \<times> go_error option) \<Rightarrow> string \<Rightarrow> 'p parser_state \<Rightarrow> 'p option go_out \<times> 'p parser_state" where
  "greeter_Parser newParser schemaYAML st =
     (if ps_done st then (Ret (ps_parser st), st)
      else let (parser, err) = newParser schemaYAML;
               st = \<lparr>ps_done = True, ps_parser = parser\<rparr>
           in if err \<noteq> None then (Panic ''Failed to parse schema'', st) else (Ret (ps_parser st), st))"

definition sample_Parser ::
    "(string \<Rightarrow> 'p option \<times> go_error option) \<Rightarrow> string \<Rightarrow> 'p parser_state \<Rightarrow> 'p option go_out \<times> 'p parser_state" where
  "sample_Parser newParser schemaYAML st =
     (if ps_done st then (Ret (ps_parser st), st)
      else let (parser, err) = newParser schemaYAML;
               st = \<lparr>ps_done = True, ps_parser = parser\<rparr>
           in if err \<noteq> None then (Panic ''Failed to parse schema'', st) else (Ret (ps_parser st), st))"

text \<open>Calls one after the other.\<close>

fun parser_calls :: "nat \<Rightarrow> ('st \<Rightarrow> 'r \<times> 'st) \<Rightarrow> 'st \<Rightarrow> 'r list" where
  "parser_calls 0 call st = []"
| "parser_calls (Suc n) call st = (let (r, st) = call st in r # parser_calls n call st)"

lemma parser_calls_done:
  "ps_done st \<Longrightarrow> parser_calls n (greeter_Parser newParser y) st = replicate n (Ret (ps_parser st))"
  by (induction n) (simp_all add: greeter_Parser_def)

text \<open>Every call returns the parser that the first one made. When the schema does not parse, the first
  call panics and all later ones return what \<open>NewParser\<close> returned with its error, a nil parser.\<close>

lemma parser_once:
  "parser_calls (Suc n) (greeter_Parser newParser y) parser_start =
    (case newParser y of
       (p, None) \<Rightarrow> replicate (Suc n) (Ret p)
     | (p, Some err) \<Rightarrow> Panic ''Failed to parse schema'' # replicate n (Ret p))"
  "sample_Parser newParser y st = greeter_Parser newParser y st"
  by (auto simp: parser_start_def parser_calls_done greeter_Parser_def [of _ _ "\<lparr>ps_done = False, ps_parser = None\<rparr>"]
      sample_Parser_def greeter_Parser_def Let_def split: option.splits prod.splits)

end
