(* ===== verification/SampleDeepCopyV1.thy ===== *)
theory SampleDeepCopyV1
  imports SampleAPI HeapCopy
begin

text \<open>
  The generated deep copies of the sample API, version v1alpha1 (\<open>zz_generated.deepcopy.go\<close>), on a
  heap, for both resources. The deep copies of \<open>ObjectMeta\<close> and \<open>ListMeta\<close> are arguments that have the
  contract of a copy.
\<close>

section \<open>ClusterResource\<close>

record 'm clusterV1_mem =
  dcr1_type :: type_meta
  dcr1_meta :: 'm
  dcr1_spec :: clusterV1_spec
  dcr1_status :: clusterV1_status

record 'l clusterV1_list_mem =
  dcr1l_type :: type_meta
  dcr1l_meta :: 'l
  dcr1l_items :: "addr option"

datatype ('m, 'l, 'x) clusterV1_cell =
    DCR1Obj "'m clusterV1_mem"
  | DCR1Items "'m clusterV1_mem list"
  | DCR1List "'l clusterV1_list_mem"
  | DCR1Spec clusterV1_spec
  | DCR1Status clusterV1_status
  | DCR1Meta 'x

fun dcr1c_obj :: "('m, 'l, 'x) clusterV1_cell \<Rightarrow> 'm clusterV1_mem option" where
  "dcr1c_obj (DCR1Obj g) = Some g" | "dcr1c_obj _ = None"

fun dcr1c_items :: "('m, 'l, 'x) clusterV1_cell \<Rightarrow> 'm clusterV1_mem list option" where
  "dcr1c_items (DCR1Items gs) = Some gs" | "dcr1c_items _ = None"

fun dcr1c_list :: "('m, 'l, 'x) clusterV1_cell \<Rightarrow> 'l clusterV1_list_mem option" where
  "dcr1c_list (DCR1List l) = Some l" | "dcr1c_list _ = None"

fun dcr1c_spec :: "('m, 'l, 'x) clusterV1_cell \<Rightarrow> clusterV1_spec option" where
  "dcr1c_spec (DCR1Spec s) = Some s" | "dcr1c_spec _ = None"

fun dcr1c_status :: "('m, 'l, 'x) clusterV1_cell \<Rightarrow> clusterV1_status option" where
  "dcr1c_status (DCR1Status s) = Some s" | "dcr1c_status _ = None"

type_synonym ('m, 'l, 'x) clusterV1_heap = "('m, 'l, 'x) clusterV1_cell heap"

definition clusterV1_DeepCopyInto :: "(('m, 'l, 'x) clusterV1_heap \<Rightarrow> 'm \<Rightarrow> 'm \<times> ('m, 'l, 'x) clusterV1_heap) \<Rightarrow>
    ('m, 'l, 'x) clusterV1_heap \<Rightarrow> 'm clusterV1_mem \<Rightarrow> 'm clusterV1_mem \<times> ('m, 'l, 'x) clusterV1_heap" where
  "clusterV1_DeepCopyInto mcopy h g =
     (let out = g;
          out = out\<lparr>dcr1_type := dcr1_type g\<rparr>;
          (m, h) = mcopy h (dcr1_meta g);
          out = out\<lparr>dcr1_meta := m\<rparr>;
          out = out\<lparr>dcr1_spec := dcr1_spec g\<rparr>;
          out = out\<lparr>dcr1_status := dcr1_status g\<rparr>
      in (out, h))"

definition clusterV1_DeepCopy :: "(('m, 'l, 'x) clusterV1_heap \<Rightarrow> 'm \<Rightarrow> 'm \<times> ('m, 'l, 'x) clusterV1_heap) \<Rightarrow>
    ('m, 'l, 'x) clusterV1_heap \<Rightarrow> addr option \<Rightarrow> addr option \<times> ('m, 'l, 'x) clusterV1_heap" where
  "clusterV1_DeepCopy mcopy = ptr_copy dcr1c_obj DCR1Obj (clusterV1_DeepCopyInto mcopy)"

definition clusterV1_DeepCopyObject :: "(('m, 'l, 'x) clusterV1_heap \<Rightarrow> 'm \<Rightarrow> 'm \<times> ('m, 'l, 'x) clusterV1_heap) \<Rightarrow>
    ('m, 'l, 'x) clusterV1_heap \<Rightarrow> addr option \<Rightarrow> iface \<times> ('m, 'l, 'x) clusterV1_heap" where
  "clusterV1_DeepCopyObject mcopy h p =
     (let (c, h) = clusterV1_DeepCopy mcopy h p in (if c \<noteq> None then Iface c else NilIface, h))"

definition clusterV1List_DeepCopyInto :: "(('m, 'l, 'x) clusterV1_heap \<Rightarrow> 'm \<Rightarrow> 'm \<times> ('m, 'l, 'x) clusterV1_heap) \<Rightarrow> (('m, 'l, 'x) clusterV1_heap \<Rightarrow> 'l \<Rightarrow> 'l \<times> ('m, 'l, 'x) clusterV1_heap) \<Rightarrow>
    ('m, 'l, 'x) clusterV1_heap \<Rightarrow> 'l clusterV1_list_mem \<Rightarrow> 'l clusterV1_list_mem \<times> ('m, 'l, 'x) clusterV1_heap" where
  "clusterV1List_DeepCopyInto mcopy lcopy h l =
     (let out = l;
          out = out\<lparr>dcr1l_type := dcr1l_type l\<rparr>;
          (m, h) = lcopy h (dcr1l_meta l);
          out = out\<lparr>dcr1l_meta := m\<rparr>;
          (items, h) = ptr_copy dcr1c_items DCR1Items (items_copy (clusterV1_DeepCopyInto mcopy)) h (dcr1l_items l);
          out = out\<lparr>dcr1l_items := items\<rparr>
      in (out, h))"

definition clusterV1List_DeepCopy :: "(('m, 'l, 'x) clusterV1_heap \<Rightarrow> 'm \<Rightarrow> 'm \<times> ('m, 'l, 'x) clusterV1_heap) \<Rightarrow> (('m, 'l, 'x) clusterV1_heap \<Rightarrow> 'l \<Rightarrow> 'l \<times> ('m, 'l, 'x) clusterV1_heap) \<Rightarrow>
    ('m, 'l, 'x) clusterV1_heap \<Rightarrow> addr option \<Rightarrow> addr option \<times> ('m, 'l, 'x) clusterV1_heap" where
  "clusterV1List_DeepCopy mcopy lcopy = ptr_copy dcr1c_list DCR1List (clusterV1List_DeepCopyInto mcopy lcopy)"

definition clusterV1List_DeepCopyObject :: "(('m, 'l, 'x) clusterV1_heap \<Rightarrow> 'm \<Rightarrow> 'm \<times> ('m, 'l, 'x) clusterV1_heap) \<Rightarrow> (('m, 'l, 'x) clusterV1_heap \<Rightarrow> 'l \<Rightarrow> 'l \<times> ('m, 'l, 'x) clusterV1_heap) \<Rightarrow>
    ('m, 'l, 'x) clusterV1_heap \<Rightarrow> addr option \<Rightarrow> iface \<times> ('m, 'l, 'x) clusterV1_heap" where
  "clusterV1List_DeepCopyObject mcopy lcopy h p =
     (let (c, h) = clusterV1List_DeepCopy mcopy lcopy h p in (if c \<noteq> None then Iface c else NilIface, h))"

definition clusterV1Spec_DeepCopyInto :: "('m, 'l, 'x) clusterV1_heap \<Rightarrow> clusterV1_spec \<Rightarrow> clusterV1_spec \<times> ('m, 'l, 'x) clusterV1_heap" where
  "clusterV1Spec_DeepCopyInto = flat_copy"

definition clusterV1Spec_DeepCopy :: "('m, 'l, 'x) clusterV1_heap \<Rightarrow> addr option \<Rightarrow> addr option \<times> ('m, 'l, 'x) clusterV1_heap" where
  "clusterV1Spec_DeepCopy = ptr_copy dcr1c_spec DCR1Spec clusterV1Spec_DeepCopyInto"

definition clusterV1Status_DeepCopyInto :: "('m, 'l, 'x) clusterV1_heap \<Rightarrow> clusterV1_status \<Rightarrow> clusterV1_status \<times> ('m, 'l, 'x) clusterV1_heap" where
  "clusterV1Status_DeepCopyInto = flat_copy"

definition clusterV1Status_DeepCopy :: "('m, 'l, 'x) clusterV1_heap \<Rightarrow> addr option \<Rightarrow> addr option \<times> ('m, 'l, 'x) clusterV1_heap" where
  "clusterV1Status_DeepCopy = ptr_copy dcr1c_status DCR1Status clusterV1Status_DeepCopyInto"

text \<open>A resource in memory as its pointer and the rest, and a list of them.\<close>

lemma clusterV1_copier:
  fixes mcopy :: "('m, 'l, 'x) clusterV1_heap \<Rightarrow> 'm \<Rightarrow> 'm \<times> ('m, 'l, 'x) clusterV1_heap"
  assumes "copier mcopy mview mrefs"
  shows "copier (clusterV1_DeepCopyInto mcopy)
    (\<lambda>h g. (mview h (dcr1_meta g), (dcr1_type g, dcr1_spec g, dcr1_status g))) (\<lambda>h g. mrefs h (dcr1_meta g) \<union> {})"
proof -
  define un where "un = (\<lambda>g :: 'm clusterV1_mem. (dcr1_meta g, (dcr1_type g, dcr1_spec g, dcr1_status g)))"
  define mk where "mk = (\<lambda>(m :: 'm, t, s, st). \<lparr>dcr1_type = t, dcr1_meta = m, dcr1_spec = s, dcr1_status = st\<rparr>)"
  have "copier (clusterV1_DeepCopyInto mcopy)
      (\<lambda>h g. (mview h (fst (un g)), snd (un g))) (\<lambda>h g. mrefs h (fst (un g)) \<union> {})"
    by (rule iso_copier [OF pair_copier [OF assms flat_copier], of un mk])
       (simp_all add: un_def mk_def clusterV1_DeepCopyInto_def pair_copy_def flat_copy_def case_prod_beta Let_def)
  then show ?thesis by (simp add: un_def)
qed

definition clusterV1_list_view where
  "clusterV1_list_view mview lview h l = (lview h (dcr1l_meta l), ptr_view dcr1c_items
     (\<lambda>h gs. map (\<lambda>g. (mview h (dcr1_meta g), (dcr1_type g, dcr1_spec g, dcr1_status g))) gs) h (dcr1l_items l), dcr1l_type l)"

definition clusterV1_list_refs where
  "clusterV1_list_refs mrefs lrefs h l = lrefs h (dcr1l_meta l) \<union> (ptr_refs dcr1c_items
     (\<lambda>h gs. \<Union> ((\<lambda>g. mrefs h (dcr1_meta g) \<union> {}) ` set gs)) h (dcr1l_items l) \<union> {})"

lemma clusterV1_list_copier:
  fixes mcopy :: "('m, 'l, 'x) clusterV1_heap \<Rightarrow> 'm \<Rightarrow> 'm \<times> ('m, 'l, 'x) clusterV1_heap"
    and lcopy :: "('m, 'l, 'x) clusterV1_heap \<Rightarrow> 'l \<Rightarrow> 'l \<times> ('m, 'l, 'x) clusterV1_heap"
  assumes "copier mcopy mview mrefs" and "copier lcopy lview lrefs"
  shows "copier (clusterV1List_DeepCopyInto mcopy lcopy) (clusterV1_list_view mview lview) (clusterV1_list_refs mrefs lrefs)"
proof -
  define un where "un = (\<lambda>l :: 'l clusterV1_list_mem. (dcr1l_meta l, dcr1l_items l, dcr1l_type l))"
  define mk where "mk = (\<lambda>(m :: 'l, i, t). \<lparr>dcr1l_type = t, dcr1l_meta = m, dcr1l_items = i\<rparr>)"
  have items: "copier (ptr_copy dcr1c_items DCR1Items (items_copy (clusterV1_DeepCopyInto mcopy)))
      (ptr_view dcr1c_items (\<lambda>h gs. map (\<lambda>g. (mview h (dcr1_meta g), (dcr1_type g, dcr1_spec g, dcr1_status g))) gs))
      (ptr_refs dcr1c_items (\<lambda>h gs. \<Union> ((\<lambda>g. mrefs h (dcr1_meta g) \<union> {}) ` set gs)))"
    by (rule ptr_copier [OF items_copier [OF clusterV1_copier [OF assms(1)]]]) simp
  have "copier (clusterV1List_DeepCopyInto mcopy lcopy) (\<lambda>h l. (\<lambda>h ab. (lview h (fst ab), (\<lambda>h ab. (ptr_view dcr1c_items
      (\<lambda>h gs. map (\<lambda>g. (mview h (dcr1_meta g), (dcr1_type g, dcr1_spec g, dcr1_status g))) gs) h (fst ab), snd ab)) h (snd ab))) h (un l))
    (\<lambda>h l. (\<lambda>h ab. lrefs h (fst ab) \<union> (\<lambda>h ab. ptr_refs dcr1c_items
      (\<lambda>h gs. \<Union> ((\<lambda>g. mrefs h (dcr1_meta g) \<union> {}) ` set gs)) h (fst ab) \<union> {}) h (snd ab)) h (un l))"
    by (rule iso_copier [OF pair_copier [OF assms(2) pair_copier [OF items flat_copier]], of un mk])
       (simp_all add: un_def mk_def clusterV1List_DeepCopyInto_def pair_copy_def flat_copy_def case_prod_beta Let_def)
  then show ?thesis
    by (simp add: un_def clusterV1_list_view_def [abs_def] clusterV1_list_refs_def [abs_def])
qed

text \<open>Every deep copy is a new object with the same value, independent of the original.\<close>

lemma clusterV1_DeepCopy_independent:
  assumes "copier mcopy mview mrefs" and "copier lcopy lview lrefs"
  shows "copier (clusterV1_DeepCopy mcopy)
      (ptr_view dcr1c_obj (\<lambda>h g. (mview h (dcr1_meta g), (dcr1_type g, dcr1_spec g, dcr1_status g))))
      (ptr_refs dcr1c_obj (\<lambda>h g. mrefs h (dcr1_meta g) \<union> {}))"
    and "copier (clusterV1List_DeepCopy mcopy lcopy)
      (ptr_view dcr1c_list (clusterV1_list_view mview lview)) (ptr_refs dcr1c_list (clusterV1_list_refs mrefs lrefs))"
    and "copier clusterV1Spec_DeepCopy (ptr_view dcr1c_spec (\<lambda>h s. s)) (ptr_refs dcr1c_spec (\<lambda>h s. {}))"
    and "copier clusterV1Status_DeepCopy (ptr_view dcr1c_status (\<lambda>h s. s)) (ptr_refs dcr1c_status (\<lambda>h s. {}))"
  unfolding clusterV1_DeepCopy_def clusterV1List_DeepCopy_def clusterV1Spec_DeepCopy_def clusterV1Status_DeepCopy_def
    clusterV1Spec_DeepCopyInto_def clusterV1Status_DeepCopyInto_def
  by (rule ptr_copier, rule clusterV1_copier [OF assms(1)], simp)
     (rule ptr_copier, rule clusterV1_list_copier [OF assms], simp,
      (rule ptr_copier, rule flat_copier, simp)+)

interpretation clusterV1_std: copier "clusterV1_DeepCopy flat_copy"
    "ptr_view dcr1c_obj (\<lambda>h g. (dcr1_meta g, (dcr1_type g, dcr1_spec g, dcr1_status g)))"
    "ptr_refs dcr1c_obj (\<lambda>h g. {} \<union> {})"
  by (rule clusterV1_DeepCopy_independent(1) [OF flat_copier flat_copier])

section \<open>NamespacedResource\<close>

record 'm namespacedV1_mem =
  dnr1_type :: type_meta
  dnr1_meta :: 'm
  dnr1_spec :: namespacedV1_spec
  dnr1_status :: namespacedV1_status

record 'l namespacedV1_list_mem =
  dnr1l_type :: type_meta
  dnr1l_meta :: 'l
  dnr1l_items :: "addr option"

datatype ('m, 'l, 'x) namespacedV1_cell =
    DNR1Obj "'m namespacedV1_mem"
  | DNR1Items "'m namespacedV1_mem list"
  | DNR1List "'l namespacedV1_list_mem"
  | DNR1Spec namespacedV1_spec
  | DNR1Status namespacedV1_status
  | DNR1Meta 'x

fun dnr1c_obj :: "('m, 'l, 'x) namespacedV1_cell \<Rightarrow> 'm namespacedV1_mem option" where
  "dnr1c_obj (DNR1Obj g) = Some g" | "dnr1c_obj _ = None"

fun dnr1c_items :: "('m, 'l, 'x) namespacedV1_cell \<Rightarrow> 'm namespacedV1_mem list option" where
  "dnr1c_items (DNR1Items gs) = Some gs" | "dnr1c_items _ = None"

fun dnr1c_list :: "('m, 'l, 'x) namespacedV1_cell \<Rightarrow> 'l namespacedV1_list_mem option" where
  "dnr1c_list (DNR1List l) = Some l" | "dnr1c_list _ = None"

fun dnr1c_spec :: "('m, 'l, 'x) namespacedV1_cell \<Rightarrow> namespacedV1_spec option" where
  "dnr1c_spec (DNR1Spec s) = Some s" | "dnr1c_spec _ = None"

fun dnr1c_status :: "('m, 'l, 'x) namespacedV1_cell \<Rightarrow> namespacedV1_status option" where
  "dnr1c_status (DNR1Status s) = Some s" | "dnr1c_status _ = None"

type_synonym ('m, 'l, 'x) namespacedV1_heap = "('m, 'l, 'x) namespacedV1_cell heap"

definition namespacedV1_DeepCopyInto :: "(('m, 'l, 'x) namespacedV1_heap \<Rightarrow> 'm \<Rightarrow> 'm \<times> ('m, 'l, 'x) namespacedV1_heap) \<Rightarrow>
    ('m, 'l, 'x) namespacedV1_heap \<Rightarrow> 'm namespacedV1_mem \<Rightarrow> 'm namespacedV1_mem \<times> ('m, 'l, 'x) namespacedV1_heap" where
  "namespacedV1_DeepCopyInto mcopy h g =
     (let out = g;
          out = out\<lparr>dnr1_type := dnr1_type g\<rparr>;
          (m, h) = mcopy h (dnr1_meta g);
          out = out\<lparr>dnr1_meta := m\<rparr>;
          out = out\<lparr>dnr1_spec := dnr1_spec g\<rparr>;
          out = out\<lparr>dnr1_status := dnr1_status g\<rparr>
      in (out, h))"

definition namespacedV1_DeepCopy :: "(('m, 'l, 'x) namespacedV1_heap \<Rightarrow> 'm \<Rightarrow> 'm \<times> ('m, 'l, 'x) namespacedV1_heap) \<Rightarrow>
    ('m, 'l, 'x) namespacedV1_heap \<Rightarrow> addr option \<Rightarrow> addr option \<times> ('m, 'l, 'x) namespacedV1_heap" where
  "namespacedV1_DeepCopy mcopy = ptr_copy dnr1c_obj DNR1Obj (namespacedV1_DeepCopyInto mcopy)"

definition namespacedV1_DeepCopyObject :: "(('m, 'l, 'x) namespacedV1_heap \<Rightarrow> 'm \<Rightarrow> 'm \<times> ('m, 'l, 'x) namespacedV1_heap) \<Rightarrow>
    ('m, 'l, 'x) namespacedV1_heap \<Rightarrow> addr option \<Rightarrow> iface \<times> ('m, 'l, 'x) namespacedV1_heap" where
  "namespacedV1_DeepCopyObject mcopy h p =
     (let (c, h) = namespacedV1_DeepCopy mcopy h p in (if c \<noteq> None then Iface c else NilIface, h))"

definition namespacedV1List_DeepCopyInto :: "(('m, 'l, 'x) namespacedV1_heap \<Rightarrow> 'm \<Rightarrow> 'm \<times> ('m, 'l, 'x) namespacedV1_heap) \<Rightarrow> (('m, 'l, 'x) namespacedV1_heap \<Rightarrow> 'l \<Rightarrow> 'l \<times> ('m, 'l, 'x) namespacedV1_heap) \<Rightarrow>
    ('m, 'l, 'x) namespacedV1_heap \<Rightarrow> 'l namespacedV1_list_mem \<Rightarrow> 'l namespacedV1_list_mem \<times> ('m, 'l, 'x) namespacedV1_heap" where
  "namespacedV1List_DeepCopyInto mcopy lcopy h l =
     (let out = l;
          out = out\<lparr>dnr1l_type := dnr1l_type l\<rparr>;
          (m, h) = lcopy h (dnr1l_meta l);
          out = out\<lparr>dnr1l_meta := m\<rparr>;
          (items, h) = ptr_copy dnr1c_items DNR1Items (items_copy (namespacedV1_DeepCopyInto mcopy)) h (dnr1l_items l);
          out = out\<lparr>dnr1l_items := items\<rparr>
      in (out, h))"

definition namespacedV1List_DeepCopy :: "(('m, 'l, 'x) namespacedV1_heap \<Rightarrow> 'm \<Rightarrow> 'm \<times> ('m, 'l, 'x) namespacedV1_heap) \<Rightarrow> (('m, 'l, 'x) namespacedV1_heap \<Rightarrow> 'l \<Rightarrow> 'l \<times> ('m, 'l, 'x) namespacedV1_heap) \<Rightarrow>
    ('m, 'l, 'x) namespacedV1_heap \<Rightarrow> addr option \<Rightarrow> addr option \<times> ('m, 'l, 'x) namespacedV1_heap" where
  "namespacedV1List_DeepCopy mcopy lcopy = ptr_copy dnr1c_list DNR1List (namespacedV1List_DeepCopyInto mcopy lcopy)"

definition namespacedV1List_DeepCopyObject :: "(('m, 'l, 'x) namespacedV1_heap \<Rightarrow> 'm \<Rightarrow> 'm \<times> ('m, 'l, 'x) namespacedV1_heap) \<Rightarrow> (('m, 'l, 'x) namespacedV1_heap \<Rightarrow> 'l \<Rightarrow> 'l \<times> ('m, 'l, 'x) namespacedV1_heap) \<Rightarrow>
    ('m, 'l, 'x) namespacedV1_heap \<Rightarrow> addr option \<Rightarrow> iface \<times> ('m, 'l, 'x) namespacedV1_heap" where
  "namespacedV1List_DeepCopyObject mcopy lcopy h p =
     (let (c, h) = namespacedV1List_DeepCopy mcopy lcopy h p in (if c \<noteq> None then Iface c else NilIface, h))"

definition namespacedV1Spec_DeepCopyInto :: "('m, 'l, 'x) namespacedV1_heap \<Rightarrow> namespacedV1_spec \<Rightarrow> namespacedV1_spec \<times> ('m, 'l, 'x) namespacedV1_heap" where
  "namespacedV1Spec_DeepCopyInto = flat_copy"

definition namespacedV1Spec_DeepCopy :: "('m, 'l, 'x) namespacedV1_heap \<Rightarrow> addr option \<Rightarrow> addr option \<times> ('m, 'l, 'x) namespacedV1_heap" where
  "namespacedV1Spec_DeepCopy = ptr_copy dnr1c_spec DNR1Spec namespacedV1Spec_DeepCopyInto"

definition namespacedV1Status_DeepCopyInto :: "('m, 'l, 'x) namespacedV1_heap \<Rightarrow> namespacedV1_status \<Rightarrow> namespacedV1_status \<times> ('m, 'l, 'x) namespacedV1_heap" where
  "namespacedV1Status_DeepCopyInto = flat_copy"

definition namespacedV1Status_DeepCopy :: "('m, 'l, 'x) namespacedV1_heap \<Rightarrow> addr option \<Rightarrow> addr option \<times> ('m, 'l, 'x) namespacedV1_heap" where
  "namespacedV1Status_DeepCopy = ptr_copy dnr1c_status DNR1Status namespacedV1Status_DeepCopyInto"

text \<open>A resource in memory as its pointer and the rest, and a list of them.\<close>

lemma namespacedV1_copier:
  fixes mcopy :: "('m, 'l, 'x) namespacedV1_heap \<Rightarrow> 'm \<Rightarrow> 'm \<times> ('m, 'l, 'x) namespacedV1_heap"
  assumes "copier mcopy mview mrefs"
  shows "copier (namespacedV1_DeepCopyInto mcopy)
    (\<lambda>h g. (mview h (dnr1_meta g), (dnr1_type g, dnr1_spec g, dnr1_status g))) (\<lambda>h g. mrefs h (dnr1_meta g) \<union> {})"
proof -
  define un where "un = (\<lambda>g :: 'm namespacedV1_mem. (dnr1_meta g, (dnr1_type g, dnr1_spec g, dnr1_status g)))"
  define mk where "mk = (\<lambda>(m :: 'm, t, s, st). \<lparr>dnr1_type = t, dnr1_meta = m, dnr1_spec = s, dnr1_status = st\<rparr>)"
  have "copier (namespacedV1_DeepCopyInto mcopy)
      (\<lambda>h g. (mview h (fst (un g)), snd (un g))) (\<lambda>h g. mrefs h (fst (un g)) \<union> {})"
    by (rule iso_copier [OF pair_copier [OF assms flat_copier], of un mk])
       (simp_all add: un_def mk_def namespacedV1_DeepCopyInto_def pair_copy_def flat_copy_def case_prod_beta Let_def)
  then show ?thesis by (simp add: un_def)
qed

definition namespacedV1_list_view where
  "namespacedV1_list_view mview lview h l = (lview h (dnr1l_meta l), ptr_view dnr1c_items
     (\<lambda>h gs. map (\<lambda>g. (mview h (dnr1_meta g), (dnr1_type g, dnr1_spec g, dnr1_status g))) gs) h (dnr1l_items l), dnr1l_type l)"

definition namespacedV1_list_refs where
  "namespacedV1_list_refs mrefs lrefs h l = lrefs h (dnr1l_meta l) \<union> (ptr_refs dnr1c_items
     (\<lambda>h gs. \<Union> ((\<lambda>g. mrefs h (dnr1_meta g) \<union> {}) ` set gs)) h (dnr1l_items l) \<union> {})"

lemma namespacedV1_list_copier:
  fixes mcopy :: "('m, 'l, 'x) namespacedV1_heap \<Rightarrow> 'm \<Rightarrow> 'm \<times> ('m, 'l, 'x) namespacedV1_heap"
    and lcopy :: "('m, 'l, 'x) namespacedV1_heap \<Rightarrow> 'l \<Rightarrow> 'l \<times> ('m, 'l, 'x) namespacedV1_heap"
  assumes "copier mcopy mview mrefs" and "copier lcopy lview lrefs"
  shows "copier (namespacedV1List_DeepCopyInto mcopy lcopy) (namespacedV1_list_view mview lview) (namespacedV1_list_refs mrefs lrefs)"
proof -
  define un where "un = (\<lambda>l :: 'l namespacedV1_list_mem. (dnr1l_meta l, dnr1l_items l, dnr1l_type l))"
  define mk where "mk = (\<lambda>(m :: 'l, i, t). \<lparr>dnr1l_type = t, dnr1l_meta = m, dnr1l_items = i\<rparr>)"
  have items: "copier (ptr_copy dnr1c_items DNR1Items (items_copy (namespacedV1_DeepCopyInto mcopy)))
      (ptr_view dnr1c_items (\<lambda>h gs. map (\<lambda>g. (mview h (dnr1_meta g), (dnr1_type g, dnr1_spec g, dnr1_status g))) gs))
      (ptr_refs dnr1c_items (\<lambda>h gs. \<Union> ((\<lambda>g. mrefs h (dnr1_meta g) \<union> {}) ` set gs)))"
    by (rule ptr_copier [OF items_copier [OF namespacedV1_copier [OF assms(1)]]]) simp
  have "copier (namespacedV1List_DeepCopyInto mcopy lcopy) (\<lambda>h l. (\<lambda>h ab. (lview h (fst ab), (\<lambda>h ab. (ptr_view dnr1c_items
      (\<lambda>h gs. map (\<lambda>g. (mview h (dnr1_meta g), (dnr1_type g, dnr1_spec g, dnr1_status g))) gs) h (fst ab), snd ab)) h (snd ab))) h (un l))
    (\<lambda>h l. (\<lambda>h ab. lrefs h (fst ab) \<union> (\<lambda>h ab. ptr_refs dnr1c_items
      (\<lambda>h gs. \<Union> ((\<lambda>g. mrefs h (dnr1_meta g) \<union> {}) ` set gs)) h (fst ab) \<union> {}) h (snd ab)) h (un l))"
    by (rule iso_copier [OF pair_copier [OF assms(2) pair_copier [OF items flat_copier]], of un mk])
       (simp_all add: un_def mk_def namespacedV1List_DeepCopyInto_def pair_copy_def flat_copy_def case_prod_beta Let_def)
  then show ?thesis
    by (simp add: un_def namespacedV1_list_view_def [abs_def] namespacedV1_list_refs_def [abs_def])
qed

text \<open>Every deep copy is a new object with the same value, independent of the original.\<close>

lemma namespacedV1_DeepCopy_independent:
  assumes "copier mcopy mview mrefs" and "copier lcopy lview lrefs"
  shows "copier (namespacedV1_DeepCopy mcopy)
      (ptr_view dnr1c_obj (\<lambda>h g. (mview h (dnr1_meta g), (dnr1_type g, dnr1_spec g, dnr1_status g))))
      (ptr_refs dnr1c_obj (\<lambda>h g. mrefs h (dnr1_meta g) \<union> {}))"
    and "copier (namespacedV1List_DeepCopy mcopy lcopy)
      (ptr_view dnr1c_list (namespacedV1_list_view mview lview)) (ptr_refs dnr1c_list (namespacedV1_list_refs mrefs lrefs))"
    and "copier namespacedV1Spec_DeepCopy (ptr_view dnr1c_spec (\<lambda>h s. s)) (ptr_refs dnr1c_spec (\<lambda>h s. {}))"
    and "copier namespacedV1Status_DeepCopy (ptr_view dnr1c_status (\<lambda>h s. s)) (ptr_refs dnr1c_status (\<lambda>h s. {}))"
  unfolding namespacedV1_DeepCopy_def namespacedV1List_DeepCopy_def namespacedV1Spec_DeepCopy_def namespacedV1Status_DeepCopy_def
    namespacedV1Spec_DeepCopyInto_def namespacedV1Status_DeepCopyInto_def
  by (rule ptr_copier, rule namespacedV1_copier [OF assms(1)], simp)
     (rule ptr_copier, rule namespacedV1_list_copier [OF assms], simp,
      (rule ptr_copier, rule flat_copier, simp)+)

interpretation namespacedV1_std: copier "namespacedV1_DeepCopy flat_copy"
    "ptr_view dnr1c_obj (\<lambda>h g. (dnr1_meta g, (dnr1_type g, dnr1_spec g, dnr1_status g)))"
    "ptr_refs dnr1c_obj (\<lambda>h g. {} \<union> {})"
  by (rule namespacedV1_DeepCopy_independent(1) [OF flat_copier flat_copier])

end
