(* ===== verification/SampleDeepCopyV2.thy ===== *)
theory SampleDeepCopyV2
  imports SampleAPI HeapCopy
begin

text \<open>
  The generated deep copies of the sample API, version v1alpha2 (\<open>zz_generated.deepcopy.go\<close>), on a
  heap, for both resources. The deep copies of \<open>ObjectMeta\<close> and \<open>ListMeta\<close> are arguments that have the
  contract of a copy.
\<close>

section \<open>ClusterResource\<close>

record 'm clusterV2_mem =
  dcr2_type :: type_meta
  dcr2_meta :: 'm
  dcr2_spec :: clusterV2_spec
  dcr2_status :: clusterV2_status

record 'l clusterV2_list_mem =
  dcr2l_type :: type_meta
  dcr2l_meta :: 'l
  dcr2l_items :: "addr option"

datatype ('m, 'l, 'x) clusterV2_cell =
    DCR2Obj "'m clusterV2_mem"
  | DCR2Items "'m clusterV2_mem list"
  | DCR2List "'l clusterV2_list_mem"
  | DCR2Spec clusterV2_spec
  | DCR2Status clusterV2_status
  | DCR2Meta 'x

fun dcr2c_obj :: "('m, 'l, 'x) clusterV2_cell \<Rightarrow> 'm clusterV2_mem option" where
  "dcr2c_obj (DCR2Obj g) = Some g" | "dcr2c_obj _ = None"

fun dcr2c_items :: "('m, 'l, 'x) clusterV2_cell \<Rightarrow> 'm clusterV2_mem list option" where
  "dcr2c_items (DCR2Items gs) = Some gs" | "dcr2c_items _ = None"

fun dcr2c_list :: "('m, 'l, 'x) clusterV2_cell \<Rightarrow> 'l clusterV2_list_mem option" where
  "dcr2c_list (DCR2List l) = Some l" | "dcr2c_list _ = None"

fun dcr2c_spec :: "('m, 'l, 'x) clusterV2_cell \<Rightarrow> clusterV2_spec option" where
  "dcr2c_spec (DCR2Spec s) = Some s" | "dcr2c_spec _ = None"

fun dcr2c_status :: "('m, 'l, 'x) clusterV2_cell \<Rightarrow> clusterV2_status option" where
  "dcr2c_status (DCR2Status s) = Some s" | "dcr2c_status _ = None"

type_synonym ('m, 'l, 'x) clusterV2_heap = "('m, 'l, 'x) clusterV2_cell heap"

definition clusterV2_DeepCopyInto :: "(('m, 'l, 'x) clusterV2_heap \<Rightarrow> 'm \<Rightarrow> 'm \<times> ('m, 'l, 'x) clusterV2_heap) \<Rightarrow>
    ('m, 'l, 'x) clusterV2_heap \<Rightarrow> 'm clusterV2_mem \<Rightarrow> 'm clusterV2_mem \<times> ('m, 'l, 'x) clusterV2_heap" where
  "clusterV2_DeepCopyInto mcopy h g =
     (let out = g;
          out = out\<lparr>dcr2_type := dcr2_type g\<rparr>;
          (m, h) = mcopy h (dcr2_meta g);
          out = out\<lparr>dcr2_meta := m\<rparr>;
          out = out\<lparr>dcr2_spec := dcr2_spec g\<rparr>;
          out = out\<lparr>dcr2_status := dcr2_status g\<rparr>
      in (out, h))"

definition clusterV2_DeepCopy :: "(('m, 'l, 'x) clusterV2_heap \<Rightarrow> 'm \<Rightarrow> 'm \<times> ('m, 'l, 'x) clusterV2_heap) \<Rightarrow>
    ('m, 'l, 'x) clusterV2_heap \<Rightarrow> addr option \<Rightarrow> addr option \<times> ('m, 'l, 'x) clusterV2_heap" where
  "clusterV2_DeepCopy mcopy = ptr_copy dcr2c_obj DCR2Obj (clusterV2_DeepCopyInto mcopy)"

definition clusterV2_DeepCopyObject :: "(('m, 'l, 'x) clusterV2_heap \<Rightarrow> 'm \<Rightarrow> 'm \<times> ('m, 'l, 'x) clusterV2_heap) \<Rightarrow>
    ('m, 'l, 'x) clusterV2_heap \<Rightarrow> addr option \<Rightarrow> iface \<times> ('m, 'l, 'x) clusterV2_heap" where
  "clusterV2_DeepCopyObject mcopy h p =
     (let (c, h) = clusterV2_DeepCopy mcopy h p in (if c \<noteq> None then Iface c else NilIface, h))"

definition clusterV2List_DeepCopyInto :: "(('m, 'l, 'x) clusterV2_heap \<Rightarrow> 'm \<Rightarrow> 'm \<times> ('m, 'l, 'x) clusterV2_heap) \<Rightarrow> (('m, 'l, 'x) clusterV2_heap \<Rightarrow> 'l \<Rightarrow> 'l \<times> ('m, 'l, 'x) clusterV2_heap) \<Rightarrow>
    ('m, 'l, 'x) clusterV2_heap \<Rightarrow> 'l clusterV2_list_mem \<Rightarrow> 'l clusterV2_list_mem \<times> ('m, 'l, 'x) clusterV2_heap" where
  "clusterV2List_DeepCopyInto mcopy lcopy h l =
     (let out = l;
          out = out\<lparr>dcr2l_type := dcr2l_type l\<rparr>;
          (m, h) = lcopy h (dcr2l_meta l);
          out = out\<lparr>dcr2l_meta := m\<rparr>;
          (items, h) = ptr_copy dcr2c_items DCR2Items (items_copy (clusterV2_DeepCopyInto mcopy)) h (dcr2l_items l);
          out = out\<lparr>dcr2l_items := items\<rparr>
      in (out, h))"

definition clusterV2List_DeepCopy :: "(('m, 'l, 'x) clusterV2_heap \<Rightarrow> 'm \<Rightarrow> 'm \<times> ('m, 'l, 'x) clusterV2_heap) \<Rightarrow> (('m, 'l, 'x) clusterV2_heap \<Rightarrow> 'l \<Rightarrow> 'l \<times> ('m, 'l, 'x) clusterV2_heap) \<Rightarrow>
    ('m, 'l, 'x) clusterV2_heap \<Rightarrow> addr option \<Rightarrow> addr option \<times> ('m, 'l, 'x) clusterV2_heap" where
  "clusterV2List_DeepCopy mcopy lcopy = ptr_copy dcr2c_list DCR2List (clusterV2List_DeepCopyInto mcopy lcopy)"

definition clusterV2List_DeepCopyObject :: "(('m, 'l, 'x) clusterV2_heap \<Rightarrow> 'm \<Rightarrow> 'm \<times> ('m, 'l, 'x) clusterV2_heap) \<Rightarrow> (('m, 'l, 'x) clusterV2_heap \<Rightarrow> 'l \<Rightarrow> 'l \<times> ('m, 'l, 'x) clusterV2_heap) \<Rightarrow>
    ('m, 'l, 'x) clusterV2_heap \<Rightarrow> addr option \<Rightarrow> iface \<times> ('m, 'l, 'x) clusterV2_heap" where
  "clusterV2List_DeepCopyObject mcopy lcopy h p =
     (let (c, h) = clusterV2List_DeepCopy mcopy lcopy h p in (if c \<noteq> None then Iface c else NilIface, h))"

definition clusterV2Spec_DeepCopyInto :: "('m, 'l, 'x) clusterV2_heap \<Rightarrow> clusterV2_spec \<Rightarrow> clusterV2_spec \<times> ('m, 'l, 'x) clusterV2_heap" where
  "clusterV2Spec_DeepCopyInto = flat_copy"

definition clusterV2Spec_DeepCopy :: "('m, 'l, 'x) clusterV2_heap \<Rightarrow> addr option \<Rightarrow> addr option \<times> ('m, 'l, 'x) clusterV2_heap" where
  "clusterV2Spec_DeepCopy = ptr_copy dcr2c_spec DCR2Spec clusterV2Spec_DeepCopyInto"

definition clusterV2Status_DeepCopyInto :: "('m, 'l, 'x) clusterV2_heap \<Rightarrow> clusterV2_status \<Rightarrow> clusterV2_status \<times> ('m, 'l, 'x) clusterV2_heap" where
  "clusterV2Status_DeepCopyInto = flat_copy"

definition clusterV2Status_DeepCopy :: "('m, 'l, 'x) clusterV2_heap \<Rightarrow> addr option \<Rightarrow> addr option \<times> ('m, 'l, 'x) clusterV2_heap" where
  "clusterV2Status_DeepCopy = ptr_copy dcr2c_status DCR2Status clusterV2Status_DeepCopyInto"

text \<open>A resource in memory as its pointer and the rest, and a list of them.\<close>

lemma clusterV2_copier:
  fixes mcopy :: "('m, 'l, 'x) clusterV2_heap \<Rightarrow> 'm \<Rightarrow> 'm \<times> ('m, 'l, 'x) clusterV2_heap"
  assumes "copier mcopy mview mrefs"
  shows "copier (clusterV2_DeepCopyInto mcopy)
    (\<lambda>h g. (mview h (dcr2_meta g), (dcr2_type g, dcr2_spec g, dcr2_status g))) (\<lambda>h g. mrefs h (dcr2_meta g) \<union> {})"
proof -
  define un where "un = (\<lambda>g :: 'm clusterV2_mem. (dcr2_meta g, (dcr2_type g, dcr2_spec g, dcr2_status g)))"
  define mk where "mk = (\<lambda>(m :: 'm, t, s, st). \<lparr>dcr2_type = t, dcr2_meta = m, dcr2_spec = s, dcr2_status = st\<rparr>)"
  have "copier (clusterV2_DeepCopyInto mcopy)
      (\<lambda>h g. (mview h (fst (un g)), snd (un g))) (\<lambda>h g. mrefs h (fst (un g)) \<union> {})"
    by (rule iso_copier [OF pair_copier [OF assms flat_copier], of un mk])
       (simp_all add: un_def mk_def clusterV2_DeepCopyInto_def pair_copy_def flat_copy_def case_prod_beta Let_def)
  then show ?thesis by (simp add: un_def)
qed

definition clusterV2_list_view where
  "clusterV2_list_view mview lview h l = (lview h (dcr2l_meta l), ptr_view dcr2c_items
     (\<lambda>h gs. map (\<lambda>g. (mview h (dcr2_meta g), (dcr2_type g, dcr2_spec g, dcr2_status g))) gs) h (dcr2l_items l), dcr2l_type l)"

definition clusterV2_list_refs where
  "clusterV2_list_refs mrefs lrefs h l = lrefs h (dcr2l_meta l) \<union> (ptr_refs dcr2c_items
     (\<lambda>h gs. \<Union> ((\<lambda>g. mrefs h (dcr2_meta g) \<union> {}) ` set gs)) h (dcr2l_items l) \<union> {})"

lemma clusterV2_list_copier:
  fixes mcopy :: "('m, 'l, 'x) clusterV2_heap \<Rightarrow> 'm \<Rightarrow> 'm \<times> ('m, 'l, 'x) clusterV2_heap"
    and lcopy :: "('m, 'l, 'x) clusterV2_heap \<Rightarrow> 'l \<Rightarrow> 'l \<times> ('m, 'l, 'x) clusterV2_heap"
  assumes "copier mcopy mview mrefs" and "copier lcopy lview lrefs"
  shows "copier (clusterV2List_DeepCopyInto mcopy lcopy) (clusterV2_list_view mview lview) (clusterV2_list_refs mrefs lrefs)"
proof -
  define un where "un = (\<lambda>l :: 'l clusterV2_list_mem. (dcr2l_meta l, dcr2l_items l, dcr2l_type l))"
  define mk where "mk = (\<lambda>(m :: 'l, i, t). \<lparr>dcr2l_type = t, dcr2l_meta = m, dcr2l_items = i\<rparr>)"
  have items: "copier (ptr_copy dcr2c_items DCR2Items (items_copy (clusterV2_DeepCopyInto mcopy)))
      (ptr_view dcr2c_items (\<lambda>h gs. map (\<lambda>g. (mview h (dcr2_meta g), (dcr2_type g, dcr2_spec g, dcr2_status g))) gs))
      (ptr_refs dcr2c_items (\<lambda>h gs. \<Union> ((\<lambda>g. mrefs h (dcr2_meta g) \<union> {}) ` set gs)))"
    by (rule ptr_copier [OF items_copier [OF clusterV2_copier [OF assms(1)]]]) simp
  have "copier (clusterV2List_DeepCopyInto mcopy lcopy) (\<lambda>h l. (\<lambda>h ab. (lview h (fst ab), (\<lambda>h ab. (ptr_view dcr2c_items
      (\<lambda>h gs. map (\<lambda>g. (mview h (dcr2_meta g), (dcr2_type g, dcr2_spec g, dcr2_status g))) gs) h (fst ab), snd ab)) h (snd ab))) h (un l))
    (\<lambda>h l. (\<lambda>h ab. lrefs h (fst ab) \<union> (\<lambda>h ab. ptr_refs dcr2c_items
      (\<lambda>h gs. \<Union> ((\<lambda>g. mrefs h (dcr2_meta g) \<union> {}) ` set gs)) h (fst ab) \<union> {}) h (snd ab)) h (un l))"
    by (rule iso_copier [OF pair_copier [OF assms(2) pair_copier [OF items flat_copier]], of un mk])
       (simp_all add: un_def mk_def clusterV2List_DeepCopyInto_def pair_copy_def flat_copy_def case_prod_beta Let_def)
  then show ?thesis
    by (simp add: un_def clusterV2_list_view_def [abs_def] clusterV2_list_refs_def [abs_def])
qed

text \<open>Every deep copy is a new object with the same value, independent of the original.\<close>

lemma clusterV2_DeepCopy_independent:
  assumes "copier mcopy mview mrefs" and "copier lcopy lview lrefs"
  shows "copier (clusterV2_DeepCopy mcopy)
      (ptr_view dcr2c_obj (\<lambda>h g. (mview h (dcr2_meta g), (dcr2_type g, dcr2_spec g, dcr2_status g))))
      (ptr_refs dcr2c_obj (\<lambda>h g. mrefs h (dcr2_meta g) \<union> {}))"
    and "copier (clusterV2List_DeepCopy mcopy lcopy)
      (ptr_view dcr2c_list (clusterV2_list_view mview lview)) (ptr_refs dcr2c_list (clusterV2_list_refs mrefs lrefs))"
    and "copier clusterV2Spec_DeepCopy (ptr_view dcr2c_spec (\<lambda>h s. s)) (ptr_refs dcr2c_spec (\<lambda>h s. {}))"
    and "copier clusterV2Status_DeepCopy (ptr_view dcr2c_status (\<lambda>h s. s)) (ptr_refs dcr2c_status (\<lambda>h s. {}))"
  unfolding clusterV2_DeepCopy_def clusterV2List_DeepCopy_def clusterV2Spec_DeepCopy_def clusterV2Status_DeepCopy_def
    clusterV2Spec_DeepCopyInto_def clusterV2Status_DeepCopyInto_def
  by (rule ptr_copier, rule clusterV2_copier [OF assms(1)], simp)
     (rule ptr_copier, rule clusterV2_list_copier [OF assms], simp,
      (rule ptr_copier, rule flat_copier, simp)+)

interpretation clusterV2_std: copier "clusterV2_DeepCopy flat_copy"
    "ptr_view dcr2c_obj (\<lambda>h g. (dcr2_meta g, (dcr2_type g, dcr2_spec g, dcr2_status g)))"
    "ptr_refs dcr2c_obj (\<lambda>h g. {} \<union> {})"
  by (rule clusterV2_DeepCopy_independent(1) [OF flat_copier flat_copier])

section \<open>NamespacedResource\<close>

record 'm namespacedV2_mem =
  dnr2_type :: type_meta
  dnr2_meta :: 'm
  dnr2_spec :: namespacedV2_spec
  dnr2_status :: namespacedV2_status

record 'l namespacedV2_list_mem =
  dnr2l_type :: type_meta
  dnr2l_meta :: 'l
  dnr2l_items :: "addr option"

datatype ('m, 'l, 'x) namespacedV2_cell =
    DNR2Obj "'m namespacedV2_mem"
  | DNR2Items "'m namespacedV2_mem list"
  | DNR2List "'l namespacedV2_list_mem"
  | DNR2Spec namespacedV2_spec
  | DNR2Status namespacedV2_status
  | DNR2Meta 'x

fun dnr2c_obj :: "('m, 'l, 'x) namespacedV2_cell \<Rightarrow> 'm namespacedV2_mem option" where
  "dnr2c_obj (DNR2Obj g) = Some g" | "dnr2c_obj _ = None"

fun dnr2c_items :: "('m, 'l, 'x) namespacedV2_cell \<Rightarrow> 'm namespacedV2_mem list option" where
  "dnr2c_items (DNR2Items gs) = Some gs" | "dnr2c_items _ = None"

fun dnr2c_list :: "('m, 'l, 'x) namespacedV2_cell \<Rightarrow> 'l namespacedV2_list_mem option" where
  "dnr2c_list (DNR2List l) = Some l" | "dnr2c_list _ = None"

fun dnr2c_spec :: "('m, 'l, 'x) namespacedV2_cell \<Rightarrow> namespacedV2_spec option" where
  "dnr2c_spec (DNR2Spec s) = Some s" | "dnr2c_spec _ = None"

fun dnr2c_status :: "('m, 'l, 'x) namespacedV2_cell \<Rightarrow> namespacedV2_status option" where
  "dnr2c_status (DNR2Status s) = Some s" | "dnr2c_status _ = None"

type_synonym ('m, 'l, 'x) namespacedV2_heap = "('m, 'l, 'x) namespacedV2_cell heap"

definition namespacedV2_DeepCopyInto :: "(('m, 'l, 'x) namespacedV2_heap \<Rightarrow> 'm \<Rightarrow> 'm \<times> ('m, 'l, 'x) namespacedV2_heap) \<Rightarrow>
    ('m, 'l, 'x) namespacedV2_heap \<Rightarrow> 'm namespacedV2_mem \<Rightarrow> 'm namespacedV2_mem \<times> ('m, 'l, 'x) namespacedV2_heap" where
  "namespacedV2_DeepCopyInto mcopy h g =
     (let out = g;
          out = out\<lparr>dnr2_type := dnr2_type g\<rparr>;
          (m, h) = mcopy h (dnr2_meta g);
          out = out\<lparr>dnr2_meta := m\<rparr>;
          out = out\<lparr>dnr2_spec := dnr2_spec g\<rparr>;
          out = out\<lparr>dnr2_status := dnr2_status g\<rparr>
      in (out, h))"

definition namespacedV2_DeepCopy :: "(('m, 'l, 'x) namespacedV2_heap \<Rightarrow> 'm \<Rightarrow> 'm \<times> ('m, 'l, 'x) namespacedV2_heap) \<Rightarrow>
    ('m, 'l, 'x) namespacedV2_heap \<Rightarrow> addr option \<Rightarrow> addr option \<times> ('m, 'l, 'x) namespacedV2_heap" where
  "namespacedV2_DeepCopy mcopy = ptr_copy dnr2c_obj DNR2Obj (namespacedV2_DeepCopyInto mcopy)"

definition namespacedV2_DeepCopyObject :: "(('m, 'l, 'x) namespacedV2_heap \<Rightarrow> 'm \<Rightarrow> 'm \<times> ('m, 'l, 'x) namespacedV2_heap) \<Rightarrow>
    ('m, 'l, 'x) namespacedV2_heap \<Rightarrow> addr option \<Rightarrow> iface \<times> ('m, 'l, 'x) namespacedV2_heap" where
  "namespacedV2_DeepCopyObject mcopy h p =
     (let (c, h) = namespacedV2_DeepCopy mcopy h p in (if c \<noteq> None then Iface c else NilIface, h))"

definition namespacedV2List_DeepCopyInto :: "(('m, 'l, 'x) namespacedV2_heap \<Rightarrow> 'm \<Rightarrow> 'm \<times> ('m, 'l, 'x) namespacedV2_heap) \<Rightarrow> (('m, 'l, 'x) namespacedV2_heap \<Rightarrow> 'l \<Rightarrow> 'l \<times> ('m, 'l, 'x) namespacedV2_heap) \<Rightarrow>
    ('m, 'l, 'x) namespacedV2_heap \<Rightarrow> 'l namespacedV2_list_mem \<Rightarrow> 'l namespacedV2_list_mem \<times> ('m, 'l, 'x) namespacedV2_heap" where
  "namespacedV2List_DeepCopyInto mcopy lcopy h l =
     (let out = l;
          out = out\<lparr>dnr2l_type := dnr2l_type l\<rparr>;
          (m, h) = lcopy h (dnr2l_meta l);
          out = out\<lparr>dnr2l_meta := m\<rparr>;
          (items, h) = ptr_copy dnr2c_items DNR2Items (items_copy (namespacedV2_DeepCopyInto mcopy)) h (dnr2l_items l);
          out = out\<lparr>dnr2l_items := items\<rparr>
      in (out, h))"

definition namespacedV2List_DeepCopy :: "(('m, 'l, 'x) namespacedV2_heap \<Rightarrow> 'm \<Rightarrow> 'm \<times> ('m, 'l, 'x) namespacedV2_heap) \<Rightarrow> (('m, 'l, 'x) namespacedV2_heap \<Rightarrow> 'l \<Rightarrow> 'l \<times> ('m, 'l, 'x) namespacedV2_heap) \<Rightarrow>
    ('m, 'l, 'x) namespacedV2_heap \<Rightarrow> addr option \<Rightarrow> addr option \<times> ('m, 'l, 'x) namespacedV2_heap" where
  "namespacedV2List_DeepCopy mcopy lcopy = ptr_copy dnr2c_list DNR2List (namespacedV2List_DeepCopyInto mcopy lcopy)"

definition namespacedV2List_DeepCopyObject :: "(('m, 'l, 'x) namespacedV2_heap \<Rightarrow> 'm \<Rightarrow> 'm \<times> ('m, 'l, 'x) namespacedV2_heap) \<Rightarrow> (('m, 'l, 'x) namespacedV2_heap \<Rightarrow> 'l \<Rightarrow> 'l \<times> ('m, 'l, 'x) namespacedV2_heap) \<Rightarrow>
    ('m, 'l, 'x) namespacedV2_heap \<Rightarrow> addr option \<Rightarrow> iface \<times> ('m, 'l, 'x) namespacedV2_heap" where
  "namespacedV2List_DeepCopyObject mcopy lcopy h p =
     (let (c, h) = namespacedV2List_DeepCopy mcopy lcopy h p in (if c \<noteq> None then Iface c else NilIface, h))"

definition namespacedV2Spec_DeepCopyInto :: "('m, 'l, 'x) namespacedV2_heap \<Rightarrow> namespacedV2_spec \<Rightarrow> namespacedV2_spec \<times> ('m, 'l, 'x) namespacedV2_heap" where
  "namespacedV2Spec_DeepCopyInto = flat_copy"

definition namespacedV2Spec_DeepCopy :: "('m, 'l, 'x) namespacedV2_heap \<Rightarrow> addr option \<Rightarrow> addr option \<times> ('m, 'l, 'x) namespacedV2_heap" where
  "namespacedV2Spec_DeepCopy = ptr_copy dnr2c_spec DNR2Spec namespacedV2Spec_DeepCopyInto"

definition namespacedV2Status_DeepCopyInto :: "('m, 'l, 'x) namespacedV2_heap \<Rightarrow> namespacedV2_status \<Rightarrow> namespacedV2_status \<times> ('m, 'l, 'x) namespacedV2_heap" where
  "namespacedV2Status_DeepCopyInto = flat_copy"

definition namespacedV2Status_DeepCopy :: "('m, 'l, 'x) namespacedV2_heap \<Rightarrow> addr option \<Rightarrow> addr option \<times> ('m, 'l, 'x) namespacedV2_heap" where
  "namespacedV2Status_DeepCopy = ptr_copy dnr2c_status DNR2Status namespacedV2Status_DeepCopyInto"

text \<open>A resource in memory as its pointer and the rest, and a list of them.\<close>

lemma namespacedV2_copier:
  fixes mcopy :: "('m, 'l, 'x) namespacedV2_heap \<Rightarrow> 'm \<Rightarrow> 'm \<times> ('m, 'l, 'x) namespacedV2_heap"
  assumes "copier mcopy mview mrefs"
  shows "copier (namespacedV2_DeepCopyInto mcopy)
    (\<lambda>h g. (mview h (dnr2_meta g), (dnr2_type g, dnr2_spec g, dnr2_status g))) (\<lambda>h g. mrefs h (dnr2_meta g) \<union> {})"
proof -
  define un where "un = (\<lambda>g :: 'm namespacedV2_mem. (dnr2_meta g, (dnr2_type g, dnr2_spec g, dnr2_status g)))"
  define mk where "mk = (\<lambda>(m :: 'm, t, s, st). \<lparr>dnr2_type = t, dnr2_meta = m, dnr2_spec = s, dnr2_status = st\<rparr>)"
  have "copier (namespacedV2_DeepCopyInto mcopy)
      (\<lambda>h g. (mview h (fst (un g)), snd (un g))) (\<lambda>h g. mrefs h (fst (un g)) \<union> {})"
    by (rule iso_copier [OF pair_copier [OF assms flat_copier], of un mk])
       (simp_all add: un_def mk_def namespacedV2_DeepCopyInto_def pair_copy_def flat_copy_def case_prod_beta Let_def)
  then show ?thesis by (simp add: un_def)
qed

definition namespacedV2_list_view where
  "namespacedV2_list_view mview lview h l = (lview h (dnr2l_meta l), ptr_view dnr2c_items
     (\<lambda>h gs. map (\<lambda>g. (mview h (dnr2_meta g), (dnr2_type g, dnr2_spec g, dnr2_status g))) gs) h (dnr2l_items l), dnr2l_type l)"

definition namespacedV2_list_refs where
  "namespacedV2_list_refs mrefs lrefs h l = lrefs h (dnr2l_meta l) \<union> (ptr_refs dnr2c_items
     (\<lambda>h gs. \<Union> ((\<lambda>g. mrefs h (dnr2_meta g) \<union> {}) ` set gs)) h (dnr2l_items l) \<union> {})"

lemma namespacedV2_list_copier:
  fixes mcopy :: "('m, 'l, 'x) namespacedV2_heap \<Rightarrow> 'm \<Rightarrow> 'm \<times> ('m, 'l, 'x) namespacedV2_heap"
    and lcopy :: "('m, 'l, 'x) namespacedV2_heap \<Rightarrow> 'l \<Rightarrow> 'l \<times> ('m, 'l, 'x) namespacedV2_heap"
  assumes "copier mcopy mview mrefs" and "copier lcopy lview lrefs"
  shows "copier (namespacedV2List_DeepCopyInto mcopy lcopy) (namespacedV2_list_view mview lview) (namespacedV2_list_refs mrefs lrefs)"
proof -
  define un where "un = (\<lambda>l :: 'l namespacedV2_list_mem. (dnr2l_meta l, dnr2l_items l, dnr2l_type l))"
  define mk where "mk = (\<lambda>(m :: 'l, i, t). \<lparr>dnr2l_type = t, dnr2l_meta = m, dnr2l_items = i\<rparr>)"
  have items: "copier (ptr_copy dnr2c_items DNR2Items (items_copy (namespacedV2_DeepCopyInto mcopy)))
      (ptr_view dnr2c_items (\<lambda>h gs. map (\<lambda>g. (mview h (dnr2_meta g), (dnr2_type g, dnr2_spec g, dnr2_status g))) gs))
      (ptr_refs dnr2c_items (\<lambda>h gs. \<Union> ((\<lambda>g. mrefs h (dnr2_meta g) \<union> {}) ` set gs)))"
    by (rule ptr_copier [OF items_copier [OF namespacedV2_copier [OF assms(1)]]]) simp
  have "copier (namespacedV2List_DeepCopyInto mcopy lcopy) (\<lambda>h l. (\<lambda>h ab. (lview h (fst ab), (\<lambda>h ab. (ptr_view dnr2c_items
      (\<lambda>h gs. map (\<lambda>g. (mview h (dnr2_meta g), (dnr2_type g, dnr2_spec g, dnr2_status g))) gs) h (fst ab), snd ab)) h (snd ab))) h (un l))
    (\<lambda>h l. (\<lambda>h ab. lrefs h (fst ab) \<union> (\<lambda>h ab. ptr_refs dnr2c_items
      (\<lambda>h gs. \<Union> ((\<lambda>g. mrefs h (dnr2_meta g) \<union> {}) ` set gs)) h (fst ab) \<union> {}) h (snd ab)) h (un l))"
    by (rule iso_copier [OF pair_copier [OF assms(2) pair_copier [OF items flat_copier]], of un mk])
       (simp_all add: un_def mk_def namespacedV2List_DeepCopyInto_def pair_copy_def flat_copy_def case_prod_beta Let_def)
  then show ?thesis
    by (simp add: un_def namespacedV2_list_view_def [abs_def] namespacedV2_list_refs_def [abs_def])
qed

text \<open>Every deep copy is a new object with the same value, independent of the original.\<close>

lemma namespacedV2_DeepCopy_independent:
  assumes "copier mcopy mview mrefs" and "copier lcopy lview lrefs"
  shows "copier (namespacedV2_DeepCopy mcopy)
      (ptr_view dnr2c_obj (\<lambda>h g. (mview h (dnr2_meta g), (dnr2_type g, dnr2_spec g, dnr2_status g))))
      (ptr_refs dnr2c_obj (\<lambda>h g. mrefs h (dnr2_meta g) \<union> {}))"
    and "copier (namespacedV2List_DeepCopy mcopy lcopy)
      (ptr_view dnr2c_list (namespacedV2_list_view mview lview)) (ptr_refs dnr2c_list (namespacedV2_list_refs mrefs lrefs))"
    and "copier namespacedV2Spec_DeepCopy (ptr_view dnr2c_spec (\<lambda>h s. s)) (ptr_refs dnr2c_spec (\<lambda>h s. {}))"
    and "copier namespacedV2Status_DeepCopy (ptr_view dnr2c_status (\<lambda>h s. s)) (ptr_refs dnr2c_status (\<lambda>h s. {}))"
  unfolding namespacedV2_DeepCopy_def namespacedV2List_DeepCopy_def namespacedV2Spec_DeepCopy_def namespacedV2Status_DeepCopy_def
    namespacedV2Spec_DeepCopyInto_def namespacedV2Status_DeepCopyInto_def
  by (rule ptr_copier, rule namespacedV2_copier [OF assms(1)], simp)
     (rule ptr_copier, rule namespacedV2_list_copier [OF assms], simp,
      (rule ptr_copier, rule flat_copier, simp)+)

interpretation namespacedV2_std: copier "namespacedV2_DeepCopy flat_copy"
    "ptr_view dnr2c_obj (\<lambda>h g. (dnr2_meta g, (dnr2_type g, dnr2_spec g, dnr2_status g)))"
    "ptr_refs dnr2c_obj (\<lambda>h g. {} \<union> {})"
  by (rule namespacedV2_DeepCopy_independent(1) [OF flat_copier flat_copier])

end
