(* ===== verification/Spec2Isabelle.thy ===== *)
theory Spec2Isabelle
  imports GreeterLifecycle CronProgress CronDeadline GreeterDeepCopy CronDeepCopy ApplyProps ClientProps FactoryRuns
    ClientSet Whoami GreeterRun Demos SampleRun InformerSource CronManager ClientsetViews ApplyParser
    SampleDeepCopyV1 SampleDeepCopyV2
begin

text \<open>
  \<^bold>\<open>A verification library for the Go programs of this repository.\<close>

  All paths are under \<open>src/kubernetes/programming-k8s/programming_k8s/\<close> unless they say otherwise.

  \<^bold>\<open>The programs and how they interact.\<close> Two Kubernetes controllers are the core. The \<^emph>\<open>Greeter\<close>
  controller (\<open>greeter/\<close>) watches Greeter objects through generated informers and listers, starts a pod
  when the schedule of a Greeter is due and copies the phase in which the pod ends. The \<^emph>\<open>CronJob\<close>
  controller (\<open>circle/\<close>) is a controller-runtime reconciler that starts a pod for each due run of a cron
  expression and cleans up the pods of old runs. Both sit on code generated for their API types: deep
  copies, scheme registration, typed clients with fakes, clientsets, apply configurations, listers and
  a shared informer factory. \<open>sample-controller/\<close> is that generated code once more, for two resources in
  two versions, with a small program on top. The rest are small programs: \<open>watcher\<close>, \<open>quickstart\<close>,
  \<open>informer\<close>, \<open>machinery\<close>, and the \<open>http-whoami\<close> server (\<open>src/kubernetes/*/http-whoami/main.go\<close>, two
  identical copies).

  \<^bold>\<open>Conventions.\<close> A Go struct is a record with the fields the code reads or writes, a pointer an
  \<open>option\<close>, a map an option of a partial map (\<open>None\<close> is the nil map), an error result \<open>go_error + 'a\<close> or
  \<open>go_error option\<close>, and a computation that may panic is an \<open>'a go_out\<close> (\<open>Ret\<close> or \<open>Panic\<close>). Instants and
  durations are the integers of package \<open>time\<close>, with its saturation and wrap-around written out;
  other integers are words where their width matters. Effects are returned as the list of requests or
  queue operations in order, or as a new state. What is not in the repository is an argument, a record
  of functions with named predicates for the documented behaviour that the code relies on: the API
  server (\<open>greeter_env\<close>, \<open>cron_env\<close>, \<open>api\<close>), apimachinery and client-go (\<open>kube_lib\<close>, \<open>cron_lib\<close>,
  \<open>rest_client\<close>, \<open>fake_client\<close>, \<open>net_lib\<close>, \<open>tracker_lib\<close>, \<open>scheme_lib\<close>), controller-runtime
  (\<open>manager_env\<close>) and the cron parser. Log lines are left out. The standard library is modelled as far
  as it is used (theory \<open>GoTime\<close>: RFC 3339 layouts, \<open>Format\<close>, \<open>Parse\<close>, \<open>Add\<close>, \<open>Sub\<close>; theory \<open>GoPath\<close>:
  \<open>filepath.Join\<close>).

  \<^bold>\<open>Theories, in the order of their imports.\<close>

  \<^item> \<open>Prelude\<close>, \<open>GoTime\<close>, \<open>GoPath\<close>, \<open>KubeMeta\<close>, \<open>Transitions\<close>: Go values, time, paths, the Kubernetes types all parts
    share, and the locales of transition systems: \<open>inv_system\<close> (an invariant holds in every reachable
    state) and \<open>monotone_system\<close> (a state and its futures are related).
  \<^item> \<open>GreeterAPI\<close> (\<open>greeter/pkg/apis/\<close>), \<open>GreeterLister\<close> (\<open>pkg/generated/listers/\<close>),
    \<open>GreeterController\<close> (\<open>internal/greeter/controller.go\<close>: \<open>runWorker\<close>, \<open>processNextWorkItem\<close>,
    \<open>syncHandler\<close>, \<open>syncGreeter\<close> by phase, the event handlers), \<open>GreeterRun\<close> (\<open>NewController\<close>, \<open>Run\<close>,
    \<open>main.go\<close>). \<open>GreeterSync\<close> holds what one call does: \<open>syncGreeter\<close> refines an abstract phase
    machine, the queue discipline, which events queue which key, the exact countdown to a schedule.
    \<open>GreeterLifecycle\<close> puts the controller in a cluster with stale caches, a kubelet and users and
    proves what holds in every reachable state: phases only move forward, an ended Greeter had a pod
    that ended so, a pod is created at most once per deletion, and a Greeter can complete.
  \<^item> \<open>CronTypes\<close> (\<open>circle/api/v1\<close>), \<open>CronSchedule\<close> (\<open>getNextScheduledTime\<close>, \<open>getScheduleTimeForPod\<close>),
    \<open>CronReconcile\<close> (\<open>Reconcile\<close> in its stages, \<open>newPodForCronJob\<close>, \<open>SetupWithManager\<close>), all of
    \<open>circle/internal/controller/cronjob_controller.go\<close>; \<open>CronManager\<close> (\<open>circle/cmd/main.go\<close>).
    \<open>CronHistory\<close> shows how child pods are partitioned and what both history limits delete (one locale,
    \<open>history\<close>, interpreted twice); \<open>CronProps\<close> when a run is started, deleted or repeated within one
    call; \<open>CronLifecycle\<close> the controller over time: with the Forbid policy, limits of two or more and
    up-to-date lists runs never overlap and never repeat; without any one of these runs do repeat; and a
    CronJob whose pods are gone can be stuck for ever. \<open>CronProgress\<close>: the controller keeps up, a CronJob that is called once
    between each run and the next gets exactly the runs of its schedule, for any number of rounds.
    \<open>CronDeadline\<close>: the starting deadline at its 64-bit width. \<open>CronSamples\<close> has the concrete inputs of
    the witnesses.
  \<^item> \<open>HeapCopy\<close>, \<open>GreeterDeepCopy\<close>, \<open>CronDeepCopy\<close>, \<open>SampleDeepCopyV1\<close>, \<open>SampleDeepCopyV2\<close>
    (\<open>zz_generated.deepcopy.go\<close>): deep copies on a heap. The locale \<open>copier\<close> is the contract: a copy has
    the same value, is fresh, and neither side sees a later write of the other.
  \<^item> \<open>Registration\<close>: scheme builders and the schemes of the clientsets.
  \<^item> \<open>ApplyMeta\<close>, \<open>GreeterApply\<close>, \<open>SampleApplyV1\<close>, \<open>SampleApplyV2\<close>, \<open>ApplyProps\<close>, \<open>ApplyParser\<close>
    (\<open>applyconfiguration/\<close>): each chain of \<open>With\<close> calls refines a field-wise description (locale
    \<open>apply_builder\<close>, one interpretation for each type); \<open>ForKind\<close>; the parser that is made once.
  \<^item> \<open>TypedClient\<close>, \<open>GreeterClient\<close>, \<open>SampleClientV1\<close>, \<open>SampleClientV2\<close>, \<open>ClientProps\<close>
    (\<open>clientset/versioned/typed/\<close>): the eleven methods of each client as the calls on the request
    builder, and of each fake as the actions it invokes. The locale \<open>resource_interface\<close> is the Go
    interface as a contract, which both kinds keep, so they cannot be told apart (\<open>two_clients\<close>).
  \<^item> \<open>ClientSet\<close> (\<open>clientset.go\<close>, \<open>*_client.go\<close>): clientsets from a configuration. \<open>ClientsetViews\<close>: the
    typed clients they hand out, and the fake clientsets on an object tracker.
  \<^item> \<open>InformerFactory\<close>, \<open>FactoryRuns\<close>, \<open>SampleShared\<close>, \<open>SampleFactory\<close>, \<open>InformerSource\<close>
    (\<open>informers/externalversions/\<close>): the factory, a step relation for the goroutines that use it, the
    factory of the sample API, which is proved to be the same program, the accessors of both APIs, and
    the list and watch functions of the informers on top of the typed clients.
  \<^item> \<open>SampleAPI\<close>, \<open>SampleLister\<close>, \<open>SampleRun\<close>: the types, listers and program of \<open>sample-controller/\<close>.
  \<^item> \<open>Whoami\<close>, \<open>Demos\<close>: the small programs.

  \<^bold>\<open>Loops and bounds.\<close> No definition uses fuel. The loop over missed runs ends after at most 101 rounds
  (measure \<open>101 - missingJobs\<close>), the clean-up loop after at most one round more than there are pods,
  the loop that starts workers after as many as are left; the worker, the watcher and the other
  endless loops take the list of what they are given, and end when it ends; the loop of \<open>quickstart\<close>
  is run for any number of rounds. \<open>list_timeout\<close> is the 64-bit
  product of the code. In \<open>FactoryRuns\<close> a caller of \<open>Shutdown\<close> waits for as many steps as the wait group
  counts. In \<open>CronLifecycle\<close> each run of \<open>Reconcile\<close> is one step, since the manager runs at most one for
  each CronJob; a pod that ends has started before and took at least one tick, and nobody but the
  controller deletes pods.

  \<^bold>\<open>Not modelled.\<close> The \<open>expansion\<close> interfaces are empty and the \<open>doc.go\<close> files have no code;
  \<open>circle/internal/controller/suite_test.go\<close> sets up an API server for tests; codecs, parameter codecs
  and the schema text of the apply parsers are data for libraries. Left out of modelled parts: log
  lines; signals of \<open>greeter/main.go\<close>; nil receivers and nil objects in the typed clients; the
  spec and status of an apply configuration are held by value, as nothing aliases them; the read lock
  and the sleeping of the small programs. Real and fake clients are compared for names that are not
  empty and, in lists, without the watch flag, where the fake differs by design.

  \<^bold>\<open>What modelling showed.\<close> The history limits keep one pod fewer than they say, and a limit of 0 makes
  \<open>Reconcile\<close> panic; the last scheduled time is recomputed from the pods that are left, so a limit of 1
  can repeat a run and a CronJob without pods can be stuck; pods that overlap may be cleaned up in the
  wrong order, and generated pod names with a stale list repeat a run; a starting deadline of more than
  292 years wraps around and stops the CronJob; a delay computed from a second reading of the clock can
  be lost; \<open>Apply\<close> panics on a configuration without metadata; three of the small programs panic on
  inputs the cluster can give them; and the counter of http-whoami is decremented without a lock.
\<close>

end
